(* ===== verification/KP_Prelude.thy ===== *)
theory KP_Prelude
  imports Main "HOL-Library.Word"
begin

text \<open>
  Shared vocabulary of the development: the exceptions the program raises, results that carry
  either an exception or a value, the insertion-ordered dictionary of Python, and the generic
  lemmas every component uses.  Nothing here models a component of KegPulse; everything here
  models what the components use of Python.

  Conventions.  A Python \<open>str\<close> is a \<open>string\<close>; a \<open>bytes\<close> value is a \<open>string\<close> as well, since
  HOL's \<open>char\<close> is exactly an 8-bit value.  A Python \<open>int\<close> is an \<open>int\<close>.  A function that may raise
  returns \<open>py_exc + 'a\<close>; a method that mutates its object before it raises returns the new state
  beside that result, because a Python exception does not undo assignments.
\<close>

section \<open>Exceptions and results\<close>

text \<open>
  The exception classes of \<open>src/kegpulse/domain/errors.py\<close>, of the transport layer, and the
  built-in ones the modelled code raises.  The messages are kept, because callers store them and
  one caller inspects them.  \<open>is_value_error\<close> is the subclass relation to \<open>ValueError\<close>.
\<close>

datatype py_exc =
    DomainError string
  | ConflictError string
  | NotFoundError string
  | AuthorizationError string
  | MeasurementRejectedError string
  | ValueError string
  | KeyError string
  | RuntimeError string
  | TransportUnavailable string
  | TransportError string
  | TimeoutError string
  | IntegrityError string
  | TypeError string
  | InvalidOperation string
  | OverflowError string
  | DeviceCommandError string string

type_synonym 'a result = "py_exc + 'a"

fun exc_message :: "py_exc \<Rightarrow> string" where
  "exc_message (DomainError m) = m"
| "exc_message (ConflictError m) = m"
| "exc_message (NotFoundError m) = m"
| "exc_message (AuthorizationError m) = m"
| "exc_message (MeasurementRejectedError m) = m"
| "exc_message (ValueError m) = m"
| "exc_message (KeyError m) = m"
| "exc_message (RuntimeError m) = m"
| "exc_message (TransportUnavailable m) = m"
| "exc_message (TransportError m) = m"
| "exc_message (TimeoutError m) = m"
| "exc_message (IntegrityError m) = m"
| "exc_message (TypeError m) = m"
| "exc_message (InvalidOperation m) = m"
| "exc_message (OverflowError m) = m"
| "exc_message (DeviceCommandError c op) = ''device rejected '' @ op @ '': '' @ c"

fun is_value_error :: "py_exc \<Rightarrow> bool" where
  "is_value_error (DomainError _) = True"
| "is_value_error (ConflictError _) = True"
| "is_value_error (NotFoundError _) = True"
| "is_value_error (AuthorizationError _) = True"
| "is_value_error (MeasurementRejectedError _) = True"
| "is_value_error (ValueError _) = True"
| "is_value_error _ = False"

fun is_ok :: "'e + 'a \<Rightarrow> bool" where
  "is_ok (Inl _) = False"
| "is_ok (Inr _) = True"

definition bind_res :: "'e + 'a \<Rightarrow> ('a \<Rightarrow> 'e + 'b) \<Rightarrow> 'e + 'b" where
  "bind_res r f = (case r of Inl e \<Rightarrow> Inl e | Inr x \<Rightarrow> f x)"

definition check :: "bool \<Rightarrow> 'e \<Rightarrow> 'e + unit" where
  "check ok e = (if ok then Inr () else Inl e)"

text \<open>
  A method that mutates its object and may raise: the result beside the object after the call.
  \<open>bind_st\<close> runs the rest of the method only when no exception was raised.
\<close>

definition bind_st :: "('e + 'a) \<times> 's \<Rightarrow> ('a \<Rightarrow> 's \<Rightarrow> ('e + 'b) \<times> 's) \<Rightarrow> ('e + 'b) \<times> 's" where
  "bind_st rs f = (case fst rs of Inl e \<Rightarrow> (Inl e, snd rs) | Inr x \<Rightarrow> f x (snd rs))"

named_theorems res_simps \<open>rewriting a result to its two cases\<close>

lemma bind_res_Inl [simp]: "bind_res (Inl e) f = Inl e"
  by (simp add: bind_res_def)

lemma bind_res_Inr [simp]: "bind_res (Inr x) f = f x"
  by (simp add: bind_res_def)

lemma bind_res_eq_Inr [res_simps]: "bind_res r f = Inr y \<longleftrightarrow> (\<exists>x. r = Inr x \<and> f x = Inr y)"
  by (cases r) simp_all

lemma bind_res_eq_Inl [res_simps]:
  "bind_res r f = Inl e \<longleftrightarrow> r = Inl e \<or> (\<exists>x. r = Inr x \<and> f x = Inl e)"
  by (cases r) simp_all

lemma check_eq_Inr [res_simps]: "check ok e = Inr u \<longleftrightarrow> ok"
  by (simp add: check_def)

lemma check_eq_Inl [res_simps]: "check ok e = Inl e' \<longleftrightarrow> \<not> ok \<and> e = e'"
  by (auto simp: check_def)

text \<open>An early raise: \<open>if c: raise e\<close>.\<close>

lemma guard_eq_Inr [res_simps]: "(if c then Inl e else r) = Inr x \<longleftrightarrow> \<not> c \<and> r = Inr x"
  by simp

lemma guard_st_eq_Inr [res_simps]:
  "(if c then (Inl e, s) else rs) = (Inr x, s') \<longleftrightarrow> \<not> c \<and> rs = (Inr x, s')"
  by simp

lemma check_True [simp]: "check True e = Inr ()"
  by (simp add: check_def)

lemma check_False [simp]: "check False e = Inl e"
  by (simp add: check_def)

lemma bind_st_simps [simp]: "bind_st (Inl e, s) f = (Inl e, s)" "bind_st (Inr x, s) f = f x s"
  by (simp_all add: bind_st_def)

text \<open>A view of the state that every part of a sequence keeps.\<close>

lemma keeps_bind:
  "f (snd rs) = a \<Longrightarrow> (\<And>x c. rs = (Inr x, c) \<Longrightarrow> f (snd (g x c)) = f c) \<Longrightarrow> f (snd (bind_st rs g)) = a"
  by (cases rs; cases "fst rs") (auto simp: bind_st_def)

lemma bind_st_eq_Inr [res_simps]:
  "bind_st rs f = (Inr y, s') \<longleftrightarrow> (\<exists>x s. rs = (Inr x, s) \<and> f x s = (Inr y, s'))"
  by (cases rs; cases "fst rs") (auto simp: bind_st_def)

lemma is_ok_iff: "is_ok r \<longleftrightarrow> (\<exists>x. r = Inr x)"
  by (cases r) simp_all

section \<open>Insertion-ordered dictionaries\<close>

text \<open>
  A Python \<open>dict\<close> (and \<open>OrderedDict\<close>) keeps its keys in insertion order; assigning to a key that
  is present keeps its place.  It is an association list with distinct keys.
\<close>

type_synonym ('k, 'v) odict = "('k \<times> 'v) list"

definition od_get :: "('k, 'v) odict \<Rightarrow> 'k \<Rightarrow> 'v option" where
  "od_get d k = map_of d k"

fun od_set :: "('k, 'v) odict \<Rightarrow> 'k \<Rightarrow> 'v \<Rightarrow> ('k, 'v) odict" where
  "od_set [] k v = [(k, v)]"
| "od_set ((k', v') # d) k v = (if k' = k then (k, v) # d else (k', v') # od_set d k v)"

definition od_pop :: "('k, 'v) odict \<Rightarrow> 'k \<Rightarrow> ('k, 'v) odict" where
  "od_pop d k = filter (\<lambda>p. fst p \<noteq> k) d"

definition od_keys :: "('k, 'v) odict \<Rightarrow> 'k list" where
  "od_keys d = map fst d"

definition od_values :: "('k, 'v) odict \<Rightarrow> 'v list" where
  "od_values d = map snd d"

definition od_wf :: "('k, 'v) odict \<Rightarrow> bool" where
  "od_wf d \<longleftrightarrow> distinct (od_keys d)"

definition od_mem :: "'k \<Rightarrow> ('k, 'v) odict \<Rightarrow> bool" where
  "od_mem k d \<longleftrightarrow> k \<in> set (od_keys d)"

text \<open>Equality of two dictionaries, which ignores the order of their keys.\<close>

definition od_same :: "('k, 'v) odict \<Rightarrow> ('k, 'v) odict \<Rightarrow> bool" where
  "od_same d e \<longleftrightarrow> set d = set e"

lemma od_same_refl [simp]: "od_same d d"
  by (simp add: od_same_def)

lemma od_get_Nil [simp]: "od_get [] k = None"
  by (simp add: od_get_def)

lemma od_get_Cons [simp]: "od_get ((k', v) # d) k = (if k' = k then Some v else od_get d k)"
  by (simp add: od_get_def)

lemma od_get_set: "od_get (od_set d k v) j = (if j = k then Some v else od_get d j)"
  by (induction d k v rule: od_set.induct) auto

lemma od_get_pop: "od_get (od_pop d k) j = (if j = k then None else od_get d j)"
  by (induction d) (auto simp: od_pop_def od_get_def)

lemma od_mem_iff: "od_mem k d \<longleftrightarrow> od_get d k \<noteq> None"
  by (auto simp: od_mem_def od_get_def od_keys_def map_of_eq_None_iff)

lemma od_keys_set: "set (od_keys (od_set d k v)) = insert k (set (od_keys d))"
  by (induction d k v rule: od_set.induct) (auto simp: od_keys_def)

lemma od_wf_Nil [simp]: "od_wf []"
  by (simp add: od_wf_def od_keys_def)

lemma od_wf_set: "od_wf d \<Longrightarrow> od_wf (od_set d k v)"
proof (induction d k v rule: od_set.induct)
  case (2 k' v' d k v)
  then show ?case
    using od_keys_set [of d k v] by (auto simp: od_wf_def od_keys_def)
qed (simp add: od_wf_def od_keys_def)

lemma od_wf_pop: "od_wf d \<Longrightarrow> od_wf (od_pop d k)"
  by (induction d) (auto simp: od_wf_def od_keys_def od_pop_def)

lemma od_set_fresh: "od_get d k = None \<Longrightarrow> od_set d k v = d @ [(k, v)]"
  by (induction d k v rule: od_set.induct) (auto split: if_splits)

lemma od_values_set_fresh: "od_get d k = None \<Longrightarrow> od_values (od_set d k v) = od_values d @ [v]"
  by (simp add: od_set_fresh od_values_def)

lemma length_od_pop: "length (od_pop d k) \<le> length d"
  by (simp add: od_pop_def)

lemma od_pop_absent: "od_get d k = None \<Longrightarrow> od_pop d k = d"
  by (induction d) (auto simp: od_pop_def split: if_splits)

lemma od_get_in: "od_get d k = Some v \<Longrightarrow> (k, v) \<in> set d"
  by (simp add: od_get_def map_of_SomeD)

lemma od_get_of_mem: "od_wf d \<Longrightarrow> (k, v) \<in> set d \<Longrightarrow> od_get d k = Some v"
  by (simp add: od_get_def od_wf_def od_keys_def)

lemma od_pop_mem: "p \<in> set (od_pop d k) \<longleftrightarrow> p \<in> set d \<and> fst p \<noteq> k"
  by (simp add: od_pop_def)

section \<open>Interface: a keyed store of retained items\<close>

text \<open>
  What the clients of a retained-item store rely on: a lookup sees the last write of its key, a
  removal affects its own key only.  From these laws alone follow replay facts the device machine
  and the retry code use: removing is idempotent, and removals of different keys commute as far
  as any lookup can tell.
\<close>

locale keyed_store =
  fixes lookup :: "'s \<Rightarrow> 'k \<Rightarrow> 'v option"
    and put :: "'s \<Rightarrow> 'k \<Rightarrow> 'v \<Rightarrow> 's"
    and remove :: "'s \<Rightarrow> 'k \<Rightarrow> 's"
  assumes lookup_put: "lookup (put s k v) j = (if j = k then Some v else lookup s j)"
    and lookup_remove: "lookup (remove s k) j = (if j = k then None else lookup s j)"
begin

lemma remove_idem: "lookup (remove (remove s k) k) = lookup (remove s k)"
  by (rule ext) (simp add: lookup_remove)

lemma remove_commute: "lookup (remove (remove s k) j) = lookup (remove (remove s j) k)"
  by (rule ext) (simp add: lookup_remove)

lemma remove_put: "lookup (remove (put s k v) k) = lookup (remove s k)"
  by (rule ext) (simp add: lookup_remove lookup_put)

lemma put_other: "j \<noteq> k \<Longrightarrow> lookup (put s k v) j = lookup s j"
  by (simp add: lookup_put)

lemma remove_all: "lookup (fold (\<lambda>k s. remove s k) ks s) j = (if j \<in> set ks then None else lookup s j)"
  by (induction ks arbitrary: s) (auto simp: lookup_remove)

end

interpretation od: keyed_store od_get od_set od_pop
  by unfold_locales (simp_all add: od_get_set od_get_pop)

section \<open>Interface: a machine that keeps a balance\<close>

text \<open>
  Histories of a machine: the state after a list of calls, whether every call of it was accepted,
  and the sum of a quantity over the calls.
\<close>

fun run_ops :: "('op \<Rightarrow> 's \<Rightarrow> 's) \<Rightarrow> 'op list \<Rightarrow> 's \<Rightarrow> 's" where
  "run_ops step [] s = s"
| "run_ops step (op # ops) s = run_ops step ops (step op s)"

fun run_all :: "('op \<Rightarrow> 's \<Rightarrow> 's) \<Rightarrow> ('op \<Rightarrow> 's \<Rightarrow> bool) \<Rightarrow> 'op list \<Rightarrow> 's \<Rightarrow> bool" where
  "run_all step ok [] s \<longleftrightarrow> True"
| "run_all step ok (op # ops) s \<longleftrightarrow> ok op s \<and> run_all step ok ops (step op s)"

fun run_sum :: "('op \<Rightarrow> 's \<Rightarrow> 's) \<Rightarrow> ('op \<Rightarrow> 's \<Rightarrow> int) \<Rightarrow> 'op list \<Rightarrow> 's \<Rightarrow> int" where
  "run_sum step f [] s = 0"
| "run_sum step f (op # ops) s = f op s + run_sum step f ops (step op s)"

lemma run_ops_append: "run_ops step (xs @ ys) s = run_ops step ys (run_ops step xs s)"
  by (induction xs arbitrary: s) simp_all

lemma run_all_append:
  "run_all step ok (xs @ ys) s \<longleftrightarrow> run_all step ok xs s \<and> run_all step ok ys (run_ops step xs s)"
  by (induction xs arbitrary: s) auto

text \<open>
  An object whose methods keep an invariant and change a measured quantity by a known amount on
  every call that is accepted.  Along any history the quantity changes by the sum of these amounts.
\<close>

locale balanced_machine =
  fixes step :: "'op \<Rightarrow> 's \<Rightarrow> 's"
    and inv :: "'s \<Rightarrow> bool"
    and accepted :: "'op \<Rightarrow> 's \<Rightarrow> bool"
    and balance :: "'s \<Rightarrow> int"
    and delta :: "'op \<Rightarrow> 's \<Rightarrow> int"
  assumes inv_step: "inv s \<Longrightarrow> inv (step op s)"
    and balance_step: "inv s \<Longrightarrow> accepted op s \<Longrightarrow> balance (step op s) = balance s + delta op s"
begin

lemma run_inv: "inv s \<Longrightarrow> inv (run_ops step ops s)"
  by (induction ops arbitrary: s) (simp_all add: inv_step)

lemma run_balance:
  "inv s \<Longrightarrow> run_all step accepted ops s \<Longrightarrow>
   balance (run_ops step ops s) = balance s + run_sum step delta ops s"
  by (induction ops arbitrary: s) (simp_all add: inv_step balance_step)

end

section \<open>Lists\<close>

lemma sum_list_filter_le: "sum_list (map f (filter P xs)) \<le> sum_list (map (f :: _ \<Rightarrow> nat) xs)"
  by (induction xs) auto

lemma take_while_snoc_False: "\<not> P x \<Longrightarrow> takeWhile P (xs @ [x]) = takeWhile P xs"
  by (induction xs) auto

lemma butlast_snoc_last: "xs \<noteq> [] \<Longrightarrow> last xs = x \<Longrightarrow> xs = butlast xs @ [x]"
  by (metis append_butlast_last_id)

end
