(* ===== verification/KP_Text.thy ===== *)
theory KP_Text
  imports KP_Prelude
begin

text \<open>
  The operations on text the program takes from Python's standard library: splitting and joining
  on a separator, character classes of its regular expressions, decimal and hexadecimal numbers
  in both directions.  Each is written out as Python computes it, errors as \<open>None\<close>.
\<close>

named_theorems py_text \<open>facts that evaluate the text operations\<close>

section \<open>Characters\<close>

abbreviation code :: "char \<Rightarrow> nat" where
  "code c \<equiv> of_char c"

definition in_range :: "nat \<Rightarrow> nat \<Rightarrow> char \<Rightarrow> bool" where
  "in_range lo hi c \<longleftrightarrow> lo \<le> code c \<and> code c \<le> hi"

definition is_digit :: "char \<Rightarrow> bool" where
  "is_digit = in_range 48 57"

definition is_upper :: "char \<Rightarrow> bool" where
  "is_upper = in_range 65 90"

definition is_lower :: "char \<Rightarrow> bool" where
  "is_lower = in_range 97 122"

text \<open>The classes \<open>[0-9A-F]\<close> and \<open>[0-9a-f]\<close>.\<close>

definition is_hex_upper :: "char \<Rightarrow> bool" where
  "is_hex_upper c \<longleftrightarrow> is_digit c \<or> in_range 65 70 c"

definition is_hex_lower :: "char \<Rightarrow> bool" where
  "is_hex_lower c \<longleftrightarrow> is_digit c \<or> in_range 97 102 c"

text \<open>\<open>re.fullmatch\<close> of a class repeated between \<open>lo\<close> and \<open>hi\<close> times.\<close>

definition fullmatch :: "(char \<Rightarrow> bool) \<Rightarrow> nat \<Rightarrow> nat \<Rightarrow> string \<Rightarrow> bool" where
  "fullmatch cls lo hi s \<longleftrightarrow> lo \<le> length s \<and> length s \<le> hi \<and> list_all cls s"

definition is_ascii :: "string \<Rightarrow> bool" where
  "is_ascii s \<longleftrightarrow> list_all (\<lambda>c. code c < 128) s"

lemmas char_class_defs =
  in_range_def is_digit_def is_upper_def is_lower_def is_hex_upper_def is_hex_lower_def

lemma fullmatch_notin: "fullmatch cls lo hi s \<Longrightarrow> \<not> cls c \<Longrightarrow> c \<notin> set s"
  by (auto simp: fullmatch_def list_all_iff)

lemma fullmatch_nonempty: "fullmatch cls (Suc lo) hi s \<Longrightarrow> s \<noteq> []"
  by (auto simp: fullmatch_def)

lemma fullmatch_ascii:
  "fullmatch cls lo hi s \<Longrightarrow> (\<And>c. cls c \<Longrightarrow> code c < 128) \<Longrightarrow> is_ascii s"
  by (auto simp: fullmatch_def is_ascii_def list_all_iff)

lemma is_ascii_append [simp]: "is_ascii (xs @ ys) \<longleftrightarrow> is_ascii xs \<and> is_ascii ys"
  by (simp add: is_ascii_def)

lemma is_ascii_Nil [simp]: "is_ascii []"
  by (simp add: is_ascii_def)

lemma is_ascii_Cons [simp]: "is_ascii (c # s) \<longleftrightarrow> code c < 128 \<and> is_ascii s"
  by (simp add: is_ascii_def)

lemma code_eq_iff: "code c = code d \<longleftrightarrow> c = d"
  by (simp add: of_char_eq_iff)

section \<open>Splitting and joining\<close>

text \<open>\<open>s.split(sep)\<close> for a one-character separator: the pieces between the separators, empty ones
  included; the empty string gives one empty piece.\<close>

fun split_on :: "char \<Rightarrow> string \<Rightarrow> string list" where
  "split_on sep [] = [[]]"
| "split_on sep (c # s) =
     (if c = sep then [] # split_on sep s
      else (case split_on sep s of [] \<Rightarrow> [[c]] | p # ps \<Rightarrow> (c # p) # ps))"

text \<open>\<open>sep.join(parts)\<close>.\<close>

fun join :: "string \<Rightarrow> string list \<Rightarrow> string" where
  "join sep [] = []"
| "join sep [p] = p"
| "join sep (p # q # ps) = p @ sep @ join sep (q # ps)"

text \<open>\<open>s.split(sep, 1)\<close> and \<open>s.rsplit(sep, 1)\<close> when the separator occurs.\<close>

definition split_first :: "char \<Rightarrow> string \<Rightarrow> string \<times> string" where
  "split_first sep s = (takeWhile (\<lambda>c. c \<noteq> sep) s, tl (dropWhile (\<lambda>c. c \<noteq> sep) s))"

definition rsplit_last :: "char \<Rightarrow> string \<Rightarrow> string \<times> string" where
  "rsplit_last sep s =
     (let r = rev s
      in (rev (tl (dropWhile (\<lambda>c. c \<noteq> sep) r)), rev (takeWhile (\<lambda>c. c \<noteq> sep) r)))"

definition ends_with :: "string \<Rightarrow> string \<Rightarrow> bool" where
  "ends_with suf s \<longleftrightarrow> length suf \<le> length s \<and> drop (length s - length suf) s = suf"

definition starts_with :: "string \<Rightarrow> string \<Rightarrow> bool" where
  "starts_with pre s \<longleftrightarrow> take (length pre) s = pre"

lemma split_on_nonempty [simp]: "split_on sep s \<noteq> []"
  by (induction s) (auto split: list.splits)

lemma split_on_no_sep: "sep \<notin> set s \<Longrightarrow> split_on sep s = [s]"
  by (induction s) auto

lemma split_on_append: "sep \<notin> set p \<Longrightarrow> split_on sep (p @ sep # s) = p # split_on sep s"
  by (induction p) auto

lemma split_on_join:
  "ps \<noteq> [] \<Longrightarrow> \<forall>p \<in> set ps. sep \<notin> set p \<Longrightarrow> split_on sep (join [sep] ps) = ps"
proof (induction "[sep]" ps rule: join.induct)
  case (2 p)
  then show ?case by (simp add: split_on_no_sep)
next
  case (3 p q ps)
  then show ?case by (simp add: split_on_append)
qed simp

lemma join_split_on: "join [sep] (split_on sep s) = s"
proof (induction s)
  case Nil
  then show ?case by simp
next
  case (Cons c s)
  obtain p ps where eq: "split_on sep s = p # ps"
    by (cases "split_on sep s") auto
  then show ?case
    using Cons by (cases ps) auto
qed

lemma split_first_append: "sep \<notin> set p \<Longrightarrow> split_first sep (p @ sep # s) = (p, s)"
  unfolding split_first_def by (induction p) auto

lemma split_first_join: "sep \<in> set s \<Longrightarrow> split_first sep s = (p, q) \<Longrightarrow> s = p @ sep # q"
  unfolding split_first_def by (induction s arbitrary: p q) auto

lemma rsplit_last_append: "sep \<notin> set q \<Longrightarrow> rsplit_last sep (p @ sep # q) = (p, q)"
proof -
  assume "sep \<notin> set q"
  then have "split_first sep (rev q @ sep # rev p) = (rev q, rev p)"
    by (simp add: split_first_append)
  then show ?thesis
    by (simp add: rsplit_last_def split_first_def Let_def)
qed

lemma rsplit_last_join: "sep \<in> set s \<Longrightarrow> rsplit_last sep s = (p, q) \<Longrightarrow> s = p @ sep # q"
proof -
  assume *: "sep \<in> set s" "rsplit_last sep s = (p, q)"
  then have "split_first sep (rev s) = (rev q, rev p)"
    by (auto simp: rsplit_last_def split_first_def Let_def)
  with * have "rev s = rev q @ sep # rev p"
    by (intro split_first_join) simp_all
  then have "rev (rev s) = rev (rev q @ sep # rev p)" by simp
  then show ?thesis by simp
qed

lemma rsplit_last_notin: "rsplit_last sep s = (p, q) \<Longrightarrow> sep \<notin> set q"
  by (auto simp: rsplit_last_def Let_def dest: set_takeWhileD)

lemma length_join:
  "length (join [sep] ps) = (if ps = [] then 0 else sum_list (map length ps) + length ps - 1)"
  by (induction "[sep]" ps rule: join.induct) auto

lemma set_join_subset: "set (join [sep] ps) \<subseteq> insert sep (\<Union>p \<in> set ps. set p)"
  by (induction "[sep]" ps rule: join.induct) auto

lemma is_ascii_join: "list_all is_ascii ps \<Longrightarrow> code sep < 128 \<Longrightarrow> is_ascii (join [sep] ps)"
  by (induction "[sep]" ps rule: join.induct) auto

section \<open>Numbers\<close>

definition digit_chars :: string where
  "digit_chars = ''0123456789ABCDEF''"

definition digit_char :: "int \<Rightarrow> char" where
  "digit_char d = digit_chars ! nat d"

text \<open>\<open>str(n)\<close> of a Python integer.\<close>

function show_digits :: "int \<Rightarrow> string" where
  "show_digits n = (if n < 10 then [digit_char n] else show_digits (n div 10) @ [digit_char (n mod 10)])"
  by pat_completeness auto
termination
  by (relation "measure nat") auto

declare show_digits.simps [simp del]

definition show_int :: "int \<Rightarrow> string" where
  "show_int n = (if n < 0 then CHR ''-'' # show_digits (- n) else show_digits n)"

text \<open>The value of one hexadecimal digit of either case, as \<open>int(c, 16)\<close> reads it.\<close>

definition digit_val :: "char \<Rightarrow> int" where
  "digit_val c =
     (if is_digit c then int (code c) - 48
      else if in_range 65 70 c then int (code c) - 55
      else int (code c) - 87)"

definition digits_val :: "int \<Rightarrow> string \<Rightarrow> int" where
  "digits_val base s = foldl (\<lambda>v c. base * v + digit_val c) 0 s"

text \<open>\<open>f"{n:0wX}"\<close> for \<open>0 \<le> n < 16 ^ w\<close>: \<open>w\<close> upper-case hexadecimal digits.\<close>

fun show_hex :: "nat \<Rightarrow> int \<Rightarrow> string" where
  "show_hex 0 n = []"
| "show_hex (Suc w) n = show_hex w (n div 16) @ [digit_char (n mod 16)]"

text \<open>
  \<open>int(text)\<close>: surrounding whitespace is dropped, then an optional sign, then decimal digits with
  single underscores between them.  \<open>None\<close> is the \<open>ValueError\<close>.
\<close>

definition is_space :: "char \<Rightarrow> bool" where
  "is_space c \<longleftrightarrow> in_range 9 13 c \<or> in_range 28 32 c \<or> code c = 133 \<or> code c = 160"

definition strip :: "string \<Rightarrow> string" where
  "strip s = rev (dropWhile is_space (rev (dropWhile is_space s)))"

fun digit_groups :: "bool \<Rightarrow> string \<Rightarrow> bool" where
  "digit_groups after_digit [] = after_digit"
| "digit_groups after_digit (c # s) =
     (if is_digit c then digit_groups True s
      else c = CHR ''_'' \<and> after_digit \<and> s \<noteq> [] \<and> digit_groups False s)"

definition py_nat :: "string \<Rightarrow> int option" where
  "py_nat s =
     (if digit_groups False s then Some (digits_val 10 (filter is_digit s)) else None)"

definition py_int :: "string \<Rightarrow> int option" where
  "py_int text =
     (case strip text of
        [] \<Rightarrow> None
      | c # s \<Rightarrow> (if c = CHR ''-'' then map_option uminus (py_nat s)
                  else if c = CHR ''+'' then py_nat s
                  else py_nat (c # s)))"

text \<open>\<open>text.isascii() and text.isdecimal()\<close>: a nonempty run of the ten ASCII digits.\<close>

definition is_ascii_decimal :: "string \<Rightarrow> bool" where
  "is_ascii_decimal s \<longleftrightarrow> s \<noteq> [] \<and> list_all is_digit s"

lemma digit_char_code: "0 \<le> d \<Longrightarrow> d < 16 \<Longrightarrow> code (digit_char d) = nat (if d < 10 then d + 48 else d + 55)"
proof -
  assume "0 \<le> d" "d < 16"
  then have "d \<in> {0,1,2,3,4,5,6,7,8,9,10,11,12,13,14,15}" by (simp; presburger)
  then show ?thesis
    by (auto simp: digit_char_def digit_chars_def)
qed

lemma digit_val_char: "0 \<le> d \<Longrightarrow> d < 16 \<Longrightarrow> digit_val (digit_char d) = d"
  by (auto simp: digit_val_def char_class_defs digit_char_code)

lemma digit_char_is_digit: "0 \<le> d \<Longrightarrow> d < 10 \<Longrightarrow> is_digit (digit_char d)"
  by (auto simp: char_class_defs digit_char_code)

lemma digit_char_hex: "0 \<le> d \<Longrightarrow> d < 16 \<Longrightarrow> is_hex_upper (digit_char d)"
  by (auto simp: char_class_defs digit_char_code)

lemma digits_val_snoc [simp]: "digits_val b (s @ [c]) = b * digits_val b s + digit_val c"
  by (simp add: digits_val_def)

lemma digits_val_Nil [simp]: "digits_val b [] = 0"
  by (simp add: digits_val_def)

lemma show_digits_digits: "0 \<le> n \<Longrightarrow> list_all is_digit (show_digits n)"
proof (induction n rule: show_digits.induct)
  case (1 n)
  then show ?case
    by (subst show_digits.simps) (auto simp: digit_char_is_digit)
qed

lemma show_digits_nonempty [simp]: "show_digits n \<noteq> []"
  by (subst show_digits.simps) simp

lemma digits_val_show: "0 \<le> n \<Longrightarrow> digits_val 10 (show_digits n) = n"
proof (induction n rule: show_digits.induct)
  case (1 n)
  show ?case
  proof (cases "n < 10")
    case True
    with 1 show ?thesis
      by (subst show_digits.simps) (simp add: digits_val_def digit_val_char)
  next
    case False
    with 1 show ?thesis
      by (subst show_digits.simps) (simp add: digit_val_char)
  qed
qed

lemma show_digits_inj: "0 \<le> m \<Longrightarrow> 0 \<le> n \<Longrightarrow> show_digits m = show_digits n \<Longrightarrow> m = n"
  by (metis digits_val_show)

lemma length_show_digits: "0 \<le> n \<Longrightarrow> n < 10 ^ k \<Longrightarrow> 0 < k \<Longrightarrow> length (show_digits n) \<le> k"
proof (induction k arbitrary: n)
  case 0
  then show ?case by simp
next
  case (Suc k)
  show ?case
  proof (cases "n < 10")
    case True
    then show ?thesis by (subst show_digits.simps) simp
  next
    case False
    with Suc.prems have "n div 10 < 10 ^ k" "0 < k"
      by (auto simp: div_less_iff_less_mult mult.commute intro!: gr0I)
    with Suc have "length (show_digits (n div 10)) \<le> k" by simp
    with False show ?thesis by (subst show_digits.simps) simp
  qed
qed

lemma length_show_hex [simp]: "length (show_hex w n) = w"
  by (induction w arbitrary: n) simp_all

lemma show_hex_hex: "list_all is_hex_upper (show_hex w n)"
  by (induction w arbitrary: n) (simp_all add: digit_char_hex)

lemma digits_val_show_hex: "0 \<le> n \<Longrightarrow> n < 16 ^ w \<Longrightarrow> digits_val 16 (show_hex w n) = n"
proof (induction w arbitrary: n)
  case 0
  then show ?case by simp
next
  case (Suc w)
  then have "digits_val 16 (show_hex w (n div 16)) = n div 16"
    by (intro Suc.IH) (auto simp: div_less_iff_less_mult mult.commute)
  then show ?case by (simp add: digit_val_char)
qed

lemma digit_groups_digits: "list_all is_digit s \<Longrightarrow> digit_groups b s = (b \<or> s \<noteq> [])"
  by (induction s arbitrary: b) auto

lemma digit_not_space: "is_digit c \<Longrightarrow> \<not> is_space c"
  by (auto simp: is_space_def char_class_defs)

lemma digit_not_sign: "is_digit c \<Longrightarrow> c \<noteq> CHR ''-'' \<and> c \<noteq> CHR ''+''"
  by (auto simp: char_class_defs)

lemma strip_ends:
  "s \<noteq> [] \<Longrightarrow> \<not> is_space (hd s) \<Longrightarrow> \<not> is_space (last s) \<Longrightarrow> strip s = s"
  by (simp add: strip_def dropWhile_eq_self_iff [THEN iffD2] hd_rev)

lemma strip_digits: "list_all is_digit s \<Longrightarrow> strip s = s"
  by (cases "s = []") (simp_all add: strip_def [of "[]"] strip_ends list_all_iff digit_not_space)

lemma py_int_digits: "is_ascii_decimal s \<Longrightarrow> py_int s = Some (digits_val 10 s)"
proof -
  assume s: "is_ascii_decimal s"
  then obtain c t where [simp]: "s = c # t" by (cases s) (auto simp: is_ascii_decimal_def)
  from s have "list_all is_digit s" by (simp add: is_ascii_decimal_def)
  then show ?thesis
    using digit_not_sign [of c]
    by (simp add: py_int_def strip_digits py_nat_def digit_groups_digits filter_id_conv list_all_iff)
qed

lemma show_digits_decimal: "0 \<le> n \<Longrightarrow> is_ascii_decimal (show_digits n)"
  by (simp add: is_ascii_decimal_def show_digits_digits)

lemma py_int_show: "0 \<le> n \<Longrightarrow> py_int (show_int n) = Some n"
  by (simp add: show_int_def py_int_digits show_digits_decimal digits_val_show)

lemma is_digit_ascii: "is_digit c \<Longrightarrow> code c < 128"
  by (simp add: char_class_defs)

lemma digits_val_nonneg: "list_all is_digit s \<Longrightarrow> 0 \<le> digits_val 10 s"
proof (induction s rule: rev_induct)
  case (snoc c s)
  then show ?case by (simp add: digit_val_def char_class_defs)
qed simp

end
