(* ===== verification/KP_Crc.thy ===== *)
theory KP_Crc
  imports KP_Text
begin

unbundle bit_operations_syntax

text \<open>
  The checksum of a KP1 frame, \<open>crc16_ccitt\<close> of \<open>src/kegpulse/protocol/frames.py\<close>, on Python's
  unbounded integers with the masks the source writes.  \<open>lfsr\<close> is the same step as a shift
  register on a 16-bit word; the first group of lemmas shows that the two agree, the second that
  the register is linear and loses no information, the third that two payloads that differ only
  within two adjacent bytes never have the same checksum.
\<close>

section \<open>The checksum as the code computes it\<close>

definition crc16_bit :: "int \<Rightarrow> int" where
  "crc16_bit crc =
     (if crc AND 0x8000 \<noteq> 0 then (push_bit 1 crc XOR 0x1021) AND 0xFFFF
      else push_bit 1 crc AND 0xFFFF)"

definition crc16_byte :: "int \<Rightarrow> char \<Rightarrow> int" where
  "crc16_byte crc b = (crc16_bit ^^ 8) (crc XOR push_bit 8 (of_char b))"

definition crc16_ccitt :: "string \<Rightarrow> int" where
  "crc16_ccitt data = foldl crc16_byte 0xFFFF data"

section \<open>The shift register\<close>

definition lfsr :: "16 word \<Rightarrow> 16 word" where
  "lfsr w = (if bit w 15 then push_bit 1 w XOR 0x1021 else push_bit 1 w)"

definition byte16 :: "char \<Rightarrow> 16 word" where
  "byte16 b = word_of_int (of_char b)"

definition lfsr_byte :: "16 word \<Rightarrow> char \<Rightarrow> 16 word" where
  "lfsr_byte w b = (lfsr ^^ 8) (w XOR push_bit 8 (byte16 b))"

lemma bit_1021: "bit (0x1021 :: 16 word) n \<longleftrightarrow> n \<in> {0, 5, 12}"
proof -
  have *: "(0x1021 :: 16 word) = 2 ^ 0 OR 2 ^ 5 OR 2 ^ 12" by simp
  show ?thesis unfolding * by (simp only: bit_or_iff bit_exp_iff) auto
qed

lemma bit_1021_int: "bit (0x1021 :: int) n \<longleftrightarrow> n \<in> {0, 5, 12}"
proof -
  have *: "(0x1021 :: int) = 2 ^ 0 OR 2 ^ 5 OR 2 ^ 12" by simp
  show ?thesis unfolding * by (simp only: bit_or_iff bit_exp_iff) auto
qed

lemma lfsr_bit:
  "bit (lfsr w) n \<longleftrightarrow> (0 < n \<and> n < 16 \<and> bit w (n - 1)) \<noteq> (bit w 15 \<and> n \<in> {0, 5, 12})"
  unfolding lfsr_def
  by (cases "bit w 15")
    (simp_all only: if_True if_False bit_xor_iff bit_1021,
      auto simp: bit_push_bit_iff simp del: push_bit_Suc)

lemma crc16_bit_bit:
  "bit (crc16_bit c) n \<longleftrightarrow>
     n < 16 \<and> ((0 < n \<and> bit c (n - 1)) \<noteq> (bit c 15 \<and> n \<in> {0, 5, 12}))"
proof -
  have m: "(0xFFFF::int) = mask 16" by (simp add: mask_eq_exp_minus_1)
  have t: "(c AND 0x8000 = 0) \<longleftrightarrow> \<not> bit c 15"
    using and_exp_eq_0_iff_not_bit [of c 15] by simp
  show ?thesis
    unfolding crc16_bit_def m t
    by (cases "bit c 15")
      (simp_all only: if_True if_False not_True_eq_False not_False_eq_True bit_and_iff
        bit_xor_iff bit_1021_int bit_mask_iff bit_push_bit_iff, auto)
qed

lemma crc16_bit_word: "crc16_bit (uint w) = uint (lfsr w)"
  by (rule bit_eqI) (auto simp: crc16_bit_bit lfsr_bit bit_uint_iff)

lemma crc16_bits_word: "(crc16_bit ^^ n) (uint w) = uint ((lfsr ^^ n) w)"
  by (induction n) (simp_all add: crc16_bit_word)

lemma of_char_int_bit: "bit (of_char b :: int) n \<Longrightarrow> n < 8"
proof -
  assume "bit (of_char b :: int) n"
  moreover have "(of_char b :: int) = take_bit 8 (of_char b)"
    using of_char_mod_256 [where 'a = int, of b]
    by (simp add: take_bit_eq_mod del: of_char_mod_256)
  ultimately show ?thesis by (metis bit_take_bit_iff)
qed

lemma byte16_bit: "bit (byte16 b) n \<longleftrightarrow> bit (of_char b :: int) n"
  using of_char_int_bit [of b n] by (auto simp: byte16_def bit_simps)

lemma byte16_inj: "byte16 a = byte16 b \<longleftrightarrow> a = b"
proof
  assume "byte16 a = byte16 b"
  then have "(of_char a :: int) = of_char b"
    by (intro bit_eqI) (metis byte16_bit)
  then show "a = b" by simp
qed simp

lemma uint_xor_byte: "uint (w XOR push_bit 8 (byte16 b)) = uint w XOR push_bit 8 (of_char b)"
proof (rule bit_eqI)
  fix n
  show "bit (uint (w XOR push_bit 8 (byte16 b))) n = bit (uint w XOR push_bit 8 (of_char b)) n"
    using of_char_int_bit [of b "n - 8"]
    by (cases "n < 16") (auto simp: bit_uint_iff bit_xor_iff bit_push_bit_iff byte16_bit)
qed

lemma crc16_byte_word: "crc16_byte (uint w) b = uint (lfsr_byte w b)"
  by (simp only: crc16_byte_def lfsr_byte_def uint_xor_byte [symmetric] crc16_bits_word)

lemma crc16_bytes_word: "foldl crc16_byte (uint w) data = uint (foldl lfsr_byte w data)"
  by (induction data arbitrary: w) (simp_all add: crc16_byte_word)

lemma crc16_as_register: "crc16_ccitt data = uint (foldl lfsr_byte 0xFFFF data)"
  using crc16_bytes_word [of "0xFFFF" data] by (simp add: crc16_ccitt_def)

lemma crc16_nonneg [simp]: "0 \<le> crc16_ccitt data"
  by (simp add: crc16_as_register)

lemma crc16_bound: "crc16_ccitt data < 65536"
  using uint_lt2p [of "foldl lfsr_byte 0xFFFF data"] by (simp add: crc16_as_register)

section \<open>The register is linear and injective\<close>

lemma lfsr_inj: "lfsr x = lfsr y \<Longrightarrow> x = y"
proof -
  assume eq: "lfsr x = lfsr y"
  then have top: "bit x 15 = bit y 15"
    using lfsr_bit [of x 0] lfsr_bit [of y 0] by simp
  show "x = y"
  proof (rule bit_eqI)
    fix n assume "possible_bit TYPE(16 word) n"
    then have "n < 16" by simp
    show "bit x n = bit y n"
    proof (cases "n = 15")
      case False
      then show ?thesis
        using eq top \<open>n < 16\<close> lfsr_bit [of x "Suc n"] lfsr_bit [of y "Suc n"] by auto
    qed (simp add: top)
  qed
qed

lemma lfsr_pow_inj: "(lfsr ^^ n) x = (lfsr ^^ n) y \<longleftrightarrow> x = y"
  by (induction n) (auto dest: lfsr_inj)

lemma lfsr_xor: "lfsr (x XOR y) = lfsr x XOR lfsr y"
  by (rule bit_eqI) (auto simp: lfsr_bit bit_xor_iff)

lemma lfsr_pow_xor: "(lfsr ^^ n) (x XOR y) = (lfsr ^^ n) x XOR (lfsr ^^ n) y"
  by (induction n) (simp_all add: lfsr_xor)

lemma lfsr_pow_low:
  "(\<And>i. bit z i \<Longrightarrow> i + k < 16) \<Longrightarrow>
     bit ((lfsr ^^ k) z) n \<longleftrightarrow> k \<le> n \<and> n < 16 \<and> bit z (n - k)"
proof (induction k arbitrary: n)
  case 0
  then show ?case by auto
next
  case (Suc k)
  then have IH: "bit ((lfsr ^^ k) z) n \<longleftrightarrow> k \<le> n \<and> n < 16 \<and> bit z (n - k)" for n
    by fastforce
  have "\<not> bit ((lfsr ^^ k) z) 15"
    using Suc.prems [of "15 - k"] by (auto simp: IH)
  then show ?case by (auto simp: lfsr_bit IH)
qed

lemma lfsr_pow_byte: "(lfsr ^^ 8) (byte16 b) = push_bit 8 (byte16 b)"
  by (rule bit_eqI)
    (use lfsr_pow_low [of "byte16 b" 8] of_char_int_bit [of b]
      in \<open>auto simp: byte16_bit bit_push_bit_iff\<close>)

lemma word_xor_cancel: "(x :: 16 word) XOR z = y XOR z \<longleftrightarrow> x = y"
  by (metis xor.assoc xor_self_eq xor.right_neutral)

lemma word_xor_cancel_left: "(z :: 16 word) XOR x = z XOR y \<longleftrightarrow> x = y"
  by (metis xor.commute word_xor_cancel)

lemma uint_eq_iff: "uint (x :: 16 word) = uint y \<longleftrightarrow> x = y"
  by (metis word_of_int_uint)

lemma lfsr_byte_inj: "lfsr_byte x b = lfsr_byte y b \<longleftrightarrow> x = y"
  by (simp add: lfsr_byte_def lfsr_pow_inj word_xor_cancel)

lemma lfsr_bytes_inj: "foldl lfsr_byte x s = foldl lfsr_byte y s \<longleftrightarrow> x = y"
  by (induction s arbitrary: x y) (simp_all add: lfsr_byte_inj)

text \<open>Two bytes fill the register: from the same start, different pairs give different states.\<close>

lemma lfsr_two_bytes:
  "lfsr_byte (lfsr_byte w a) b = (lfsr ^^ 16) ((w XOR push_bit 8 (byte16 a)) XOR byte16 b)"
proof -
  have "lfsr_byte (lfsr_byte w a) b
      = (lfsr ^^ 8) ((lfsr ^^ 8) (w XOR push_bit 8 (byte16 a)) XOR (lfsr ^^ 8) (byte16 b))"
    by (simp only: lfsr_byte_def lfsr_pow_byte)
  also have "\<dots> = (lfsr ^^ 8) ((lfsr ^^ 8) ((w XOR push_bit 8 (byte16 a)) XOR byte16 b))"
    by (simp only: lfsr_pow_xor)
  also have "\<dots> = (lfsr ^^ (8 + 8)) ((w XOR push_bit 8 (byte16 a)) XOR byte16 b)"
    by (simp only: funpow_add comp_def)
  finally show ?thesis by simp
qed

lemma byte_pair_inj:
  assumes "push_bit 8 (byte16 a) XOR byte16 b = push_bit 8 (byte16 a') XOR byte16 b'"
  shows "a = a' \<and> b = b'"
proof -
  have bits: "bit (push_bit 8 (byte16 a) XOR byte16 b) n
      = bit (push_bit 8 (byte16 a') XOR byte16 b') n" for n
    using assms by simp
  have "bit (byte16 b) n = bit (byte16 b') n" for n
    using bits [of n] of_char_int_bit [of b n] of_char_int_bit [of b' n]
    by (auto simp: bit_xor_iff bit_push_bit_iff byte16_bit)
  moreover from this have "bit (byte16 a) n = bit (byte16 a') n" for n
    using bits [of "n + 8"] of_char_int_bit [of a n] of_char_int_bit [of a' n]
    by (auto simp: bit_xor_iff bit_push_bit_iff byte16_bit)
  ultimately show ?thesis
    by (metis bit_eqI byte16_inj)
qed

lemma lfsr_pair_inj:
  "lfsr_byte (lfsr_byte w a) b = lfsr_byte (lfsr_byte w a') b' \<longleftrightarrow> a = a' \<and> b = b'"
proof
  assume "lfsr_byte (lfsr_byte w a) b = lfsr_byte (lfsr_byte w a') b'"
  then have "(w XOR push_bit 8 (byte16 a)) XOR byte16 b = (w XOR push_bit 8 (byte16 a')) XOR byte16 b'"
    by (simp only: lfsr_two_bytes lfsr_pow_inj)
  then have "push_bit 8 (byte16 a) XOR byte16 b = push_bit 8 (byte16 a') XOR byte16 b'"
    by (simp only: xor.assoc word_xor_cancel_left)
  then show "a = a' \<and> b = b'" by (rule byte_pair_inj)
qed simp

lemma crc16_burst:
  "crc16_ccitt (pre @ [a, b] @ suf) = crc16_ccitt (pre @ [a', b'] @ suf) \<longleftrightarrow> a = a' \<and> b = b'"
  by (simp add: crc16_as_register uint_eq_iff lfsr_bytes_inj lfsr_pair_inj)

lemma crc16_single:
  "crc16_ccitt (pre @ [a] @ suf) = crc16_ccitt (pre @ [a'] @ suf) \<longleftrightarrow> a = a'"
proof -
  have "lfsr_byte w a = lfsr_byte w a' \<longleftrightarrow> a = a'" for w
    using lfsr_pair_inj [of w a a a' a] by (simp add: lfsr_byte_inj)
  then show ?thesis by (simp add: crc16_as_register uint_eq_iff lfsr_bytes_inj)
qed

end
