(* ===== verification/KP_Frames.thy ===== *)
theory KP_Frames
  imports KP_Crc
begin

text \<open>
  The KP1 frame codec and the streaming parser, \<open>src/kegpulse/protocol/frames.py\<close>.  A frame's
  fields are an insertion-ordered dictionary.  \<open>encode_frame\<close> takes the field values after
  Python's \<open>str\<close>, as pairs in iteration order.  Lemmas: what each side accepts, the round trip in
  both directions, and the parser as a function of the whole byte stream.
\<close>

section \<open>Data\<close>

datatype frame_error_code = MALFORMED | BAD_CRC | TOO_LONG | UNSUPPORTED_VERSION

fun frame_error_code_value :: "frame_error_code \<Rightarrow> string" where
  "frame_error_code_value MALFORMED = ''MALFORMED''"
| "frame_error_code_value BAD_CRC = ''BAD_CRC''"
| "frame_error_code_value TOO_LONG = ''TOO_LONG''"
| "frame_error_code_value UNSUPPORTED_VERSION = ''UNSUPPORTED_VERSION''"

datatype frame_error = FrameError (err_code: frame_error_code) (err_message: string)

type_synonym field_dict = "(string, string) odict"

record frame =
  fr_kind :: string
  fr_request_id :: string
  fr_operation :: string
  fr_fields :: field_dict

definition MAX_FRAME_BYTES :: nat where
  "MAX_FRAME_BYTES = 256"

abbreviation LF :: char where
  "LF \<equiv> CHR 0x0A"

abbreviation CR :: char where
  "CR \<equiv> CHR 0x0D"

definition op_char :: "char \<Rightarrow> bool" where
  "op_char c \<longleftrightarrow> is_upper c \<or> is_digit c \<or> c = CHR ''_''"

definition key_char :: "char \<Rightarrow> bool" where
  "key_char c \<longleftrightarrow> is_lower c \<or> is_digit c \<or> c = CHR ''_''"

definition value_char :: "char \<Rightarrow> bool" where
  "value_char c \<longleftrightarrow> is_upper c \<or> is_lower c \<or> is_digit c \<or> c \<in> set ''._:-''"

definition re_RID :: "string \<Rightarrow> bool" where
  "re_RID = fullmatch is_hex_upper 8 8"

definition re_OP :: "string \<Rightarrow> bool" where
  "re_OP = fullmatch op_char 1 16"

definition re_KEY :: "string \<Rightarrow> bool" where
  "re_KEY = fullmatch key_char 1 16"

definition re_VALUE :: "string \<Rightarrow> bool" where
  "re_VALUE = fullmatch value_char 1 64"

definition frame_kinds :: "string list" where
  "frame_kinds = [''Q'', ''R'', ''E'']"

section \<open>Encoding\<close>

fun encode_fields :: "string list \<Rightarrow> field_dict \<Rightarrow> frame_error + string list" where
  "encode_fields seen [] = Inr []"
| "encode_fields seen ((key, v) # rest) =
     (if key \<in> set seen \<or> \<not> re_KEY key then
        Inl (FrameError MALFORMED ''field key is invalid or duplicated'')
      else if \<not> re_VALUE v then
        Inl (FrameError MALFORMED (''field value for '' @ key @ '' is invalid''))
      else bind_res (encode_fields (key # seen) rest) (\<lambda>tokens. Inr ((key @ ''='' @ v) # tokens)))"

definition encode_frame :: "string \<Rightarrow> string \<Rightarrow> string \<Rightarrow> field_dict \<Rightarrow> frame_error + string" where
  "encode_frame knd request_id operation flds =
     (if knd \<notin> set frame_kinds then
        Inl (FrameError MALFORMED ''kind must be Q, R, or E'')
      else if \<not> re_RID request_id then
        Inl (FrameError MALFORMED ''request ID must be eight uppercase hex digits'')
      else if \<not> re_OP operation then
        Inl (FrameError MALFORMED ''operation is invalid'')
      else bind_res (encode_fields [] flds) (\<lambda>field_tokens.
        let payload = join ''|'' ([''KP1'', knd, request_id, operation] @ field_tokens);
            encoded = payload @ ''*'' @ show_hex 4 (crc16_ccitt payload) @ [LF]
        in if length encoded > MAX_FRAME_BYTES then
             Inl (FrameError TOO_LONG ''encoded frame exceeds 256 bytes'')
           else Inr encoded))"

section \<open>Decoding\<close>

fun decode_fields :: "field_dict \<Rightarrow> string list \<Rightarrow> frame_error + field_dict" where
  "decode_fields acc [] = Inr acc"
| "decode_fields acc (token # rest) =
     (if count_list token (CHR ''='') \<noteq> 1 then Inl (FrameError MALFORMED ''invalid field'')
      else let (key, v) = split_first (CHR ''='') token
           in if od_mem key acc \<or> \<not> re_KEY key \<or> \<not> re_VALUE v then
                Inl (FrameError MALFORMED ''invalid or duplicate field'')
              else decode_fields (od_set acc key v) rest)"

definition decode_tokens :: "string list \<Rightarrow> frame_error + frame" where
  "decode_tokens tokens =
     (case tokens of
        t0 # knd # request_id # operation # field_tokens \<Rightarrow>
          (if t0 \<noteq> ''KP1'' then
             Inl (FrameError (if starts_with ''KP'' t0 then UNSUPPORTED_VERSION else MALFORMED)
               ''unsupported or malformed protocol prefix'')
           else if knd \<notin> set frame_kinds \<or> \<not> re_RID request_id \<or> \<not> re_OP operation then
             Inl (FrameError MALFORMED ''invalid frame header'')
           else bind_res (decode_fields [] field_tokens) (\<lambda>flds.
             Inr \<lparr>fr_kind = knd, fr_request_id = request_id, fr_operation = operation,
                  fr_fields = flds\<rparr>))
      | _ \<Rightarrow>
          Inl (FrameError
            (if tokens \<noteq> [] \<and> starts_with ''KP'' (hd tokens) then UNSUPPORTED_VERSION else MALFORMED)
            ''unsupported or malformed protocol prefix''))"

text \<open>What \<open>decode_frame\<close> does with a line after it found it to be ASCII.\<close>

definition decode_line :: "string \<Rightarrow> frame_error + frame" where
  "decode_line text =
     (if CHR ''*'' \<notin> set text then Inl (FrameError MALFORMED ''frame is missing CRC separator'')
      else let (payload, crc_text) = rsplit_last (CHR ''*'') text
           in if \<not> fullmatch is_hex_upper 4 4 crc_text then
                Inl (FrameError MALFORMED ''CRC must be four uppercase hex digits'')
              else if crc16_ccitt payload \<noteq> digits_val 16 crc_text then
                Inl (FrameError BAD_CRC ''frame CRC does not match'')
              else decode_tokens (split_on (CHR ''|'') payload))"

definition decode_frame :: "string \<Rightarrow> frame_error + frame" where
  "decode_frame data =
     (if length data > MAX_FRAME_BYTES then Inl (FrameError TOO_LONG ''frame exceeds 256 bytes'')
      else if \<not> ends_with [LF] data then Inl (FrameError MALFORMED ''frame is missing LF'')
      else let line0 = butlast data;
               line = (if ends_with [CR] line0 then butlast line0 else line0)
           in if \<not> is_ascii line then Inl (FrameError MALFORMED ''frame must be ASCII'')
              else decode_line line)"

section \<open>The streaming parser\<close>

record frame_parser =
  ps_max_bytes :: nat
  ps_buffer :: string
  ps_discarding :: bool

definition new_parser :: "nat \<Rightarrow> frame_parser" where
  "new_parser max_bytes = \<lparr>ps_max_bytes = max_bytes, ps_buffer = [], ps_discarding = False\<rparr>"

text \<open>What one byte produces: at most one frame or one error.\<close>

definition oversized :: frame_error where
  "oversized = FrameError TOO_LONG ''oversized frame discarded''"

definition parser_byte ::
    "frame_parser \<Rightarrow> char \<Rightarrow> frame_parser \<times> frame list \<times> frame_error list" where
  "parser_byte p b =
     (if ps_discarding p then
        (if b = LF then (p\<lparr>ps_discarding := False\<rparr>, [], [oversized]) else (p, [], []))
      else
        let buffer = ps_buffer p @ [b]
        in if length buffer > ps_max_bytes p then
             (if b = LF then (p\<lparr>ps_buffer := []\<rparr>, [], [oversized])
              else (p\<lparr>ps_buffer := [], ps_discarding := True\<rparr>, [], []))
           else if b = LF then
             (case decode_frame buffer of
                Inr f \<Rightarrow> (p\<lparr>ps_buffer := []\<rparr>, [f], [])
              | Inl e \<Rightarrow> (p\<lparr>ps_buffer := []\<rparr>, [], [e]))
           else (p\<lparr>ps_buffer := buffer\<rparr>, [], []))"

fun parser_feed ::
    "frame_parser \<Rightarrow> string \<Rightarrow> frame_parser \<times> frame list \<times> frame_error list" where
  "parser_feed p [] = (p, [], [])"
| "parser_feed p (b # chunk) =
     (let (p1, fs1, es1) = parser_byte p b; (p2, fs2, es2) = parser_feed p1 chunk
      in (p2, fs1 @ fs2, es1 @ es2))"

section \<open>What the codec accepts\<close>

definition frame_ok :: "frame \<Rightarrow> bool" where
  "frame_ok f \<longleftrightarrow>
     fr_kind f \<in> set frame_kinds \<and> re_RID (fr_request_id f) \<and> re_OP (fr_operation f) \<and>
     od_wf (fr_fields f) \<and> (\<forall>(k, v) \<in> set (fr_fields f). re_KEY k \<and> re_VALUE v)"

definition field_token :: "string \<times> string \<Rightarrow> string" where
  "field_token kv = fst kv @ ''='' @ snd kv"

definition frame_payload :: "frame \<Rightarrow> string" where
  "frame_payload f =
     join ''|'' ([''KP1'', fr_kind f, fr_request_id f, fr_operation f] @ map field_token (fr_fields f))"

text \<open>The one line that represents a frame, without its length limit.\<close>

definition frame_line :: "frame \<Rightarrow> string" where
  "frame_line f = frame_payload f @ ''*'' @ show_hex 4 (crc16_ccitt (frame_payload f))"

lemmas frame_re_defs = re_RID_def re_OP_def re_KEY_def re_VALUE_def

lemmas frame_class_defs = op_char_def key_char_def value_char_def char_class_defs

text \<open>No separator of the grammar is in a character class of its tokens.\<close>

lemma class_separators:
  "\<not> is_hex_upper (CHR ''|'')" "\<not> is_hex_upper (CHR ''*'')" "\<not> is_hex_upper LF"
  "\<not> op_char (CHR ''|'')" "\<not> op_char (CHR ''*'')" "\<not> op_char LF"
  "\<not> key_char (CHR ''|'')" "\<not> key_char (CHR ''*'')" "\<not> key_char (CHR ''='')" "\<not> key_char LF"
  "\<not> value_char (CHR ''|'')" "\<not> value_char (CHR ''*'')" "\<not> value_char (CHR ''='')" "\<not> value_char LF"
  "\<not> is_hex_upper CR"
  by (simp_all add: frame_class_defs)

lemma class_ascii:
  "is_hex_upper c \<Longrightarrow> code c < 128" "op_char c \<Longrightarrow> code c < 128"
  "key_char c \<Longrightarrow> code c < 128" "value_char c \<Longrightarrow> code c < 128"
  by (auto simp: frame_class_defs)

lemma key_notin [simp]: "re_KEY k \<Longrightarrow> c \<in> {CHR ''|'', CHR ''*'', CHR ''='', LF} \<Longrightarrow> c \<notin> set k"
  using class_separators by (auto simp: re_KEY_def fullmatch_def list_all_iff)

lemma value_notin [simp]: "re_VALUE v \<Longrightarrow> c \<in> {CHR ''|'', CHR ''*'', CHR ''='', LF} \<Longrightarrow> c \<notin> set v"
  using class_separators by (auto simp: re_VALUE_def fullmatch_def list_all_iff)

lemma rid_notin [simp]: "re_RID r \<Longrightarrow> c \<in> {CHR ''|'', CHR ''*'', LF} \<Longrightarrow> c \<notin> set r"
  using class_separators by (auto simp: re_RID_def fullmatch_def list_all_iff)

lemma op_notin [simp]: "re_OP r \<Longrightarrow> c \<in> {CHR ''|'', CHR ''*'', LF} \<Longrightarrow> c \<notin> set r"
  using class_separators by (auto simp: re_OP_def fullmatch_def list_all_iff)

lemma token_ascii:
  "re_RID s \<Longrightarrow> is_ascii s" "re_OP s \<Longrightarrow> is_ascii s" "re_KEY s \<Longrightarrow> is_ascii s" "re_VALUE s \<Longrightarrow> is_ascii s"
  unfolding frame_re_defs by (auto intro: fullmatch_ascii class_ascii)

lemma kind_cases: "k \<in> set frame_kinds \<longleftrightarrow> k = ''Q'' \<or> k = ''R'' \<or> k = ''E''"
  by (auto simp: frame_kinds_def)

lemma encode_fields_iff:
  "encode_fields seen fs = Inr ts \<longleftrightarrow>
     ts = map field_token fs \<and> distinct (map fst fs) \<and> set (map fst fs) \<inter> set seen = {} \<and>
     (\<forall>(k, v) \<in> set fs. re_KEY k \<and> re_VALUE v)"
proof (induction seen fs arbitrary: ts rule: encode_fields.induct)
  case (1 seen)
  then show ?case by auto
next
  case (2 seen key v rest)
  show ?case
  proof (cases "key \<in> set seen \<or> \<not> re_KEY key \<or> \<not> re_VALUE v")
    case True
    then show ?thesis by auto
  next
    case False
    with "2.IH" show ?thesis
      by (auto simp: bind_res_eq_Inr field_token_def)
  qed
qed

lemma encode_frame_iff:
  "encode_frame k r op fs = Inr bs \<longleftrightarrow>
     (let f = \<lparr>fr_kind = k, fr_request_id = r, fr_operation = op, fr_fields = fs\<rparr>
      in frame_ok f \<and> bs = frame_line f @ [LF] \<and> length bs \<le> MAX_FRAME_BYTES)"
  by (auto simp: encode_frame_def bind_res_eq_Inr encode_fields_iff frame_ok_def od_wf_def
      od_keys_def frame_line_def frame_payload_def Let_def)

lemma field_token_split:
  assumes "re_KEY k" "re_VALUE v"
  shows "split_first (CHR ''='') (field_token (k, v)) = (k, v)"
    and "count_list (field_token (k, v)) (CHR ''='') = 1"
proof -
  have k: "CHR ''='' \<notin> set k" and v: "CHR ''='' \<notin> set v"
    using assms by simp_all
  then show "split_first (CHR ''='') (field_token (k, v)) = (k, v)"
    using split_first_append [OF k, of v] by (simp add: field_token_def)
  show "count_list (field_token (k, v)) (CHR ''='') = 1"
    using k v by (simp add: field_token_def count_list_0_iff)
qed

lemma decode_fields_encode:
  assumes "distinct (map fst (acc @ fs))" "\<forall>(k, v) \<in> set fs. re_KEY k \<and> re_VALUE v"
  shows "decode_fields acc (map field_token fs) = Inr (acc @ fs)"
  using assms
proof (induction fs arbitrary: acc)
  case (Cons kv fs)
  obtain k v where kv: "kv = (k, v)" by (cases kv)
  with Cons.prems have "re_KEY k" "re_VALUE v" by auto
  note tok = field_token_split [OF this]
  have "od_get acc k = None"
    using Cons.prems(1) kv by (auto simp: od_get_def map_of_eq_None_iff)
  then have "od_set acc k v = acc @ [kv]" "\<not> od_mem k acc"
    by (simp_all add: kv od_set_fresh od_mem_iff)
  moreover have "decode_fields (acc @ [kv]) (map field_token fs) = Inr ((acc @ [kv]) @ fs)"
    using Cons.prems by (intro Cons.IH) auto
  ultimately show ?case
    using tok \<open>re_KEY k\<close> \<open>re_VALUE v\<close> by (simp add: kv)
qed simp

lemma decode_fields_sound:
  assumes "decode_fields acc ts = Inr fs" "od_wf acc" "\<forall>(k, v) \<in> set acc. re_KEY k \<and> re_VALUE v"
  shows "od_wf fs \<and> (\<forall>(k, v) \<in> set fs. re_KEY k \<and> re_VALUE v) \<and> map field_token fs = map field_token acc @ ts"
  using assms
proof (induction acc ts rule: decode_fields.induct)
  case (1 acc)
  then show ?case by simp
next
  case (2 acc token rest)
  obtain k v where kv: "split_first (CHR ''='') token = (k, v)" by fastforce
  from "2.prems"(1) kv have c: "count_list token (CHR ''='') = 1"
    and ok: "\<not> od_mem k acc" "re_KEY k" "re_VALUE v"
    and rec: "decode_fields (od_set acc k v) rest = Inr fs"
    by (auto split: if_splits)
  have "CHR ''='' \<in> set token"
    using c by (metis count_list_0_iff zero_neq_one)
  then have token: "token = field_token (k, v)"
    using split_first_join [OF _ kv] by (simp add: field_token_def)
  have set: "od_set acc k v = acc @ [(k, v)]"
    using ok(1) by (simp add: od_set_fresh od_mem_iff)
  have "\<forall>(k', v') \<in> set (od_set acc k v). re_KEY k' \<and> re_VALUE v'"
    using "2.prems"(3) ok by (auto simp: set)
  moreover have "od_wf (od_set acc k v)"
    using "2.prems"(2) by (rule od_wf_set)
  ultimately show ?case
    using "2.IH" [OF _ kv [symmetric] refl _ rec] c ok by (simp add: set token)
qed

section \<open>Round trips\<close>

lemma payload_tokens:
  assumes "frame_ok f"
  shows "split_on (CHR ''|'') (frame_payload f)
       = [''KP1'', fr_kind f, fr_request_id f, fr_operation f] @ map field_token (fr_fields f)"
  using assms unfolding frame_payload_def frame_ok_def kind_cases
  by (intro split_on_join) (auto simp: field_token_def)

lemma payload_no_star:
  assumes "frame_ok f" "c \<in> {CHR ''*'', LF}"
  shows "c \<notin> set (frame_payload f)"
  using assms unfolding frame_payload_def frame_ok_def kind_cases
  by (intro notI) (drule subsetD [OF set_join_subset], auto simp: field_token_def split: if_splits)

lemma payload_ascii: "frame_ok f \<Longrightarrow> is_ascii (frame_payload f)"
  unfolding frame_payload_def frame_ok_def kind_cases
  by (intro is_ascii_join) (auto simp: list_all_iff field_token_def token_ascii)

lemma show_hex4_class: "fullmatch is_hex_upper 4 4 (show_hex 4 n)"
  by (simp add: fullmatch_def show_hex_hex)

lemma decode_line_frame:
  assumes "frame_ok f"
  shows "decode_line (frame_line f) = Inr f"
proof -
  have "CHR ''*'' \<notin> set (show_hex 4 (crc16_ccitt (frame_payload f)))"
    using show_hex4_class class_separators(2) by (rule fullmatch_notin)
  then have split: "rsplit_last (CHR ''*'') (frame_line f)
      = (frame_payload f, show_hex 4 (crc16_ccitt (frame_payload f)))"
    using rsplit_last_append [of "CHR ''*''" "show_hex 4 (crc16_ccitt (frame_payload f))" "frame_payload f"]
    by (simp add: frame_line_def)
  have crc: "digits_val 16 (show_hex 4 (crc16_ccitt (frame_payload f))) = crc16_ccitt (frame_payload f)"
    using crc16_bound by (intro digits_val_show_hex) simp_all
  have "decode_fields [] (map field_token (fr_fields f)) = Inr (fr_fields f)"
    using assms decode_fields_encode [of "[]" "fr_fields f"]
    by (simp add: frame_ok_def od_wf_def od_keys_def)
  then have "decode_tokens (split_on (CHR ''|'') (frame_payload f)) = Inr f"
    using assms by (simp add: payload_tokens decode_tokens_def frame_ok_def)
  then show ?thesis
    using split show_hex4_class by (simp add: decode_line_def crc) (simp add: frame_line_def)
qed

lemma frame_line_shape:
  assumes "frame_ok f"
  shows "is_ascii (frame_line f)" "LF \<notin> set (frame_line f)" "\<not> ends_with [CR] (frame_line f)"
proof -
  let ?h = "show_hex 4 (crc16_ccitt (frame_payload f))"
  have h: "list_all is_hex_upper ?h" by (rule show_hex_hex)
  show "is_ascii (frame_line f)"
    using h payload_ascii [OF assms] class_ascii(1)
    by (auto simp: frame_line_def is_ascii_def list_all_iff)
  show "LF \<notin> set (frame_line f)"
    using h payload_no_star [OF assms, of LF] class_separators(3)
    by (auto simp: frame_line_def list_all_iff)
  have "?h \<noteq> []"
    by (metis length_show_hex list.size(3) zero_neq_numeral)
  then have "last (frame_line f) \<in> set ?h"
    by (simp add: frame_line_def)
  then have "last (frame_line f) \<noteq> CR"
    using h class_separators(15) by (auto simp: list_all_iff)
  moreover have "ends_with [c] s \<Longrightarrow> last s = c" for c s
    by (metis One_nat_def append_take_drop_id ends_with_def last_snoc length_Cons list.size(3))
  ultimately show "\<not> ends_with [CR] (frame_line f)"
    by blast
qed

lemma ends_with_snoc [simp]: "ends_with [c] (s @ [d]) \<longleftrightarrow> c = d"
  by (auto simp: ends_with_def)

lemma ends_with_single: "ends_with [c] s \<longleftrightarrow> (\<exists>t. s = t @ [c])"
proof
  assume "ends_with [c] s"
  then have "s = take (length s - 1) s @ [c]"
    by (metis One_nat_def append_take_drop_id ends_with_def length_Cons list.size(3))
  then show "\<exists>t. s = t @ [c]" ..
qed auto

lemma decode_frame_line:
  assumes "frame_ok f" "length (frame_line f) < MAX_FRAME_BYTES"
  shows "decode_frame (frame_line f @ [LF]) = Inr f"
  using assms frame_line_shape [OF assms(1)] decode_line_frame [OF assms(1)]
  by (simp add: decode_frame_def Let_def)

lemma encode_decode:
  assumes "encode_frame k r op fs = Inr bs"
  shows "decode_frame bs = Inr \<lparr>fr_kind = k, fr_request_id = r, fr_operation = op, fr_fields = fs\<rparr>"
  using assms decode_frame_line by (auto simp: encode_frame_iff Let_def)

lemma decode_tokens_sound:
  assumes "decode_tokens ts = Inr f"
  shows "frame_ok f \<and>
    ts = [''KP1'', fr_kind f, fr_request_id f, fr_operation f] @ map field_token (fr_fields f)"
proof -
  obtain k r op fts fs where ts: "ts = ''KP1'' # k # r # op # fts"
    and f: "f = \<lparr>fr_kind = k, fr_request_id = r, fr_operation = op, fr_fields = fs\<rparr>"
    and ok: "k \<in> set frame_kinds" "re_RID r" "re_OP op" and d: "decode_fields [] fts = Inr fs"
    using assms by (auto simp: decode_tokens_def bind_res_eq_Inr split: list.splits if_splits)
  with decode_fields_sound [OF d] show ?thesis
    by (auto simp: frame_ok_def)
qed

lemma digit_char_val:
  assumes "is_hex_upper c"
  shows "0 \<le> digit_val c" "digit_val c < 16" "digit_char (digit_val c) = c"
proof -
  from assms have "(48 \<le> code c \<and> code c \<le> 57) \<or> (65 \<le> code c \<and> code c \<le> 70)"
    by (simp add: char_class_defs)
  then show "0 \<le> digit_val c" "digit_val c < 16"
    by (auto simp: digit_val_def char_class_defs)
  then have "code (digit_char (digit_val c)) = code c"
    using assms by (auto simp: digit_char_code digit_val_def char_class_defs split: if_splits)
  then show "digit_char (digit_val c) = c" by (simp add: code_eq_iff)
qed

lemma show_hex_digits_val: "list_all is_hex_upper s \<Longrightarrow> show_hex (length s) (digits_val 16 s) = s"
proof (induction s rule: rev_induct)
  case (snoc c s)
  then have "(16 * digits_val 16 s + digit_val c) div 16 = digits_val 16 s"
    "(16 * digits_val 16 s + digit_val c) mod 16 = digit_val c"
    using digit_char_val(1,2) [of c] by simp_all
  with snoc show ?case by (simp add: digit_char_val(3))
qed simp

lemma digits_val_hex4_inj: "fullmatch is_hex_upper 4 4 s \<Longrightarrow> show_hex 4 (digits_val 16 s) = s"
  using show_hex_digits_val [of s] by (auto simp: fullmatch_def)

lemma decode_line_sound:
  assumes "decode_line s = Inr f"
  shows "frame_ok f \<and> s = frame_line f"
proof -
  obtain p h where split: "rsplit_last (CHR ''*'') s = (p, h)" by fastforce
  with assms have star: "CHR ''*'' \<in> set s" and h: "fullmatch is_hex_upper 4 4 h"
    and crc: "crc16_ccitt p = digits_val 16 h"
    and toks: "decode_tokens (split_on (CHR ''|'') p) = Inr f"
    by (auto simp: decode_line_def split: if_splits)
  have ok: "frame_ok f"
    and ts: "split_on (CHR ''|'') p
      = [''KP1'', fr_kind f, fr_request_id f, fr_operation f] @ map field_token (fr_fields f)"
    using decode_tokens_sound [OF toks] by simp_all
  have "p = frame_payload f"
    unfolding frame_payload_def using join_split_on [of "CHR ''|''" p] ts by simp
  moreover have "show_hex 4 (crc16_ccitt p) = h"
    using crc digits_val_hex4_inj [OF h] by simp
  ultimately show ?thesis
    using ok rsplit_last_join [OF star split] by (simp add: frame_line_def)
qed

lemma decode_frame_sound:
  assumes "decode_frame bs = Inr f"
  shows "frame_ok f \<and> length bs \<le> MAX_FRAME_BYTES \<and>
    (bs = frame_line f @ [LF] \<or> bs = frame_line f @ [CR, LF])"
proof -
  from assms have len: "length bs \<le> MAX_FRAME_BYTES" and lf: "ends_with [LF] bs"
    and dec: "decode_line (if ends_with [CR] (butlast bs) then butlast (butlast bs) else butlast bs) = Inr f"
    by (auto simp: decode_frame_def Let_def split: if_splits)
  from lf obtain t where t: "bs = t @ [LF]" by (auto simp: ends_with_single)
  from dec have dec: "decode_line (if ends_with [CR] t then butlast t else t) = Inr f"
    by (simp add: t split: if_splits)
  show ?thesis
  proof (cases "ends_with [CR] t")
    case True
    then obtain u where "t = u @ [CR]" by (auto simp: ends_with_single)
    with dec t len show ?thesis by (auto dest!: decode_line_sound)
  next
    case False
    with dec t len show ?thesis by (auto dest!: decode_line_sound)
  qed
qed

section \<open>The parser as a function of the stream\<close>

text \<open>
  The specification: the complete lines of a byte stream, each classified on its own.  A line that
  does not fit the buffer is an oversized error, any other is what \<open>decode_frame\<close> says.
\<close>

definition complete_lines :: "string \<Rightarrow> string list" where
  "complete_lines s = butlast (split_on LF s)"

definition partial_line :: "string \<Rightarrow> string" where
  "partial_line s = last (split_on LF s)"

definition classify_line :: "nat \<Rightarrow> string \<Rightarrow> frame_error + frame" where
  "classify_line maximum t =
     (if length t + 1 > maximum then Inl oversized else decode_frame (t @ [LF]))"

definition oks :: "('e + 'a) list \<Rightarrow> 'a list" where
  "oks rs = concat (map (\<lambda>r. case r of Inl _ \<Rightarrow> [] | Inr x \<Rightarrow> [x]) rs)"

definition errs :: "('e + 'a) list \<Rightarrow> 'e list" where
  "errs rs = concat (map (\<lambda>r. case r of Inl e \<Rightarrow> [e] | Inr _ \<Rightarrow> []) rs)"

lemma oks_simps [simp]: "oks [] = []" "oks (Inl e # rs) = oks rs" "oks (Inr x # rs) = x # oks rs"
  by (simp_all add: oks_def)

lemma errs_simps [simp]: "errs [] = []" "errs (Inl e # rs) = e # errs rs" "errs (Inr x # rs) = errs rs"
  by (simp_all add: errs_def)

lemma oks_append [simp]: "oks (rs @ qs) = oks rs @ oks qs"
  by (simp add: oks_def)

lemma errs_append [simp]: "errs (rs @ qs) = errs rs @ errs qs"
  by (simp add: errs_def)

lemma oks_map_Inr [simp]: "oks (map Inr xs) = xs" "errs (map Inr xs) = []"
  by (induction xs) simp_all

text \<open>The line a parser state stands for: what has been received since the last LF.\<close>

definition pending :: "frame_parser \<Rightarrow> string \<Rightarrow> bool" where
  "pending p t \<longleftrightarrow> LF \<notin> set t \<and>
     (if ps_discarding p then ps_buffer p = [] \<and> length t > ps_max_bytes p
      else ps_buffer p = t \<and> length t \<le> ps_max_bytes p)"

lemma pending_new: "pending (new_parser m) []"
  by (simp add: pending_def new_parser_def)

lemma parser_byte_max: "parser_byte p b = (p', fs, es) \<Longrightarrow> ps_max_bytes p' = ps_max_bytes p"
  by (auto simp: parser_byte_def Let_def split: if_splits sum.splits)

lemma parser_byte_LF:
  assumes "pending p t" "parser_byte p LF = (p', fs, es)"
  shows "pending p' []" and "fs = oks [classify_line (ps_max_bytes p) t]"
    and "es = errs [classify_line (ps_max_bytes p) t]"
  using assms
  by (auto simp: parser_byte_def pending_def classify_line_def Let_def split: if_splits sum.splits)

lemma parser_byte_other:
  assumes "pending p t" "b \<noteq> LF" "parser_byte p b = (p', fs, es)"
  shows "pending p' (t @ [b])" and "fs = []" and "es = []"
  using assms by (auto simp: parser_byte_def pending_def Let_def split: if_splits)

lemma split_on_push: "LF \<notin> set t \<Longrightarrow> split_on LF (t @ LF # s) = t # split_on LF s"
  by (rule split_on_append)

lemma parser_feed_pending:
  assumes "pending p t" "parser_feed p s = (p', fs, es)"
  shows "ps_max_bytes p' = ps_max_bytes p \<and> pending p' (partial_line (t @ s)) \<and>
    fs = oks (map (classify_line (ps_max_bytes p)) (complete_lines (t @ s))) \<and>
    es = errs (map (classify_line (ps_max_bytes p)) (complete_lines (t @ s)))"
  using assms
proof (induction s arbitrary: p t p' fs es)
  case Nil
  then have "LF \<notin> set t" by (simp add: pending_def)
  with Nil show ?case by (simp add: complete_lines_def partial_line_def split_on_no_sep)
next
  case (Cons b s)
  obtain p1 fs1 es1 where byte: "parser_byte p b = (p1, fs1, es1)" by (cases "parser_byte p b")
  obtain p2 fs2 es2 where feed: "parser_feed p1 s = (p2, fs2, es2)" by (cases "parser_feed p1 s")
  from Cons.prems(2) byte feed have out: "p' = p2" "fs = fs1 @ fs2" "es = es1 @ es2" by simp_all
  have max: "ps_max_bytes p1 = ps_max_bytes p" using byte by (rule parser_byte_max)
  have t: "LF \<notin> set t" using Cons.prems(1) by (simp add: pending_def)
  show ?case
  proof (cases "b = LF")
    case True
    note lf = parser_byte_LF [OF Cons.prems(1) byte [unfolded True]]
    have "complete_lines (t @ b # s) = t # complete_lines s" "partial_line (t @ b # s) = partial_line s"
      using t True by (simp_all add: complete_lines_def partial_line_def split_on_push)
    with Cons.IH [OF lf(1) feed] show ?thesis
      using lf(2,3) by (cases "classify_line (ps_max_bytes p) t") (simp_all add: max out)
  next
    case False
    note other = parser_byte_other [OF Cons.prems(1) False byte]
    with Cons.IH [OF other(1) feed] show ?thesis by (simp add: max out)
  qed
qed

lemma parser_feed_append:
  "parser_feed p (a @ b) =
     (let (p1, fs1, es1) = parser_feed p a; (p2, fs2, es2) = parser_feed p1 b
      in (p2, fs1 @ fs2, es1 @ es2))"
  by (induction a arbitrary: p) (auto simp: Let_def split: prod.splits)

section \<open>Interface: a line protocol\<close>

text \<open>
  What a receiver of lines relies on: every message is sent as one line that ends in the only LF
  it contains, and a line that was sent decodes to its message.  Then the lines of any sequence of
  messages, sent one after the other, decode to that sequence.
\<close>

locale line_protocol =
  fixes enc :: "'m \<Rightarrow> string" and dec :: "string \<Rightarrow> 'e + 'm" and sendable :: "'m \<Rightarrow> bool"
  assumes enc_no_LF: "sendable m \<Longrightarrow> LF \<notin> set (enc m)"
    and dec_enc: "sendable m \<Longrightarrow> dec (enc m) = Inr m"
begin

definition stream :: "'m list \<Rightarrow> string" where
  "stream ms = concat (map (\<lambda>m. enc m @ [LF]) ms)"

lemma stream_simps: "stream [] = []" "stream (m # ms) = enc m @ LF # stream ms"
  by (simp_all add: stream_def)

lemma split_stream: "\<forall>m \<in> set ms. sendable m \<Longrightarrow> split_on LF (stream ms) = map enc ms @ [[]]"
  by (induction ms) (simp_all add: stream_simps split_on_append enc_no_LF)

lemma lines_stream: "\<forall>m \<in> set ms. sendable m \<Longrightarrow> complete_lines (stream ms) = map enc ms"
  by (simp add: complete_lines_def split_stream)

lemma rest_stream: "\<forall>m \<in> set ms. sendable m \<Longrightarrow> partial_line (stream ms) = []"
  by (simp add: partial_line_def split_stream)

lemma decode_stream:
  "\<forall>m \<in> set ms. sendable m \<Longrightarrow> map dec (complete_lines (stream ms)) = map Inr ms"
  by (simp add: lines_stream dec_enc comp_def cong: map_cong)

end

text \<open>Frames are a line protocol for the parser: a frame that fits is classified as itself.\<close>

definition frame_fits :: "nat \<Rightarrow> frame \<Rightarrow> bool" where
  "frame_fits maximum f \<longleftrightarrow>
     frame_ok f \<and> length (frame_line f) < maximum \<and> length (frame_line f) < MAX_FRAME_BYTES"

interpretation kp1: line_protocol frame_line "classify_line maximum" "frame_fits maximum" for maximum
  by unfold_locales
    (auto simp: frame_fits_def classify_line_def frame_line_shape decode_frame_line)

lemma frame_eta:
  "\<lparr>fr_kind = fr_kind f, fr_request_id = fr_request_id f, fr_operation = fr_operation f,
    fr_fields = fr_fields f\<rparr> = f"
  by simp

lemma encode_frame_bytes:
  "encode_frame (fr_kind f) (fr_request_id f) (fr_operation f) (fr_fields f) = Inr bs \<longleftrightarrow>
     frame_ok f \<and> bs = frame_line f @ [LF] \<and> length (frame_line f) < MAX_FRAME_BYTES"
  by (auto simp: encode_frame_iff Let_def frame_eta)

lemma parser_stream:
  assumes "pending p []" "\<forall>f \<in> set fs. frame_fits (ps_max_bytes p) f"
  shows "\<exists>p'. parser_feed p (kp1.stream fs) = (p', fs, []) \<and> pending p' [] \<and> ps_max_bytes p' = ps_max_bytes p"
proof -
  obtain p' gs es where feed: "parser_feed p (kp1.stream fs) = (p', gs, es)"
    by (cases "parser_feed p (kp1.stream fs)")
  from parser_feed_pending [OF assms(1) feed] assms(2) feed show ?thesis
    by (simp add: kp1.decode_stream [OF assms(2)] kp1.rest_stream [OF assms(2)])
qed

section \<open>Properties of the codec\<close>

lemma decode_frame_CR:
  assumes "frame_ok f" "length (frame_line f) + 2 \<le> MAX_FRAME_BYTES"
  shows "decode_frame (frame_line f @ [CR, LF]) = Inr f"
proof -
  have "butlast (frame_line f @ [CR, LF]) = frame_line f @ [CR]" "butlast (frame_line f @ [CR]) = frame_line f"
    by (simp_all add: butlast_append)
  moreover have "ends_with [LF] (frame_line f @ [CR, LF])"
    using ends_with_snoc [of LF "frame_line f @ [CR]" LF] by simp
  ultimately show ?thesis
    using assms frame_line_shape(1) [OF assms(1)] decode_line_frame [OF assms(1)]
    by (simp add: decode_frame_def Let_def)
qed

text \<open>C5: encoding then decoding gives back the frame.  Whatever \<open>encode_frame\<close> accepts fits the
  256-byte limit and decodes to exactly the kind, request id, operation and ordered fields given.\<close>

theorem codec_roundtrip:
  assumes "encode_frame k r op fs = Inr bs"
  shows "length bs \<le> 256 \<and>
    decode_frame bs = Inr \<lparr>fr_kind = k, fr_request_id = r, fr_operation = op, fr_fields = fs\<rparr>"
  using encode_decode [OF assms] assms unfolding encode_frame_iff Let_def MAX_FRAME_BYTES_def by blast

definition demo_frame :: frame where
  "demo_frame = \<lparr>fr_kind = ''Q'', fr_request_id = ''0000000A'', fr_operation = ''PING'',
     fr_fields = [(''nonce'', ''ab.1'')]\<rparr>"

lemma demo_frame_fits: "frame_fits 256 demo_frame"
  by (simp add: demo_frame_def frame_fits_def frame_ok_def frame_kinds_def frame_re_defs fullmatch_def
      frame_class_defs od_wf_def od_keys_def frame_line_def frame_payload_def field_token_def
      MAX_FRAME_BYTES_def)

theorem codec_roundtrip_witness:
  "\<exists>bs. encode_frame ''Q'' ''0000000A'' ''PING'' [(''nonce'', ''ab.1'')] = Inr bs \<and>
     decode_frame bs = Inr demo_frame"
proof -
  have "encode_frame (fr_kind demo_frame) (fr_request_id demo_frame) (fr_operation demo_frame)
      (fr_fields demo_frame) = Inr (frame_line demo_frame @ [LF])"
    using demo_frame_fits by (simp add: encode_frame_bytes frame_fits_def)
  from this codec_roundtrip [OF this] show ?thesis by (auto simp: demo_frame_def)
qed

text \<open>C26: the decoder accepts one line per frame.  A byte string decodes to a frame exactly when it
  is at most 256 bytes long and is that frame's canonical line ended by LF or by CR LF; so no two
  frames share a line, and nothing else (wrong version, reordered or duplicate fields, lower-case
  checksum, trailing bytes) is accepted for it.\<close>

theorem decode_frame_canonical:
  "decode_frame bs = Inr f \<longleftrightarrow>
     frame_ok f \<and> length bs \<le> 256 \<and> (bs = frame_line f @ [LF] \<or> bs = frame_line f @ [CR, LF])"
proof
  assume "decode_frame bs = Inr f"
  from decode_frame_sound [OF this]
  show "frame_ok f \<and> length bs \<le> 256 \<and> (bs = frame_line f @ [LF] \<or> bs = frame_line f @ [CR, LF])"
    by (simp add: MAX_FRAME_BYTES_def)
next
  assume "frame_ok f \<and> length bs \<le> 256 \<and> (bs = frame_line f @ [LF] \<or> bs = frame_line f @ [CR, LF])"
  then show "decode_frame bs = Inr f"
    using decode_frame_line [of f] decode_frame_CR [of f] by (auto simp: MAX_FRAME_BYTES_def)
qed

text \<open>How the bytes arrive: in chunks of any size.\<close>

fun feed_chunks ::
    "frame_parser \<Rightarrow> string list \<Rightarrow> frame_parser \<times> frame list \<times> frame_error list" where
  "feed_chunks p [] = (p, [], [])"
| "feed_chunks p (c # cs) =
     (let (p1, fs1, es1) = parser_feed p c; (p2, fs2, es2) = feed_chunks p1 cs
      in (p2, fs1 @ fs2, es1 @ es2))"

lemma feed_chunks_concat: "feed_chunks p cs = parser_feed p (concat cs)"
  by (induction cs arbitrary: p) (auto simp: parser_feed_append Let_def split: prod.splits)

lemma feed_new:
  "snd (feed_chunks (new_parser m) chunks) =
     (oks (map (classify_line m) (complete_lines (concat chunks))),
      errs (map (classify_line m) (complete_lines (concat chunks))))"
proof -
  obtain p fs es where f: "parser_feed (new_parser m) (concat chunks) = (p, fs, es)"
    by (cases "parser_feed (new_parser m) (concat chunks)")
  have "ps_max_bytes (new_parser m) = m" by (simp add: new_parser_def)
  with parser_feed_pending [OF pending_new f] show ?thesis by (simp add: feed_chunks_concat f)
qed

text \<open>C15: the streaming parser is the line-by-line decoder.  However the received bytes are cut
  into chunks, the parser has reported, in order, the classification of every complete line of the
  concatenated stream (a frame, its decoding error, or one oversize error for a line that does not
  fit) and nothing else; its buffer never exceeds the configured maximum.\<close>

theorem parser_classifies_lines:
  "snd (feed_chunks (new_parser m) chunks) =
     (oks (map (classify_line m) (complete_lines (concat chunks))),
      errs (map (classify_line m) (complete_lines (concat chunks)))) \<and>
   length (ps_buffer (fst (feed_chunks (new_parser m) chunks))) \<le> m"
proof -
  obtain p fs es where f: "parser_feed (new_parser m) (concat chunks) = (p, fs, es)"
    by (cases "parser_feed (new_parser m) (concat chunks)")
  have "ps_max_bytes (new_parser m) = m" by (simp add: new_parser_def)
  with parser_feed_pending [OF pending_new f] show ?thesis
    by (auto simp: feed_chunks_concat f pending_def split: if_splits)
qed

lemma split_on_at: "split_on sep (g @ sep # s) = split_on sep g @ split_on sep s"
  by (induction g) (auto split: list.splits)

lemma complete_lines_after: "complete_lines (g @ LF # s) = complete_lines (g @ [LF]) @ complete_lines s"
  by (simp add: complete_lines_def split_on_at butlast_append)

lemma partial_line_after: "partial_line (g @ LF # s) = partial_line s"
  by (simp add: partial_line_def split_on_at)

section \<open>Damaged lines\<close>

text \<open>A damaged line without a line end in it: what the decoder says.\<close>

lemma damaged_line:
  assumes f: "frame_ok f" "length (frame_line f) < MAX_FRAME_BYTES"
    and payload: "frame_payload f = pre @ [a, b] @ suf" "(a', b') \<noteq> (a, b)"
  shows "decode_frame (pre @ [a', b'] @ suf @ ''*'' @ show_hex 4 (crc16_ccitt (frame_payload f)) @ [LF]) =
    Inl (if code a' < 128 \<and> code b' < 128 then FrameError BAD_CRC ''frame CRC does not match''
         else FrameError MALFORMED ''frame must be ASCII'')"
proof -
  let ?h = "show_hex 4 (crc16_ccitt (frame_payload f))"
  let ?l = "(pre @ [a', b'] @ suf) @ ''*'' @ ?h"
  have "CHR ''*'' \<notin> set ?h"
    using show_hex4_class class_separators(2) by (rule fullmatch_notin)
  then have "rsplit_last (CHR ''*'') ?l = (pre @ [a', b'] @ suf, ?h)"
    using rsplit_last_append [of "CHR ''*''" ?h "pre @ [a', b'] @ suf"] by simp
  moreover have "digits_val 16 ?h = crc16_ccitt (frame_payload f)"
    using crc16_bound by (intro digits_val_show_hex) simp_all
  moreover have "crc16_ccitt (pre @ [a', b'] @ suf) \<noteq> crc16_ccitt (frame_payload f)"
    using payload crc16_burst [of pre a' b' suf a b] by simp
  ultimately have crc: "decode_line ?l = Inl (FrameError BAD_CRC ''frame CRC does not match'')"
    using show_hex4_class by (simp add: decode_line_def)
  have "?h \<noteq> []" by (metis length_show_hex list.size(3) zero_neq_numeral)
  then have "last ?l = last ?h" "last (frame_line f) = last ?h" by (simp_all add: frame_line_def)
  then have "last ?l = last (frame_line f)" by simp
  moreover have "frame_line f \<noteq> []" by (simp add: frame_line_def)
  then have "ends_with [last (frame_line f)] (frame_line f)" by (simp add: ends_with_single) (metis append_butlast_last_id)
  then have "last (frame_line f) \<noteq> CR" using frame_line_shape(3) [OF f(1)] by metis
  ultimately have "last ?l \<noteq> CR" by simp
  then have cr: "\<not> ends_with [CR] ?l" unfolding ends_with_single by (metis last_snoc)
  have parts: "is_ascii pre" "is_ascii suf" "is_ascii ?h"
    using frame_line_shape(1) [OF f(1)] payload(1) by (auto simp: frame_line_def is_ascii_def)
  then have ascii: "is_ascii ?l \<longleftrightarrow> code a' < 128 \<and> code b' < 128"
    by (auto simp: is_ascii_def)
  have "length (?l @ [LF]) \<le> MAX_FRAME_BYTES" using f(2) payload(1) by (simp add: frame_line_def)
  moreover have "ends_with [LF] (?l @ [LF])" by (rule iffD2 [OF ends_with_single]) blast
  ultimately have "decode_frame (?l @ [LF]) =
      (if \<not> is_ascii ?l then Inl (FrameError MALFORMED ''frame must be ASCII'') else decode_line ?l)"
    using cr unfolding decode_frame_def by (simp only: butlast_snoc Let_def not_le [symmetric] if_False not_False_eq_True simp_thms)
  then show ?thesis using ascii crc parts by auto
qed

text \<open>A line end among the damaged bytes cuts the line in pieces, and none of them is a frame: the first has
  no checksum, and the rest of a payload does not read as a payload.\<close>

lemma split_on_more:
  "sep \<notin> set p \<Longrightarrow> split_on sep (x @ p) = butlast (split_on sep x) @ [last (split_on sep x) @ p]"
  by (induction x) (auto simp: split_on_no_sep split: list.split)

lemma kind_no_equals: "k \<in> set frame_kinds \<Longrightarrow> k \<noteq> field_token kv"
  by (cases kv) (auto simp: kind_cases field_token_def append_eq_Cons_conv Cons_eq_append_conv)

lemma payload_tail:
  assumes f: "frame_ok f" and g: "frame_ok g" and eq: "frame_payload f = x @ drop 1 (frame_payload g)"
  shows "length x \<le> 1"
proof -
  let ?hs = "[fr_kind g, fr_request_id g, fr_operation g] @ map field_token (fr_fields g)"
  let ?fs = "map field_token (fr_fields f)"
  let ?w = "join ''|'' ?hs"
  have w: "frame_payload g = ''KP1'' @ CHR ''|'' # ?w" by (simp add: frame_payload_def)
  then have "split_on (CHR ''|'') (''KP1'' @ CHR ''|'' # ?w) = ''KP1'' # ?hs"
    using payload_tokens [OF g] by simp
  then have hs: "split_on (CHR ''|'') ?w = ?hs" by (simp add: split_on_append)
  define us u where "us = butlast (split_on (CHR ''|'') x)" and "u = last (split_on (CHR ''|'') x)"
  have x: "split_on (CHR ''|'') x = us @ [u]" by (simp add: us_def u_def)
  have "frame_payload f = (x @ ''P1'') @ CHR ''|'' # ?w" using eq w by simp
  then have "split_on (CHR ''|'') (frame_payload f) = split_on (CHR ''|'') (x @ ''P1'') @ ?hs"
    using split_on_at [of "CHR ''|''" "x @ ''P1''" ?w] hs by simp
  then have "us @ (u @ ''P1'') # ?hs = [''KP1'', fr_kind f, fr_request_id f, fr_operation f] @ ?fs"
    using payload_tokens [OF f] split_on_more [of "CHR ''|''" "''P1''" x] x by simp
  moreover have notin: "fr_kind g \<notin> set ?fs" using g kind_no_equals by (auto simp: frame_ok_def)
  moreover have "ys @ v # fr_kind g # r \<noteq> ?fs" for ys v r
  proof
    assume "ys @ v # fr_kind g # r = ?fs"
    then have "set ?fs = set (ys @ v # fr_kind g # r)" by simp
    then show False using notin by simp
  qed
  moreover have "u @ ''P1'' \<noteq> fr_kind f" using f by (auto simp: frame_ok_def kind_cases append_eq_Cons_conv)
  moreover have "u @ ''P1'' \<noteq> fr_request_id f"
  proof
    assume "u @ ''P1'' = fr_request_id f"
    then have "CHR ''P'' \<in> set (fr_request_id f)" by (metis in_set_conv_decomp append_Cons)
    moreover have "list_all is_hex_upper (fr_request_id f)" using f by (simp add: frame_ok_def re_RID_def fullmatch_def)
    ultimately show False by (auto simp: list_all_iff char_class_defs)
  qed
  ultimately have "us = [] \<and> u @ ''P1'' = ''KP1''"
    by (cases us rule: remdups_adj.cases) (auto simp: Cons_eq_append_conv append_eq_Cons_conv)
  then have "us = []" "length u = 1" using arg_cong [of "u @ ''P1''" "''KP1''" length] by auto
  moreover have "x = u" using join_split_on [of "CHR ''|''" x] x \<open>us = []\<close> by simp
  ultimately show ?thesis by simp
qed

lemma frame_line_piece:
  assumes "classify_line m t = Inr g"
  shows "frame_ok g" "t = frame_line g \<or> t = frame_line g @ [CR]"
  using assms decode_frame_sound [of "t @ [LF]" g] by (auto simp: classify_line_def split: if_split_asm)

lemma piece_star:
  assumes "classify_line m t = Inr g"
  shows "CHR ''*'' \<in> set (butlast t)"
proof -
  have "show_hex 4 (crc16_ccitt (frame_payload g)) \<noteq> []" by (metis length_show_hex list.size(3) zero_neq_numeral)
  then show ?thesis using frame_line_piece [OF assms] by (auto simp: frame_line_def butlast_append)
qed

lemma damaged_rest:
  assumes f: "frame_ok f" "frame_payload f = x @ y" "2 \<le> length x" and z: "z = y \<or> (\<exists>c. z = c # y)"
  shows "classify_line m (z @ ''*'' @ show_hex 4 (crc16_ccitt (frame_payload f))) \<noteq> Inr g"
proof
  let ?h = "show_hex 4 (crc16_ccitt (frame_payload f))"
  assume line: "classify_line m (z @ ''*'' @ ?h) = Inr g"
  have ok: "frame_ok g" using frame_line_piece(1) [OF line] .
  have "?h \<noteq> []" by (metis length_show_hex list.size(3) zero_neq_numeral)
  then have "last (z @ ''*'' @ ?h) = last ?h" "last ?h \<in> set ?h" by simp_all
  moreover have "list_all is_hex_upper ?h" by (rule show_hex_hex)
  ultimately have "last (z @ ''*'' @ ?h) \<noteq> CR" using class_separators(15) by (auto simp: list_all_iff)
  then have "z @ ''*'' @ ?h \<noteq> frame_line g @ [CR]" by (metis last_snoc)
  then have "z @ ''*'' @ ?h = frame_payload g @ ''*'' @ show_hex 4 (crc16_ccitt (frame_payload g))"
    using frame_line_piece(2) [OF line] by (simp add: frame_line_def)
  then have payload: "z = frame_payload g" by simp
  have "\<exists>c. length c \<le> 1 \<and> frame_payload f = (x @ c) @ drop 1 (frame_payload g)"
    using z
  proof
    assume "z = y"
    then have "frame_payload f = (x @ take 1 y) @ drop 1 (frame_payload g)" using f(2) payload by simp
    then show ?thesis by (intro exI [of _ "take 1 y"]) simp
  next
    assume "\<exists>c. z = c # y"
    then have "drop 1 (frame_payload g) = y" using payload by auto
    then show ?thesis using f(2) by (intro exI [of _ "[]"]) simp
  qed
  then show False using payload_tail [OF f(1) ok] f(3) by fastforce
qed

lemma no_frame_in: "(\<And>t g. t \<in> set ts \<Longrightarrow> classify_line m t \<noteq> Inr g) \<Longrightarrow> oks (map (classify_line m) ts) = []"
proof (induction ts)
  case (Cons t ts)
  then show ?case by (cases "classify_line m t") auto
qed simp

lemma errs_all: "oks rs = [] \<Longrightarrow> length (errs rs) = length rs"
proof (induction rs)
  case (Cons r rs)
  then show ?case by (cases r) auto
qed simp

lemma complete_lines_next: "LF \<notin> set t \<Longrightarrow> complete_lines (t @ LF # r) = t # complete_lines r"
  by (simp add: complete_lines_def split_on_append)

lemma complete_lines_end: "LF \<notin> set t \<Longrightarrow> complete_lines (t @ [LF]) = [t]"
  by (simp add: complete_lines_def split_on_append)

text \<open>The pieces of a line with line ends among the damaged bytes; none is a frame.\<close>

lemma damaged_pieces:
  assumes f: "frame_ok f" and payload: "frame_payload f = pre @ [a, b] @ suf" and cut: "LF \<in> {a', b'}"
    and ls: "ls = complete_lines (pre @ [a', b'] @ suf @ ''*'' @ show_hex 4 (crc16_ccitt (frame_payload f)) @ [LF])"
  shows "oks (map (classify_line m) ls) = []" and "length ls = Suc (count_list [a', b'] LF)"
proof -
  let ?h = "show_hex 4 (crc16_ccitt (frame_payload f))"
  have no_LF: "LF \<notin> set pre" "LF \<notin> set suf" "LF \<notin> set ?h"
    using frame_line_shape(2) [OF f] payload by (auto simp: frame_line_def)
  have no_star: "CHR ''*'' \<notin> set pre" using payload_no_star [OF f, of "CHR ''*''"] payload by auto
  have rest: "classify_line m (z @ ''*'' @ ?h) \<noteq> Inr g" if "z = suf \<or> (\<exists>c. z = c # suf)" for z g
    using damaged_rest [OF f, of "pre @ [a, b]" suf z m g] payload that by simp
  have first: "classify_line m t \<noteq> Inr g" if "t = [] \<or> t = pre \<or> (\<exists>c. t = pre @ [c])" for t g
    using piece_star [of m t g] no_star that by (auto simp: butlast_append dest: in_set_butlastD)
  have pieces: "ls = (if a' \<noteq> LF then [pre @ [a'], suf @ ''*'' @ ?h]
      else if b' \<noteq> LF then [pre, b' # suf @ ''*'' @ ?h] else [pre, [], suf @ ''*'' @ ?h])"
    using cut ls no_LF complete_lines_next [of "pre @ [a']"] complete_lines_next [of pre] complete_lines_next [of "[]"]
      complete_lines_end [of "suf @ ''*'' @ ?h"] complete_lines_end [of "b' # suf @ ''*'' @ ?h"] by auto
  show "oks (map (classify_line m) ls) = []"
  proof (rule no_frame_in)
    fix t g
    assume "t \<in> set ls"
    then have "t = [] \<or> t = pre \<or> t = pre @ [a'] \<or> t = suf @ ''*'' @ ?h \<or> t = (b' # suf) @ ''*'' @ ?h"
      unfolding pieces by (auto split: if_split_asm)
    then show "classify_line m t \<noteq> Inr g" using first rest by blast
  qed
  show "length ls = Suc (count_list [a', b'] LF)" using cut unfolding pieces by auto
qed

text \<open>C14: damage to a line is detected.  Two adjacent bytes of a frame's payload are replaced by any
  other two bytes (one corrupted byte included), and the line arrives in chunks of any size: the
  parser delivers no frame.  Without a line end among the two bytes it reports one error, \<open>BAD_CRC\<close> if
  they are ASCII and \<open>MALFORMED\<close> if not; with line ends it reports an error for each of the pieces.\<close>

theorem corrupted_line_rejected:
  assumes "frame_fits m f" "frame_payload f = pre @ [a, b] @ suf" "(a', b') \<noteq> (a, b)"
    and "concat chunks = pre @ [a', b'] @ suf @ ''*'' @ show_hex 4 (crc16_ccitt (frame_payload f)) @ [LF]"
  shows "fst (snd (feed_chunks (new_parser m) chunks)) = [] \<and>
    (if LF \<in> {a', b'} then length (snd (snd (feed_chunks (new_parser m) chunks))) = Suc (count_list [a', b'] LF)
     else snd (snd (feed_chunks (new_parser m) chunks)) =
       [if code a' < 128 \<and> code b' < 128 then FrameError BAD_CRC ''frame CRC does not match''
        else FrameError MALFORMED ''frame must be ASCII''])"
proof -
  let ?h = "show_hex 4 (crc16_ccitt (frame_payload f))"
  have f: "frame_ok f" "length (frame_line f) < MAX_FRAME_BYTES" "length (frame_line f) < m"
    using assms(1) by (simp_all add: frame_fits_def)
  note feed = feed_new [of m chunks]
  show ?thesis
  proof (cases "LF \<in> {a', b'}")
    case False
    let ?l = "pre @ [a', b'] @ suf @ ''*'' @ ?h"
    have "LF \<notin> set pre" "LF \<notin> set suf" "LF \<notin> set ?h"
      using frame_line_shape(2) [OF f(1)] assms(2) by (auto simp: frame_line_def)
    then have "LF \<notin> set ?l" using False by auto
    from complete_lines_end [OF this] have ls: "complete_lines (concat chunks) = [?l]" using assms(4) by simp
    have "length ?l = length (frame_line f)" using assms(2) by (simp add: frame_line_def)
    then have "classify_line m ?l =
        Inl (if code a' < 128 \<and> code b' < 128 then FrameError BAD_CRC ''frame CRC does not match''
          else FrameError MALFORMED ''frame must be ASCII'')"
      using damaged_line [OF f(1,2) assms(2,3)] f(3) by (simp add: classify_line_def)
    then show ?thesis using False feed ls by simp
  next
    case True
    note pieces = damaged_pieces [OF f(1) assms(2) True refl]
    from errs_all [OF pieces(1)] show ?thesis using True feed pieces assms(4) by simp
  qed
qed

theorem corrupted_line_rejected_witness:
  "fst (snd (feed_chunks (new_parser 256) [''KP1|Q|0000000A|PI'', [LF], ''G|nonce=ab.1*'' @
     show_hex 4 (crc16_ccitt (frame_payload demo_frame)) @ [LF]])) = [] \<and>
   snd (feed_chunks (new_parser 256) [''KP1|Q|1000000A|PING|nonce=ab.1*'',
     show_hex 4 (crc16_ccitt (frame_payload demo_frame)) @ [LF]]) =
   ([], [FrameError BAD_CRC ''frame CRC does not match''])"
proof
  have q: "frame_payload demo_frame = ''KP1|Q|0000000A|PI'' @ [CHR ''N'', CHR ''G''] @ ''|nonce=ab.1''"
    by (simp add: demo_frame_def frame_payload_def field_token_def)
  from corrupted_line_rejected [OF demo_frame_fits q, of LF "CHR ''G''"
      "[''KP1|Q|0000000A|PI'', [LF], ''G|nonce=ab.1*'' @ show_hex 4 (crc16_ccitt (frame_payload demo_frame)) @ [LF]]"]
  show "fst (snd (feed_chunks (new_parser 256) [''KP1|Q|0000000A|PI'', [LF], ''G|nonce=ab.1*'' @
      show_hex 4 (crc16_ccitt (frame_payload demo_frame)) @ [LF]])) = []" by simp
  have p: "frame_payload demo_frame = ''KP1|Q|'' @ [CHR ''0'', CHR ''0''] @ ''00000A|PING|nonce=ab.1''"
    by (simp add: demo_frame_def frame_payload_def field_token_def)
  from corrupted_line_rejected [OF demo_frame_fits p, of "CHR ''1''" "CHR ''0''"
      "[''KP1|Q|1000000A|PING|nonce=ab.1*'', show_hex 4 (crc16_ccitt (frame_payload demo_frame)) @ [LF]]"]
  show "snd (feed_chunks (new_parser 256) [''KP1|Q|1000000A|PING|nonce=ab.1*'',
      show_hex 4 (crc16_ccitt (frame_payload demo_frame)) @ [LF]]) =
    ([], [FrameError BAD_CRC ''frame CRC does not match''])"
    by (intro prod_eqI) simp_all
qed

text \<open>C27: the link recovers from noise.  After any bytes at all and one line end, every frame sent
  is delivered, in order, no matter what the noise left in the parser or how the bytes are chunked.\<close>

theorem parser_resynchronises:
  assumes "concat chunks = noise @ LF # kp1.stream fs" "\<forall>f \<in> set fs. frame_fits m f"
  shows "\<exists>earlier. fst (snd (feed_chunks (new_parser m) chunks)) = earlier @ fs \<and>
    ps_buffer (fst (feed_chunks (new_parser m) chunks)) = []"
proof -
  obtain p gs es where f: "parser_feed (new_parser m) (concat chunks) = (p, gs, es)"
    by (cases "parser_feed (new_parser m) (concat chunks)")
  have m: "ps_max_bytes (new_parser m) = m" by (simp add: new_parser_def)
  have "map (classify_line m) (complete_lines (kp1.stream fs)) = map Inr fs"
    by (rule kp1.decode_stream [OF assms(2)])
  then have "gs = oks (map (classify_line m) (complete_lines (noise @ [LF]))) @ fs"
    using parser_feed_pending [OF pending_new f] assms(1)
    by (simp add: m complete_lines_after [of noise "kp1.stream fs"])
  moreover have "ps_buffer p = []"
    using parser_feed_pending [OF pending_new f] assms(1) kp1.rest_stream [OF assms(2)]
    by (auto simp: partial_line_after pending_def split: if_splits)
  ultimately show ?thesis by (simp add: feed_chunks_concat f)
qed

theorem parser_resynchronises_witness:
  "\<exists>earlier. fst (snd (feed_chunks (new_parser 256)
     [''#*|noise'', LF # frame_line demo_frame, [LF]])) = earlier @ [demo_frame]"
proof -
  have "concat [''#*|noise'', LF # frame_line demo_frame, [LF]] = ''#*|noise'' @ LF # kp1.stream [demo_frame]"
    by (simp add: kp1.stream_simps)
  from parser_resynchronises [OF this, of 256] demo_frame_fits show ?thesis by auto
qed

end
