(* ===== verification/KP_Domain.thy ===== *)
theory KP_Domain
  imports KP_Frames
begin

text \<open>
  The pure rules of the domain layer: the enumerations and records of
  \<open>src/kegpulse/domain/models.py\<close>, counter deltas (\<open>counters.py\<close>), the plausibility rules for
  pulse readings (\<open>pulse_integrity.py\<close>) and the reconciliation decision
  (\<open>reconciliation.py\<close>).  A value the source tests with \<open>isinstance\<close> is a \<open>pyval\<close>.
\<close>

datatype pyval = VInt int | VBool bool | VStr string | VNone

section \<open>Models\<close>

datatype device_state =
    DISCONNECTED | CONNECTING | IDLE | ARMED | POURING | SETTLING
  | COMPLETE | TIMED_OUT | INTERRUPTED | DEGRADED

fun device_state_value :: "device_state \<Rightarrow> string" where
  "device_state_value DISCONNECTED = ''disconnected''"
| "device_state_value CONNECTING = ''connecting''"
| "device_state_value IDLE = ''idle''"
| "device_state_value ARMED = ''armed''"
| "device_state_value POURING = ''pouring''"
| "device_state_value SETTLING = ''settling''"
| "device_state_value COMPLETE = ''complete''"
| "device_state_value TIMED_OUT = ''timed_out''"
| "device_state_value INTERRUPTED = ''interrupted''"
| "device_state_value DEGRADED = ''degraded''"

definition device_states :: "device_state list" where
  "device_states = [DISCONNECTED, CONNECTING, IDLE, ARMED, POURING, SETTLING, COMPLETE, TIMED_OUT,
     INTERRUPTED, DEGRADED]"

text \<open>\<open>DeviceState(text)\<close>: the member with that value, \<open>None\<close> for the \<open>ValueError\<close>.\<close>

definition device_state_of :: "string \<Rightarrow> device_state option" where
  "device_state_of text = find (\<lambda>st. device_state_value st = text) device_states"

text \<open>A terminal state is one a result can carry.\<close>

fun is_terminal :: "device_state \<Rightarrow> bool" where
  "is_terminal COMPLETE = True"
| "is_terminal TIMED_OUT = True"
| "is_terminal INTERRUPTED = True"
| "is_terminal _ = False"

record device_result =
  dr_device_id :: string
  dr_boot_id :: string
  dr_event_seq :: int
  dr_session_id :: "string option"
  dr_attributed :: bool
  dr_status :: device_state
  dr_raw_pulses :: int
  dr_lifetime_pulses :: int
  dr_started_ms :: int
  dr_ended_ms :: int
  dr_fault :: string

lemma device_state_of_value [simp]: "device_state_of (device_state_value st) = Some st"
  by (cases st) (simp_all add: device_state_of_def device_states_def)

lemma device_state_of_SomeD: "device_state_of text = Some st \<Longrightarrow> text = device_state_value st"
  by (auto simp: device_state_of_def find_Some_iff)

lemma device_state_value_ok: "re_VALUE (device_state_value st)"
  by (cases st) (simp_all add: re_VALUE_def fullmatch_def frame_class_defs)

section \<open>Counter deltas\<close>

record counter_delta =
  cd_delta :: "int option"
  cd_reset :: bool
  cd_wrapped :: bool

definition boot_counter_delta :: "pyval \<Rightarrow> pyval \<Rightarrow> string \<Rightarrow> string \<Rightarrow> nat \<Rightarrow> counter_delta result" where
  "boot_counter_delta previous current previous_boot current_boot bits =
     (let maximum = push_bit bits 1 - 1
      in case (previous, current) of
        (VInt p, VInt c) \<Rightarrow>
          (if \<not> (0 \<le> p \<and> p \<le> maximum \<and> 0 \<le> c \<and> c \<le> maximum) then
             Inl (DomainError ''counter value is outside its width'')
           else if previous_boot \<noteq> current_boot then
             Inr \<lparr>cd_delta = None, cd_reset = True, cd_wrapped = False\<rparr>
           else if c \<ge> p then
             Inr \<lparr>cd_delta = Some (c - p), cd_reset = False, cd_wrapped = False\<rparr>
           else Inr \<lparr>cd_delta = None, cd_reset = False, cd_wrapped = False\<rparr>)
      | _ \<Rightarrow> Inl (DomainError ''counter values must be integers''))"

section \<open>Pulse integrity\<close>

definition UINT32_MAX :: int where "UINT32_MAX = 0xFFFFFFFF"
definition UINT64_MAX :: int where "UINT64_MAX = 0xFFFFFFFFFFFFFFFF"
definition SQLITE_INTEGER_MAX :: int where "SQLITE_INTEGER_MAX = 0x7FFFFFFFFFFFFFFF"
definition MAX_PLAUSIBLE_PULSE_RATE_HZ :: int where "MAX_PLAUSIBLE_PULSE_RATE_HZ = 10000"
definition PULSE_BURST_ALLOWANCE :: int where "PULSE_BURST_ALLOWANCE = 100000"
definition MAX_PLAUSIBLE_BOOT_PULSES :: int where "MAX_PLAUSIBLE_BOOT_PULSES = 1000000000"

lemmas pulse_limits =
  UINT32_MAX_def UINT64_MAX_def SQLITE_INTEGER_MAX_def MAX_PLAUSIBLE_PULSE_RATE_HZ_def
  PULSE_BURST_ALLOWANCE_def MAX_PLAUSIBLE_BOOT_PULSES_def

text \<open>The regular expression \<open>_FAULT_TOKEN\<close> is the one of a frame's value.\<close>

definition fault_token :: "string \<Rightarrow> bool" where
  "fault_token = fullmatch value_char 1 64"

record counter_snapshot =
  cs_accepted_pulses :: int
  cs_recovery_pulses :: int
  cs_rejected_edges :: int
  cs_noise_gate_us :: int
  cs_fault :: string

record status_pulse_snapshot =
  ss_session_pulses :: int
  ss_lifetime_pulses :: int
  ss_uptime_ms :: int

definition unsigned_field :: "string \<Rightarrow> string \<Rightarrow> int \<Rightarrow> int result" where
  "unsigned_field text name maximum =
     (if \<not> is_ascii_decimal text then
        Inl (MeasurementRejectedError (name @ '' is not an unsigned decimal integer''))
      else let v = digits_val 10 text
           in if v > maximum then
                Inl (MeasurementRejectedError (name @ '' is outside its wire range''))
              else Inr v)"

definition pulse_limit_for_elapsed :: "pyval \<Rightarrow> int result" where
  "pulse_limit_for_elapsed elapsed =
     (case elapsed of
        VInt elapsed_ms \<Rightarrow>
          (if \<not> (0 \<le> elapsed_ms \<and> elapsed_ms \<le> UINT32_MAX) then
             Inl (MeasurementRejectedError ''pulse timing is outside its wire range'')
           else let timed = PULSE_BURST_ALLOWANCE + (elapsed_ms * MAX_PLAUSIBLE_PULSE_RATE_HZ) div 1000
                in Inr (min timed MAX_PLAUSIBLE_BOOT_PULSES))
      | _ \<Rightarrow> Inl (MeasurementRejectedError ''pulse timing is not an integer''))"

definition ensure_plausible_pulse_count :: "pyval \<Rightarrow> pyval \<Rightarrow> string \<Rightarrow> unit result" where
  "ensure_plausible_pulse_count count elapsed label =
     (case count of
        VInt n \<Rightarrow>
          (if n < 0 then Inl (MeasurementRejectedError (label @ '' is not a nonnegative integer''))
           else if n > SQLITE_INTEGER_MAX then
             Inl (MeasurementRejectedError (label @ '' exceeds durable storage range''))
           else bind_res (pulse_limit_for_elapsed elapsed) (\<lambda>limit.
             check (\<not> n > limit)
               (MeasurementRejectedError (label @ '' exceeds the physical pulse-rate envelope''))))
      | _ \<Rightarrow> Inl (MeasurementRejectedError (label @ '' is not a nonnegative integer'')))"

definition elapsed_u32 :: "int \<Rightarrow> int \<Rightarrow> int result" where
  "elapsed_u32 started_ms ended_ms =
     (if \<not> (0 \<le> started_ms \<and> started_ms \<le> UINT32_MAX) \<or>
         \<not> (0 \<le> ended_ms \<and> ended_ms \<le> UINT32_MAX) then
        Inl (MeasurementRejectedError ''device result time is outside its wire range'')
      else let elapsed = and (ended_ms - started_ms) UINT32_MAX
           in if elapsed \<ge> 0x80000000 then
                Inl (MeasurementRejectedError
                  ''device result duration is ambiguous across timer rollover'')
              else Inr elapsed)"

text \<open>\<open>required.issubset(fields)\<close>, and the lookup of a key that is known to be present.\<close>

definition has_keys :: "string list \<Rightarrow> field_dict \<Rightarrow> bool" where
  "has_keys required flds \<longleftrightarrow> list_all (\<lambda>k. od_mem k flds) required"

definition field :: "field_dict \<Rightarrow> string \<Rightarrow> string" where
  "field flds k = (case od_get flds k of Some v \<Rightarrow> v | None \<Rightarrow> [])"

definition parse_counter_snapshot :: "field_dict \<Rightarrow> pyval \<Rightarrow> counter_snapshot result" where
  "parse_counter_snapshot flds uptime_ms =
     (if \<not> has_keys [''accepted'', ''recovery'', ''rejected'', ''noise_gate_us'', ''fault''] flds then
        Inl (MeasurementRejectedError ''counter snapshot is missing required fields'')
      else
        bind_res (unsigned_field (field flds ''accepted'') ''accepted pulse counter'' UINT64_MAX) (\<lambda>accepted.
        bind_res (unsigned_field (field flds ''recovery'') ''recovery pulse counter'' UINT64_MAX) (\<lambda>recovery.
        bind_res (unsigned_field (field flds ''rejected'') ''rejected edge counter'' UINT32_MAX) (\<lambda>rejected.
        bind_res (unsigned_field (field flds ''noise_gate_us'') ''noise gate'' UINT32_MAX) (\<lambda>noise_gate.
          let fault = field flds ''fault''
          in if \<not> fault_token fault then
               Inl (MeasurementRejectedError ''counter fault token is malformed'')
             else if recovery > accepted then
               Inl (MeasurementRejectedError ''recovery pulse counter exceeds accepted pulses'')
             else
               bind_res (ensure_plausible_pulse_count (VInt accepted) uptime_ms ''accepted pulse counter'') (\<lambda>_.
                 Inr \<lparr>cs_accepted_pulses = accepted, cs_recovery_pulses = recovery,
                      cs_rejected_edges = rejected, cs_noise_gate_us = noise_gate,
                      cs_fault = fault\<rparr>))))))"

definition parse_status_pulse_snapshot :: "field_dict \<Rightarrow> status_pulse_snapshot result" where
  "parse_status_pulse_snapshot flds =
     (if \<not> has_keys [''pulses'', ''lifetime'', ''uptime''] flds then
        Inl (MeasurementRejectedError ''status snapshot is missing pulse fields'')
      else
        bind_res (unsigned_field (field flds ''pulses'') ''session pulse counter'' UINT64_MAX) (\<lambda>session.
        bind_res (unsigned_field (field flds ''lifetime'') ''lifetime pulse counter'' UINT64_MAX) (\<lambda>lifetime.
        bind_res (unsigned_field (field flds ''uptime'') ''device uptime'' UINT32_MAX) (\<lambda>uptime.
          if session > lifetime then
            Inl (MeasurementRejectedError ''session pulse counter exceeds lifetime pulses'')
          else
            bind_res (ensure_plausible_pulse_count (VInt lifetime) (VInt uptime) ''lifetime pulse counter'') (\<lambda>_.
              Inr \<lparr>ss_session_pulses = session, ss_lifetime_pulses = lifetime,
                   ss_uptime_ms = uptime\<rparr>)))))"

lemma and_u32: "and x UINT32_MAX = x mod 2 ^ 32"
proof -
  have "UINT32_MAX = mask 32" by (simp add: UINT32_MAX_def mask_eq_exp_minus_1)
  then show ?thesis by (metis take_bit_eq_mask take_bit_eq_mod)
qed

lemma elapsed_u32_iff:
  "elapsed_u32 s e = Inr d \<longleftrightarrow>
     0 \<le> s \<and> s < 2 ^ 32 \<and> 0 \<le> e \<and> e < 2 ^ 32 \<and> d = (e - s) mod 2 ^ 32 \<and> d < 2 ^ 31"
  unfolding elapsed_u32_def Let_def and_u32 by (auto simp: UINT32_MAX_def)

lemma pulse_limit_iff:
  "pulse_limit_for_elapsed (VInt ms) = Inr l \<longleftrightarrow>
     0 \<le> ms \<and> ms < 2 ^ 32 \<and> l = min (100000 + 10 * ms) 1000000000"
  by (auto simp: pulse_limit_for_elapsed_def pulse_limits Let_def)

lemma plausible_iff:
  "ensure_plausible_pulse_count (VInt n) (VInt ms) label = Inr u \<longleftrightarrow>
     0 \<le> n \<and> n \<le> min (100000 + 10 * ms) 1000000000 \<and> 0 \<le> ms \<and> ms < 2 ^ 32"
  by (auto simp: ensure_plausible_pulse_count_def bind_res_eq_Inr check_eq_Inr pulse_limit_iff
      SQLITE_INTEGER_MAX_def)

lemma unsigned_field_iff:
  "unsigned_field text name m = Inr v \<longleftrightarrow> is_ascii_decimal text \<and> v = digits_val 10 text \<and> v \<le> m"
  by (auto simp: unsigned_field_def Let_def)

lemma unsigned_field_show: "0 \<le> n \<Longrightarrow> n \<le> m \<Longrightarrow> unsigned_field (show_int n) name m = Inr n"
  by (simp add: unsigned_field_iff show_int_def show_digits_decimal digits_val_show)

lemma unsigned_nonneg: "unsigned_field text name m = Inr v \<Longrightarrow> 0 \<le> v \<and> v \<le> m"
  by (auto simp: unsigned_field_iff is_ascii_decimal_def digits_val_nonneg)

lemma has_keys_simps [simp]:
  "has_keys [] flds" "has_keys (k # ks) flds \<longleftrightarrow> od_mem k flds \<and> has_keys ks flds"
  by (simp_all add: has_keys_def)

text \<open>What an accepted snapshot says: the order of the counters and the envelope.\<close>

lemma parse_counter_sound:
  assumes "parse_counter_snapshot flds (VInt ms) = Inr c"
  shows "0 \<le> cs_recovery_pulses c \<and> cs_recovery_pulses c \<le> cs_accepted_pulses c \<and>
    cs_accepted_pulses c \<le> min (100000 + 10 * ms) 1000000000 \<and> 0 \<le> ms \<and> ms < 2 ^ 32 \<and>
    0 \<le> cs_rejected_edges c \<and> cs_rejected_edges c < 2 ^ 32 \<and>
    0 \<le> cs_noise_gate_us c \<and> cs_noise_gate_us c < 2 ^ 32 \<and> fault_token (cs_fault c)"
  using assms
  by (auto simp: parse_counter_snapshot_def bind_res_eq_Inr plausible_iff Let_def UINT32_MAX_def
      split: if_splits dest!: unsigned_nonneg)

lemma parse_status_sound:
  assumes "parse_status_pulse_snapshot flds = Inr s"
  shows "0 \<le> ss_session_pulses s \<and> ss_session_pulses s \<le> ss_lifetime_pulses s \<and>
    ss_lifetime_pulses s \<le> min (100000 + 10 * ss_uptime_ms s) 1000000000 \<and>
    0 \<le> ss_uptime_ms s \<and> ss_uptime_ms s < 2 ^ 32"
  using assms
  by (auto simp: parse_status_pulse_snapshot_def bind_res_eq_Inr plausible_iff
      split: if_splits dest!: unsigned_nonneg)

section \<open>Reconciliation\<close>

datatype reconciliation_action =
    ACT_NONE | RESUME | RECOVER_UNATTRIBUTED | INTERRUPT_UNCERTAIN | WAIT_FOR_DEVICE

record reconciliation_decision =
  rd_action :: reconciliation_action
  rd_recovered_pulses :: int
  rd_reason :: string

definition reconcile_provisional ::
    "string \<Rightarrow> string option \<Rightarrow> int \<Rightarrow> bool \<Rightarrow> string option \<Rightarrow> string option \<Rightarrow> device_state \<Rightarrow> int
      \<Rightarrow> reconciliation_decision" where
  "reconcile_provisional host_session_id host_boot_id host_confirmed_lifetime device_connected
      device_boot_id device_session_id device_state device_lifetime =
     (if \<not> device_connected then
        \<lparr>rd_action = WAIT_FOR_DEVICE, rd_recovered_pulses = 0, rd_reason = ''device unavailable''\<rparr>
      else if host_boot_id = None \<or> device_boot_id \<noteq> host_boot_id then
        \<lparr>rd_action = INTERRUPT_UNCERTAIN, rd_recovered_pulses = 0,
          rd_reason = ''device boot identity changed''\<rparr>
      else if device_session_id = Some host_session_id \<and>
          device_state \<in> {ARMED, POURING, SETTLING, COMPLETE, INTERRUPTED, TIMED_OUT} then
        \<lparr>rd_action = RESUME, rd_recovered_pulses = 0, rd_reason = []\<rparr>
      else let delta = device_lifetime - host_confirmed_lifetime
           in if delta > 0 then
                \<lparr>rd_action = RECOVER_UNATTRIBUTED, rd_recovered_pulses = delta,
                  rd_reason = ''same-boot lifetime advanced outside the provisional session''\<rparr>
              else
                \<lparr>rd_action = INTERRUPT_UNCERTAIN, rd_recovered_pulses = 0,
                  rd_reason = ''provisional session is absent from the same-boot device''\<rparr>)"

text \<open>The decision as a table: the first condition that holds selects the action.\<close>

definition same_boot :: "string option \<Rightarrow> string option \<Rightarrow> bool" where
  "same_boot host_boot device_boot \<longleftrightarrow> host_boot \<noteq> None \<and> device_boot = host_boot"

lemma reconcile_action:
  "rd_action (reconcile_provisional sid hb hl con db ds st dl) =
     (if \<not> con then WAIT_FOR_DEVICE
      else if \<not> same_boot hb db then INTERRUPT_UNCERTAIN
      else if ds = Some sid \<and> st \<notin> {DISCONNECTED, CONNECTING, IDLE, DEGRADED} then RESUME
      else if dl > hl then RECOVER_UNATTRIBUTED
      else INTERRUPT_UNCERTAIN)"
  by (cases st) (auto simp: reconcile_provisional_def same_boot_def Let_def)

lemma reconcile_recovered:
  "rd_recovered_pulses (reconcile_provisional sid hb hl con db ds st dl) =
     (if rd_action (reconcile_provisional sid hb hl con db ds st dl) = RECOVER_UNATTRIBUTED
      then dl - hl else 0)"
  by (simp add: reconcile_provisional_def Let_def)

end
