(* ===== verification/KP_Device.thy ===== *)
theory KP_Device
  imports KP_Domain
begin

text \<open>
  The device session machine, \<open>src/kegpulse/domain/device_machine.py\<close>: one active event at a
  time, a bounded insertion-ordered store of retained results, saturating lifetime counters.
  Every method is one definition from the device to its result and the device after it, in the
  order of the source's statements.  A guard \<open>isinstance(now_ms, int)\<close> is discharged by the type
  \<open>int\<close>; the range part of each guard is written out.
\<close>

section \<open>State\<close>

definition MAX_RESULT_PULSES :: int where
  "MAX_RESULT_PULSES = 2 ^ 63 - 1"

record active_event =
  ae_event_seq :: int
  ae_session_id :: "string option"
  ae_attributed :: bool
  ae_state :: device_state
  ae_pulses :: int
  ae_armed_ms :: int
  ae_started_ms :: "int option"
  ae_last_pulse_ms :: "int option"
  ae_arm_deadline_ms :: "int option"
  ae_settle_deadline_ms :: "int option"

record device =
  dm_device_id :: string
  dm_boot_id :: string
  dm_arm_timeout_ms :: int
  dm_flow_gap_ms :: int
  dm_settling_ms :: int
  dm_result_capacity :: int
  dm_state :: device_state
  dm_lifetime_pulses :: int
  dm_next_event_seq :: int
  dm_active :: "active_event option"
  dm_results :: "(int, device_result) odict"
  dm_recovery_pulses :: int
  dm_fault :: string
  dm_last_now_ms :: int

record device_status =
  ds_state :: device_state
  ds_boot_id :: string
  ds_event_seq :: "int option"
  ds_session_id :: "string option"
  ds_attributed :: bool
  ds_session_pulses :: int
  ds_lifetime_pulses :: int
  ds_uptime_ms :: int
  ds_arm_remaining_ms :: int
  ds_next_event_seq :: int
  ds_retained_results :: int
  ds_recovery_pulses :: int
  ds_fault :: string

definition timing_ok :: "int \<Rightarrow> bool" where
  "timing_ok value = (1 \<le> value \<and> value < 2 ^ 31)"

definition new_device :: "string \<Rightarrow> string \<Rightarrow> int \<Rightarrow> int \<Rightarrow> int \<Rightarrow> int \<Rightarrow> device result" where
  "new_device device_id boot_id arm_timeout_ms flow_gap_ms settling_ms result_capacity =
     (if \<not> timing_ok arm_timeout_ms then
        Inl (DomainError ''arm_timeout_ms is outside the rollover-safe range'')
      else if \<not> timing_ok flow_gap_ms then
        Inl (DomainError ''flow_gap_ms is outside the rollover-safe range'')
      else if \<not> timing_ok settling_ms then
        Inl (DomainError ''settling_ms is outside the rollover-safe range'')
      else if \<not> (1 \<le> result_capacity \<and> result_capacity \<le> 16) then
        Inl (DomainError ''result_capacity must be between 1 and 16'')
      else Inr
        \<lparr>dm_device_id = device_id, dm_boot_id = boot_id, dm_arm_timeout_ms = arm_timeout_ms,
         dm_flow_gap_ms = flow_gap_ms, dm_settling_ms = settling_ms,
         dm_result_capacity = result_capacity, dm_state = IDLE, dm_lifetime_pulses = 0,
         dm_next_event_seq = 1, dm_active = None, dm_results = [], dm_recovery_pulses = 0,
         dm_fault = ''none'', dm_last_now_ms = 0\<rparr>)"

section \<open>Operations\<close>

definition validate_now :: "int \<Rightarrow> unit result" where
  "validate_now now_ms = check (\<not> now_ms < 0) (DomainError ''now_ms must be a nonnegative integer'')"

definition dev_allocate :: "device \<Rightarrow> int result \<times> device" where
  "dev_allocate d =
     (if dm_next_event_seq d > UINT32_MAX then
        (Inl (ConflictError ''device event sequence is exhausted''),
         d\<lparr>dm_fault := ''sequence_exhausted''\<rparr>)
      else (Inr (dm_next_event_seq d), d\<lparr>dm_next_event_seq := dm_next_event_seq d + 1\<rparr>))"

definition result_of :: "device \<Rightarrow> active_event \<Rightarrow> device_state \<Rightarrow> int \<Rightarrow> string \<Rightarrow> device_result" where
  "result_of d a status ended_ms fault =
     \<lparr>dr_device_id = dm_device_id d, dr_boot_id = dm_boot_id d, dr_event_seq = ae_event_seq a,
      dr_session_id = ae_session_id a, dr_attributed = ae_attributed a, dr_status = status,
      dr_raw_pulses = ae_pulses a, dr_lifetime_pulses = dm_lifetime_pulses d,
      dr_started_ms = (case ae_started_ms a of Some t \<Rightarrow> t | None \<Rightarrow> ae_armed_ms a),
      dr_ended_ms = ended_ms, dr_fault = fault\<rparr>"

definition dev_finalize :: "device_state \<Rightarrow> int \<Rightarrow> string \<Rightarrow> device \<Rightarrow> device_result result \<times> device" where
  "dev_finalize status ended_ms fault d =
     (case dm_active d of
        None \<Rightarrow> (Inl (ConflictError ''there is no active event to finalize''), d)
      | Some a \<Rightarrow>
          let r = result_of d a status ended_ms fault
          in (Inr r, d\<lparr>dm_results := od_set (dm_results d) (dr_event_seq r) r,
                       dm_active := None, dm_state := status\<rparr>))"

text \<open>The first half of \<open>tick\<close> for a pour: a gap without flow starts settling.\<close>

definition tick_settle :: "int \<Rightarrow> device \<Rightarrow> active_event \<Rightarrow> device \<times> active_event" where
  "tick_settle now_ms d a =
     (case (ae_state a, ae_last_pulse_ms a) of
        (POURING, Some last_pulse) \<Rightarrow>
          (let gap_at = last_pulse + dm_flow_gap_ms d
           in if now_ms \<ge> gap_at then
                let a' = a\<lparr>ae_state := SETTLING,
                           ae_settle_deadline_ms := Some (gap_at + dm_settling_ms d)\<rparr>
                in (d\<lparr>dm_active := Some a', dm_state := SETTLING\<rparr>, a')
              else (d, a))
      | _ \<Rightarrow> (d, a))"

definition dev_tick :: "int \<Rightarrow> device \<Rightarrow> device_result option result \<times> device" where
  "dev_tick now_ms d0 =
     bind_st (validate_now now_ms, d0) (\<lambda>_ d0.
       let d = d0\<lparr>dm_last_now_ms := max (dm_last_now_ms d0) now_ms\<rparr>
       in case dm_active d of
            None \<Rightarrow> (Inr None, d)
          | Some a \<Rightarrow>
              if ae_state a = ARMED then
                (case ae_arm_deadline_ms a of
                   Some deadline \<Rightarrow>
                     (if now_ms \<ge> deadline then
                        bind_st (dev_finalize TIMED_OUT deadline ''none'' d) (\<lambda>r d. (Inr (Some r), d))
                      else (Inr None, d))
                 | None \<Rightarrow> (Inr None, d))
              else
                let (d, a) = tick_settle now_ms d a
                in case (ae_state a, ae_settle_deadline_ms a) of
                     (SETTLING, Some deadline) \<Rightarrow>
                       (if now_ms \<ge> deadline then
                          bind_st (dev_finalize COMPLETE deadline ''none'' d) (\<lambda>r d. (Inr (Some r), d))
                        else (Inr None, d))
                   | _ \<Rightarrow> (Inr None, d))"

definition active_matches :: "device \<Rightarrow> int \<Rightarrow> string \<Rightarrow> bool" where
  "active_matches d event_seq session_id =
     (case dm_active d of
        None \<Rightarrow> False
      | Some a \<Rightarrow> ae_event_seq a = event_seq \<and> ae_session_id a = Some session_id)"

definition retained_match :: "device \<Rightarrow> int \<Rightarrow> string \<Rightarrow> device_result option" where
  "retained_match d event_seq session_id =
     (case od_get (dm_results d) event_seq of
        None \<Rightarrow> None
      | Some r \<Rightarrow> if dr_session_id r = Some session_id then Some r else None)"

definition dev_arm :: "string \<Rightarrow> int \<Rightarrow> int \<Rightarrow> int option \<Rightarrow> device \<Rightarrow> bool result \<times> device" where
  "dev_arm session_id event_seq now_ms ttl_ms d =
     bind_st (validate_now now_ms, d) (\<lambda>_ d.
     bind_st (dev_tick now_ms d) (\<lambda>_ d.
       if session_id = [] \<or> length session_id > 64 then
         (Inl (DomainError ''session_id is invalid''), d)
       else if active_matches d event_seq session_id then (Inr True, d)
       else if retained_match d event_seq session_id \<noteq> None then (Inr True, d)
       else if dm_active d \<noteq> None then
         (Inl (ConflictError ''device already has an active session''), d)
       else if int (length (dm_results d)) \<ge> dm_result_capacity d then
         (Inl (ConflictError ''device result store is full''), d)
       else if event_seq \<noteq> dm_next_event_seq d then
         (Inl (ConflictError ''event sequence is stale''), d)
       else
         let ttl = (case ttl_ms of None \<Rightarrow> dm_arm_timeout_ms d | Some t \<Rightarrow> t)
         in if \<not> timing_ok ttl then
              (Inl (DomainError ''arm ttl is outside the rollover-safe range''), d)
            else
              bind_st (dev_allocate d) (\<lambda>seq d.
                (Inr False,
                 d\<lparr>dm_active := Some
                      \<lparr>ae_event_seq = seq, ae_session_id = Some session_id, ae_attributed = True,
                       ae_state = ARMED, ae_pulses = 0, ae_armed_ms = now_ms,
                       ae_started_ms = None, ae_last_pulse_ms = None,
                       ae_arm_deadline_ms = Some (now_ms + ttl), ae_settle_deadline_ms = None\<rparr>,
                   dm_state := ARMED\<rparr>))))"

definition dev_cancel :: "int \<Rightarrow> string \<Rightarrow> int \<Rightarrow> device \<Rightarrow> (bool \<times> device_result option) result \<times> device" where
  "dev_cancel event_seq session_id now_ms d =
     bind_st (validate_now now_ms, d) (\<lambda>_ d.
     bind_st (dev_tick now_ms d) (\<lambda>_ d.
       case retained_match d event_seq session_id of
         Some r \<Rightarrow> (Inr (True, Some r), d)
       | None \<Rightarrow>
           (if \<not> active_matches d event_seq session_id then
              (Inl (ConflictError ''cancel target is stale''), d)
            else if map_option ae_pulses (dm_active d) = Some 0 then
              (Inr (False, None), d\<lparr>dm_active := None, dm_state := IDLE\<rparr>)
            else
              bind_st (dev_finalize INTERRUPTED now_ms ''none'' d) (\<lambda>r d. (Inr (False, Some r), d)))))"

definition leave_terminal :: "device \<Rightarrow> device" where
  "leave_terminal d =
     (if dm_active d = None \<and> is_terminal (dm_state d) then d\<lparr>dm_state := IDLE\<rparr> else d)"

definition dev_acknowledge :: "int \<Rightarrow> device \<Rightarrow> bool \<times> device" where
  "dev_acknowledge event_seq d =
     (let already = \<not> od_mem event_seq (dm_results d);
          d = d\<lparr>dm_results := od_pop (dm_results d) event_seq\<rparr>
      in (already, leave_terminal d))"

text \<open>\<open>pulse\<close>, in three parts: the saturation of the lifetime counter, the deadline that passed
  before the pulse, and the counting itself.\<close>

definition pulse_saturate :: "int \<Rightarrow> device \<Rightarrow> unit result \<times> device" where
  "pulse_saturate now_ms d0 =
     (let d = d0\<lparr>dm_lifetime_pulses := UINT64_MAX, dm_fault := ''lifetime_saturated''\<rparr>;
          d' = (case dm_active d of
                  Some a \<Rightarrow>
                    if ae_pulses a \<noteq> 0 then snd (dev_finalize INTERRUPTED now_ms (dm_fault d) d)
                    else d
                | None \<Rightarrow> d)
      in (Inl (ConflictError ''lifetime pulse counter saturated''), d'))"

definition pulse_advance :: "int \<Rightarrow> device \<Rightarrow> unit result \<times> device" where
  "pulse_advance now_ms d =
     (case dm_active d of
        None \<Rightarrow> (Inr (), d)
      | Some a \<Rightarrow>
          let deadline = (if ae_state a = ARMED then ae_arm_deadline_ms a
                          else if ae_state a = SETTLING then ae_settle_deadline_ms a
                          else None)
          in (case deadline of
                Some t \<Rightarrow>
                  (if now_ms > t then bind_st (dev_tick now_ms d) (\<lambda>_ d. (Inr (), d)) else (Inr (), d))
              | None \<Rightarrow> (Inr (), d)))"

definition pulse_count :: "int \<Rightarrow> int \<Rightarrow> device \<Rightarrow> unit result \<times> device" where
  "pulse_count count now_ms d0 =
     (let d = d0\<lparr>dm_lifetime_pulses := dm_lifetime_pulses d0 + count,
                 dm_last_now_ms := max (dm_last_now_ms d0) now_ms\<rparr>
      in case dm_active d of
           None \<Rightarrow>
             (if int (length (dm_results d)) \<ge> dm_result_capacity d then
                (Inr (), d\<lparr>dm_recovery_pulses := dm_recovery_pulses d + count,
                           dm_fault := ''result_store_full''\<rparr>)
              else
                bind_st (dev_allocate d) (\<lambda>seq d.
                  (Inr (),
                   d\<lparr>dm_active := Some
                        \<lparr>ae_event_seq = seq, ae_session_id = None, ae_attributed = False,
                         ae_state = POURING, ae_pulses = count, ae_armed_ms = now_ms,
                         ae_started_ms = Some now_ms, ae_last_pulse_ms = Some now_ms,
                         ae_arm_deadline_ms = None, ae_settle_deadline_ms = None\<rparr>,
                     dm_state := POURING\<rparr>)))
         | Some a \<Rightarrow>
             (if ae_pulses a > MAX_RESULT_PULSES \<or> ae_pulses a > MAX_RESULT_PULSES - count then
                let d = d\<lparr>dm_active := Some (a\<lparr>ae_pulses := MAX_RESULT_PULSES\<rparr>),
                          dm_fault := ''session_saturated''\<rparr>
                in (Inl (ConflictError ''session pulse counter saturated''),
                    snd (dev_finalize INTERRUPTED now_ms (dm_fault d) d))
              else
                let a1 = (if ae_state a = ARMED then a\<lparr>ae_started_ms := Some now_ms\<rparr> else a);
                    a2 = a1\<lparr>ae_pulses := ae_pulses a1 + count, ae_last_pulse_ms := Some now_ms,
                            ae_settle_deadline_ms := None, ae_state := POURING\<rparr>
                in (Inr (), d\<lparr>dm_active := Some a2, dm_state := POURING\<rparr>)))"

definition dev_pulse :: "int \<Rightarrow> int \<Rightarrow> device \<Rightarrow> unit result \<times> device" where
  "dev_pulse count now_ms d =
     bind_st (validate_now now_ms, d) (\<lambda>_ d.
       if count \<le> 0 then (Inl (DomainError ''pulse count must be a positive integer''), d)
       else if dm_lifetime_pulses d > UINT64_MAX - count then pulse_saturate now_ms d
       else
         bind_st (pulse_advance now_ms d) (\<lambda>_ d. pulse_count count now_ms (leave_terminal d)))"

definition dev_reset :: "string \<Rightarrow> int \<Rightarrow> device \<Rightarrow> device" where
  "dev_reset boot_id now_ms d =
     d\<lparr>dm_boot_id := boot_id, dm_state := IDLE, dm_lifetime_pulses := 0, dm_next_event_seq := 1,
       dm_active := None, dm_results := [], dm_recovery_pulses := 0, dm_fault := ''none'',
       dm_last_now_ms := now_ms\<rparr>"

definition status_of :: "device \<Rightarrow> device_status" where
  "status_of d =
     (let terminal = (if dm_results d = [] then None else Some (last (od_values (dm_results d))))
      in \<lparr>ds_state = dm_state d, ds_boot_id = dm_boot_id d,
          ds_event_seq = (case dm_active d of Some a \<Rightarrow> Some (ae_event_seq a)
                          | None \<Rightarrow> map_option dr_event_seq terminal),
          ds_session_id = (case dm_active d of Some a \<Rightarrow> ae_session_id a
                           | None \<Rightarrow> (case terminal of Some r \<Rightarrow> dr_session_id r | None \<Rightarrow> None)),
          ds_attributed = (case dm_active d of Some a \<Rightarrow> ae_attributed a
                           | None \<Rightarrow> (case terminal of Some r \<Rightarrow> dr_attributed r | None \<Rightarrow> False)),
          ds_session_pulses = (case dm_active d of Some a \<Rightarrow> ae_pulses a
                               | None \<Rightarrow> (case terminal of Some r \<Rightarrow> dr_raw_pulses r | None \<Rightarrow> 0)),
          ds_lifetime_pulses = dm_lifetime_pulses d, ds_uptime_ms = dm_last_now_ms d,
          ds_arm_remaining_ms =
            (case dm_active d of
               Some a \<Rightarrow> (case (ae_state a, ae_arm_deadline_ms a) of
                   (ARMED, Some deadline) \<Rightarrow> max 0 (deadline - dm_last_now_ms d)
                 | _ \<Rightarrow> 0)
             | None \<Rightarrow> 0),
          ds_next_event_seq = dm_next_event_seq d,
          ds_retained_results = int (length (dm_results d)),
          ds_recovery_pulses = dm_recovery_pulses d, ds_fault = dm_fault d\<rparr>)"

definition dev_status :: "int option \<Rightarrow> device \<Rightarrow> device_status result \<times> device" where
  "dev_status now_ms d =
     (case now_ms of
        None \<Rightarrow> (Inr (status_of d), d)
      | Some now \<Rightarrow> bind_st (dev_tick now d) (\<lambda>_ d. (Inr (status_of d), d)))"

end
