(* ===== verification/KP_Simulator.thy ===== *)
theory KP_Simulator
  imports KP_Frames KP_Device
begin

text \<open>
  The simulated device behind the transport interface, \<open>src/kegpulse/serialio/simulator.py\<close>: it
  parses request frames, dispatches them to the device machine of \<open>KP_Device\<close>, and queues the
  encoded responses for the reader, with the fault injection of the source.  Every method is a
  function on the simulator's state; the condition variable is not modelled, since every method
  body runs under it.  \<open>read\<close> is the body of its loop once waiting is over: the caller gets the
  available bytes, or nothing after the timeout.
\<close>

section \<open>State\<close>

record sim =
  sm_device :: device
  sm_now_ms :: int
  sm_available :: bool
  sm_open :: bool
  sm_incoming :: string
  sm_delayed :: "string list"
  sm_parser :: frame_parser
  sm_corrupt_next :: bool
  sm_duplicate_next :: bool
  sm_delay_next :: bool
  sm_chunk_size :: "nat option"

definition new_sim :: "int \<Rightarrow> int \<Rightarrow> sim result" where
  "new_sim flow_gap_ms settling_ms =
     bind_res (new_device ''4B454750554C5345'' ''0000000000000001'' 15000 flow_gap_ms settling_ms 4) (\<lambda>d.
       Inr \<lparr>sm_device = d, sm_now_ms = 0, sm_available = True, sm_open = False, sm_incoming = [],
            sm_delayed = [], sm_parser = new_parser MAX_FRAME_BYTES, sm_corrupt_next = False,
            sm_duplicate_next = False, sm_delay_next = False, sm_chunk_size = None\<rparr>)"

definition sim_unavailable :: py_exc where
  "sim_unavailable = TransportUnavailable ''simulated device is disconnected''"

definition sim_is_open :: "sim \<Rightarrow> bool" where
  "sim_is_open s = (sm_open s \<and> sm_available s)"

definition sim_open :: "sim \<Rightarrow> unit result \<times> sim" where
  "sim_open s = (if \<not> sm_available s then (Inl sim_unavailable, s) else (Inr (), s\<lparr>sm_open := True\<rparr>))"

definition sim_close :: "sim \<Rightarrow> sim" where
  "sim_close s = s\<lparr>sm_open := False\<rparr>"

section \<open>The bytes queued for the reader\<close>

text \<open>\<open>encoded[: marker + 1] + b"0000\n"\<close>, the line with its checksum blanked.\<close>

definition corrupted :: "string \<Rightarrow> string" where
  "corrupted encoded =
     (if CHR ''*'' \<in> set encoded then fst (rsplit_last (CHR ''*'') encoded) @ ''*'' else []) @ ''0000'' @ [LF]"

definition sim_enqueue :: "string \<Rightarrow> sim \<Rightarrow> sim" where
  "sim_enqueue encoded0 s0 =
     (let (encoded, s) = (if sm_corrupt_next s0 then (corrupted encoded0, s0\<lparr>sm_corrupt_next := False\<rparr>)
                          else (encoded0, s0))
      in if sm_delay_next s then s\<lparr>sm_delay_next := False, sm_delayed := sm_delayed s @ [encoded]\<rparr>
         else let s = s\<lparr>sm_incoming := sm_incoming s @ encoded\<rparr>
              in if sm_duplicate_next s then
                   s\<lparr>sm_duplicate_next := False, sm_incoming := sm_incoming s @ encoded\<rparr>
                 else s)"

definition sim_read :: "nat \<Rightarrow> sim \<Rightarrow> string result \<times> sim" where
  "sim_read maximum s =
     (if sm_incoming s = [] then
        (if \<not> sm_open s \<or> \<not> sm_available s then (Inl sim_unavailable, s) else (Inr [], s))
      else
        let count0 = min maximum (length (sm_incoming s));
            count = (case sm_chunk_size s of
                       Some n \<Rightarrow> if n \<noteq> 0 then min count0 n else count0 | None \<Rightarrow> count0)
        in (Inr (take count (sm_incoming s)), s\<lparr>sm_incoming := drop count (sm_incoming s)\<rparr>))"

section \<open>Response frames\<close>

text \<open>\<open>FrameError\<close> is a \<open>ValueError\<close>.\<close>

definition as_value_error :: "frame_error + 'a \<Rightarrow> 'a result" where
  "as_value_error r = (case r of Inl e \<Rightarrow> Inl (ValueError (err_message e)) | Inr x \<Rightarrow> Inr x)"

definition show_bool :: "bool \<Rightarrow> string" where
  "show_bool b = show_int (if b then 1 else 0)"

definition sim_response :: "frame \<Rightarrow> string \<Rightarrow> field_dict \<Rightarrow> string result" where
  "sim_response request operation flds =
     as_value_error (encode_frame ''R'' (fr_request_id request) operation flds)"

definition sim_error :: "frame \<Rightarrow> string \<Rightarrow> string result" where
  "sim_error request token =
     as_value_error (encode_frame ''E'' (fr_request_id request) ''ERROR''
       [(''code'', token), (''op'', fr_operation request)])"

definition status_fields :: "device_status \<Rightarrow> field_dict" where
  "status_fields st =
     [(''state'', device_state_value (ds_state st)), (''boot'', ds_boot_id st),
      (''seq'', (case ds_event_seq st of Some n \<Rightarrow> show_int n | None \<Rightarrow> ''none'')),
      (''sid'', (case ds_session_id st of Some t \<Rightarrow> if t = [] then ''none'' else t | None \<Rightarrow> ''none'')),
      (''attributed'', show_bool (ds_attributed st)),
      (''pulses'', show_int (ds_session_pulses st)), (''lifetime'', show_int (ds_lifetime_pulses st)),
      (''uptime'', show_int (ds_uptime_ms st)), (''next'', show_int (ds_next_event_seq st)),
      (''retained'', show_int (ds_retained_results st)),
      (''arm_left'', show_int (ds_arm_remaining_ms st))]"

definition result_fields :: "device_result \<Rightarrow> field_dict" where
  "result_fields r =
     [(''dev'', dr_device_id r), (''boot'', dr_boot_id r), (''seq'', show_int (dr_event_seq r)),
      (''sid'', (case dr_session_id r of Some t \<Rightarrow> if t = [] then ''none'' else t | None \<Rightarrow> ''none'')),
      (''attr'', show_bool (dr_attributed r)), (''st'', device_state_value (dr_status r)),
      (''pulses'', show_int (dr_raw_pulses r)), (''life'', show_int (dr_lifetime_pulses r)),
      (''start'', show_int (dr_started_ms r)), (''end'', show_int (dr_ended_ms r)),
      (''fault'', dr_fault r)]"

definition counters_fields :: "device \<Rightarrow> field_dict" where
  "counters_fields d =
     [(''accepted'', show_int (dm_lifetime_pulses d)), (''rejected'', show_int 0),
      (''noise_gate_us'', show_int 0), (''recovery'', show_int (dm_recovery_pulses d)),
      (''fault'', dm_fault d)]"

definition status_frame :: "frame \<Rightarrow> int \<Rightarrow> device \<Rightarrow> string result \<times> device" where
  "status_frame request now_ms d =
     bind_st (dev_status (Some now_ms) d) (\<lambda>st d. (sim_response request ''STATUS'' (status_fields st), d))"

definition result_frame :: "device_result \<Rightarrow> string result" where
  "result_frame r = as_value_error (encode_frame ''R'' ''00000000'' ''RESULT'' (result_fields r))"

fun all_results :: "('a \<Rightarrow> 'b result) \<Rightarrow> 'a list \<Rightarrow> 'b list result" where
  "all_results f [] = Inr []"
| "all_results f (x # xs) = bind_res (f x) (\<lambda>y. bind_res (all_results f xs) (\<lambda>ys. Inr (y # ys)))"

section \<open>Requests\<close>

text \<open>\<open>fields[key]\<close>, and \<open>int(fields[key])\<close>.\<close>

definition need :: "field_dict \<Rightarrow> string \<Rightarrow> string result" where
  "need flds k = (case od_get flds k of Some v \<Rightarrow> Inr v | None \<Rightarrow> Inl (KeyError k))"

definition to_int :: "string \<Rightarrow> int result" where
  "to_int text = (case py_int text of Some n \<Rightarrow> Inr n | None \<Rightarrow> Inl (ValueError ''invalid literal for int()''))"

definition need_int :: "field_dict \<Rightarrow> string \<Rightarrow> int result" where
  "need_int flds k = bind_res (need flds k) to_int"

fun contains :: "string \<Rightarrow> string \<Rightarrow> bool" where
  "contains sub [] = (sub = [])"
| "contains sub (c # s) = (starts_with sub (c # s) \<or> contains sub s)"

definition single :: "string result \<Rightarrow> string list result" where
  "single r = bind_res r (\<lambda>x. Inr [x])"

definition handle_hello :: "frame \<Rightarrow> device \<Rightarrow> string list result" where
  "handle_hello request d =
     (case (need_int (fr_fields request) ''min'', need_int (fr_fields request) ''max'') of
        (Inr minimum, Inr maximum) \<Rightarrow>
          (if minimum < 0 \<or> maximum < minimum \<or> minimum > 1 \<or> maximum < 1 then
             single (sim_error request ''UNSUPPORTED_VERSION'')
           else single (sim_response request ''HELLO''
             [(''proto'', show_int 1), (''fw'', ''1.0.0-sim''), (''device'', dm_device_id d),
              (''boot'', dm_boot_id d), (''reset'', ''simulated''),
              (''caps'', ''status.results.counters.demo'')]))
      | _ \<Rightarrow> single (sim_error request ''MALFORMED''))"

definition handle_arm :: "frame \<Rightarrow> int \<Rightarrow> device \<Rightarrow> string list result \<times> device" where
  "handle_arm request now_ms d =
     (let flds = fr_fields request
      in if od_get flds ''boot'' \<noteq> Some (dm_boot_id d) then (single (sim_error request ''STALE''), d)
         else
           let session_id = field flds ''sid''
           in if length session_id \<noteq> 32 \<or> \<not> list_all is_hex_lower session_id then
                (single (sim_error request ''RANGE''), d)
              else
                bind_st (need_int flds ''seq'', d) (\<lambda>seq d.
                bind_st (need_int flds ''ttl'', d) (\<lambda>ttl d.
                bind_st (dev_arm session_id seq now_ms (Some ttl) d) (\<lambda>duplicate d.
                  (bind_res (need flds ''seq'') (\<lambda>seq_text. bind_res (need flds ''sid'') (\<lambda>sid.
                     single (sim_response request ''ARM''
                       [(''state'', ''armed''), (''boot'', dm_boot_id d), (''seq'', seq_text),
                        (''sid'', sid), (''already'', show_bool duplicate)]))), d)))))"

definition handle_cancel :: "frame \<Rightarrow> int \<Rightarrow> device \<Rightarrow> string list result \<times> device" where
  "handle_cancel request now_ms d =
     (let flds = fr_fields request
      in if od_get flds ''boot'' \<noteq> Some (dm_boot_id d) then (single (sim_error request ''STALE''), d)
         else
           bind_st (need_int flds ''seq'', d) (\<lambda>seq d.
           bind_st (need flds ''sid'', d) (\<lambda>sid d.
           bind_st (dev_cancel seq sid now_ms d) (\<lambda>(duplicate, result) d.
             (bind_res (case result of Some r \<Rightarrow> single (result_frame r) | None \<Rightarrow> Inr []) (\<lambda>output.
              bind_res (sim_response request ''CANCEL'' [(''already'', show_bool duplicate)]) (\<lambda>last_frame.
                Inr (output @ [last_frame]))), d)))))"

definition handle_ack :: "frame \<Rightarrow> device \<Rightarrow> string list result \<times> device" where
  "handle_ack request d =
     (let flds = fr_fields request
      in if (od_mem ''dev'' flds \<and> od_get flds ''dev'' \<noteq> Some (dm_device_id d)) \<or>
            od_get flds ''boot'' \<noteq> Some (dm_boot_id d) then
           (single (sim_error request ''STALE''), d)
         else
           bind_st (need_int flds ''seq'', d) (\<lambda>seq d.
             let (already, d) = dev_acknowledge seq d
             in (single (sim_response request ''ACK'' [(''already'', show_bool already)]), d)))"

definition handle_results :: "frame \<Rightarrow> device \<Rightarrow> string list result" where
  "handle_results request d =
     bind_res (all_results result_frame (od_values (dm_results d))) (\<lambda>output.
     bind_res (sim_response request ''RESULTS_END'' [(''count'', show_int (int (length output)))]) (\<lambda>last_frame.
       Inr (output @ [last_frame])))"

text \<open>The body of the \<open>try\<close>; what it raises is turned into an error frame by \<open>sim_handle\<close>.\<close>

definition handle_query :: "frame \<Rightarrow> int \<Rightarrow> device \<Rightarrow> string list result \<times> device" where
  "handle_query request now_ms d =
     (if fr_operation request = ''HELLO'' then (handle_hello request d, d)
      else if fr_operation request = ''PING'' then
        (bind_res (need (fr_fields request) ''nonce'') (\<lambda>nonce.
           single (sim_response request ''PING'' [(''nonce'', nonce)])), d)
      else if fr_operation request = ''STATUS'' then
        bind_st (status_frame request now_ms d) (\<lambda>f d. (Inr [f], d))
      else if fr_operation request = ''COUNTERS'' then
        (single (sim_response request ''COUNTERS'' (counters_fields d)), d)
      else if fr_operation request = ''ARM'' then handle_arm request now_ms d
      else if fr_operation request = ''CANCEL'' then handle_cancel request now_ms d
      else if fr_operation request = ''ACK'' then handle_ack request d
      else if fr_operation request = ''RESULTS'' then (handle_results request d, d)
      else (single (sim_error request ''UNSUPPORTED''), d))"

definition rescue :: "frame \<Rightarrow> py_exc \<Rightarrow> string list result" where
  "rescue request e =
     (case e of
        KeyError _ \<Rightarrow> single (sim_error request ''MALFORMED'')
      | ConflictError message \<Rightarrow>
          single (sim_error request (if contains ''stale'' message then ''STALE'' else ''BUSY''))
      | _ \<Rightarrow> if is_value_error e then single (sim_error request ''RANGE'') else Inl e)"

definition sim_handle :: "frame \<Rightarrow> int \<Rightarrow> device \<Rightarrow> string list result \<times> device" where
  "sim_handle request now_ms d =
     bind_st (dev_tick now_ms d) (\<lambda>_ d.
       if fr_kind request \<noteq> ''Q'' then (single (sim_error request ''MALFORMED''), d)
       else
         let (r, d) = handle_query request now_ms d
         in (case r of Inr frames \<Rightarrow> (Inr frames, d) | Inl e \<Rightarrow> (rescue request e, d)))"

section \<open>Writing requests\<close>

text \<open>\<open>_emit_new_result\<close>: the results retained now and not before.\<close>

fun emit_results :: "device_result list \<Rightarrow> sim \<Rightarrow> unit result \<times> sim" where
  "emit_results [] s = (Inr (), s)"
| "emit_results (r # rs) s =
     (case result_frame r of Inl e \<Rightarrow> (Inl e, s) | Inr bytes \<Rightarrow> emit_results rs (sim_enqueue bytes s))"

definition emit_new_result :: "int list \<Rightarrow> sim \<Rightarrow> unit result \<times> sim" where
  "emit_new_result prior s =
     emit_results (map snd (filter (\<lambda>(k, _). k \<notin> set prior) (dm_results (sm_device s)))) s"

fun answer_errors :: "frame_error list \<Rightarrow> sim \<Rightarrow> unit result \<times> sim" where
  "answer_errors [] s = (Inr (), s)"
| "answer_errors (e # es) s =
     (case as_value_error (encode_frame ''E'' ''00000000'' ''ERROR''
             [(''code'', frame_error_code_value (err_code e)), (''op'', ''PARSE'')]) of
        Inl x \<Rightarrow> (Inl x, s)
      | Inr bytes \<Rightarrow> answer_errors es (sim_enqueue bytes s))"

definition answer_frame :: "frame \<Rightarrow> sim \<Rightarrow> unit result \<times> sim" where
  "answer_frame request s =
     (let prior = od_keys (dm_results (sm_device s));
          (r, d) = sim_handle request (sm_now_ms s) (sm_device s);
          s = s\<lparr>sm_device := d\<rparr>
      in case r of
           Inl e \<Rightarrow> (Inl e, s)
         | Inr responses \<Rightarrow>
             bind_st (emit_new_result prior s) (\<lambda>_ s. (Inr (), fold sim_enqueue responses s)))"

fun answer_frames :: "frame list \<Rightarrow> sim \<Rightarrow> unit result \<times> sim" where
  "answer_frames [] s = (Inr (), s)"
| "answer_frames (f # fs) s = bind_st (answer_frame f s) (\<lambda>_ s. answer_frames fs s)"

definition sim_write :: "string \<Rightarrow> sim \<Rightarrow> nat result \<times> sim" where
  "sim_write data s =
     (if \<not> sm_open s \<or> \<not> sm_available s then (Inl sim_unavailable, s)
      else
        let (p, frames, errors) = parser_feed (sm_parser s) data
        in bind_st (answer_errors errors (s\<lparr>sm_parser := p\<rparr>)) (\<lambda>_ s.
           bind_st (answer_frames frames s) (\<lambda>_ s. (Inr (length data), s))))"

section \<open>Driving the simulation\<close>

fun pulse_each :: "nat \<Rightarrow> int \<Rightarrow> sim \<Rightarrow> unit result \<times> sim" where
  "pulse_each 0 interval_ms s = (Inr (), s)"
| "pulse_each (Suc n) interval_ms s =
     (let now = sm_now_ms s + interval_ms; (r, d) = dev_pulse 1 now (sm_device s);
          s = s\<lparr>sm_now_ms := now, sm_device := d\<rparr>
      in case r of Inl e \<Rightarrow> (Inl e, s) | Inr _ \<Rightarrow> pulse_each n interval_ms s)"

definition sim_inject_pulses :: "int \<Rightarrow> int \<Rightarrow> sim \<Rightarrow> unit result \<times> sim" where
  "sim_inject_pulses count interval_ms s =
     (if \<not> sm_available s then (Inl sim_unavailable, s)
      else
        let prior = od_keys (dm_results (sm_device s))
        in bind_st
             (if interval_ms \<le> 0 then
                let (r, d) = dev_pulse count (sm_now_ms s) (sm_device s) in (r, s\<lparr>sm_device := d\<rparr>)
              else pulse_each (nat count) interval_ms s)
             (\<lambda>_ s. emit_new_result prior s))"

definition sim_advance :: "int \<Rightarrow> sim \<Rightarrow> unit result \<times> sim" where
  "sim_advance milliseconds s =
     (if \<not> (0 \<le> milliseconds \<and> milliseconds \<le> 600000) then
        (Inl (DomainError ''advance must be between 0 and 600000 milliseconds''), s)
      else
        let prior = od_keys (dm_results (sm_device s)); now = sm_now_ms s + milliseconds;
            (r, d) = dev_tick now (sm_device s); s = s\<lparr>sm_now_ms := now, sm_device := d\<rparr>
        in bind_st (r, s) (\<lambda>_ s. emit_new_result prior s))"

definition sim_finish_pour :: "sim \<Rightarrow> unit result \<times> sim" where
  "sim_finish_pour s = sim_advance (dm_flow_gap_ms (sm_device s) + dm_settling_ms (sm_device s)) s"

definition sim_disconnect :: "sim \<Rightarrow> sim" where
  "sim_disconnect s = s\<lparr>sm_available := False, sm_open := False\<rparr>"

definition sim_reconnect :: "sim \<Rightarrow> sim" where
  "sim_reconnect s = s\<lparr>sm_available := True\<rparr>"

definition next_boot :: "string \<Rightarrow> string" where
  "next_boot boot = show_hex 16 ((digits_val 16 boot + 1) mod 2 ^ 64)"

definition sim_reset :: "sim \<Rightarrow> sim" where
  "sim_reset s =
     s\<lparr>sm_now_ms := 0, sm_device := dev_reset (next_boot (dm_boot_id (sm_device s))) 0 (sm_device s),
       sm_incoming := []\<rparr>"

definition sim_configure_fault :: "string \<Rightarrow> bool \<Rightarrow> sim \<Rightarrow> unit result \<times> sim" where
  "sim_configure_fault fault enabled s =
     (if fault = ''corrupt_next'' then (Inr (), s\<lparr>sm_corrupt_next := enabled\<rparr>)
      else if fault = ''duplicate_next'' then (Inr (), s\<lparr>sm_duplicate_next := enabled\<rparr>)
      else if fault = ''delay_next'' then (Inr (), s\<lparr>sm_delay_next := enabled\<rparr>)
      else if fault = ''partial'' then
        (Inr (), s\<lparr>sm_chunk_size := (if enabled then Some 3 else None)\<rparr>)
      else (Inl (ValueError ''unknown simulator fault''), s))"

definition sim_flush_delayed :: "bool \<Rightarrow> sim \<Rightarrow> sim" where
  "sim_flush_delayed backwards s =
     (let values = (if backwards then rev (sm_delayed s) else sm_delayed s)
      in s\<lparr>sm_incoming := sm_incoming s @ concat values, sm_delayed := []\<rparr>)"

definition sim_inject_raw :: "string \<Rightarrow> sim \<Rightarrow> unit result \<times> sim" where
  "sim_inject_raw data s =
     (if length data > 4096 then (Inl (ValueError ''raw simulator injection exceeds 4096 bytes''), s)
      else (Inr (), s\<lparr>sm_incoming := sm_incoming s @ data\<rparr>))"

text \<open>\<open>int(str(action.get(key, default)))\<close>.\<close>

definition int_of_value :: "pyval \<Rightarrow> int result" where
  "int_of_value v =
     (case v of VInt n \<Rightarrow> Inr n | VStr t \<Rightarrow> to_int t
      | VBool b \<Rightarrow> to_int (if b then ''True'' else ''False'') | VNone \<Rightarrow> to_int ''None'')"

definition run_action :: "(string, pyval) odict \<Rightarrow> sim \<Rightarrow> unit result \<times> sim" where
  "run_action action s =
     (let get = (\<lambda>k default. case od_get action k of Some v \<Rightarrow> v | None \<Rightarrow> VInt default);
          knd = od_get action ''action''
      in if knd = Some (VStr ''pulse'') then
           bind_st (int_of_value (get ''count'' 1), s) (\<lambda>n s. sim_inject_pulses n 0 s)
         else if knd = Some (VStr ''advance'') then
           bind_st (int_of_value (get ''milliseconds'' 0), s) (\<lambda>n s. sim_advance n s)
         else if knd = Some (VStr ''finish'') then sim_finish_pour s
         else if knd = Some (VStr ''disconnect'') then (Inr (), sim_disconnect s)
         else if knd = Some (VStr ''reconnect'') then (Inr (), sim_reconnect s)
         else if knd = Some (VStr ''reset'') then (Inr (), sim_reset s)
         else (Inl (ValueError ''unknown simulator action''), s))"

fun run_actions :: "(string, pyval) odict list \<Rightarrow> sim \<Rightarrow> unit result \<times> sim" where
  "run_actions [] s = (Inr (), s)"
| "run_actions (a # as) s = bind_st (run_action a s) (\<lambda>_ s. run_actions as s)"

definition sim_run_script :: "(string, pyval) odict list \<Rightarrow> sim \<Rightarrow> unit result \<times> sim" where
  "sim_run_script actions s =
     (if length actions > 100 then (Inl (ValueError ''simulator script exceeds 100 actions''), s)
      else run_actions actions s)"

end
