(* ===== verification/KP_DeviceFacts.thy ===== *)
theory KP_DeviceFacts
  imports KP_Device
begin

text \<open>
  What the device machine of \<open>KP_Device\<close> guarantees: a representation invariant kept by every
  method (also by the ones that raise), the conservation of counted pulses, the capacity of the
  result store, and the independence of \<open>tick\<close> from how often it is called.
\<close>

section \<open>The invariant\<close>

definition result_ok :: "device \<Rightarrow> int \<Rightarrow> device_result \<Rightarrow> bool" where
  "result_ok d k r \<longleftrightarrow>
     dr_event_seq r = k \<and> 1 \<le> k \<and> k < dm_next_event_seq d \<and>
     dr_device_id r = dm_device_id d \<and> dr_boot_id r = dm_boot_id d \<and>
     is_terminal (dr_status r) \<and> (dr_status r = TIMED_OUT \<longleftrightarrow> dr_raw_pulses r = 0) \<and>
     0 \<le> dr_raw_pulses r \<and> dr_raw_pulses r \<le> dr_lifetime_pulses r \<and>
     dr_lifetime_pulses r \<le> dm_lifetime_pulses d \<and>
     (dr_attributed r \<longleftrightarrow> dr_session_id r \<noteq> None)"

definition active_ok :: "device \<Rightarrow> active_event \<Rightarrow> bool" where
  "active_ok d a \<longleftrightarrow>
     1 \<le> ae_event_seq a \<and> ae_event_seq a < dm_next_event_seq d \<and>
     od_get (dm_results d) (ae_event_seq a) = None \<and>
     (ae_attributed a \<longleftrightarrow> ae_session_id a \<noteq> None) \<and>
     (case ae_state a of
        ARMED \<Rightarrow> ae_pulses a = 0 \<and> ae_attributed a \<and> ae_arm_deadline_ms a \<noteq> None
      | POURING \<Rightarrow> 0 < ae_pulses a \<and> ae_last_pulse_ms a \<noteq> None \<and> ae_settle_deadline_ms a = None
      | SETTLING \<Rightarrow> 0 < ae_pulses a \<and>
          (\<exists>t. ae_last_pulse_ms a = Some t \<and>
             ae_settle_deadline_ms a = Some (t + dm_flow_gap_ms d + dm_settling_ms d))
      | _ \<Rightarrow> False)"

definition active_pulses :: "device \<Rightarrow> int" where
  "active_pulses d = (case dm_active d of None \<Rightarrow> 0 | Some a \<Rightarrow> ae_pulses a)"

definition retained_pulses :: "device \<Rightarrow> int" where
  "retained_pulses d = sum_list (map dr_raw_pulses (od_values (dm_results d)))"

text \<open>The pulses the device can still tell the host about.\<close>

definition accounted :: "device \<Rightarrow> int" where
  "accounted d = retained_pulses d + active_pulses d + dm_recovery_pulses d"

definition busy :: "device \<Rightarrow> nat" where
  "busy d = (case dm_active d of None \<Rightarrow> 0 | Some _ \<Rightarrow> 1)"

definition config_ok :: "device \<Rightarrow> bool" where
  "config_ok d \<longleftrightarrow> timing_ok (dm_arm_timeout_ms d) \<and> timing_ok (dm_flow_gap_ms d) \<and>
     timing_ok (dm_settling_ms d) \<and> 1 \<le> dm_result_capacity d \<and> dm_result_capacity d \<le> 16"

definition counters_ok :: "device \<Rightarrow> bool" where
  "counters_ok d \<longleftrightarrow> 1 \<le> dm_next_event_seq d \<and> dm_next_event_seq d \<le> UINT32_MAX + 1 \<and>
     dm_lifetime_pulses d \<le> UINT64_MAX \<and> 0 \<le> dm_recovery_pulses d \<and>
     accounted d \<le> dm_lifetime_pulses d \<and> 0 \<le> dm_last_now_ms d"

definition store_ok :: "device \<Rightarrow> bool" where
  "store_ok d \<longleftrightarrow> od_wf (dm_results d) \<and> (\<forall>(k, r) \<in> set (dm_results d). result_ok d k r) \<and>
     int (length (dm_results d) + busy d) \<le> dm_result_capacity d"

definition phase_ok :: "device \<Rightarrow> bool" where
  "phase_ok d \<longleftrightarrow>
     (case dm_active d of
        None \<Rightarrow> dm_state d = IDLE \<or> is_terminal (dm_state d)
      | Some a \<Rightarrow> active_ok d a \<and> dm_state d = ae_state a)"

definition dev_inv :: "device \<Rightarrow> bool" where
  "dev_inv d \<longleftrightarrow> config_ok d \<and> counters_ok d \<and> store_ok d \<and> phase_ok d"

lemmas dev_inv_defs = dev_inv_def config_ok_def counters_ok_def store_ok_def phase_ok_def
lemmas count_defs = accounted_def active_pulses_def retained_pulses_def

named_theorems dev_ops \<open>the device methods, unfolded to their cases\<close>

lemma active_ok_cases:
  assumes "active_ok d a"
  obtains (armed) dl where "ae_state a = ARMED" "ae_pulses a = 0" "ae_attributed a"
      "ae_arm_deadline_ms a = Some dl"
    | (pouring) t where "ae_state a = POURING" "0 < ae_pulses a" "ae_last_pulse_ms a = Some t"
      "ae_settle_deadline_ms a = None"
    | (settling) t where "ae_state a = SETTLING" "0 < ae_pulses a" "ae_last_pulse_ms a = Some t"
      "ae_settle_deadline_ms a = Some (t + dm_flow_gap_ms d + dm_settling_ms d)"
  using assms by (cases "ae_state a") (auto simp: active_ok_def)

lemma active_pulses_nonneg: "phase_ok d \<Longrightarrow> 0 \<le> active_pulses d"
  by (auto simp: phase_ok_def active_pulses_def split: option.splits elim: active_ok_cases)

lemma retained_nonneg: "store_ok d \<Longrightarrow> 0 \<le> retained_pulses d"
  unfolding retained_pulses_def
  by (rule sum_list_nonneg) (force simp: store_ok_def od_values_def result_ok_def)

lemma new_device_inv: "new_device i b at fg st c = Inr d \<Longrightarrow> dev_inv d"
  by (auto simp: new_device_def dev_inv_defs busy_def count_defs pulse_limits od_values_def
      split: if_splits)

section \<open>Finalizing\<close>

lemma finalize_active:
  assumes "dm_active d = Some a"
  shows "dev_finalize st ended f d =
    (Inr (result_of d a st ended f),
     d\<lparr>dm_results := od_set (dm_results d) (ae_event_seq a) (result_of d a st ended f),
       dm_active := None, dm_state := st\<rparr>)"
  using assms by (simp add: dev_finalize_def Let_def result_of_def)

lemma finalize_accounted:
  assumes "phase_ok d" "dm_active d = Some a"
  shows "accounted (snd (dev_finalize st ended f d)) = accounted d"
proof -
  have "od_get (dm_results d) (ae_event_seq a) = None"
    using assms by (simp add: phase_ok_def active_ok_def)
  then show ?thesis
    using assms(2) by (simp add: finalize_active count_defs od_values_set_fresh) (simp add: result_of_def)
qed

lemma finalize_inv:
  assumes "dev_inv d" "dm_active d = Some a" "is_terminal st" "st = TIMED_OUT \<longleftrightarrow> ae_pulses a = 0"
  shows "dev_inv (snd (dev_finalize st ended f d))"
proof -
  let ?r = "result_of d a st ended f"
  let ?d = "d\<lparr>dm_results := od_set (dm_results d) (ae_event_seq a) ?r, dm_active := None, dm_state := st\<rparr>"
  have a: "active_ok d a" and fresh: "od_get (dm_results d) (ae_event_seq a) = None"
    using assms(1,2) by (simp_all add: dev_inv_def phase_ok_def active_ok_def)
  have acc: "accounted ?d = accounted d"
    using finalize_accounted [of d a st ended f] assms(1,2) by (simp add: dev_inv_def finalize_active)
  have nn: "0 \<le> ae_pulses a" "ae_pulses a \<le> dm_lifetime_pulses d"
    using assms(1,2) retained_nonneg [of d] active_pulses_nonneg [of d]
    by (auto simp: dev_inv_def counters_ok_def accounted_def active_pulses_def)
  have "result_ok ?d (ae_event_seq a) ?r"
    using a nn assms(3,4) by (simp add: result_ok_def result_of_def active_ok_def)
  moreover have "result_ok ?d k r" if "(k, r) \<in> set (dm_results d)" for k r
    using assms(1) that by (auto simp: dev_inv_def store_ok_def result_ok_def)
  ultimately have "store_ok ?d"
    using assms(1,2) fresh
    by (auto simp: dev_inv_def store_ok_def od_wf_set od_set_fresh busy_def) 
      (metis od_set_fresh od_wf_set)
  then show ?thesis
    using assms(1-3) acc by (simp add: finalize_active dev_inv_def counters_ok_def config_ok_def phase_ok_def)
qed

lemma finalize_frame:
  assumes "dm_active d = Some a"
  shows "dm_lifetime_pulses (snd (dev_finalize st ended f d)) = dm_lifetime_pulses d"
    and "dm_next_event_seq (snd (dev_finalize st ended f d)) = dm_next_event_seq d"
    and "dm_active (snd (dev_finalize st ended f d)) = None"
  using assms by (simp_all add: finalize_active)

section \<open>Ticks\<close>

lemma inv_last_now: "dev_inv d \<Longrightarrow> 0 \<le> t \<Longrightarrow> dev_inv (d\<lparr>dm_last_now_ms := max (dm_last_now_ms d) t\<rparr>)"
  by (auto simp: dev_inv_defs active_ok_def result_ok_def busy_def count_defs split: option.splits
      device_state.splits)

lemma accounted_frame [simp]:
  "accounted (d\<lparr>dm_last_now_ms := t\<rparr>) = accounted d"
  "accounted (d\<lparr>dm_state := st\<rparr>) = accounted d"
  "accounted (d\<lparr>dm_fault := f\<rparr>) = accounted d"
  "accounted (d\<lparr>dm_lifetime_pulses := n\<rparr>) = accounted d"
  "accounted (d\<lparr>dm_next_event_seq := n\<rparr>) = accounted d"
  by (simp_all add: count_defs)

text \<open>The two transitions a tick can make on an active event, and when.\<close>

definition settle_at :: "device \<Rightarrow> active_event \<Rightarrow> int" where
  "settle_at d a = (case ae_last_pulse_ms a of Some t \<Rightarrow> t + dm_flow_gap_ms d | None \<Rightarrow> 0)"

definition finish_at :: "device \<Rightarrow> active_event \<Rightarrow> int" where
  "finish_at d a = settle_at d a + dm_settling_ms d"

definition settling :: "device \<Rightarrow> active_event \<Rightarrow> active_event" where
  "settling d a = a\<lparr>ae_state := SETTLING, ae_settle_deadline_ms := Some (finish_at d a)\<rparr>"

definition seen :: "int \<Rightarrow> device \<Rightarrow> device" where
  "seen now d = d\<lparr>dm_last_now_ms := max (dm_last_now_ms d) now\<rparr>"

lemma seen_simps [simp]:
  "dm_active (seen now d) = dm_active d" "dm_results (seen now d) = dm_results d"
  "dm_lifetime_pulses (seen now d) = dm_lifetime_pulses d" "dm_state (seen now d) = dm_state d"
  "dm_next_event_seq (seen now d) = dm_next_event_seq d"
  "dm_flow_gap_ms (seen now d) = dm_flow_gap_ms d" "dm_settling_ms (seen now d) = dm_settling_ms d"
  "accounted (seen now d) = accounted d"
  "dm_device_id (seen now d) = dm_device_id d" "dm_boot_id (seen now d) = dm_boot_id d"
  "dm_result_capacity (seen now d) = dm_result_capacity d" "result_of (seen now d) a st e f = result_of d a st e f"
  by (simp_all add: seen_def result_of_def)

lemma seen_inv: "dev_inv d \<Longrightarrow> 0 \<le> now \<Longrightarrow> dev_inv (seen now d)"
  unfolding seen_def by (rule inv_last_now)

text \<open>Closing an event: the device after \<open>finalize\<close>.\<close>

definition closed :: "active_event \<Rightarrow> device_state \<Rightarrow> int \<Rightarrow> device \<Rightarrow> device" where
  "closed a st ended d = d\<lparr>dm_results := od_set (dm_results d) (ae_event_seq a) (result_of d a st ended ''none''),
     dm_active := None, dm_state := st\<rparr>"

lemma result_of_frame [simp]:
  "result_of (d\<lparr>dm_active := x, dm_state := y\<rparr>) a st e f = result_of d a st e f"
  "result_of d (settling d' a) st e f = result_of d a st e f"
  by (simp_all add: result_of_def settling_def split: option.split)

lemma tick_negative: "now < 0 \<Longrightarrow> dev_tick now d = (Inl (DomainError ''now_ms must be a nonnegative integer''), d)"
  by (simp add: dev_tick_def validate_now_def)

lemma tick_idle: "0 \<le> now \<Longrightarrow> dm_active d = None \<Longrightarrow> dev_tick now d = (Inr None, seen now d)"
  by (simp add: dev_tick_def validate_now_def seen_def Let_def)

lemma tick_armed:
  assumes "0 \<le> now" "dm_active d = Some a" "ae_state a = ARMED" "ae_arm_deadline_ms a = Some dl"
  shows "dev_tick now d =
    (if now \<ge> dl then (Inr (Some (result_of d a TIMED_OUT dl ''none'')), closed a TIMED_OUT dl (seen now d))
     else (Inr None, seen now d))"
  using assms
  by (simp add: dev_tick_def validate_now_def finalize_active closed_def Let_def result_of_def seen_def)

lemma device_same:
  "dm_active d = x \<Longrightarrow> dm_state d = y \<Longrightarrow> d\<lparr>dm_active := x, dm_state := y\<rparr> = d"
  by (cases d) simp

lemma settling_same:
  assumes "active_ok d a" "ae_state a = SETTLING"
  shows "settling d a = a" "ae_settle_deadline_ms a = Some (finish_at d a)"
  using assms by (auto elim!: active_ok_cases simp: settling_def finish_at_def settle_at_def)

lemma tick_flow:
  assumes "dev_inv d" "0 \<le> now" "dm_active d = Some a" "ae_state a \<noteq> ARMED"
  shows "dev_tick now d =
    (if now \<ge> finish_at d a then
       (Inr (Some (result_of d a COMPLETE (finish_at d a) ''none'')),
        closed a COMPLETE (finish_at d a) (seen now d))
     else if now \<ge> settle_at d a then
       (Inr None, seen now d\<lparr>dm_active := Some (settling d a), dm_state := SETTLING\<rparr>)
     else (Inr None, seen now d))"
proof -
  have a: "active_ok d a" and st: "dm_state d = ae_state a" and gap: "0 < dm_settling_ms d"
    using assms(1,3) by (simp_all add: dev_inv_def phase_ok_def config_ok_def timing_ok_def)
  from a show ?thesis
  proof (cases rule: active_ok_cases)
    case (pouring t)
    have "dm_active (d\<lparr>dm_active := Some (settling d a), dm_state := SETTLING\<rparr>) = Some (settling d a)"
      by simp
    note fin = finalize_active [OF this]
    from pouring show ?thesis
      using assms(2,3) gap
      by (simp add: dev_tick_def validate_now_def closed_def Let_def seen_def tick_settle_def
          settle_at_def finish_at_def finalize_active)
        (simp add: settling_def settle_at_def finish_at_def result_of_def split: option.split)
  next
    case (settling t)
    then show ?thesis
      using assms(2,3) gap st settling_same [OF a]
      by (simp add: dev_tick_def validate_now_def finalize_active closed_def Let_def tick_settle_def
          device_same)
        (simp add: seen_def result_of_def device_same)
  qed (use assms(4) in simp)
qed

lemma closed_inv:
  assumes "dev_inv d" "dm_active d = Some a" "is_terminal st" "st = TIMED_OUT \<longleftrightarrow> ae_pulses a = 0"
  shows "dev_inv (closed a st e d)"
  using finalize_inv [OF assms, of e "''none''"] assms(2) by (simp add: finalize_active closed_def)

lemma closed_accounted:
  "dev_inv d \<Longrightarrow> dm_active d = Some a \<Longrightarrow> accounted (closed a st e d) = accounted d"
  using finalize_accounted [of d a st e "''none''"]
  by (simp add: dev_inv_def finalize_active closed_def)

lemma settling_inv:
  assumes "dev_inv d" "dm_active d = Some a" "ae_state a \<noteq> ARMED"
  shows "dev_inv (d\<lparr>dm_active := Some (settling d a), dm_state := SETTLING\<rparr>)"
    and "accounted (d\<lparr>dm_active := Some (settling d a), dm_state := SETTLING\<rparr>) = accounted d"
proof -
  show acc: "accounted (d\<lparr>dm_active := Some (settling d a), dm_state := SETTLING\<rparr>) = accounted d"
    using assms(2) by (simp add: count_defs settling_def)
  have a: "active_ok d a" using assms(1,2) by (simp add: dev_inv_def phase_ok_def)
  from a have "active_ok d (settling d a)"
  proof (cases rule: active_ok_cases)
    case (armed dl)
    with assms(3) show ?thesis by simp
  qed (use a in \<open>auto simp: active_ok_def settling_def finish_at_def settle_at_def\<close>)
  then show "dev_inv (d\<lparr>dm_active := Some (settling d a), dm_state := SETTLING\<rparr>)"
    using assms(1,2) acc
    by (auto simp: dev_inv_defs busy_def active_ok_def result_ok_def settling_def)
qed

text \<open>Case analysis of a tick under the invariant.\<close>

lemma tick_cases:
  assumes "dev_inv d" "0 \<le> now"
  obtains (quiet) "dev_tick now d = (Inr None, seen now d)"
    | (settled) a where "dm_active d = Some a" "ae_state a \<noteq> ARMED"
      "dev_tick now d = (Inr None, seen now d\<lparr>dm_active := Some (settling d a), dm_state := SETTLING\<rparr>)"
    | (finished) a st e where "dm_active d = Some a" "is_terminal st" "st = TIMED_OUT \<longleftrightarrow> ae_pulses a = 0"
      "e \<le> now"
      "dev_tick now d = (Inr (Some (result_of d a st e ''none'')), closed a st e (seen now d))"
proof (cases "dm_active d")
  case None
  then show ?thesis using quiet tick_idle [OF assms(2)] by simp
next
  case (Some a)
  then have a: "active_ok d a" using assms(1) by (simp add: dev_inv_def phase_ok_def)
  show ?thesis
  proof (cases "ae_state a = ARMED")
    case True
    with a obtain dl where "ae_arm_deadline_ms a = Some dl" "ae_pulses a = 0"
      by (auto elim: active_ok_cases)
    with True Some show ?thesis
      using quiet finished [of a TIMED_OUT dl] tick_armed [OF assms(2) Some True, of dl]
      by (cases "now \<ge> dl") simp_all
  next
    case False
    with a have "ae_pulses a \<noteq> 0" by (auto elim: active_ok_cases)
    with False Some show ?thesis
      using quiet settled finished [of a COMPLETE "finish_at d a"] tick_flow [OF assms Some False]
      by (auto split: if_splits)
  qed
qed

lemma tick_keeps:
  assumes "dev_inv d"
  shows "dev_inv (snd (dev_tick now d))"
    and "accounted (snd (dev_tick now d)) = accounted d"
    and "dm_lifetime_pulses (snd (dev_tick now d)) = dm_lifetime_pulses d"
    and "dm_next_event_seq (snd (dev_tick now d)) = dm_next_event_seq d"
proof -
  have "dev_inv (snd (dev_tick now d)) \<and> accounted (snd (dev_tick now d)) = accounted d \<and>
    dm_lifetime_pulses (snd (dev_tick now d)) = dm_lifetime_pulses d \<and>
    dm_next_event_seq (snd (dev_tick now d)) = dm_next_event_seq d"
  proof (cases "now < 0")
    case True
    with assms show ?thesis by (simp add: tick_negative)
  next
    case False
    then have now: "0 \<le> now" by simp
    note inv = seen_inv [OF assms now]
    from assms now show ?thesis
    proof (cases rule: tick_cases)
      case quiet
      then show ?thesis by (simp add: inv)
    next
      case (settled a)
      have "settling (seen now d) a = settling d a"
        by (simp add: settling_def finish_at_def settle_at_def cong: option.case_cong)
      then show ?thesis
        using settling_inv [OF inv, of a] settled by simp
    next
      case (finished a st e)
      then show ?thesis
        using closed_inv [OF inv, of a st e] closed_accounted [OF inv, of a st e]
        by (simp add: closed_def)
    qed
  qed
  then show "dev_inv (snd (dev_tick now d))"
    and "accounted (snd (dev_tick now d)) = accounted d"
    and "dm_lifetime_pulses (snd (dev_tick now d)) = dm_lifetime_pulses d"
    and "dm_next_event_seq (snd (dev_tick now d)) = dm_next_event_seq d"
    by simp_all
qed

lemma tick_ok: "dev_inv d \<Longrightarrow> 0 \<le> now \<Longrightarrow> \<exists>r. dev_tick now d = (Inr r, snd (dev_tick now d))"
  by (erule (1) tick_cases) auto

text \<open>How often the clock is read does not matter: two ticks are one tick at the later time.\<close>

lemma seen_seen [simp]: "t1 \<le> t2 \<Longrightarrow> seen t2 (seen t1 d) = seen t2 d"
  by (simp add: seen_def max_def)

lemma seen_closed: "seen t (closed a st e d) = closed a st e (seen t d)"
  by (simp add: seen_def closed_def result_of_def)

lemma seen_settled:
  "seen t (d\<lparr>dm_active := x, dm_state := y\<rparr>) = seen t d\<lparr>dm_active := x, dm_state := y\<rparr>"
  by (simp add: seen_def)

lemma closed_settled:
  "closed (settling d a) st e (d'\<lparr>dm_active := x, dm_state := y\<rparr>) = closed a st e d'"
  by (simp add: closed_def) (simp add: settling_def)

lemma settling_frame [simp]:
  "settle_at d' (settling d a) = settle_at d' a" "finish_at d' (settling d a) = finish_at d' a"
  "ae_state (settling d a) = SETTLING"
  by (simp_all add: settling_def settle_at_def finish_at_def)

lemma at_frame [simp]:
  "settle_at (seen t d) a = settle_at d a" "finish_at (seen t d) a = finish_at d a"
  "settle_at (d\<lparr>dm_active := x, dm_state := y\<rparr>) a = settle_at d a"
  "finish_at (d\<lparr>dm_active := x, dm_state := y\<rparr>) a = finish_at d a"
  "settling (seen t d) a = settling d a"
  "settling d (settling d a) = settling d a"
  "settling (d\<lparr>dm_active := x, dm_state := y\<rparr>) a = settling d a"
  by (simp_all add: settle_at_def finish_at_def settling_def cong: option.case_cong)

lemma closed_active [simp]: "dm_active (closed a st e d) = None"
  by (simp add: closed_def)

lemma tick_tick:
  assumes "dev_inv d" "0 \<le> t1" "t1 \<le> t2"
  shows "snd (dev_tick t2 (snd (dev_tick t1 d))) = snd (dev_tick t2 d)"
proof (cases "dm_active d")
  case None
  then show ?thesis using assms by (simp add: tick_idle)
next
  case (Some a)
  then have a: "active_ok d a" using assms(1) by (simp add: dev_inv_def phase_ok_def)
  have t2: "0 \<le> t2" using assms by simp
  note inv1 = seen_inv [OF assms(1,2)]
  show ?thesis
  proof (cases "ae_state a = ARMED")
    case True
    with a obtain dl where "ae_arm_deadline_ms a = Some dl"
      by (auto elim: active_ok_cases)
    with True Some assms show ?thesis
      by (simp add: tick_armed tick_idle t2 seen_closed)
  next
    case False
    have gap: "settle_at d a < finish_at d a"
      using assms(1) by (simp add: finish_at_def dev_inv_def config_ok_def timing_ok_def)
    note first = tick_flow [OF assms(1,2) Some False] and direct = tick_flow [OF assms(1) t2 Some False]
    let ?s = "seen t1 d\<lparr>dm_active := Some (settling d a), dm_state := SETTLING\<rparr>"
    have inv_s: "dev_inv ?s"
      using settling_inv(1) [OF inv1, of a] Some False by simp
    have second: "dev_tick t2 ?s = (if t2 \<ge> finish_at d a then
         (Inr (Some (result_of d a COMPLETE (finish_at d a) ''none'')), closed a COMPLETE (finish_at d a) (seen t2 d))
       else if t2 \<ge> settle_at d a then
         (Inr None, seen t2 d\<lparr>dm_active := Some (settling d a), dm_state := SETTLING\<rparr>)
       else (Inr None, seen t2 d\<lparr>dm_active := Some (settling d a), dm_state := SETTLING\<rparr>))"
      using tick_flow [OF inv_s t2, of "settling d a"] assms(3)
      by (simp add: seen_settled closed_settled)
    have third: "dev_tick t2 (seen t1 d) = dev_tick t2 d"
      using tick_flow [OF inv1 t2, of a] Some False assms(3) direct by simp
    from first show ?thesis
      using gap assms(3) direct second third
      by (simp add: tick_idle t2 seen_closed split: if_split)
  qed
qed

end
