(* ===== verification/KP_DeviceRuns.thy ===== *)
theory KP_DeviceRuns
  imports KP_DeviceFacts
begin

text \<open>
  Histories of the device machine: every method keeps the invariant of \<open>KP_DeviceFacts\<close>, pulses
  are conserved along any history of calls, replays are idempotent, event sequence numbers are
  never reused, and an armed or pouring event always ends.  A history is a list of the calls a
  transport makes; the state relation is its inductive closure.
\<close>

section \<open>Pulses\<close>

lemma inv_frame:
  "dev_inv (d\<lparr>dm_fault := f\<rparr>) = dev_inv d"
  by (auto simp: dev_inv_defs active_ok_def result_ok_def busy_def count_defs split: option.splits
      device_state.splits)

lemma active_ok_frame:
  "dm_next_event_seq d' = dm_next_event_seq d \<Longrightarrow> dm_results d' = dm_results d \<Longrightarrow>
   dm_flow_gap_ms d' = dm_flow_gap_ms d \<Longrightarrow> dm_settling_ms d' = dm_settling_ms d \<Longrightarrow>
   active_ok d' a = active_ok d a"
  by (cases "ae_state a") (simp_all add: active_ok_def)

lemma inv_lifetime:
  assumes "dev_inv d" "dm_lifetime_pulses d \<le> n" "n \<le> UINT64_MAX"
  shows "dev_inv (d\<lparr>dm_lifetime_pulses := n\<rparr>)"
proof -
  have "store_ok (d\<lparr>dm_lifetime_pulses := n\<rparr>)"
    using assms by (fastforce simp: dev_inv_def store_ok_def result_ok_def busy_def)
  moreover have "phase_ok (d\<lparr>dm_lifetime_pulses := n\<rparr>)"
    using assms(1) active_ok_frame [of "d\<lparr>dm_lifetime_pulses := n\<rparr>" d]
    by (simp add: dev_inv_def phase_ok_def split: option.splits)
  ultimately show ?thesis
    using assms by (simp add: dev_inv_def counters_ok_def config_ok_def)
qed

lemma leave_terminal_inv: "dev_inv d \<Longrightarrow> dev_inv (leave_terminal d)"
  by (auto simp: leave_terminal_def dev_inv_defs active_ok_def result_ok_def busy_def count_defs
      split: option.splits device_state.splits)

lemma leave_terminal_frame [simp]:
  "accounted (leave_terminal d) = accounted d" "dm_lifetime_pulses (leave_terminal d) = dm_lifetime_pulses d"
  "dm_next_event_seq (leave_terminal d) = dm_next_event_seq d" "dm_active (leave_terminal d) = dm_active d"
  "dm_results (leave_terminal d) = dm_results d" "dm_recovery_pulses (leave_terminal d) = dm_recovery_pulses d"
  by (simp_all add: leave_terminal_def)

definition pulsed :: "int \<Rightarrow> int \<Rightarrow> active_event \<Rightarrow> active_event" where
  "pulsed count now a =
     (let a1 = (if ae_state a = ARMED then a\<lparr>ae_started_ms := Some now\<rparr> else a)
      in a1\<lparr>ae_pulses := ae_pulses a1 + count, ae_last_pulse_ms := Some now,
            ae_settle_deadline_ms := None, ae_state := POURING\<rparr>)"

definition counted :: "int \<Rightarrow> int \<Rightarrow> device \<Rightarrow> device" where
  "counted count now d = d\<lparr>dm_lifetime_pulses := dm_lifetime_pulses d + count,
     dm_last_now_ms := max (dm_last_now_ms d) now\<rparr>"

lemma counted_frame [simp]:
  "dm_active (counted c t d) = dm_active d" "dm_results (counted c t d) = dm_results d"
  "dm_lifetime_pulses (counted c t d) = dm_lifetime_pulses d + c"
  "dm_next_event_seq (counted c t d) = dm_next_event_seq d" "accounted (counted c t d) = accounted d"
  "dm_recovery_pulses (counted c t d) = dm_recovery_pulses d"
  "dm_result_capacity (counted c t d) = dm_result_capacity d"
  "dm_state (counted c t d) = dm_state d"
  by (simp_all add: counted_def)

lemma counted_inv:
  assumes "dev_inv d" "0 \<le> c" "0 \<le> t" "dm_lifetime_pulses d \<le> UINT64_MAX - c"
  shows "dev_inv (counted c t d)"
proof -
  have "dev_inv (d\<lparr>dm_lifetime_pulses := dm_lifetime_pulses d + c\<rparr>)"
    using inv_lifetime [of d "dm_lifetime_pulses d + c"] assms by simp
  from inv_last_now [OF this assms(3)] show ?thesis by (simp add: counted_def)
qed

lemma allocate_cases:
  assumes "dev_inv d"
  obtains (exhausted) "dm_next_event_seq d = UINT32_MAX + 1"
      "dev_allocate d = (Inl (ConflictError ''device event sequence is exhausted''),
         d\<lparr>dm_fault := ''sequence_exhausted''\<rparr>)"
    | (fresh) "dm_next_event_seq d \<le> UINT32_MAX"
      "dev_allocate d = (Inr (dm_next_event_seq d), d\<lparr>dm_next_event_seq := dm_next_event_seq d + 1\<rparr>)"
proof (cases "dm_next_event_seq d > UINT32_MAX")
  case True
  moreover have "dm_next_event_seq d \<le> UINT32_MAX + 1"
    using assms by (simp add: dev_inv_def counters_ok_def)
  ultimately show ?thesis using exhausted by (simp add: dev_allocate_def)
qed (use fresh in \<open>simp add: dev_allocate_def\<close>)

lemma result_seq_below:
  "dev_inv d \<Longrightarrow> od_get (dm_results d) k \<noteq> None \<Longrightarrow> k < dm_next_event_seq d"
  by (auto simp: dev_inv_def store_ok_def result_ok_def dest: od_get_in)

text \<open>Starting an event: the next sequence number is used up and the event becomes active.\<close>

lemma start_inv:
  assumes inv: "dev_inv d" and idle: "dm_active d = None" and seq: "dm_next_event_seq d \<le> UINT32_MAX"
    and room: "int (length (dm_results d)) < dm_result_capacity d"
    and a: "active_ok (d\<lparr>dm_next_event_seq := dm_next_event_seq d + 1\<rparr>) a"
    and le: "accounted d + ae_pulses a \<le> dm_lifetime_pulses d"
  shows "dev_inv (d\<lparr>dm_next_event_seq := dm_next_event_seq d + 1, dm_active := Some a, dm_state := ae_state a\<rparr>)"
proof -
  let ?d = "d\<lparr>dm_next_event_seq := dm_next_event_seq d + 1, dm_active := Some a, dm_state := ae_state a\<rparr>"
  have "store_ok ?d"
    using inv room by (fastforce simp: dev_inv_def store_ok_def result_ok_def busy_def)
  moreover have "phase_ok ?d"
    using a active_ok_frame [of ?d "d\<lparr>dm_next_event_seq := dm_next_event_seq d + 1\<rparr>"]
    by (simp add: phase_ok_def)
  moreover have "counters_ok ?d"
    using inv idle seq le by (simp add: dev_inv_def counters_ok_def count_defs)
  ultimately show ?thesis
    using inv by (simp add: dev_inv_def config_ok_def)
qed

lemma pulsed_ok:
  assumes "active_ok d a" "0 < c"
  shows "active_ok d (pulsed c t a)" "ae_state (pulsed c t a) = POURING"
    "ae_pulses (pulsed c t a) = ae_pulses a + c" "ae_event_seq (pulsed c t a) = ae_event_seq a"
proof -
  have "0 \<le> ae_pulses a" using assms(1) by (auto elim: active_ok_cases)
  then show "active_ok d (pulsed c t a)"
    using assms by (auto simp: active_ok_def pulsed_def Let_def)
qed (auto simp: pulsed_def Let_def)

lemma active_frame:
  "active_ok (counted c t d) a = active_ok d a"
  by (rule active_ok_frame) (simp_all add: counted_def)

lemma replace_active_inv:
  assumes "dev_inv d" "dm_active d = Some a" "active_ok d b" "ae_event_seq b = ae_event_seq a"
    "accounted d - ae_pulses a + ae_pulses b \<le> dm_lifetime_pulses d"
  shows "dev_inv (d\<lparr>dm_active := Some b, dm_state := ae_state b\<rparr>)"
    and "accounted (d\<lparr>dm_active := Some b, dm_state := ae_state b\<rparr>) = accounted d - ae_pulses a + ae_pulses b"
proof -
  let ?d = "d\<lparr>dm_active := Some b, dm_state := ae_state b\<rparr>"
  show acc: "accounted ?d = accounted d - ae_pulses a + ae_pulses b"
    using assms(2) by (simp add: count_defs)
  have "store_ok ?d"
    using assms(1,2) by (fastforce simp: dev_inv_def store_ok_def result_ok_def busy_def)
  moreover have "phase_ok ?d"
    using assms(3) active_ok_frame [of ?d d] by (simp add: phase_ok_def)
  ultimately show "dev_inv ?d"
    using assms(1,5) acc by (simp add: dev_inv_def counters_ok_def config_ok_def)
qed

text \<open>
  The four ways \<open>pulse_count\<close> ends: into the active event, into a new unattributed event, into
  the recovery count when no result can be retained, or with an exception.
\<close>

lemma pulse_count_active:
  "dm_active d = Some a \<Longrightarrow> \<not> ae_pulses a > MAX_RESULT_PULSES - c \<Longrightarrow> 0 < c \<Longrightarrow>
   pulse_count c t d = (Inr (), counted c t d\<lparr>dm_active := Some (pulsed c t a), dm_state := POURING\<rparr>)"
  by (auto simp: pulse_count_def counted_def pulsed_def Let_def)

lemma pulse_count_saturated:
  "dm_active d = Some a \<Longrightarrow> ae_pulses a > MAX_RESULT_PULSES - c \<Longrightarrow>
   pulse_count c t d = (Inl (ConflictError ''session pulse counter saturated''),
     snd (dev_finalize INTERRUPTED t ''session_saturated''
       (counted c t d\<lparr>dm_active := Some (a\<lparr>ae_pulses := MAX_RESULT_PULSES\<rparr>), dm_fault := ''session_saturated''\<rparr>)))"
  by (simp add: pulse_count_def counted_def Let_def)

lemma pulse_count_full:
  "dm_active d = None \<Longrightarrow> int (length (dm_results d)) \<ge> dm_result_capacity d \<Longrightarrow>
   pulse_count c t d =
     (Inr (), counted c t d\<lparr>dm_recovery_pulses := dm_recovery_pulses d + c, dm_fault := ''result_store_full''\<rparr>)"
  by (simp add: pulse_count_def counted_def Let_def)

definition unattributed :: "int \<Rightarrow> int \<Rightarrow> int \<Rightarrow> active_event" where
  "unattributed seq c t =
     \<lparr>ae_event_seq = seq, ae_session_id = None, ae_attributed = False, ae_state = POURING,
      ae_pulses = c, ae_armed_ms = t, ae_started_ms = Some t, ae_last_pulse_ms = Some t,
      ae_arm_deadline_ms = None, ae_settle_deadline_ms = None\<rparr>"

lemma pulse_count_new:
  assumes "dm_active d = None" "int (length (dm_results d)) < dm_result_capacity d"
    "dm_next_event_seq d \<le> UINT32_MAX"
  shows "pulse_count c t d = (Inr (), counted c t d\<lparr>dm_next_event_seq := dm_next_event_seq d + 1,
     dm_active := Some (unattributed (dm_next_event_seq d) c t), dm_state := POURING\<rparr>)"
  using assms by (simp add: pulse_count_def counted_def dev_allocate_def unattributed_def Let_def)

lemma pulse_count_exhausted:
  assumes "dm_active d = None" "int (length (dm_results d)) < dm_result_capacity d"
    "dm_next_event_seq d > UINT32_MAX"
  shows "pulse_count c t d = (Inl (ConflictError ''device event sequence is exhausted''),
     counted c t d\<lparr>dm_fault := ''sequence_exhausted''\<rparr>)"
  using assms by (simp add: pulse_count_def counted_def dev_allocate_def Let_def)

lemma saturated_inv:
  assumes inv: "dev_inv d" and c: "0 < c" "0 \<le> t" "dm_lifetime_pulses d \<le> UINT64_MAX - c"
    and act: "dm_active d = Some a" and sat: "ae_pulses a > MAX_RESULT_PULSES - c"
  shows "dev_inv (snd (pulse_count c t d))"
    and "dm_lifetime_pulses (snd (pulse_count c t d)) = dm_lifetime_pulses d + c"
    and "dm_next_event_seq (snd (pulse_count c t d)) = dm_next_event_seq d"
proof -
  let ?c = "counted c t d"
  let ?b = "a\<lparr>ae_pulses := MAX_RESULT_PULSES, ae_state := POURING, ae_last_pulse_ms := Some t,
              ae_settle_deadline_ms := None\<rparr>"
  let ?d = "?c\<lparr>dm_active := Some ?b, dm_state := POURING\<rparr>"
  let ?f = "''session_saturated''"
  have ci: "dev_inv ?c" using counted_inv [OF inv] c by simp
  have le: "accounted d \<le> dm_lifetime_pulses d" using inv by (simp add: dev_inv_def counters_ok_def)
  have "active_ok ?c a" using ci act by (simp add: dev_inv_def phase_ok_def)
  then have "active_ok ?c ?b" by (simp add: active_ok_def MAX_RESULT_PULSES_def)
  with replace_active_inv [OF ci, of a ?b] act le sat have "dev_inv ?d" by simp
  then have fin: "dev_inv (snd (dev_finalize INTERRUPTED t ?f ?d))"
    by (rule finalize_inv [where a = ?b]) (simp_all add: MAX_RESULT_PULSES_def)
  have "snd (pulse_count c t d) = snd (dev_finalize INTERRUPTED t ?f ?d)\<lparr>dm_fault := ?f\<rparr>"
    using pulse_count_saturated [OF act sat, of t] by (simp add: finalize_active result_of_def cong: option.case_cong)
  with fin show "dev_inv (snd (pulse_count c t d))"
    and "dm_lifetime_pulses (snd (pulse_count c t d)) = dm_lifetime_pulses d + c"
    and "dm_next_event_seq (snd (pulse_count c t d)) = dm_next_event_seq d"
    by (simp_all add: inv_frame finalize_active)
qed

lemma full_inv:
  assumes "dev_inv d" "0 \<le> c" "accounted d + c \<le> dm_lifetime_pulses d"
  shows "dev_inv (d\<lparr>dm_recovery_pulses := dm_recovery_pulses d + c\<rparr>)"
    and "accounted (d\<lparr>dm_recovery_pulses := dm_recovery_pulses d + c\<rparr>) = accounted d + c"
proof -
  let ?d = "d\<lparr>dm_recovery_pulses := dm_recovery_pulses d + c\<rparr>"
  show acc: "accounted ?d = accounted d + c" by (simp add: count_defs)
  have "store_ok ?d" using assms(1) by (fastforce simp: dev_inv_def store_ok_def result_ok_def busy_def)
  moreover have "phase_ok ?d"
    using assms(1) active_ok_frame [of ?d d] by (simp add: dev_inv_def phase_ok_def split: option.splits)
  ultimately show "dev_inv ?d"
    using assms acc by (simp add: dev_inv_def counters_ok_def config_ok_def)
qed

lemma unattributed_ok:
  "0 < c \<Longrightarrow> 1 \<le> s \<Longrightarrow> s < dm_next_event_seq d \<Longrightarrow> od_get (dm_results d) s = None \<Longrightarrow>
   active_ok d (unattributed s c t)"
  by (simp add: active_ok_def unattributed_def)

lemma pulse_idle_keeps:
  assumes inv: "dev_inv d" and c: "0 < c" "0 \<le> t" "dm_lifetime_pulses d \<le> UINT64_MAX - c"
    and idle: "dm_active d = None"
  shows "dev_inv (snd (pulse_count c t d)) \<and>
    dm_lifetime_pulses (snd (pulse_count c t d)) = dm_lifetime_pulses d + c \<and>
    dm_next_event_seq d \<le> dm_next_event_seq (snd (pulse_count c t d)) \<and>
    (fst (pulse_count c t d) = Inr () \<longrightarrow> accounted (snd (pulse_count c t d)) = accounted d + c)"
proof -
  let ?c = "counted c t d"
  have ci: "dev_inv ?c" using counted_inv [OF inv] c by simp
  have le: "accounted d \<le> dm_lifetime_pulses d" using inv by (simp add: dev_inv_def counters_ok_def)
  consider (full) "int (length (dm_results d)) \<ge> dm_result_capacity d"
    | (out) "int (length (dm_results d)) < dm_result_capacity d" "dm_next_event_seq d > UINT32_MAX"
    | (start) "int (length (dm_results d)) < dm_result_capacity d" "dm_next_event_seq d \<le> UINT32_MAX"
    by linarith
  then show ?thesis
  proof cases
    case full
    then show ?thesis
      using full_inv [OF ci, of c] pulse_count_full [OF idle full, of c t] c le by (simp add: inv_frame)
  next
    case out
    then show ?thesis using pulse_count_exhausted [OF idle out, of c t] ci by (simp add: inv_frame)
  next
    case start
    let ?a = "unattributed (dm_next_event_seq d) c t"
    let ?n = "?c\<lparr>dm_next_event_seq := dm_next_event_seq d + 1\<rparr>"
    have fresh: "od_get (dm_results d) (dm_next_event_seq d) = None"
      using result_seq_below [OF inv, of "dm_next_event_seq d"]
      by (cases "od_get (dm_results d) (dm_next_event_seq d)") simp_all
    have one: "1 \<le> dm_next_event_seq d" using inv by (simp add: dev_inv_def counters_ok_def)
    have "active_ok ?n ?a" using c fresh one by (intro unattributed_ok) simp_all
    then have "dev_inv (?n\<lparr>dm_active := Some ?a, dm_state := POURING\<rparr>)"
      using start_inv [OF ci, of ?a] idle start le by (simp add: unattributed_def)
    moreover have "accounted (?n\<lparr>dm_active := Some ?a, dm_state := POURING\<rparr>) = accounted d + c"
      using idle by (simp add: count_defs unattributed_def)
    ultimately show ?thesis
      using pulse_count_new [OF idle start, of c t] by simp
  qed
qed

lemma pulse_count_keeps:
  assumes inv: "dev_inv d" and c: "0 < c" "0 \<le> t" "dm_lifetime_pulses d \<le> UINT64_MAX - c"
  shows "dev_inv (snd (pulse_count c t d)) \<and>
    dm_lifetime_pulses (snd (pulse_count c t d)) = dm_lifetime_pulses d + c \<and>
    dm_next_event_seq d \<le> dm_next_event_seq (snd (pulse_count c t d)) \<and>
    (fst (pulse_count c t d) = Inr () \<longrightarrow> accounted (snd (pulse_count c t d)) = accounted d + c)"
proof -
  let ?c = "counted c t d"
  have ci: "dev_inv ?c" using counted_inv [OF inv] c by simp
  have le: "accounted d \<le> dm_lifetime_pulses d" using inv by (simp add: dev_inv_def counters_ok_def)
  show ?thesis
  proof (cases "dm_active d")
    case (Some a)
    have aok: "active_ok ?c a" using ci Some by (simp add: dev_inv_def phase_ok_def)
    show ?thesis
    proof (cases "ae_pulses a > MAX_RESULT_PULSES - c")
      case True
      then show ?thesis
        using saturated_inv [OF inv c Some True] pulse_count_saturated [OF Some True, of t] by simp
    next
      case False
      note ok = pulsed_ok [OF aok c(1), of t]
      show ?thesis
        using replace_active_inv [OF ci _ ok(1), of a] ok(2-4) Some le
          pulse_count_active [OF Some False c(1), of t] by simp
    qed
  next
    case None
    then show ?thesis using pulse_idle_keeps [OF inv c None] by simp
  qed
qed

lemma pulse_advance_keeps:
  assumes "dev_inv d" "0 \<le> t"
  shows "fst (pulse_advance t d) = Inr ()" and "dev_inv (snd (pulse_advance t d))"
    and "accounted (snd (pulse_advance t d)) = accounted d"
    and "dm_lifetime_pulses (snd (pulse_advance t d)) = dm_lifetime_pulses d"
    and "dm_next_event_seq (snd (pulse_advance t d)) = dm_next_event_seq d"
proof -
  obtain r where "dev_tick t d = (Inr r, snd (dev_tick t d))"
    using tick_ok [OF assms] by blast
  then have bind: "bind_st (dev_tick t d) (\<lambda>_ d. (Inr (), d)) = (Inr (), snd (dev_tick t d))"
    by (metis bind_st_simps(2))
  have "pulse_advance t d = (Inr (), d) \<or> pulse_advance t d = (Inr (), snd (dev_tick t d))"
    by (simp add: pulse_advance_def bind Let_def split: option.split)
  then show "fst (pulse_advance t d) = Inr ()" and "dev_inv (snd (pulse_advance t d))"
    and "accounted (snd (pulse_advance t d)) = accounted d"
    and "dm_lifetime_pulses (snd (pulse_advance t d)) = dm_lifetime_pulses d"
    and "dm_next_event_seq (snd (pulse_advance t d)) = dm_next_event_seq d"
    using tick_keeps [OF assms(1), of t] assms(1) by auto
qed

lemma pulse_saturate_keeps:
  assumes "dev_inv d" "0 \<le> t"
  shows "dev_inv (snd (pulse_saturate t d))"
    and "dm_next_event_seq (snd (pulse_saturate t d)) = dm_next_event_seq d"
    and "dm_lifetime_pulses (snd (pulse_saturate t d)) = UINT64_MAX"
    and "is_ok (fst (pulse_saturate t d)) = False"
proof -
  let ?d = "d\<lparr>dm_lifetime_pulses := UINT64_MAX, dm_fault := ''lifetime_saturated''\<rparr>"
  have "dm_lifetime_pulses d \<le> UINT64_MAX" using assms(1) by (simp add: dev_inv_def counters_ok_def)
  with inv_lifetime [OF assms(1), of UINT64_MAX] have inv: "dev_inv ?d" by (simp add: inv_frame)
  show "dev_inv (snd (pulse_saturate t d))"
    using inv finalize_inv [OF inv, of _ INTERRUPTED t]
    by (auto simp: pulse_saturate_def Let_def split: option.split)
  show "dm_next_event_seq (snd (pulse_saturate t d)) = dm_next_event_seq d"
    and "dm_lifetime_pulses (snd (pulse_saturate t d)) = UINT64_MAX"
    and "is_ok (fst (pulse_saturate t d)) = False"
    by (auto simp: pulse_saturate_def Let_def finalize_active split: option.split)
qed

text \<open>One call of \<open>pulse\<close>, by the branch it takes.\<close>

lemma pulse_cases:
  assumes "dev_inv d"
  obtains (refused) e where "dev_pulse c t d = (Inl e, d)"
    | (saturated) "0 \<le> t" "dev_pulse c t d = pulse_saturate t d"
    | (count) d1 where "0 \<le> t" "0 < c" "dm_lifetime_pulses d \<le> UINT64_MAX - c" "dev_inv d1"
      "accounted d1 = accounted d" "dm_lifetime_pulses d1 = dm_lifetime_pulses d"
      "dm_next_event_seq d1 = dm_next_event_seq d" "dev_pulse c t d = pulse_count c t d1"
proof (cases "t < 0 \<or> c \<le> 0")
  case True
  then show ?thesis using refused by (cases "t < 0") (auto simp: dev_pulse_def validate_now_def)
next
  case False
  then have t: "0 \<le> t" and c: "0 < c" by simp_all
  show ?thesis
  proof (cases "dm_lifetime_pulses d > UINT64_MAX - c")
    case True
    then show ?thesis using t c saturated by (simp add: dev_pulse_def validate_now_def)
  next
    case le: False
    obtain d1 where adv: "pulse_advance t d = (Inr (), d1)"
      using pulse_advance_keeps(1) [OF assms t] by (cases "pulse_advance t d") auto
    with t c le have "dev_pulse c t d = pulse_count c t (leave_terminal d1)"
      by (simp add: dev_pulse_def validate_now_def)
    then show ?thesis
      using count [of "leave_terminal d1"] t c le adv pulse_advance_keeps [OF assms t]
      by (simp add: leave_terminal_inv)
  qed
qed

lemma pulse_keeps:
  assumes "dev_inv d"
  shows "dev_inv (snd (dev_pulse c t d))"
    and "dm_next_event_seq d \<le> dm_next_event_seq (snd (dev_pulse c t d))"
    and "dm_lifetime_pulses d \<le> dm_lifetime_pulses (snd (dev_pulse c t d))"
proof -
  have max: "dm_lifetime_pulses d \<le> UINT64_MAX"
    using assms by (simp add: dev_inv_def counters_ok_def)
  have "dev_inv (snd (dev_pulse c t d)) \<and>
    dm_next_event_seq d \<le> dm_next_event_seq (snd (dev_pulse c t d)) \<and>
    dm_lifetime_pulses d \<le> dm_lifetime_pulses (snd (dev_pulse c t d))"
    using assms
  proof (cases rule: pulse_cases [where c = c and t = t])
    case (refused e)
    then show ?thesis using assms by simp
  next
    case saturated
    then show ?thesis using assms max by (simp add: pulse_saturate_keeps)
  next
    case (count d1)
    with pulse_count_keeps [OF count(4,2,1)] show ?thesis by simp
  qed
  then show "dev_inv (snd (dev_pulse c t d))"
    and "dm_next_event_seq d \<le> dm_next_event_seq (snd (dev_pulse c t d))"
    and "dm_lifetime_pulses d \<le> dm_lifetime_pulses (snd (dev_pulse c t d))" by simp_all
qed

lemma pulse_accepted:
  assumes "dev_inv d" "fst (dev_pulse c t d) = Inr ()"
  shows "accounted (snd (dev_pulse c t d)) = accounted d + c"
    and "dm_lifetime_pulses (snd (dev_pulse c t d)) = dm_lifetime_pulses d + c"
proof -
  have "accounted (snd (dev_pulse c t d)) = accounted d + c \<and>
    dm_lifetime_pulses (snd (dev_pulse c t d)) = dm_lifetime_pulses d + c"
    using assms(1)
  proof (cases rule: pulse_cases [where c = c and t = t])
    case (refused e)
    then show ?thesis using assms(2) by simp
  next
    case saturated
    then show ?thesis using assms(2) pulse_saturate_keeps(4) [OF assms(1), of t] by simp
  next
    case (count d1)
    with pulse_count_keeps [OF count(4,2,1)] assms(2) show ?thesis by simp
  qed
  then show "accounted (snd (dev_pulse c t d)) = accounted d + c"
    and "dm_lifetime_pulses (snd (dev_pulse c t d)) = dm_lifetime_pulses d + c" by simp_all
qed

text \<open>What of a counted pulse finds no place: the part above the limit of one event, and all of it when
  there is no event open, room for a result and no number left for an event.\<close>

definition unplaced :: "int \<Rightarrow> device \<Rightarrow> int" where
  "unplaced c d =
     (case dm_active d of
        None \<Rightarrow> if int (length (dm_results d)) < dm_result_capacity d \<and> dm_next_event_seq d > UINT32_MAX then c else 0
      | Some a \<Rightarrow> max 0 (ae_pulses a + c - MAX_RESULT_PULSES))"

lemma saturated_accounted:
  assumes inv: "dev_inv d" and act: "dm_active d = Some a" and sat: "ae_pulses a > MAX_RESULT_PULSES - c"
  shows "accounted (snd (pulse_count c t d)) = accounted d + MAX_RESULT_PULSES - ae_pulses a"
proof -
  have "od_get (dm_results d) (ae_event_seq a) = None"
    using inv act by (simp add: dev_inv_def phase_ok_def active_ok_def)
  then show ?thesis
    using pulse_count_saturated [OF act sat, of t] act
    by (simp add: finalize_active count_defs counted_def od_values_set_fresh) (simp add: result_of_def)
qed

lemma pulse_count_accounted:
  assumes inv: "dev_inv d" and c: "0 < c" "0 \<le> t" "dm_lifetime_pulses d \<le> UINT64_MAX - c"
  shows "accounted (snd (pulse_count c t d)) = accounted d + c - unplaced c d"
proof (cases "dm_active d")
  case (Some a)
  show ?thesis
  proof (cases "ae_pulses a > MAX_RESULT_PULSES - c")
    case True
    then show ?thesis using saturated_accounted [OF inv Some True, of t] Some by (simp add: unplaced_def)
  next
    case False
    then show ?thesis
      using pulse_count_keeps [OF inv c] pulse_count_active [OF Some False c(1), of t] Some
      by (simp add: unplaced_def)
  qed
next
  case None
  consider (full) "int (length (dm_results d)) \<ge> dm_result_capacity d"
    | (out) "int (length (dm_results d)) < dm_result_capacity d" "dm_next_event_seq d > UINT32_MAX"
    | (start) "int (length (dm_results d)) < dm_result_capacity d" "dm_next_event_seq d \<le> UINT32_MAX"
    by linarith
  then show ?thesis
    using pulse_count_keeps [OF inv c] None
    by cases (simp_all add: unplaced_def pulse_count_full pulse_count_exhausted pulse_count_new accounted_def active_pulses_def
        retained_pulses_def)
qed

lemma pulse_saturate_accounted:
  assumes "dev_inv d"
  shows "accounted (snd (pulse_saturate t d)) = accounted d"
proof -
  let ?d = "d\<lparr>dm_lifetime_pulses := UINT64_MAX, dm_fault := ''lifetime_saturated''\<rparr>"
  have "dm_lifetime_pulses d \<le> UINT64_MAX" using assms by (simp add: dev_inv_def counters_ok_def)
  with inv_lifetime [OF assms, of UINT64_MAX] have "dev_inv ?d" by (simp add: inv_frame)
  then have "phase_ok ?d" by (simp add: dev_inv_def)
  moreover have "accounted ?d = accounted d" by (simp add: count_defs)
  ultimately show ?thesis
    using finalize_accounted [of ?d _ INTERRUPTED t]
    by (simp add: pulse_saturate_def Let_def split: option.split)
qed

text \<open>What a call of \<open>pulse\<close> adds to the lifetime counter, which stops at its limit, and what of that is
  then neither in an event nor in the recovery count.\<close>

definition pulse_counted :: "int \<Rightarrow> int \<Rightarrow> device \<Rightarrow> int" where
  "pulse_counted c t d = (if t < 0 \<or> c \<le> 0 then 0 else min c (UINT64_MAX - dm_lifetime_pulses d))"

definition pulse_lost :: "int \<Rightarrow> int \<Rightarrow> device \<Rightarrow> int" where
  "pulse_lost c t d =
     (if t < 0 \<or> c \<le> 0 then 0
      else if dm_lifetime_pulses d > UINT64_MAX - c then UINT64_MAX - dm_lifetime_pulses d
      else unplaced c (snd (pulse_advance t d)))"

lemma unplaced_leave [simp]: "unplaced c (leave_terminal d) = unplaced c d"
proof -
  have "dm_result_capacity (leave_terminal d) = dm_result_capacity d" by (simp add: leave_terminal_def)
  then show ?thesis by (auto simp: unplaced_def split: option.split)
qed

lemma pulse_balance:
  assumes "dev_inv d"
  shows "dm_lifetime_pulses (snd (dev_pulse c t d)) = dm_lifetime_pulses d + pulse_counted c t d"
    and "accounted (snd (dev_pulse c t d)) = accounted d + pulse_counted c t d - pulse_lost c t d"
proof -
  have max: "dm_lifetime_pulses d \<le> UINT64_MAX"
    using assms by (simp add: dev_inv_def counters_ok_def)
  have "dm_lifetime_pulses (snd (dev_pulse c t d)) = dm_lifetime_pulses d + pulse_counted c t d \<and>
    accounted (snd (dev_pulse c t d)) = accounted d + pulse_counted c t d - pulse_lost c t d"
  proof (cases "t < 0 \<or> c \<le> 0")
    case True
    then show ?thesis by (cases "t < 0") (auto simp: dev_pulse_def validate_now_def pulse_counted_def pulse_lost_def)
  next
    case False
    then have t: "0 \<le> t" and c: "0 < c" by simp_all
    show ?thesis
    proof (cases "dm_lifetime_pulses d > UINT64_MAX - c")
      case True
      then have "dev_pulse c t d = pulse_saturate t d" using t c by (simp add: dev_pulse_def validate_now_def)
      then show ?thesis
        using True t c max pulse_saturate_keeps(3) [OF assms t] pulse_saturate_accounted [OF assms, of t]
        by (simp add: pulse_counted_def pulse_lost_def)
    next
      case le: False
      obtain d1 where adv: "pulse_advance t d = (Inr (), d1)"
        using pulse_advance_keeps(1) [OF assms t] by (cases "pulse_advance t d") auto
      then have run: "dev_pulse c t d = pulse_count c t (leave_terminal d1)"
        using t c le by (simp add: dev_pulse_def validate_now_def)
      have d1: "dev_inv (leave_terminal d1)" "dm_lifetime_pulses d1 = dm_lifetime_pulses d" "accounted d1 = accounted d"
        using adv pulse_advance_keeps [OF assms t] by (simp_all add: leave_terminal_inv)
      have room: "dm_lifetime_pulses (leave_terminal d1) \<le> UINT64_MAX - c" using le d1(2) by simp
      show ?thesis
        using pulse_count_keeps [OF d1(1) c t room] pulse_count_accounted [OF d1(1) c t room] run d1 t c le adv
        by (simp add: pulse_counted_def pulse_lost_def)
    qed
  qed
  then show "dm_lifetime_pulses (snd (dev_pulse c t d)) = dm_lifetime_pulses d + pulse_counted c t d"
    and "accounted (snd (dev_pulse c t d)) = accounted d + pulse_counted c t d - pulse_lost c t d" by simp_all
qed

text \<open>A call that does not raise loses nothing.\<close>

lemma pulse_no_loss:
  assumes "dev_inv d" "fst (dev_pulse c t d) = Inr ()"
  shows "pulse_counted c t d = c" "pulse_lost c t d = 0"
  using pulse_balance [OF assms(1), of c t] pulse_accepted [OF assms] by simp_all

section \<open>Commands\<close>

lemma arm_eq:
  assumes "0 \<le> t" "dev_tick t d = (Inr r, d1)"
  shows "dev_arm s k t ttl d =
    (if s = [] \<or> length s > 64 then (Inl (DomainError ''session_id is invalid''), d1)
     else if active_matches d1 k s \<or> retained_match d1 k s \<noteq> None then (Inr True, d1)
     else if dm_active d1 \<noteq> None then (Inl (ConflictError ''device already has an active session''), d1)
     else if int (length (dm_results d1)) \<ge> dm_result_capacity d1 then
       (Inl (ConflictError ''device result store is full''), d1)
     else if k \<noteq> dm_next_event_seq d1 then (Inl (ConflictError ''event sequence is stale''), d1)
     else if \<not> timing_ok (case ttl of None \<Rightarrow> dm_arm_timeout_ms d1 | Some x \<Rightarrow> x) then
       (Inl (DomainError ''arm ttl is outside the rollover-safe range''), d1)
     else bind_st (dev_allocate d1) (\<lambda>seq d.
       (Inr False, d\<lparr>dm_active := Some
          \<lparr>ae_event_seq = seq, ae_session_id = Some s, ae_attributed = True, ae_state = ARMED,
           ae_pulses = 0, ae_armed_ms = t, ae_started_ms = None, ae_last_pulse_ms = None,
           ae_arm_deadline_ms = Some (t + (case ttl of None \<Rightarrow> dm_arm_timeout_ms d1 | Some x \<Rightarrow> x)),
           ae_settle_deadline_ms = None\<rparr>, dm_state := ARMED\<rparr>)))"
proof -
  have "validate_now t = Inr ()" using assms(1) by (simp add: validate_now_def)
  then show ?thesis
    unfolding dev_arm_def by (simp only: bind_st_simps assms(2) Let_def) auto
qed

lemma arm_cases:
  assumes "dev_inv d"
  obtains (bad_time) "t < 0" "dev_arm s k t ttl d = (Inl (DomainError ''now_ms must be a nonnegative integer''), d)"
    | (refused) e f where "0 \<le> t" "dev_arm s k t ttl d = (Inl e, snd (dev_tick t d)\<lparr>dm_fault := f\<rparr>)"
    | (replay) "0 \<le> t" "active_matches (snd (dev_tick t d)) k s \<or> retained_match (snd (dev_tick t d)) k s \<noteq> None"
        "dev_arm s k t ttl d = (Inr True, snd (dev_tick t d))"
    | (armed) d1 a where "0 \<le> t" "d1 = snd (dev_tick t d)" "dm_active d1 = None"
        "int (length (dm_results d1)) < dm_result_capacity d1" "k = dm_next_event_seq d1"
        "dm_next_event_seq d1 \<le> UINT32_MAX"
        "a = \<lparr>ae_event_seq = k, ae_session_id = Some s, ae_attributed = True, ae_state = ARMED,
              ae_pulses = 0, ae_armed_ms = t, ae_started_ms = None, ae_last_pulse_ms = None,
              ae_arm_deadline_ms = Some (t + (case ttl of None \<Rightarrow> dm_arm_timeout_ms d1 | Some x \<Rightarrow> x)),
              ae_settle_deadline_ms = None\<rparr>"
        "dev_arm s k t ttl d =
           (Inr False, d1\<lparr>dm_next_event_seq := dm_next_event_seq d1 + 1, dm_active := Some a, dm_state := ARMED\<rparr>)"
proof (cases "t < 0")
  case True
  then show ?thesis using bad_time by (simp add: dev_arm_def validate_now_def)
next
  case False
  then have t: "0 \<le> t" by simp
  define d1 where "d1 = snd (dev_tick t d)"
  obtain r where tick: "dev_tick t d = (Inr r, d1)"
    using tick_ok [OF assms t] d1_def by blast
  let ?go = "s \<noteq> [] \<and> length s \<le> 64"
  let ?dup = "active_matches d1 k s \<or> retained_match d1 k s \<noteq> None"
  let ?free = "dm_active d1 = None \<and> int (length (dm_results d1)) < dm_result_capacity d1 \<and>
    k = dm_next_event_seq d1 \<and> timing_ok (case ttl of None \<Rightarrow> dm_arm_timeout_ms d1 | Some x \<Rightarrow> x) \<and>
    dm_next_event_seq d1 \<le> UINT32_MAX"
  have same: "d1\<lparr>dm_fault := dm_fault d1\<rparr> = d1" by simp
  consider "\<not> ?go" | "?go" "?dup" | "?go" "\<not> ?dup" "?free" | "?go" "\<not> ?dup" "\<not> ?free" by blast
  then show ?thesis
  proof cases
    case 1
    have "dev_arm s k t ttl d = (Inl (DomainError ''session_id is invalid''), d1)"
      using 1 t tick by (auto simp: dev_arm_def validate_now_def)
    then show ?thesis using refused [of _ "dm_fault d1"] t d1_def same by metis
  next
    case 2
    then have "dev_arm s k t ttl d = (Inr True, d1)"
      using t tick by (auto simp: dev_arm_def validate_now_def)
    then show ?thesis using replay t d1_def 2 by simp
  next
    case 3
    then show ?thesis
      using armed [OF t d1_def] t tick
      by (simp add: dev_arm_def validate_now_def dev_allocate_def Let_def)
  next
    case 4
    have "\<not> is_ok (fst (dev_arm s k t ttl d)) \<and>
      (snd (dev_arm s k t ttl d) = d1 \<or> snd (dev_arm s k t ttl d) = d1\<lparr>dm_fault := ''sequence_exhausted''\<rparr>)"
    proof -
      note eq = arm_eq [OF t tick, of s k ttl]
      consider "dm_active d1 \<noteq> None" | "int (length (dm_results d1)) \<ge> dm_result_capacity d1"
        | "k \<noteq> dm_next_event_seq d1"
        | "\<not> timing_ok (case ttl of None \<Rightarrow> dm_arm_timeout_ms d1 | Some x \<Rightarrow> x)"
        | "dm_next_event_seq d1 > UINT32_MAX"
        using 4(3) unfolding de_Morgan_conj not_less not_le by blast
      then show ?thesis
        using 4(1,2) by cases (simp_all add: eq dev_allocate_def split: if_split)
    qed
    moreover from this obtain e where "fst (dev_arm s k t ttl d) = Inl e"
      by (cases "fst (dev_arm s k t ttl d)") simp_all
    ultimately obtain f where "dev_arm s k t ttl d = (Inl e, d1\<lparr>dm_fault := f\<rparr>)"
      using same by (metis prod.collapse)
    then show ?thesis using refused t d1_def by simp
  qed
qed

lemma arm_keeps:
  assumes "dev_inv d"
  shows "dev_inv (snd (dev_arm s k t ttl d)) \<and> accounted (snd (dev_arm s k t ttl d)) = accounted d \<and>
    dm_lifetime_pulses (snd (dev_arm s k t ttl d)) = dm_lifetime_pulses d \<and>
    dm_next_event_seq d \<le> dm_next_event_seq (snd (dev_arm s k t ttl d))"
  using assms
proof (cases rule: arm_cases [where s = s and k = k and t = t and ttl = ttl])
  case (armed d1 a)
  note tk = tick_keeps [OF assms, of t]
  let ?n = "d1\<lparr>dm_next_event_seq := dm_next_event_seq d1 + 1\<rparr>"
  have inv: "dev_inv d1" using tk armed(2) by simp
  have "1 \<le> k" "od_get (dm_results d1) k = None"
    using inv armed(5) result_seq_below [OF inv, of k]
    by (simp add: dev_inv_def counters_ok_def, cases "od_get (dm_results d1) k") simp_all
  then have aok: "active_ok ?n a" using armed(5) by (simp add: armed(7) active_ok_def)
  have st: "ae_state a = ARMED" "ae_pulses a = 0" by (simp_all add: armed(7))
  have "accounted d1 + ae_pulses a \<le> dm_lifetime_pulses d1"
    using inv st by (simp add: dev_inv_def counters_ok_def)
  from start_inv [OF inv armed(3,6,4) aok this]
  have "dev_inv (?n\<lparr>dm_active := Some a, dm_state := ARMED\<rparr>)" by (simp only: st)
  moreover have "accounted (?n\<lparr>dm_active := Some a, dm_state := ARMED\<rparr>) = accounted d1"
    using armed(3) st by (simp add: count_defs)
  ultimately show ?thesis using tk armed(2,8) by simp
qed (use assms tick_keeps [OF assms, of t] in \<open>simp_all add: inv_frame\<close>)

lemma cancel_cases:
  assumes "dev_inv d"
  obtains (unchanged) r where "0 \<le> t" "dev_cancel k s t d = (r, snd (dev_tick t d))"
    | (bad_time) e where "t < 0" "dev_cancel k s t d = (Inl e, d)"
    | (dropped) d1 a where "0 \<le> t" "d1 = snd (dev_tick t d)" "dm_active d1 = Some a" "ae_pulses a = 0"
        "dev_cancel k s t d = (Inr (False, None), d1\<lparr>dm_active := None, dm_state := IDLE\<rparr>)"
    | (ended) d1 a where "0 \<le> t" "d1 = snd (dev_tick t d)" "dm_active d1 = Some a" "ae_pulses a \<noteq> 0"
        "ae_event_seq a = k" "ae_session_id a = Some s"
        "dev_cancel k s t d = (Inr (False, Some (result_of d1 a INTERRUPTED t ''none'')), closed a INTERRUPTED t d1)"
proof (cases "t < 0")
  case True
  then show ?thesis using bad_time by (simp add: dev_cancel_def validate_now_def)
next
  case False
  then have t: "0 \<le> t" by simp
  define d1 where "d1 = snd (dev_tick t d)"
  obtain r where "dev_tick t d = (Inr r, d1)"
    using tick_ok [OF assms t] d1_def by blast
  then have eq: "dev_cancel k s t d =
    (case retained_match d1 k s of Some r \<Rightarrow> (Inr (True, Some r), d1)
     | None \<Rightarrow> (if \<not> active_matches d1 k s then (Inl (ConflictError ''cancel target is stale''), d1)
        else if map_option ae_pulses (dm_active d1) = Some 0 then
          (Inr (False, None), d1\<lparr>dm_active := None, dm_state := IDLE\<rparr>)
        else bind_st (dev_finalize INTERRUPTED t ''none'' d1) (\<lambda>r d. (Inr (False, Some r), d))))"
    using t by (simp add: dev_cancel_def validate_now_def)
  show ?thesis
  proof (cases "retained_match d1 k s = None \<and> active_matches d1 k s")
    case False
    then show ?thesis using unchanged [OF t] eq d1_def by (auto split: option.splits)
  next
    case True
    then obtain a where a: "dm_active d1 = Some a" "ae_event_seq a = k" "ae_session_id a = Some s"
      by (auto simp: active_matches_def split: option.splits)
    show ?thesis
    proof (cases "ae_pulses a = 0")
      case zero: True
      show ?thesis using dropped [OF t d1_def a(1) zero] eq True a(1) zero by simp
    next
      case False
      show ?thesis
        using ended [OF t d1_def a(1) False a(2,3)] eq True a(1) False
        by (simp add: finalize_active closed_def)
    qed
  qed
qed

lemma drop_armed_inv:
  assumes "dev_inv d" "dm_active d = Some a" "ae_pulses a = 0"
  shows "dev_inv (d\<lparr>dm_active := None, dm_state := IDLE\<rparr>)"
    and "accounted (d\<lparr>dm_active := None, dm_state := IDLE\<rparr>) = accounted d"
proof -
  show acc: "accounted (d\<lparr>dm_active := None, dm_state := IDLE\<rparr>) = accounted d"
    using assms(2,3) by (simp add: count_defs)
  have "store_ok (d\<lparr>dm_active := None, dm_state := IDLE\<rparr>)"
    using assms(1) by (fastforce simp: dev_inv_def store_ok_def result_ok_def busy_def)
  with assms(1) acc show "dev_inv (d\<lparr>dm_active := None, dm_state := IDLE\<rparr>)"
    by (simp add: dev_inv_def counters_ok_def config_ok_def phase_ok_def)
qed

lemma cancel_keeps:
  assumes "dev_inv d"
  shows "dev_inv (snd (dev_cancel k s t d)) \<and> accounted (snd (dev_cancel k s t d)) = accounted d \<and>
    dm_lifetime_pulses (snd (dev_cancel k s t d)) = dm_lifetime_pulses d \<and>
    dm_next_event_seq (snd (dev_cancel k s t d)) = dm_next_event_seq d"
proof -
  note tk = tick_keeps [OF assms, of t]
  from assms show ?thesis
  proof (cases rule: cancel_cases [where s = s and k = k and t = t])
    case (dropped d1 a)
    then show ?thesis using drop_armed_inv [of d1 a] tk by simp
  next
    case (ended d1 a)
    then show ?thesis
      using closed_inv [of d1 a INTERRUPTED t] closed_accounted [of d1 a INTERRUPTED t] tk
      by (simp add: closed_def)
  qed (use assms tk in simp_all)
qed

lemma retained_pop:
  assumes "od_wf d"
  shows "sum_list (map dr_raw_pulses (od_values (od_pop d k))) =
    sum_list (map dr_raw_pulses (od_values d)) -
    (case od_get d k of Some r \<Rightarrow> dr_raw_pulses r | None \<Rightarrow> 0)"
  using assms
proof (induction d)
  case (Cons p d)
  obtain k' r where p: "p = (k', r)" by force
  have wf: "od_wf d" using Cons.prems by (simp add: od_wf_def od_keys_def)
  show ?case
  proof (cases "k' = k")
    case True
    then have "od_get d k = None"
      using Cons.prems p by (simp add: od_wf_def od_keys_def od_get_def map_of_eq_None_iff)
    then show ?thesis
      using od_pop_absent [of d k] p True by (simp add: od_pop_def od_values_def)
  next
    case False
    then show ?thesis
      using Cons.IH [OF wf] p by (simp add: od_pop_def od_values_def)
  qed
qed (simp add: od_pop_def od_values_def)

definition acknowledged :: "int \<Rightarrow> device \<Rightarrow> int" where
  "acknowledged k d = (case od_get (dm_results d) k of Some r \<Rightarrow> dr_raw_pulses r | None \<Rightarrow> 0)"

lemma acknowledge_keeps:
  assumes "dev_inv d"
  shows "dev_inv (snd (dev_acknowledge k d)) \<and>
    accounted (snd (dev_acknowledge k d)) = accounted d - acknowledged k d \<and>
    dm_lifetime_pulses (snd (dev_acknowledge k d)) = dm_lifetime_pulses d \<and>
    dm_next_event_seq (snd (dev_acknowledge k d)) = dm_next_event_seq d"
proof -
  let ?d = "d\<lparr>dm_results := od_pop (dm_results d) k\<rparr>"
  have wf: "od_wf (dm_results d)" and res: "\<forall>(k, r) \<in> set (dm_results d). result_ok d k r"
    using assms by (simp_all add: dev_inv_def store_ok_def)
  have acc: "accounted ?d = accounted d - acknowledged k d"
    using retained_pop [OF wf, of k] by (simp add: count_defs acknowledged_def)
  have ge: "0 \<le> acknowledged k d"
    using res by (auto simp: acknowledged_def result_ok_def split: option.split dest: od_get_in)
  have "store_ok ?d"
    using assms wf length_od_pop [of "dm_results d" k]
    by (force simp: dev_inv_def store_ok_def result_ok_def busy_def od_wf_pop od_pop_mem)
  moreover have "phase_ok ?d"
    using assms by (cases "dm_active d"; cases "dm_state d")
      (auto simp: dev_inv_def phase_ok_def active_ok_def od_get_pop)
  ultimately have "dev_inv ?d"
    using assms acc ge by (simp add: dev_inv_def counters_ok_def config_ok_def)
  then show ?thesis
    using acc leave_terminal_inv [of ?d] by (simp add: dev_acknowledge_def Let_def)
qed

lemma status_keeps:
  assumes "dev_inv d"
  shows "dev_inv (snd (dev_status t d)) \<and> accounted (snd (dev_status t d)) = accounted d \<and>
    dm_lifetime_pulses (snd (dev_status t d)) = dm_lifetime_pulses d \<and>
    dm_next_event_seq (snd (dev_status t d)) = dm_next_event_seq d"
proof (cases t)
  case None
  then show ?thesis using assms by (simp add: dev_status_def)
next
  case (Some now)
  then have "snd (dev_status t d) = snd (dev_tick now d)"
    by (cases "dev_tick now d"; cases "fst (dev_tick now d)") (auto simp: dev_status_def)
  then show ?thesis using tick_keeps [OF assms, of now] by simp
qed

lemma reset_inv: "dev_inv d \<Longrightarrow> 0 \<le> t \<Longrightarrow> dev_inv (dev_reset b t d)"
  by (auto simp: dev_reset_def dev_inv_defs busy_def count_defs pulse_limits od_values_def)

section \<open>Histories\<close>

datatype dev_op =
    Arm string int int "int option"
  | Cancel int string int
  | Acknowledge int
  | Pulse int int
  | Tick int
  | Status "int option"

fun dev_step :: "dev_op \<Rightarrow> device \<Rightarrow> device" where
  "dev_step (Arm s k t ttl) d = snd (dev_arm s k t ttl d)"
| "dev_step (Cancel k s t) d = snd (dev_cancel k s t d)"
| "dev_step (Acknowledge k) d = snd (dev_acknowledge k d)"
| "dev_step (Pulse c t) d = snd (dev_pulse c t d)"
| "dev_step (Tick t) d = snd (dev_tick t d)"
| "dev_step (Status t) d = snd (dev_status t d)"

text \<open>The pulses of a call: those given to it, those it counts, those it counts and then loses, and those an
  acknowledgement takes away.  A call is accepted unless it is a \<open>pulse\<close> that raised.\<close>

fun dev_accepted :: "dev_op \<Rightarrow> device \<Rightarrow> bool" where
  "dev_accepted (Pulse c t) d = is_ok (fst (dev_pulse c t d))"
| "dev_accepted _ d = True"

fun dev_injected :: "dev_op \<Rightarrow> device \<Rightarrow> int" where
  "dev_injected (Pulse c t) d = c"
| "dev_injected _ d = 0"

fun dev_counted :: "dev_op \<Rightarrow> device \<Rightarrow> int" where
  "dev_counted (Pulse c t) d = pulse_counted c t d"
| "dev_counted _ d = 0"

fun dev_lost :: "dev_op \<Rightarrow> device \<Rightarrow> int" where
  "dev_lost (Pulse c t) d = pulse_lost c t d"
| "dev_lost _ d = 0"

fun dev_released :: "dev_op \<Rightarrow> device \<Rightarrow> int" where
  "dev_released (Acknowledge k) d = acknowledged k d"
| "dev_released _ d = 0"

lemmas op_keeps = arm_keeps cancel_keeps acknowledge_keeps status_keeps pulse_keeps tick_keeps

lemma dev_step_inv: "dev_inv d \<Longrightarrow> dev_inv (dev_step op d)"
  by (cases op) (simp_all add: op_keeps)

lemma dev_step_seq: "dev_inv d \<Longrightarrow> dm_next_event_seq d \<le> dm_next_event_seq (dev_step op d)"
  by (cases op) (simp_all add: op_keeps)

lemma dev_step_lifetime:
  "dev_inv d \<Longrightarrow> dm_lifetime_pulses (dev_step op d) = dm_lifetime_pulses d + dev_counted op d"
  by (cases op) (auto simp: op_keeps pulse_balance)

lemma dev_step_unaccounted:
  "dev_inv d \<Longrightarrow> dm_lifetime_pulses (dev_step op d) - accounted (dev_step op d) =
   dm_lifetime_pulses d - accounted d + (dev_released op d + dev_lost op d)"
  by (cases op) (auto simp: op_keeps pulse_balance)

interpretation counting: balanced_machine dev_step dev_inv "\<lambda>op d. True" dm_lifetime_pulses dev_counted
  by unfold_locales (simp_all add: dev_step_inv dev_step_lifetime)

interpretation releasing: balanced_machine dev_step dev_inv "\<lambda>op d. True"
    "\<lambda>d. dm_lifetime_pulses d - accounted d" "\<lambda>op d. dev_released op d + dev_lost op d"
  by unfold_locales (simp_all add: dev_step_inv dev_step_unaccounted)

lemma run_all_True: "run_all step (\<lambda>op s. True) ops s"
  by (induction ops arbitrary: s) simp_all

lemma run_sum_add: "run_sum step (\<lambda>op s. f op s + g op s) ops s = run_sum step f ops s + run_sum step g ops s"
  by (induction ops arbitrary: s) simp_all

lemma dev_step_no_loss: "dev_inv d \<Longrightarrow> dev_accepted op d \<Longrightarrow> dev_counted op d = dev_injected op d \<and> dev_lost op d = 0"
  by (cases op) (auto simp: pulse_no_loss is_ok_iff)

lemma run_no_loss:
  "dev_inv d \<Longrightarrow> run_all dev_step dev_accepted ops d \<Longrightarrow>
   run_sum dev_step dev_counted ops d = run_sum dev_step dev_injected ops d \<and> run_sum dev_step dev_lost ops d = 0"
  by (induction ops arbitrary: d) (simp_all add: dev_step_no_loss dev_step_inv)

text \<open>A fresh device has counted nothing.\<close>

lemma new_device_zero: "new_device i b at fg st c = Inr d \<Longrightarrow> dm_lifetime_pulses d = 0 \<and> accounted d = 0"
  by (auto simp: new_device_def count_defs od_values_def split: if_splits)

lemma run_seq_mono: "dev_inv d \<Longrightarrow> dm_next_event_seq d \<le> dm_next_event_seq (run_ops dev_step ops d)"
proof (induction ops arbitrary: d)
  case (Cons op ops)
  show ?case
    using Cons.IH [OF dev_step_inv [OF Cons.prems, of op]] dev_step_seq [OF Cons.prems, of op] by simp
qed simp

text \<open>C1: pulse conservation.  Along any history of calls on a fresh device, raising calls included, the
  lifetime counter is the number of pulses counted, and every one of them is still held by the
  device (in a retained result, in the active event, or in the recovery count), was released by an
  acknowledgement of the result that held it, or was lost in a \<open>pulse\<close> call that raised:
  \<open>pulse_lost\<close> says in which ones and how many.  When no \<open>pulse\<close> call raised, nothing was lost and
  every pulse given to the device was counted.\<close>

theorem device_conserves_pulses:
  assumes "new_device i b at fg st c = Inr d"
  shows "dm_lifetime_pulses (run_ops dev_step ops d) = run_sum dev_step dev_counted ops d \<and>
    accounted (run_ops dev_step ops d) + run_sum dev_step dev_released ops d + run_sum dev_step dev_lost ops d =
      run_sum dev_step dev_counted ops d \<and>
    (run_all dev_step dev_accepted ops d \<longrightarrow>
      run_sum dev_step dev_lost ops d = 0 \<and> run_sum dev_step dev_counted ops d = run_sum dev_step dev_injected ops d)"
  using counting.run_balance [OF new_device_inv [OF assms] run_all_True, of ops]
    releasing.run_balance [OF new_device_inv [OF assms] run_all_True, of ops] new_device_zero [OF assms]
    run_no_loss [OF new_device_inv [OF assms], of ops]
  by (simp add: run_sum_add)

definition demo_device :: device where
  "demo_device =
     \<lparr>dm_device_id = ''dev'', dm_boot_id = ''boot'', dm_arm_timeout_ms = 30000, dm_flow_gap_ms = 1500,
      dm_settling_ms = 1000, dm_result_capacity = 2, dm_state = IDLE, dm_lifetime_pulses = 0,
      dm_next_event_seq = 1, dm_active = None, dm_results = [], dm_recovery_pulses = 0,
      dm_fault = ''none'', dm_last_now_ms = 0\<rparr>"

lemma demo_device_new: "new_device ''dev'' ''boot'' 30000 1500 1000 2 = Inr demo_device"
  by (simp add: new_device_def timing_ok_def demo_device_def)

definition demo_history :: "dev_op list" where
  "demo_history = [Arm ''s1'' 1 10 None, Pulse 5 20, Pulse 7 30, Tick 9000, Pulse 3 9100,
     Acknowledge 1]"

lemmas dev_exec = dev_arm_def dev_pulse_def dev_tick_def dev_acknowledge_def dev_finalize_def
  pulse_advance_def pulse_count_def tick_settle_def validate_now_def dev_allocate_def result_of_def
  leave_terminal_def active_matches_def retained_match_def timing_ok_def od_mem_def od_keys_def od_values_def
  od_pop_def acknowledged_def UINT32_MAX_def UINT64_MAX_def MAX_RESULT_PULSES_def Let_def count_defs

theorem device_conserves_pulses_witness:
  "dm_lifetime_pulses (run_ops dev_step demo_history demo_device) = 15 \<and>
   accounted (run_ops dev_step demo_history demo_device) = 3 \<and>
   run_sum dev_step dev_released demo_history demo_device = 12"
proof -
  have ok: "run_all dev_step dev_accepted demo_history demo_device"
    by (simp add: demo_history_def demo_device_def dev_exec)
  have sums: "run_sum dev_step dev_injected demo_history demo_device = 15"
    "run_sum dev_step dev_released demo_history demo_device = 12"
    by (simp_all add: demo_history_def demo_device_def dev_exec)
  show ?thesis
    using device_conserves_pulses [OF demo_device_new, of demo_history] ok sums by simp
qed

text \<open>C12: the representation invariant on every reachable device.  After any history, raising calls
  included: at most one event is open and it is armed, pouring or settling in step with the
  machine's state; retained results and the open event together fit the configured capacity (at
  most 16); every retained result is terminal, filed under its own sequence number below the next
  one, and timed out exactly when it has no pulses; and what is accounted never exceeds the
  lifetime counter.\<close>

theorem device_reachable_inv:
  assumes "new_device i b at fg st c = Inr d"
  shows "dev_inv (run_ops dev_step ops d)"
  by (rule counting.run_inv) (rule new_device_inv [OF assms])

theorem device_reachable_inv_witness:
  "dev_inv (run_ops dev_step demo_history demo_device)"
  by (rule device_reachable_inv [OF demo_device_new])

section \<open>Time\<close>

definition ends_at :: "device \<Rightarrow> active_event \<Rightarrow> int" where
  "ends_at d a =
     (if ae_state a = ARMED then (case ae_arm_deadline_ms a of Some t \<Rightarrow> t | None \<Rightarrow> 0)
      else finish_at d a)"

definition end_status :: "active_event \<Rightarrow> device_state" where
  "end_status a = (if ae_state a = ARMED then TIMED_OUT else COMPLETE)"

lemma tick_ends:
  assumes "dev_inv d" "0 \<le> now" "dm_active d = Some a" "ends_at d a \<le> now"
  shows "dev_tick now d = (Inr (Some (result_of d a (end_status a) (ends_at d a) ''none'')),
    closed a (end_status a) (ends_at d a) (seen now d))"
proof (cases "ae_state a = ARMED")
  case True
  have "active_ok d a" using assms(1,3) by (simp add: dev_inv_def phase_ok_def)
  with True obtain dl where dl: "ae_arm_deadline_ms a = Some dl" by (auto elim: active_ok_cases)
  show ?thesis using tick_armed [OF assms(2,3) True dl] assms(4) True dl
    by (simp add: ends_at_def end_status_def)
next
  case False
  then show ?thesis using tick_flow [OF assms(1,2,3) False] assms(4)
    by (simp add: ends_at_def end_status_def)
qed

lemma tick_open:
  assumes "dev_inv d" "0 \<le> now" "dm_active d = Some a" "now < ends_at d a"
  shows "\<exists>d'. dev_tick now d = (Inr None, d') \<and> dm_results d' = dm_results d \<and>
    (\<exists>a'. dm_active d' = Some a' \<and> ae_event_seq a' = ae_event_seq a \<and>
      ae_session_id a' = ae_session_id a \<and> ae_pulses a' = ae_pulses a)"
proof (cases "ae_state a = ARMED")
  case True
  have "active_ok d a" using assms(1,3) by (simp add: dev_inv_def phase_ok_def)
  with True obtain dl where dl: "ae_arm_deadline_ms a = Some dl" by (auto elim: active_ok_cases)
  show ?thesis using tick_armed [OF assms(2,3) True dl] assms(3,4) True dl by (simp add: ends_at_def)
next
  case False
  then show ?thesis using tick_flow [OF assms(1,2,3) False] assms(3,4)
    by (auto simp: ends_at_def settling_def)
qed

text \<open>C24: an open event always ends, at its own time.  A tick finalizes the open event exactly when
  its deadline has passed (the arm deadline, or the last pulse plus the flow gap plus the settling
  time); the result is retained under the event's number with all its pulses, the end time recorded
  is the deadline and not the time of the tick, and the device is free again.\<close>

theorem device_event_ends:
  assumes "dev_inv d" "0 \<le> now" "dm_active d = Some a"
  shows "((\<exists>r. fst (dev_tick now d) = Inr (Some r)) \<longleftrightarrow> ends_at d a \<le> now) \<and>
    (ends_at d a \<le> now \<longrightarrow>
      od_get (dm_results (snd (dev_tick now d))) (ae_event_seq a) =
        Some (result_of d a (end_status a) (ends_at d a) ''none'') \<and>
      dm_active (snd (dev_tick now d)) = None \<and> dm_state (snd (dev_tick now d)) = end_status a)"
proof (cases "ends_at d a \<le> now")
  case True
  then show ?thesis
    using tick_ends [OF assms] by (simp add: closed_def od_get_set)
next
  case False
  then show ?thesis using tick_open [OF assms] by auto
qed

theorem device_event_ends_witness:
  "(\<exists>r. fst (dev_tick 9000 (run_ops dev_step [Arm ''s1'' 1 10 None, Pulse 5 20] demo_device)) = Inr (Some r)) \<and>
   \<not> (\<exists>r. fst (dev_tick 2519 (run_ops dev_step [Arm ''s1'' 1 10 None, Pulse 5 20] demo_device)) = Inr (Some r))"
proof -
  let ?d = "run_ops dev_step [Arm ''s1'' 1 10 None, Pulse 5 20] demo_device"
  have inv: "dev_inv ?d" by (rule counting.run_inv) (rule new_device_inv [OF demo_device_new])
  obtain a where a: "dm_active ?d = Some a" "ends_at ?d a = 2520"
    by (simp add: demo_device_def dev_exec ends_at_def finish_at_def settle_at_def)
  show ?thesis
    using device_event_ends [OF inv _ a(1), of 9000] device_event_ends [OF inv _ a(1), of 2519] a(2) by simp
qed

text \<open>The clock of a history: ticks at nondecreasing times.\<close>

lemma ticks_last:
  assumes "dev_inv d" "sorted (t # ts)" "0 \<le> t"
  shows "fold (\<lambda>t d. snd (dev_tick t d)) (t # ts) d = snd (dev_tick (last (t # ts)) d)"
  using assms
proof (induction ts arbitrary: t)
  case (Cons u ts)
  have "fold (\<lambda>t d. snd (dev_tick t d)) (u # ts) d = snd (dev_tick (last (u # ts)) d)"
    using Cons by simp
  have mid: "dev_inv (snd (dev_tick t d))" using tick_keeps [OF Cons.prems(1)] by simp
  have "fold (\<lambda>t d. snd (dev_tick t d)) (t # u # ts) d =
      fold (\<lambda>t d. snd (dev_tick t d)) ts (snd (dev_tick u (snd (dev_tick t d))))" by simp
  also have "\<dots> = fold (\<lambda>t d. snd (dev_tick t d)) (u # ts) d"
    using tick_tick [OF Cons.prems(1,3)] Cons.prems(2) by simp
  also have "\<dots> = snd (dev_tick (last (u # ts)) d)"
    by (rule Cons.IH) (use Cons.prems in auto)
  finally show ?case by simp
qed simp

text \<open>C25: the polling rate does not matter.  Any nondecreasing sequence of ticks leaves the device
  exactly as the last of them alone would: same retained results with the same end times, same
  state, same counters.\<close>

theorem device_tick_rate_irrelevant:
  assumes "dev_inv d" "sorted (t # ts)" "0 \<le> t"
  shows "fold (\<lambda>t d. snd (dev_tick t d)) (t # ts) d = snd (dev_tick (last (t # ts)) d)"
  using ticks_last [OF assms] .

theorem device_tick_rate_irrelevant_witness:
  "fold (\<lambda>t d. snd (dev_tick t d)) [2000, 3000, 9000] (run_ops dev_step [Arm ''s1'' 1 10 None, Pulse 5 20] demo_device) =
   snd (dev_tick 9000 (run_ops dev_step [Arm ''s1'' 1 10 None, Pulse 5 20] demo_device))"
  using device_tick_rate_irrelevant [OF counting.run_inv [OF new_device_inv [OF demo_device_new]],
      of 2000 "[3000, 9000]" "[Arm ''s1'' 1 10 None, Pulse 5 20]"] by simp

section \<open>Replays and sequence numbers\<close>

lemma arm_success:
  assumes "dev_inv d" "fst (dev_arm s k t ttl d) = Inr False"
  obtains d1 a where "0 \<le> t" "dev_inv d1" "k = dm_next_event_seq d1"
    "snd (dev_arm s k t ttl d) = d1\<lparr>dm_next_event_seq := k + 1, dm_active := Some a, dm_state := ARMED\<rparr>"
    "ae_state a = ARMED" "ae_event_seq a = k" "ae_session_id a = Some s" "s \<noteq> []" "length s \<le> 64"
    "\<exists>dl. ae_arm_deadline_ms a = Some dl"
  using assms(1)
proof (cases rule: arm_cases [where s = s and k = k and t = t and ttl = ttl])
  case (armed d1 a)
  obtain r where "dev_tick t d = (Inr r, d1)"
    using tick_ok [OF assms(1) armed(1)] armed(2) by metis
  from arm_eq [OF armed(1) this, of s k ttl] armed(8) have s: "s \<noteq> []" "length s \<le> 64"
    by (auto split: if_splits)
  show ?thesis
    using that [OF armed(1) _ armed(5), of a] armed(2,5,8) s tick_keeps(1) [OF assms(1), of t]
    by (simp add: armed(7))
qed (use assms(2) in simp_all)

text \<open>\<open>arm\<close> can be retried.  After an \<open>arm\<close> that succeeded, the same request sent again, at any
  later time and even after the event has timed out, reports an idempotent replay and does nothing
  beyond letting time pass: no second event is opened and no sequence number is used.\<close>

theorem device_arm_replay:
  assumes "dev_inv d" "fst (dev_arm s k t ttl d) = Inr False" "t \<le> t'"
  shows "dev_arm s k t' ttl' (snd (dev_arm s k t ttl d)) =
    (Inr True, snd (dev_tick t' (snd (dev_arm s k t ttl d))))"
proof -
  obtain d1 a where d: "0 \<le> t" "dev_inv d1" "k = dm_next_event_seq d1"
    "snd (dev_arm s k t ttl d) = d1\<lparr>dm_next_event_seq := k + 1, dm_active := Some a, dm_state := ARMED\<rparr>"
    "ae_state a = ARMED" "ae_event_seq a = k" "ae_session_id a = Some s" "s \<noteq> []" "length s \<le> 64"
    and "\<exists>dl. ae_arm_deadline_ms a = Some dl"
    using arm_success [OF assms(1,2)] .
  then obtain dl where dl: "ae_arm_deadline_ms a = Some dl" by blast
  let ?d = "d1\<lparr>dm_next_event_seq := k + 1, dm_active := Some a, dm_state := ARMED\<rparr>"
  have t': "0 \<le> t'" using d(1) assms(3) by simp
  have act: "dm_active ?d = Some a" by simp
  note tick = tick_armed [OF t' act d(5) dl]
  obtain r where r: "dev_tick t' ?d = (Inr r, snd (dev_tick t' ?d))"
    using tick by (cases "dl \<le> t'") simp_all
  have "active_matches (snd (dev_tick t' ?d)) k s \<or> retained_match (snd (dev_tick t' ?d)) k s \<noteq> None"
    using tick d(6,7) by (auto simp: active_matches_def retained_match_def closed_def od_get_set result_of_def)
  then show ?thesis
    using arm_eq [OF t' r, of s k ttl'] d(4,8,9) by simp
qed

theorem device_arm_replay_witness:
  "fst (dev_arm ''s1'' 1 99999 None (snd (dev_arm ''s1'' 1 10 None demo_device))) = Inr True"
proof -
  have "fst (dev_arm ''s1'' 1 10 None demo_device) = Inr False"
    by (simp add: demo_device_def dev_exec)
  from device_arm_replay [OF new_device_inv [OF demo_device_new] this, of 99999 None]
  show ?thesis by simp
qed

text \<open>A sequence number is armed at most once per boot.  Once \<open>arm\<close> has opened the event
  number \<open>k\<close>, no later \<open>arm\<close> opens \<open>k\<close> again, for any session, after any history of calls.\<close>

theorem device_sequence_fresh:
  assumes "dev_inv d" "fst (dev_arm s k t ttl d) = Inr False"
  shows "fst (dev_arm s' k t' ttl' (run_ops dev_step ops (snd (dev_arm s k t ttl d)))) \<noteq> Inr False"
proof
  let ?d = "snd (dev_arm s k t ttl d)"
  let ?e = "run_ops dev_step ops ?d"
  assume again: "fst (dev_arm s' k t' ttl' ?e) = Inr False"
  have inv: "dev_inv ?d" using arm_keeps [OF assms(1)] by simp
  obtain d1 a where "?d = d1\<lparr>dm_next_event_seq := k + 1, dm_active := Some a, dm_state := ARMED\<rparr>"
    using arm_success [OF assms] .
  then have "k + 1 = dm_next_event_seq ?d" by simp
  also have "\<dots> \<le> dm_next_event_seq ?e" by (rule run_seq_mono [OF inv])
  finally have gt: "k < dm_next_event_seq ?e" by simp
  have inv': "dev_inv ?e" by (rule counting.run_inv [OF inv])
  then show False
  proof (cases rule: arm_cases [where s = s' and k = k and t = t' and ttl = ttl'])
    case (armed d1 a)
    then show ?thesis using gt tick_keeps(4) [OF inv', of t'] by simp
  qed (use again gt inv' tick_keeps in simp_all)
qed

text \<open>C33: the loss at the end of the sequence space.  When all 32-bit event numbers are used and a
  pulse arrives with no event open and room in the result store, \<open>pulse\<close> raises after it has
  already advanced the lifetime counter: the pulses reach neither an event nor the recovery count,
  so the device's accounting falls behind its lifetime counter by exactly the pulses received.\<close>

theorem device_exhausted_pulse_unaccounted:
  assumes "dev_inv d" "dm_active d = None" "int (length (dm_results d)) < dm_result_capacity d"
    "dm_next_event_seq d = UINT32_MAX + 1" "0 \<le> t" "0 < c" "dm_lifetime_pulses d \<le> UINT64_MAX - c"
  shows "fst (dev_pulse c t d) = Inl (ConflictError ''device event sequence is exhausted'') \<and>
    dm_lifetime_pulses (snd (dev_pulse c t d)) = dm_lifetime_pulses d + c \<and>
    accounted (snd (dev_pulse c t d)) = accounted d \<and>
    dm_recovery_pulses (snd (dev_pulse c t d)) = dm_recovery_pulses d"
proof -
  have "dev_pulse c t d = pulse_count c t (leave_terminal d)"
    using assms by (simp add: dev_pulse_def validate_now_def pulse_advance_def)
  then show ?thesis
    using pulse_count_exhausted [of "leave_terminal d" c t] assms(2-4)
    by (simp add: leave_terminal_def split: if_split)
qed

theorem device_exhausted_pulse_unaccounted_witness:
  "dm_lifetime_pulses (snd (dev_pulse 9 50 (demo_device\<lparr>dm_next_event_seq := 4294967296\<rparr>))) = 9 \<and>
   accounted (snd (dev_pulse 9 50 (demo_device\<lparr>dm_next_event_seq := 4294967296\<rparr>))) = 0"
proof -
  let ?d = "demo_device\<lparr>dm_next_event_seq := 4294967296\<rparr>"
  have inv: "dev_inv ?d"
    by (simp add: demo_device_def dev_inv_defs busy_def count_defs pulse_limits od_values_def timing_ok_def)
  have "dm_active ?d = None" "int (length (dm_results ?d)) < dm_result_capacity ?d"
    "dm_next_event_seq ?d = UINT32_MAX + 1" "dm_lifetime_pulses ?d \<le> UINT64_MAX - 9"
    "dm_lifetime_pulses ?d = 0" "accounted ?d = 0"
    by (simp_all add: demo_device_def pulse_limits count_defs od_values_def)
  then show ?thesis using device_exhausted_pulse_unaccounted [OF inv, of 50 9] by simp
qed

theorem device_sequence_fresh_witness:
  "fst (dev_arm ''s2'' 1 9500 None (run_ops dev_step [Tick 40000, Acknowledge 1]
     (snd (dev_arm ''s1'' 1 10 None demo_device)))) \<noteq> Inr False"
proof -
  have "fst (dev_arm ''s1'' 1 10 None demo_device) = Inr False"
    by (simp add: demo_device_def dev_exec)
  from device_sequence_fresh [OF new_device_inv [OF demo_device_new] this] show ?thesis .
qed

end
