(* ===== verification/KP_Wire.thy ===== *)
theory KP_Wire
  imports KP_Simulator KP_DeviceRuns
begin

text \<open>
  The two ends of the wire together: the coordinator's reader of RESULT frames
  (\<open>_device_result\<close> in \<open>src/kegpulse/application/coordinator.py\<close>) against the simulator's writer
  of them, and the host's readers of STATUS and COUNTERS against their writers.  What the device
  reports is what the host reads, and the frames always fit the 256-byte line.
\<close>

section \<open>Reading a result\<close>

definition re_DEVICE_ID :: "string \<Rightarrow> bool" where
  "re_DEVICE_ID = fullmatch is_hex_upper 16 16"

definition re_SESSION_ID :: "string \<Rightarrow> bool" where
  "re_SESSION_ID = fullmatch is_hex_lower 32 32"

definition device_result_of_fields :: "field_dict \<Rightarrow> device_result result" where
  "device_result_of_fields flds =
     (if \<not> has_keys [''dev'', ''boot'', ''seq'', ''sid'', ''attr'', ''st'', ''pulses'', ''life'',
           ''start'', ''end'', ''fault''] flds then
        Inl (ValueError ''device result is missing required fields'')
      else case device_state_of (field flds ''st'') of
        None \<Rightarrow> Inl (ValueError ''not a valid DeviceState'')
      | Some status \<Rightarrow>
          if \<not> is_terminal status then Inl (ValueError ''device result has a nonterminal status'')
          else if \<not> re_DEVICE_ID (field flds ''dev'') \<or> \<not> re_DEVICE_ID (field flds ''boot'') then
            Inl (ValueError ''device result identity is malformed'')
          else
            let attributed = (field flds ''attr'' = ''1'')
            in if field flds ''attr'' \<notin> {''0'', ''1''} then
                 Inl (ValueError ''device result attribution is malformed'')
               else if attributed \<noteq> re_SESSION_ID (field flds ''sid'') \<and>
                   \<not> (\<not> attributed \<and> field flds ''sid'' = ''none'') then
                 Inl (ValueError ''device result session identity is inconsistent'')
               else if \<not> fault_token (field flds ''fault'') then
                 Inl (ValueError ''device result fault is malformed'')
               else
                 bind_res (to_int (field flds ''seq'')) (\<lambda>sequence.
                 bind_res (to_int (field flds ''pulses'')) (\<lambda>pulses.
                 bind_res (to_int (field flds ''life'')) (\<lambda>lifetime.
                 bind_res (to_int (field flds ''start'')) (\<lambda>started.
                 bind_res (to_int (field flds ''end'')) (\<lambda>ended.
                   if \<not> (1 \<le> sequence \<and> sequence \<le> 0xFFFFFFFF) then
                     Inl (ValueError ''device result sequence is out of range'')
                   else if \<not> (0 \<le> pulses \<and> pulses \<le> 0x7FFFFFFFFFFFFFFF) \<or>
                       \<not> (pulses \<le> lifetime \<and> lifetime \<le> 0xFFFFFFFFFFFFFFFF) then
                     Inl (ValueError ''device result counters are out of range'')
                   else
                     bind_res (elapsed_u32 started ended) (\<lambda>duration.
                     bind_res (ensure_plausible_pulse_count (VInt pulses) (VInt duration)
                         ''device result pulse count'') (\<lambda>_.
                       if status = TIMED_OUT \<and> pulses \<noteq> 0 then
                         Inl (ValueError ''timed-out device result cannot contain pulses'')
                       else Inr
                         \<lparr>dr_device_id = field flds ''dev'', dr_boot_id = field flds ''boot'',
                          dr_event_seq = sequence,
                          dr_session_id = (if field flds ''sid'' = ''none'' then None
                                           else Some (field flds ''sid'')),
                          dr_attributed = attributed, dr_status = status, dr_raw_pulses = pulses,
                          dr_lifetime_pulses = lifetime, dr_started_ms = started,
                          dr_ended_ms = ended, dr_fault = field flds ''fault''\<rparr>))))))))"

text \<open>The results a device can honestly report: identities well-formed, a session exactly when
  attributed, and a pulse count that flow at the envelope's rate could have produced.\<close>

definition reportable :: "device_result \<Rightarrow> bool" where
  "reportable r \<longleftrightarrow>
     re_DEVICE_ID (dr_device_id r) \<and> re_DEVICE_ID (dr_boot_id r) \<and>
     1 \<le> dr_event_seq r \<and> dr_event_seq r < 2 ^ 32 \<and>
     (case dr_session_id r of None \<Rightarrow> \<not> dr_attributed r | Some sid \<Rightarrow> dr_attributed r \<and> re_SESSION_ID sid) \<and>
     is_terminal (dr_status r) \<and> (dr_status r = TIMED_OUT \<longrightarrow> dr_raw_pulses r = 0) \<and>
     0 \<le> dr_raw_pulses r \<and> dr_raw_pulses r \<le> dr_lifetime_pulses r \<and> dr_lifetime_pulses r < 2 ^ 64 \<and>
     0 \<le> dr_started_ms r \<and> dr_started_ms r < 2 ^ 32 \<and> 0 \<le> dr_ended_ms r \<and> dr_ended_ms r < 2 ^ 32 \<and>
     (dr_ended_ms r - dr_started_ms r) mod 2 ^ 32 < 2 ^ 31 \<and>
     dr_raw_pulses r \<le> min (100000 + 10 * ((dr_ended_ms r - dr_started_ms r) mod 2 ^ 32)) 1000000000 \<and>
     fault_token (dr_fault r)"

lemma to_int_show: "0 \<le> n \<Longrightarrow> to_int (show_int n) = Inr n"
  by (simp add: to_int_def py_int_show)

lemma none_no_session: "\<not> re_SESSION_ID ''none''" "\<not> re_SESSION_ID []"
  by (simp_all add: re_SESSION_ID_def fullmatch_def)

lemma show_bool_simps [simp]: "show_bool True = ''1''" "show_bool False = ''0''"
  by (simp_all add: show_bool_def show_int_def show_digits.simps digit_char_def digit_chars_def)

lemma result_fields_get:
  "has_keys [''dev'', ''boot'', ''seq'', ''sid'', ''attr'', ''st'', ''pulses'', ''life'', ''start'',
     ''end'', ''fault''] (result_fields r)"
  "field (result_fields r) ''dev'' = dr_device_id r" "field (result_fields r) ''boot'' = dr_boot_id r"
  "field (result_fields r) ''seq'' = show_int (dr_event_seq r)"
  "field (result_fields r) ''sid'' = (case dr_session_id r of Some t \<Rightarrow> if t = [] then ''none'' else t | None \<Rightarrow> ''none'')"
  "field (result_fields r) ''attr'' = show_bool (dr_attributed r)"
  "field (result_fields r) ''st'' = device_state_value (dr_status r)"
  "field (result_fields r) ''pulses'' = show_int (dr_raw_pulses r)"
  "field (result_fields r) ''life'' = show_int (dr_lifetime_pulses r)"
  "field (result_fields r) ''start'' = show_int (dr_started_ms r)"
  "field (result_fields r) ''end'' = show_int (dr_ended_ms r)"
  "field (result_fields r) ''fault'' = dr_fault r"
  by (simp_all add: result_fields_def field_def od_mem_iff)

lemma read_result_fields:
  assumes "reportable r"
  shows "device_result_of_fields (result_fields r) = Inr r"
proof -
  have nn: "0 \<le> dr_event_seq r" "0 \<le> dr_raw_pulses r" "0 \<le> dr_lifetime_pulses r" "0 \<le> dr_started_ms r"
    "0 \<le> dr_ended_ms r" "is_terminal (dr_status r)"
    using assms by (auto simp: reportable_def)
  note ints = to_int_show [OF nn(1)] to_int_show [OF nn(2)] to_int_show [OF nn(3)]
    to_int_show [OF nn(4)] to_int_show [OF nn(5)]
  obtain t where dur: "elapsed_u32 (dr_started_ms r) (dr_ended_ms r) = Inr t"
    and env: "ensure_plausible_pulse_count (VInt (dr_raw_pulses r)) (VInt t) label = Inr ()" for label
  proof
    show "elapsed_u32 (dr_started_ms r) (dr_ended_ms r) = Inr ((dr_ended_ms r - dr_started_ms r) mod 2 ^ 32)"
      using assms by (simp add: elapsed_u32_iff reportable_def)
    show "ensure_plausible_pulse_count (VInt (dr_raw_pulses r))
        (VInt ((dr_ended_ms r - dr_started_ms r) mod 2 ^ 32)) label = Inr ()" for label
      using assms by (simp add: plausible_iff reportable_def)
  qed
  have pulses: "dr_raw_pulses r \<le> 0x7FFFFFFFFFFFFFFF"
    using assms by (simp add: reportable_def)
  have sid: "case dr_session_id r of None \<Rightarrow> \<not> dr_attributed r
      | Some sid \<Rightarrow> dr_attributed r \<and> re_SESSION_ID sid \<and> sid \<noteq> [] \<and> sid \<noteq> ''none''"
    using assms none_no_session by (auto simp: reportable_def split: option.splits)
  show ?thesis
    using assms nn(6) sid pulses
    by (cases "dr_session_id r")
      (simp_all add: device_result_of_fields_def result_fields_get ints dur env reportable_def none_no_session
        del: has_keys_simps)
qed

section \<open>The frames fit\<close>

lemma show_int_length: "0 \<le> n \<Longrightarrow> n < 10 ^ k \<Longrightarrow> 0 < k \<Longrightarrow> length (show_int n) \<le> k"
  by (simp add: show_int_def length_show_digits)

lemma value_digits: "is_digit c \<Longrightarrow> value_char c"
  by (simp add: value_char_def)

lemma re_VALUE_show_int: "0 \<le> n \<Longrightarrow> n < 2 ^ 64 \<Longrightarrow> re_VALUE (show_int n)"
proof -
  assume n: "0 \<le> n" "n < 2 ^ 64"
  then have "length (show_digits n) \<le> 20" by (intro length_show_digits) simp_all
  moreover have "list_all value_char (show_digits n)"
    using show_digits_digits [OF n(1)] by (auto simp: list_all_iff value_digits)
  moreover have "1 \<le> length (show_digits n)"
    using show_digits_nonempty [of n] by (cases "show_digits n") simp_all
  ultimately show "re_VALUE (show_int n)"
    using n(1) by (simp add: re_VALUE_def fullmatch_def show_int_def)
qed

lemma re_VALUE_identity: "re_DEVICE_ID s \<Longrightarrow> re_VALUE s" "re_SESSION_ID s \<Longrightarrow> re_VALUE s"
  by (auto simp: re_DEVICE_ID_def re_SESSION_ID_def re_VALUE_def fullmatch_def list_all_iff
      frame_class_defs)

lemma re_VALUE_show_bool: "re_VALUE ''0''" "re_VALUE ''1''" "re_VALUE ''none''"
  by (simp_all add: re_VALUE_def fullmatch_def frame_class_defs)

lemma fault_token_value: "fault_token s = re_VALUE s"
  by (simp add: fault_token_def re_VALUE_def)

lemma identity_length: "re_DEVICE_ID s \<Longrightarrow> length s = 16" "re_SESSION_ID s \<Longrightarrow> length s = 32"
  by (auto simp: re_DEVICE_ID_def re_SESSION_ID_def fullmatch_def)

lemma state_value_length: "length (device_state_value st) \<le> 12" "is_terminal st \<Longrightarrow> length (device_state_value st) \<le> 11"
  by (cases st; simp)+

lemma result_keys: "re_KEY k" if "k \<in> set (map fst (result_fields r))"
  using that by (auto simp: result_fields_def re_KEY_def fullmatch_def frame_class_defs)

lemma result_values:
  assumes "reportable r" "v \<in> set (map snd (result_fields r))"
  shows "re_VALUE v"
proof -
  have "dr_raw_pulses r < 2 ^ 64" using assms(1) by (simp add: reportable_def)
  moreover have "re_VALUE (show_bool (dr_attributed r))"
    by (cases "dr_attributed r") (simp_all add: re_VALUE_show_bool)
  ultimately show ?thesis
    using assms
    by (auto simp: result_fields_def reportable_def re_VALUE_show_int re_VALUE_identity re_VALUE_show_bool
        fault_token_value device_state_value_ok none_no_session split: option.splits)
qed

definition result_message :: "device_result \<Rightarrow> frame" where
  "result_message r = \<lparr>fr_kind = ''R'', fr_request_id = ''00000000'', fr_operation = ''RESULT'',
     fr_fields = result_fields r\<rparr>"

lemma result_message_ok: "reportable r \<Longrightarrow> frame_ok (result_message r)"
  using result_keys [of _ r] result_values [of r]
  by (auto simp: result_message_def frame_ok_def frame_kinds_def frame_re_defs fullmatch_def frame_class_defs)
    (auto simp: result_fields_def od_wf_def od_keys_def)

lemma result_message_length:
  assumes "reportable r" "length (dr_fault r) \<le> 18"
  shows "length (frame_line (result_message r)) < 256"
proof -
  have lens: "length (show_int (dr_event_seq r)) \<le> 10" "length (show_int (dr_raw_pulses r)) \<le> 10"
    "length (show_int (dr_lifetime_pulses r)) \<le> 20" "length (show_int (dr_started_ms r)) \<le> 10"
    "length (show_int (dr_ended_ms r)) \<le> 10"
    using assms(1) by (auto simp: reportable_def intro!: show_int_length)
  have "length (device_state_value (dr_status r)) \<le> 11" "length (dr_device_id r) = 16" "length (dr_boot_id r) = 16"
    using assms(1) state_value_length by (auto simp: reportable_def identity_length)
  moreover have "length (case dr_session_id r of None \<Rightarrow> ''none'' | Some t \<Rightarrow> if t = [] then ''none'' else t) \<le> 32"
    using assms(1) by (auto simp: reportable_def dest!: identity_length(2) split: option.splits)
  moreover have "length (show_bool (dr_attributed r)) = 1"
    by (cases "dr_attributed r") simp_all
  ultimately show ?thesis
    using lens assms(2)
    by (simp add: frame_line_def frame_payload_def result_message_def result_fields_def field_token_def)
qed

text \<open>C28: a result crosses the wire unchanged.  For every result a device can honestly report, the
  simulator's RESULT frame is within the 256-byte line, decodes, and the coordinator reads back from
  its fields exactly that result: identities, sequence number, session, attribution, status, both
  counters, both times and the fault.\<close>

theorem result_crosses_wire:
  assumes "reportable r" "length (dr_fault r) \<le> 18"
  shows "\<exists>bs f. result_frame r = Inr bs \<and> length bs \<le> 256 \<and> decode_frame bs = Inr f \<and>
    fr_operation f = ''RESULT'' \<and> device_result_of_fields (fr_fields f) = Inr r"
proof -
  let ?f = "result_message r"
  have enc: "encode_frame ''R'' ''00000000'' ''RESULT'' (result_fields r) = Inr (frame_line ?f @ [LF])"
    using encode_frame_bytes [of ?f "frame_line ?f @ [LF]"] result_message_ok [OF assms(1)] result_message_length [OF assms]
    by (simp add: result_message_def MAX_FRAME_BYTES_def)
  have "decode_frame (frame_line ?f @ [LF]) = Inr ?f"
    using encode_decode [OF enc] by (simp add: result_message_def)
  then show ?thesis
    using enc result_message_length [OF assms] read_result_fields [OF assms(1)]
    by (auto simp: result_frame_def as_value_error_def result_message_def)
qed

definition demo_result :: device_result where
  "demo_result =
     \<lparr>dr_device_id = ''4B454750554C5345'', dr_boot_id = ''0000000000000001'', dr_event_seq = 7,
      dr_session_id = None, dr_attributed = False, dr_status = COMPLETE, dr_raw_pulses = 1500,
      dr_lifetime_pulses = 99000, dr_started_ms = 4294967000, dr_ended_ms = 4000, dr_fault = ''none''\<rparr>"

lemma demo_result_reportable: "reportable demo_result"
  by (simp add: demo_result_def reportable_def re_DEVICE_ID_def fault_token_def fullmatch_def frame_class_defs)

theorem result_crosses_wire_witness:
  "\<exists>bs f. result_frame demo_result = Inr bs \<and> length bs \<le> 256 \<and> decode_frame bs = Inr f \<and>
    fr_operation f = ''RESULT'' \<and> device_result_of_fields (fr_fields f) = Inr demo_result"
  using result_crosses_wire [OF demo_result_reportable] by (simp add: demo_result_def)

text \<open>What the coordinator accepts as a result is within every bound the database relies on:
  a terminal status, a 32-bit sequence number, counters that are ordered and fit their columns,
  times on the 32-bit timer with an unambiguous duration, and a count inside the physical envelope
  of that duration (a timed-out event has none).\<close>

theorem accepted_result_bounds:
  assumes "device_result_of_fields flds = Inr r"
  shows "is_terminal (dr_status r) \<and> re_DEVICE_ID (dr_device_id r) \<and> re_DEVICE_ID (dr_boot_id r) \<and>
    1 \<le> dr_event_seq r \<and> dr_event_seq r < 2 ^ 32 \<and>
    0 \<le> dr_raw_pulses r \<and> dr_raw_pulses r \<le> dr_lifetime_pulses r \<and> dr_lifetime_pulses r < 2 ^ 64 \<and>
    (dr_ended_ms r - dr_started_ms r) mod 2 ^ 32 < 2 ^ 31 \<and>
    dr_raw_pulses r \<le> min (100000 + 10 * ((dr_ended_ms r - dr_started_ms r) mod 2 ^ 32)) 1000000000 \<and>
    (dr_status r = TIMED_OUT \<longrightarrow> dr_raw_pulses r = 0) \<and>
    (dr_attributed r \<longrightarrow> (\<exists>sid. dr_session_id r = Some sid \<and> re_SESSION_ID sid))"
  using assms none_no_session
  by (clarsimp simp: device_result_of_fields_def res_simps Let_def elapsed_u32_iff plausible_iff
      simp del: has_keys_simps split: option.splits) auto

text \<open>The identity check for unattributed results has a hole.  The source compares the
  attribution with whether the session text is well-formed, so a result with \<open>attr=0\<close> and any
  malformed session text is accepted, and the garbage becomes the result's session identity: the
  fields below differ from an honest result only in their \<open>sid\<close>.\<close>

theorem malformed_session_accepted:
  "device_result_of_fields (od_set (result_fields demo_result) ''sid'' ''garbage'') =
     Inr (demo_result\<lparr>dr_session_id := Some ''garbage''\<rparr>)"
proof -
  have ints: "to_int (show_int n) = Inr n" if "0 \<le> n" for n
    using that by (rule to_int_show)
  have t: "elapsed_u32 4294967000 4000 = Inr 4296"
    by (simp add: elapsed_u32_iff)
  have e: "ensure_plausible_pulse_count (VInt 1500) (VInt 4296) label = Inr ()" for label
    by (simp add: plausible_iff)
  show ?thesis
    by (simp add: device_result_of_fields_def result_fields_def demo_result_def field_def od_mem_iff
        ints t e re_DEVICE_ID_def re_SESSION_ID_def fault_token_def fullmatch_def frame_class_defs
        device_state_of_def device_states_def)
qed

theorem accepted_result_bounds_witness:
  "dr_raw_pulses demo_result \<le> dr_lifetime_pulses demo_result \<and> is_terminal (dr_status demo_result)"
  using accepted_result_bounds [OF read_result_fields [OF demo_result_reportable]] by simp

lemma snapshot_fields_get:
  "has_keys [''pulses'', ''lifetime'', ''uptime''] (status_fields st)"
  "field (status_fields st) ''pulses'' = show_int (ds_session_pulses st)"
  "field (status_fields st) ''lifetime'' = show_int (ds_lifetime_pulses st)"
  "field (status_fields st) ''uptime'' = show_int (ds_uptime_ms st)"
  "has_keys [''accepted'', ''recovery'', ''rejected'', ''noise_gate_us'', ''fault''] (counters_fields d)"
  "field (counters_fields d) ''accepted'' = show_int (dm_lifetime_pulses d)"
  "field (counters_fields d) ''recovery'' = show_int (dm_recovery_pulses d)"
  "field (counters_fields d) ''rejected'' = show_int 0"
  "field (counters_fields d) ''noise_gate_us'' = show_int 0"
  "field (counters_fields d) ''fault'' = dm_fault d"
  by (simp_all add: status_fields_def counters_fields_def field_def od_mem_iff)

lemma active_le_lifetime:
  "dev_inv d \<Longrightarrow> 0 \<le> active_pulses d \<and> active_pulses d \<le> dm_lifetime_pulses d \<and>
     0 \<le> retained_pulses d \<and> dm_recovery_pulses d \<le> dm_lifetime_pulses d \<and> 0 \<le> dm_recovery_pulses d"
  using active_pulses_nonneg [of d] retained_nonneg [of d]
  by (auto simp: dev_inv_def counters_ok_def accounted_def)

lemma status_session_le:
  assumes "dev_inv d"
  shows "0 \<le> ds_session_pulses (status_of d) \<and> ds_session_pulses (status_of d) \<le> ds_lifetime_pulses (status_of d)"
proof (cases "dm_active d")
  case (Some a)
  then show ?thesis using active_le_lifetime [OF assms] by (simp add: status_of_def Let_def active_pulses_def)
next
  case None
  show ?thesis
  proof (cases "dm_results d = []")
    case True
    then show ?thesis using None active_le_lifetime [OF assms] by (simp add: status_of_def Let_def active_pulses_def)
  next
    case False
    obtain k r where kr: "last (dm_results d) = (k, r)" by force
    with False have "(k, r) \<in> set (dm_results d)" by (metis last_in_set)
    then have "0 \<le> dr_raw_pulses r \<and> dr_raw_pulses r \<le> dm_lifetime_pulses d"
      using assms by (force simp: dev_inv_def store_ok_def result_ok_def)
    moreover have "last (od_values (dm_results d)) = snd (last (dm_results d))"
      using False by (simp add: od_values_def last_map)
    ultimately show ?thesis
      using None False kr by (simp add: status_of_def Let_def)
  qed
qed

text \<open>The periodic snapshots cross the wire.  For any device in a reachable condition whose uptime
  is still on the 32-bit timer and whose lifetime count is physically plausible for that uptime, the
  host's readers of the STATUS and COUNTERS fields accept them and obtain the device's own counters.\<close>

theorem snapshots_cross_wire:
  assumes "dev_inv d" "dm_last_now_ms d < 2 ^ 32" "fault_token (dm_fault d)"
    "dm_lifetime_pulses d \<le> min (100000 + 10 * dm_last_now_ms d) 1000000000"
  shows "parse_status_pulse_snapshot (status_fields (status_of d)) =
      Inr \<lparr>ss_session_pulses = ds_session_pulses (status_of d), ss_lifetime_pulses = dm_lifetime_pulses d,
        ss_uptime_ms = dm_last_now_ms d\<rparr> \<and>
    parse_counter_snapshot (counters_fields d) (VInt (dm_last_now_ms d)) =
      Inr \<lparr>cs_accepted_pulses = dm_lifetime_pulses d, cs_recovery_pulses = dm_recovery_pulses d,
        cs_rejected_edges = 0, cs_noise_gate_us = 0, cs_fault = dm_fault d\<rparr>"
proof -
  have up: "0 \<le> dm_last_now_ms d" using assms(1) by (simp add: dev_inv_def counters_ok_def)
  have eq: "ds_lifetime_pulses (status_of d) = dm_lifetime_pulses d" "ds_uptime_ms (status_of d) = dm_last_now_ms d"
    by (simp_all add: status_of_def Let_def)
  note le = status_session_le [OF assms(1), unfolded eq] active_le_lifetime [OF assms(1)]
  have env: "ensure_plausible_pulse_count (VInt (dm_lifetime_pulses d)) (VInt (dm_last_now_ms d)) label = Inr ()" for label
    using assms(2,4) le up by (simp add: plausible_iff)
  have num: "unsigned_field (show_int n) name m = Inr n" if "0 \<le> n" "n \<le> m" for n m name
    using that by (rule unsigned_field_show)
  have life: "dm_lifetime_pulses d \<le> UINT64_MAX" "dm_last_now_ms d \<le> UINT32_MAX" "0 \<le> UINT32_MAX"
    using assms(1,2) by (simp_all add: dev_inv_def counters_ok_def UINT32_MAX_def)
  have "ds_session_pulses (status_of d) \<le> UINT64_MAX" "dm_recovery_pulses d \<le> UINT64_MAX" "0 \<le> dm_lifetime_pulses d"
    using life le by linarith+
  then show ?thesis
    using le life up env assms(3)
    by (simp add: parse_status_pulse_snapshot_def parse_counter_snapshot_def snapshot_fields_get eq num
        del: has_keys_simps)
qed

theorem snapshots_cross_wire_witness:
  "parse_counter_snapshot (counters_fields (demo_device\<lparr>dm_last_now_ms := 5\<rparr>)) (VInt 5) =
     Inr \<lparr>cs_accepted_pulses = 0, cs_recovery_pulses = 0, cs_rejected_edges = 0, cs_noise_gate_us = 0,
       cs_fault = ''none''\<rparr>"
proof -
  have "dev_inv (demo_device\<lparr>dm_last_now_ms := 5\<rparr>)"
    by (simp add: demo_device_def dev_inv_defs busy_def count_defs pulse_limits od_values_def timing_ok_def)
  from snapshots_cross_wire [OF this] show ?thesis
    by (simp add: demo_device_def fault_token_def fullmatch_def frame_class_defs)
qed

end
