(* ===== verification/KP_Manager.thy ===== *)
theory KP_Manager
  imports KP_Domain
begin

text \<open>
  The serial device manager, \<open>src/kegpulse/serialio/manager.py\<close>: the bounded event queue with its
  overflow flag, the suppression caches of the periodic polls, the identity checks, request ids,
  and the request/response exchange.  The worker thread runs every modelled method; what it gets
  from outside (the transport's reads and writes, the request to reconnect, the measurement context
  of the database) is a list of \<open>link_event\<close>s given to the exchange, in the order they happen
  before its deadline.  A timeout is the end of that list.
\<close>

section \<open>State\<close>

datatype connection_state = STOPPED | CONN_CONNECTING | CONNECTED | RECONNECTING | CONN_DEGRADED

record manager_event =
  me_kind :: string
  me_frame :: "frame option"
  me_detail :: string
  me_device_id :: string
  me_boot_id :: string
  me_uptime_ms :: "int option"
  me_keg_id :: "string option"
  me_calibration_id :: "string option"
  me_context_captured :: bool

definition manager_event_of :: "string \<Rightarrow> frame option \<Rightarrow> string \<Rightarrow> manager_event" where
  "manager_event_of knd fr detail =
     \<lparr>me_kind = knd, me_frame = fr, me_detail = detail, me_device_id = [], me_boot_id = [],
      me_uptime_ms = None, me_keg_id = None, me_calibration_id = None, me_context_captured = False\<rparr>"

text \<open>The keg and the calibration that are active now; the provider may be absent or fail.\<close>

type_synonym context_provider = "(string option \<times> string option) result option"

datatype link_event =
    Received string context_provider
  | LinkError string
  | ReconnectRequested

record manager =
  mg_capacity :: nat
  mg_events :: "manager_event list"
  mg_state :: connection_state
  mg_detail :: string
  mg_identity :: field_dict
  mg_status :: field_dict
  mg_counters :: field_dict
  mg_request_counter :: int
  mg_overflow_count :: nat
  mg_needs_resync :: bool
  mg_parser :: frame_parser
  mg_sent :: string

definition new_manager :: "nat \<Rightarrow> manager" where
  "new_manager capacity =
     \<lparr>mg_capacity = capacity, mg_events = [], mg_state = STOPPED, mg_detail = ''not started'',
      mg_identity = [], mg_status = [], mg_counters = [], mg_request_counter = 1,
      mg_overflow_count = 0, mg_needs_resync = False, mg_parser = new_parser MAX_FRAME_BYTES,
      mg_sent = []\<rparr>"

section \<open>The event queue\<close>

text \<open>A queue of capacity 0 is unbounded in Python.\<close>

definition queue_event :: "manager_event \<Rightarrow> manager \<Rightarrow> bool \<times> manager" where
  "queue_event e m =
     (if mg_capacity m = 0 \<or> length (mg_events m) < mg_capacity m then
        (True, m\<lparr>mg_events := mg_events m @ [e]\<rparr>)
      else
        (False, m\<lparr>mg_overflow_count := mg_overflow_count m + 1, mg_needs_resync := True,
                  mg_state := CONN_DEGRADED,
                  mg_detail := ''event queue overflow; result/status resynchronization required''\<rparr>))"

definition set_state :: "connection_state \<Rightarrow> string \<Rightarrow> manager \<Rightarrow> manager" where
  "set_state st detail m0 =
     (let changed = (mg_state m0 \<noteq> st \<or> mg_detail m0 \<noteq> detail);
          m = m0\<lparr>mg_state := st, mg_detail := detail\<rparr>
      in if changed then snd (queue_event (manager_event_of ''connection'' None detail) m) else m)"

definition drain_events :: "int \<Rightarrow> manager \<Rightarrow> manager_event list \<times> manager" where
  "drain_events maximum m =
     (let n = nat (max 0 (min maximum 1000))
      in (take n (mg_events m), m\<lparr>mg_events := drop n (mg_events m)\<rparr>))"

definition next_request_id :: "manager \<Rightarrow> string \<times> manager" where
  "next_request_id m =
     (let v = mg_request_counter m
      in (show_hex 8 v, m\<lparr>mg_request_counter := (if v \<ge> 0xFFFFFFFF then 1 else v + 1)\<rparr>))"

section \<open>Recording what the device reports\<close>

definition capture_context :: "context_provider \<Rightarrow> string option \<times> string option" where
  "capture_context provider =
     (case provider of None \<Rightarrow> (None, None) | Some (Inl _) \<Rightarrow> (None, None) | Some (Inr ids) \<Rightarrow> ids)"

definition ident :: "manager \<Rightarrow> string \<Rightarrow> string" where
  "ident m k = (case od_get (mg_identity m) k of Some v \<Rightarrow> v | None \<Rightarrow> [])"

definition record_status :: "frame \<Rightarrow> manager \<Rightarrow> unit result \<times> manager" where
  "record_status fr m =
     (let expected_boot = od_get (mg_identity m) ''boot'';
          observed_boot = od_get (fr_fields fr) ''boot''
      in if expected_boot \<noteq> None \<and> expected_boot \<noteq> Some [] \<and> observed_boot \<noteq> expected_boot then
           (Inl (TransportUnavailable ''device boot identity changed in place; re-handshaking''), m)
         else if od_same (mg_status m) (fr_fields fr) then (Inr (), m)
         else
           let (queued, m) = queue_event ((manager_event_of ''status'' (Some fr) [])
                 \<lparr>me_device_id := ident m ''device'', me_boot_id := ident m ''boot''\<rparr>) m
           in (Inr (), if queued then m\<lparr>mg_status := fr_fields fr\<rparr> else m))"

definition record_counters :: "frame \<Rightarrow> context_provider \<Rightarrow> manager \<Rightarrow> manager" where
  "record_counters fr provider m =
     (if od_same (mg_counters m) (fr_fields fr) then m
      else
        let uptime_text = (case od_get (mg_status m) ''uptime'' of Some t \<Rightarrow> t | None \<Rightarrow> []);
            (keg_id, calibration_id) = capture_context provider;
            (queued, m) = queue_event ((manager_event_of ''counters'' (Some fr) [])
              \<lparr>me_device_id := ident m ''device'', me_boot_id := ident m ''boot'',
               me_uptime_ms := py_int uptime_text, me_keg_id := keg_id,
               me_calibration_id := calibration_id, me_context_captured := (provider \<noteq> None)\<rparr>) m
        in if queued then m\<lparr>mg_counters := fr_fields fr\<rparr> else m)"

definition queue_result :: "frame \<Rightarrow> context_provider \<Rightarrow> manager \<Rightarrow> unit result \<times> manager" where
  "queue_result fr provider m =
     (if ident m ''device'' = [] \<or> ident m ''boot'' = [] then
        (Inl (TransportUnavailable ''device result arrived before a confirmed handshake''), m)
      else if od_get (fr_fields fr) ''dev'' \<noteq> Some (ident m ''device'') \<or>
          od_get (fr_fields fr) ''boot'' \<noteq> Some (ident m ''boot'') then
        (Inl (TransportUnavailable ''device result identity changed; re-handshaking''), m)
      else
        let (keg_id, calibration_id) = capture_context provider
        in (Inr (), snd (queue_event ((manager_event_of ''result'' (Some fr) [])
             \<lparr>me_device_id := ident m ''device'', me_boot_id := ident m ''boot'',
              me_keg_id := keg_id, me_calibration_id := calibration_id,
              me_context_captured := (provider \<noteq> None)\<rparr>) m)))"

section \<open>The exchange\<close>

fun queue_errors :: "frame_error list \<Rightarrow> manager \<Rightarrow> manager" where
  "queue_errors [] m = m"
| "queue_errors (e # es) m =
     queue_errors es
       (snd (queue_event (manager_event_of ''protocol_error'' None (frame_error_code_value (err_code e))) m))"

definition read_chunk :: "string \<Rightarrow> manager \<Rightarrow> frame list \<times> manager" where
  "read_chunk chunk m =
     (if chunk = [] then ([], m)
      else let (p, frames, errors) = parser_feed (mg_parser m) chunk
           in (frames, queue_errors errors (m\<lparr>mg_parser := p\<rparr>)))"

text \<open>
  The frames of one read, in order.  The first answer to the request (or its error, or an
  identity mismatch) ends the exchange, and the frames behind it in the same read are dropped.
\<close>

fun dispatch :: "string \<Rightarrow> string \<Rightarrow> string \<Rightarrow> context_provider \<Rightarrow> frame list \<Rightarrow> manager
    \<Rightarrow> frame option result \<times> manager" where
  "dispatch request_id operation expected provider [] m = (Inr None, m)"
| "dispatch request_id operation expected provider (fr # frames) m =
     (if fr_operation fr = ''RESULT'' then
        bind_st (queue_result fr provider m) (\<lambda>_ m.
          dispatch request_id operation expected provider frames m)
      else if fr_request_id fr = request_id then
        (if fr_kind fr = ''E'' then
           (Inl (DeviceCommandError
             (case od_get (fr_fields fr) ''code'' of Some c \<Rightarrow> c | None \<Rightarrow> ''INTERNAL'') operation), m)
         else if fr_operation fr = expected then (Inr (Some fr), m)
         else dispatch request_id operation expected provider frames m)
      else
        dispatch request_id operation expected provider frames
          (snd (queue_event (manager_event_of ''unexpected'' (Some fr) []) m)))"

fun await :: "string \<Rightarrow> string \<Rightarrow> string \<Rightarrow> link_event list \<Rightarrow> manager
    \<Rightarrow> frame result \<times> link_event list \<times> manager" where
  "await request_id operation expected [] m =
     (Inl (TimeoutError (''device did not answer '' @ operation)), [], m)"
| "await request_id operation expected (ReconnectRequested # link) m =
     (Inl (TransportUnavailable ''serial reconnect requested''), link, m)"
| "await request_id operation expected (LinkError text # link) m =
     (Inl (TransportUnavailable text), link, m)"
| "await request_id operation expected (Received chunk provider # link) m =
     (let (frames, m) = read_chunk chunk m;
          (r, m) = dispatch request_id operation expected provider frames m
      in case r of
           Inl e \<Rightarrow> (Inl e, link, m)
         | Inr (Some fr) \<Rightarrow> (Inr fr, link, m)
         | Inr None \<Rightarrow> await request_id operation expected link m)"

definition roundtrip :: "string \<Rightarrow> field_dict \<Rightarrow> string option \<Rightarrow> link_event list \<Rightarrow> manager
    \<Rightarrow> frame result \<times> link_event list \<times> manager" where
  "roundtrip operation flds terminal_operation link m =
     (let (request_id, m) = next_request_id m;
          expected = (case terminal_operation of Some t \<Rightarrow> if t = [] then operation else t | None \<Rightarrow> operation)
      in case encode_frame ''Q'' request_id operation flds of
           Inl e \<Rightarrow> (Inl (ValueError (err_message e)), link, m)
         | Inr bytes \<Rightarrow> await request_id operation expected link (m\<lparr>mg_sent := mg_sent m @ bytes\<rparr>))"

definition transient :: "py_exc \<Rightarrow> bool" where
  "transient e = (case e of TimeoutError _ \<Rightarrow> True | RuntimeError _ \<Rightarrow> True
                  | DeviceCommandError _ _ \<Rightarrow> True | _ \<Rightarrow> False)"

text \<open>One transient failure retries in place; the link events of the second attempt are its own.\<close>

definition poll_with_retry :: "string \<Rightarrow> field_dict \<Rightarrow> string option \<Rightarrow> bool \<Rightarrow>
    link_event list \<Rightarrow> link_event list \<Rightarrow> manager \<Rightarrow> frame result \<times> manager" where
  "poll_with_retry operation flds terminal_operation stopping link1 link2 m =
     (let (r, _, m) = roundtrip operation flds terminal_operation link1 m
      in case r of
           Inr fr \<Rightarrow> (Inr fr, m)
         | Inl e \<Rightarrow>
             if transient e \<and> \<not> stopping then
               let (r, _, m) = roundtrip operation flds terminal_operation link2 m in (r, m)
             else (Inl e, m))"

definition synchronize :: "context_provider \<Rightarrow> link_event list \<Rightarrow> link_event list \<Rightarrow> link_event list \<Rightarrow>
    manager \<Rightarrow> unit result \<times> manager" where
  "synchronize provider link1 link2 link3 m =
     (let (r1, _, m) = roundtrip ''STATUS'' [] None link1 m
      in bind_st (r1, m) (\<lambda>status m.
         bind_st (record_status status m) (\<lambda>_ m.
         let (r2, _, m) = roundtrip ''COUNTERS'' [] None link2 m
         in bind_st (r2, m) (\<lambda>counters m.
            let m = record_counters counters provider m;
                (r3, _, m) = roundtrip ''RESULTS'' [] (Some ''RESULTS_END'') link3 m
            in bind_st (r3, m) (\<lambda>_ m. (Inr (), m))))))"

definition resynchronize_after_overflow :: "string \<Rightarrow> context_provider \<Rightarrow> link_event list \<Rightarrow>
    link_event list \<Rightarrow> link_event list \<Rightarrow> manager \<Rightarrow> unit result \<times> manager" where
  "resynchronize_after_overflow name provider link1 link2 link3 m =
     (let generation = mg_overflow_count m
      in bind_st (synchronize provider link1 link2 link3 m) (\<lambda>_ m.
         if mg_overflow_count m \<noteq> generation then (Inr (), m)
         else
           let detail = ''connected via '' @ name @ ''; resynchronized after queue overflow'';
               m = m\<lparr>mg_needs_resync := False, mg_state := CONNECTED, mg_detail := detail\<rparr>
           in (Inr (), snd (queue_event (manager_event_of ''connection'' None detail) m))))"

text \<open>The connection part of \<open>_run\<close>, from the opened transport to the connected loop.\<close>

definition connect :: "string \<Rightarrow> string \<Rightarrow> context_provider \<Rightarrow> link_event list \<Rightarrow> link_event list \<Rightarrow>
    link_event list \<Rightarrow> link_event list \<Rightarrow> manager \<Rightarrow> unit result \<times> manager" where
  "connect name confirmed_port provider link0 link1 link2 link3 m0 =
     (let m = m0\<lparr>mg_parser := new_parser MAX_FRAME_BYTES\<rparr>;
          (r, _, m) = roundtrip ''HELLO'' [(''min'', show_int 1), (''max'', show_int 1)] None link0 m
      in bind_st (r, m) (\<lambda>hello m.
         if fr_operation hello \<noteq> ''HELLO'' \<or> od_get (fr_fields hello) ''proto'' \<noteq> Some ''1'' then
           (Inl (TransportUnavailable ''serial endpoint did not complete a KP1 handshake''), m)
         else
           bind_st (synchronize provider link1 link2 link3 (m\<lparr>mg_identity := fr_fields hello\<rparr>)) (\<lambda>_ m.
             let m = set_state CONNECTED (''connected via '' @ name) m
             in (Inr (), snd (queue_event ((manager_event_of ''hello'' (Some hello) confirmed_port)
                  \<lparr>me_device_id := field (fr_fields hello) ''device'',
                   me_boot_id := field (fr_fields hello) ''boot''\<rparr>) m)))))"

text \<open>One attempt of \<open>_run\<close>: what it reports when it fails, and the delay before the next.\<close>

definition connection_attempt :: "bool \<Rightarrow> string \<Rightarrow> string \<Rightarrow> context_provider \<Rightarrow> link_event list \<Rightarrow>
    link_event list \<Rightarrow> link_event list \<Rightarrow> link_event list \<Rightarrow> manager \<Rightarrow> unit result \<times> manager" where
  "connection_attempt first name confirmed_port provider link0 link1 link2 link3 m0 =
     (let m = set_state (if first then CONN_CONNECTING else RECONNECTING)
            ''searching for a KegPulse device'' m0;
          (r, m) = connect name confirmed_port provider link0 link1 link2 link3 m
      in case r of
           Inr u \<Rightarrow> (Inr u, m)
         | Inl e \<Rightarrow> (Inl e, set_state RECONNECTING (take 200 (exc_message e)) m))"

text \<open>The reconnect delay in milliseconds, before jitter.\<close>

fun backoff_ms :: "nat \<Rightarrow> int" where
  "backoff_ms 0 = 250"
| "backoff_ms (Suc failures) = min (backoff_ms failures * 2) 15000"

end
