(* ===== verification/KP_ManagerFacts.thy ===== *)
theory KP_ManagerFacts
  imports KP_Manager
begin

text \<open>
  What the device manager of \<open>KP_Manager\<close> guarantees: no event is lost silently, request ids are
  well-formed and do not repeat, an exchange returns an answer to its own request, and the
  suppression caches never hide a state that was not handed over.
\<close>

section \<open>Nothing is lost silently\<close>

text \<open>
  \<open>grows m m'\<close>: from \<open>m\<close> to \<open>m'\<close> no queued event disappeared or changed, and if any event could not
  be queued, the overflow counter moved and the resynchronization flag is up.
\<close>

definition grows :: "manager \<Rightarrow> manager \<Rightarrow> bool" where
  "grows m m' \<longleftrightarrow>
     mg_capacity m' = mg_capacity m \<and> mg_overflow_count m \<le> mg_overflow_count m' \<and>
     (\<exists>new. mg_events m' = mg_events m @ new) \<and>
     (mg_overflow_count m < mg_overflow_count m' \<longrightarrow> mg_needs_resync m') \<and>
     (mg_needs_resync m \<longrightarrow> mg_needs_resync m')"

definition bounded :: "manager \<Rightarrow> bool" where
  "bounded m \<longleftrightarrow> mg_capacity m \<noteq> 0 \<longrightarrow> length (mg_events m) \<le> mg_capacity m"

lemma grows_refl [simp]: "grows m m"
  by (simp add: grows_def)

lemma grows_trans [trans]: "grows a b \<Longrightarrow> grows b c \<Longrightarrow> grows a c"
  by (auto simp: grows_def)

lemma grows_frame [simp]:
  "grows m (m'\<lparr>mg_state := st\<rparr>) = grows m m'" "grows m (m'\<lparr>mg_detail := t\<rparr>) = grows m m'"
  "grows m (m'\<lparr>mg_status := d\<rparr>) = grows m m'" "grows m (m'\<lparr>mg_counters := d\<rparr>) = grows m m'"
  "grows m (m'\<lparr>mg_identity := d\<rparr>) = grows m m'" "grows m (m'\<lparr>mg_parser := p\<rparr>) = grows m m'"
  "grows m (m'\<lparr>mg_request_counter := n\<rparr>) = grows m m'" "grows m (m'\<lparr>mg_sent := t\<rparr>) = grows m m'"
  by (simp_all add: grows_def)

lemma bounded_frame [simp]:
  "bounded (m'\<lparr>mg_state := st\<rparr>) = bounded m'" "bounded (m'\<lparr>mg_detail := t\<rparr>) = bounded m'"
  "bounded (m'\<lparr>mg_status := d\<rparr>) = bounded m'" "bounded (m'\<lparr>mg_counters := d\<rparr>) = bounded m'"
  "bounded (m'\<lparr>mg_identity := d\<rparr>) = bounded m'" "bounded (m'\<lparr>mg_parser := p\<rparr>) = bounded m'"
  "bounded (m'\<lparr>mg_request_counter := n\<rparr>) = bounded m'" "bounded (m'\<lparr>mg_sent := t\<rparr>) = bounded m'"
  by (simp_all add: bounded_def)

text \<open>The two facts together, for one operation.\<close>

definition safe :: "manager \<Rightarrow> manager \<Rightarrow> bool" where
  "safe m m' \<longleftrightarrow> grows m m' \<and> (bounded m \<longrightarrow> bounded m')"

lemma safe_refl [simp]: "safe m m"
  by (simp add: safe_def)

lemma safe_trans: "safe a b \<Longrightarrow> safe b c \<Longrightarrow> safe a c"
  using grows_trans by (auto simp: safe_def)

lemma safe_frame [simp]:
  "safe m (m'\<lparr>mg_state := st\<rparr>) = safe m m'" "safe m (m'\<lparr>mg_detail := t\<rparr>) = safe m m'"
  "safe m (m'\<lparr>mg_status := d\<rparr>) = safe m m'" "safe m (m'\<lparr>mg_counters := d\<rparr>) = safe m m'"
  "safe m (m'\<lparr>mg_identity := d\<rparr>) = safe m m'" "safe m (m'\<lparr>mg_parser := p\<rparr>) = safe m m'"
  "safe m (m'\<lparr>mg_request_counter := n\<rparr>) = safe m m'" "safe m (m'\<lparr>mg_sent := t\<rparr>) = safe m m'"
  by (simp_all add: safe_def)

lemma safe_queue_event: "safe m (snd (queue_event e m))"
  by (auto simp: queue_event_def safe_def grows_def bounded_def)

lemma safe_queue_event': "queue_event e m = (q, m') \<Longrightarrow> safe m m'"
  using safe_queue_event [of m e] by simp

lemma safe_set_state: "safe m (set_state st t m)"
  using safe_queue_event [of "m\<lparr>mg_state := st, mg_detail := t\<rparr>" "manager_event_of ''connection'' None t"]
    safe_trans [of m "m\<lparr>mg_state := st, mg_detail := t\<rparr>"]
  by (simp add: set_state_def Let_def)

lemma safe_record_status: "safe m (snd (record_status fr m))"
  by (auto simp: record_status_def Let_def split: prod.split dest: safe_queue_event')

lemma safe_record_counters: "safe m (record_counters fr provider m)"
  by (auto simp: record_counters_def Let_def split: prod.split dest: safe_queue_event')

lemma safe_queue_result: "safe m (snd (queue_result fr provider m))"
  by (auto simp: queue_result_def safe_queue_event split: prod.split)

lemma safe_queue_errors: "safe m (queue_errors es m)"
  by (induction es m rule: queue_errors.induct) (auto intro: safe_trans safe_queue_event)

lemma safe_read_chunk: "safe m (snd (read_chunk chunk m))"
proof -
  have "safe m (queue_errors es (m\<lparr>mg_parser := p\<rparr>))" for es p
    using safe_queue_errors [of "m\<lparr>mg_parser := p\<rparr>" es] safe_trans [of m "m\<lparr>mg_parser := p\<rparr>"] by simp
  then show ?thesis by (simp add: read_chunk_def split: prod.split)
qed

lemma safe_bind_st:
  assumes "safe m (snd rs)" "\<And>x. fst rs = Inr x \<Longrightarrow> safe (snd rs) (snd (f x (snd rs)))"
  shows "safe m (snd (bind_st rs f))"
  using assms by (cases "fst rs") (auto simp: bind_st_def intro: safe_trans)

lemma safe_dispatch: "safe m (snd (dispatch rid op ex provider frames m))"
proof (induction frames arbitrary: m)
  case (Cons fr frames)
  have "safe m (snd (dispatch rid op ex provider frames (snd (queue_event e m))))" for e
    using Cons.IH safe_queue_event safe_trans by blast
  then show ?case
    using Cons.IH by (auto intro!: safe_bind_st safe_queue_result)
qed simp

lemma safe_await: "await rid op ex link m = (r, rest, m') \<Longrightarrow> safe m m'"
proof (induction rid op ex link m rule: await.induct)
  case (4 rid op ex chunk provider link m)
  obtain frames m1 where c: "read_chunk chunk m = (frames, m1)" by force
  obtain q m2 where d: "dispatch rid op ex provider frames m1 = (q, m2)" by force
  have "safe m m2"
    using safe_read_chunk [of m chunk] safe_dispatch [of m1 rid op ex provider frames] c d safe_trans by simp
  with 4 c d show ?case
    by (auto split: sum.splits option.splits intro: safe_trans)
qed auto

lemma safe_roundtrip: "roundtrip op flds term link m = (r, rest, m') \<Longrightarrow> safe m m'"
proof -
  assume a: "roundtrip op flds term link m = (r, rest, m')"
  obtain rid m1 where n: "next_request_id m = (rid, m1)" by force
  then have m1: "safe m m1" by (auto simp: next_request_id_def Let_def)
  show ?thesis
  proof (cases "encode_frame ''Q'' rid op flds")
    case (Inl e)
    with a n m1 show ?thesis by (simp add: roundtrip_def Let_def)
  next
    case (Inr bytes)
    with a n have "safe (m1\<lparr>mg_sent := mg_sent m1 @ bytes\<rparr>) m'"
      by (auto simp: roundtrip_def Let_def dest: safe_await)
    moreover have "safe m (m1\<lparr>mg_sent := mg_sent m1 @ bytes\<rparr>)" using m1 by simp
    ultimately show ?thesis by (rule safe_trans [rotated])
  qed
qed

lemma safe_exchange:
  assumes "\<And>x m1. safe m1 (snd (f x m1))"
  shows "safe m (snd (let (r, _, m) = roundtrip op flds t l m in bind_st (r, m) f))"
proof -
  obtain r q m1 where 1: "roundtrip op flds t l m = (r, q, m1)" by (rule prod_cases3)
  have "safe m1 (snd (bind_st (r, m1) f))" by (rule safe_bind_st) (simp_all add: assms)
  with safe_roundtrip [OF 1] show ?thesis by (simp add: 1) (rule safe_trans)
qed

lemma safe_synchronize: "safe m (snd (synchronize provider l1 l2 l3 m))"
  unfolding synchronize_def
proof (rule safe_exchange, rule safe_bind_st, rule safe_record_status, rule safe_exchange)
  fix c m
  show "safe m (snd (let m = record_counters c provider m;
                (r3, _, m) = roundtrip ''RESULTS'' [] (Some ''RESULTS_END'') l3 m
            in bind_st (r3, m) (\<lambda>_ m. (Inr (), m))))"
    unfolding Let_def [of "record_counters c provider m"]
    by (rule safe_trans [OF safe_record_counters safe_exchange]) simp
qed

lemma safe_connect: "safe m (snd (connect name port provider l0 l1 l2 l3 m))"
proof -
  let ?m = "m\<lparr>mg_parser := new_parser MAX_FRAME_BYTES\<rparr>"
  obtain r q m1 where 1: "roundtrip ''HELLO'' [(''min'', show_int 1), (''max'', show_int 1)] None l0 ?m = (r, q, m1)"
    by (rule prod_cases3)
  have m1: "safe m m1" using safe_roundtrip [OF 1] safe_trans [of m ?m m1] by simp
  have sync: "safe m1 (snd (synchronize provider l1 l2 l3 (m1\<lparr>mg_identity := d\<rparr>)))" for d
    using safe_synchronize [of "m1\<lparr>mg_identity := d\<rparr>"] safe_trans [of m1 "m1\<lparr>mg_identity := d\<rparr>"] by simp
  have "safe m2 (snd (queue_event e (set_state st t m2)))" for m2 e st t
    using safe_set_state safe_queue_event safe_trans by blast
  then have "safe m1 (snd (bind_st (r, m1) (\<lambda>hello m.
         if fr_operation hello \<noteq> ''HELLO'' \<or> od_get (fr_fields hello) ''proto'' \<noteq> Some ''1'' then
           (Inl (TransportUnavailable ''serial endpoint did not complete a KP1 handshake''), m)
         else
           bind_st (synchronize provider l1 l2 l3 (m\<lparr>mg_identity := fr_fields hello\<rparr>)) (\<lambda>_ m.
             let m = set_state CONNECTED (''connected via '' @ name) m
             in (Inr (), snd (queue_event ((manager_event_of ''hello'' (Some hello) port)
                  \<lparr>me_device_id := field (fr_fields hello) ''device'',
                   me_boot_id := field (fr_fields hello) ''boot''\<rparr>) m))))))"
    by (auto intro!: safe_bind_st sync simp: Let_def)
  then show ?thesis
    using m1 safe_trans by (auto simp: connect_def 1 Let_def)
qed

lemma safe_poll: "safe m (snd (poll_with_retry op flds term stopping l1 l2 m))"
proof -
  obtain r q m1 where 1: "roundtrip op flds term l1 m = (r, q, m1)" by (rule prod_cases3)
  obtain r' q' m2 where 2: "roundtrip op flds term l2 m1 = (r', q', m2)" by (rule prod_cases3)
  show ?thesis
    using safe_roundtrip [OF 1] safe_roundtrip [OF 2] safe_trans
    by (cases r) (auto simp: poll_with_retry_def 1 2)
qed

section \<open>Request ids\<close>

fun nth_state :: "nat \<Rightarrow> manager \<Rightarrow> manager" where
  "nth_state 0 m = m"
| "nth_state (Suc n) m = nth_state n (snd (next_request_id m))"

definition counter_ok :: "manager \<Rightarrow> bool" where
  "counter_ok m \<longleftrightarrow> 1 \<le> mg_request_counter m \<and> mg_request_counter m \<le> 0xFFFFFFFF"

lemma next_counter:
  "counter_ok m \<Longrightarrow> mg_request_counter (snd (next_request_id m)) = mg_request_counter m mod 0xFFFFFFFF + 1"
  by (auto simp: next_request_id_def counter_ok_def Let_def)

lemma next_counter_ok: "counter_ok m \<Longrightarrow> counter_ok (snd (next_request_id m))"
  by (auto simp: next_request_id_def counter_ok_def Let_def)

lemma nth_counter:
  "counter_ok m \<Longrightarrow> counter_ok (nth_state n m) \<and>
     mg_request_counter (nth_state n m) = (mg_request_counter m - 1 + int n) mod 0xFFFFFFFF + 1"
proof (induction n arbitrary: m)
  case 0
  then show ?case by (simp add: counter_ok_def)
next
  case (Suc n)
  have "(c mod 0xFFFFFFFF + 1 - 1 + k) mod 0xFFFFFFFF = (c - 1 + (1 + k)) mod 0xFFFFFFFF" for c k :: int
    by (simp add: mod_add_left_eq)
  then show ?case
    using Suc.IH [OF next_counter_ok [OF Suc.prems]] next_counter [OF Suc.prems] by simp
qed

lemma request_id_ok: "counter_ok m \<Longrightarrow> re_RID (fst (next_request_id m)) \<and>
    digits_val 16 (fst (next_request_id m)) = mg_request_counter m"
  by (simp add: next_request_id_def re_RID_def fullmatch_def show_hex_hex Let_def counter_ok_def
      digits_val_show_hex)

text \<open>Request ids.  Every id the manager issues is a well-formed eight-digit id, is never the
  \<open>00000000\<close> that devices use for unsolicited frames, and does not come back before \<open>2\<^sup>3\<^sup>2 - 2\<close>
  further requests, also across the wrap of the counter.\<close>

theorem request_ids_distinct:
  assumes "counter_ok m" "i < j" "j < i + 0xFFFFFFFF"
  shows "fst (next_request_id (nth_state i m)) \<noteq> fst (next_request_id (nth_state j m)) \<and>
    re_RID (fst (next_request_id (nth_state j m))) \<and>
    fst (next_request_id (nth_state j m)) \<noteq> ''00000000''"
proof -
  note i = nth_counter [OF assms(1), of i] and j = nth_counter [OF assms(1), of j]
  let ?c = "mg_request_counter m - 1"
  have "(?c + int i) mod 0xFFFFFFFF \<noteq> (?c + int j) mod 0xFFFFFFFF"
  proof
    assume "(?c + int i) mod 0xFFFFFFFF = (?c + int j) mod 0xFFFFFFFF"
    then have "0xFFFFFFFF dvd (?c + int j) - (?c + int i)" by (metis mod_eq_dvd_iff)
    then have "0xFFFFFFFF dvd int j - int i" by simp
    moreover have "0 < int j - int i" "int j - int i < 0xFFFFFFFF" using assms(2,3) by simp_all
    ultimately show False by (meson zdvd_not_zless)
  qed
  then have ne: "mg_request_counter (nth_state i m) \<noteq> mg_request_counter (nth_state j m)"
    using i j by simp
  have "digits_val 16 ''00000000'' = 0"
    by (simp add: digits_val_def digit_val_def is_digit_def in_range_def)
  moreover have "mg_request_counter (nth_state j m) \<noteq> 0" using j by (auto simp: counter_ok_def)
  ultimately show ?thesis
    using request_id_ok i j ne by metis
qed

theorem request_ids_distinct_witness:
  "fst (next_request_id (nth_state 1 (new_manager 256))) \<noteq> fst (next_request_id (nth_state 4000 (new_manager 256)))"
proof -
  have "counter_ok (new_manager 256)" by (simp add: counter_ok_def new_manager_def)
  from request_ids_distinct [OF this, of 1 4000] show ?thesis by simp
qed

section \<open>Answers\<close>

lemma dispatch_answer:
  "dispatch rid op ex provider frames m = (Inr (Some fr), m') \<Longrightarrow>
     fr_request_id fr = rid \<and> fr_operation fr = ex \<and> fr_kind fr \<noteq> ''E'' \<and> fr_operation fr \<noteq> ''RESULT''"
  by (induction frames arbitrary: m) (auto simp: bind_st_eq_Inr split: if_splits)

lemma await_answer:
  "await rid op ex link m = (Inr fr, rest, m') \<Longrightarrow>
     fr_request_id fr = rid \<and> fr_operation fr = ex \<and> fr_kind fr \<noteq> ''E'' \<and> fr_operation fr \<noteq> ''RESULT''"
proof (induction rid op ex link m rule: await.induct)
  case (4 rid op ex chunk provider link m)
  obtain frames m1 where c: "read_chunk chunk m = (frames, m1)" by force
  obtain q m2 where d: "dispatch rid op ex provider frames m1 = (q, m2)" by force
  show ?case
  proof (cases q)
    case (Inr a)
    then show ?thesis
      using "4.prems" "4.IH" [OF c [symmetric] refl d [symmetric] refl] dispatch_answer c d
      by (cases a) fastforce+
  qed (use "4.prems" c d in auto)
qed auto

text \<open>The frames a batch offers before the one that ends the exchange.\<close>

definition ends_exchange :: "string \<Rightarrow> string \<Rightarrow> frame \<Rightarrow> bool" where
  "ends_exchange rid ex fr \<longleftrightarrow> fr_operation fr \<noteq> ''RESULT'' \<and> fr_request_id fr = rid \<and>
     (fr_kind fr = ''E'' \<or> fr_operation fr = ex)"

section \<open>The events of an exchange\<close>

text \<open>
  The queue as a bounded buffer: of the events \<open>es\<close> offered to it, it took in as many of the first as
  there was room for, counted every other one, and remembers that it has to be resynchronized.
\<close>

definition room :: "manager \<Rightarrow> manager_event list \<Rightarrow> nat" where
  "room m es = (if mg_capacity m = 0 then length es else mg_capacity m - length (mg_events m))"

definition took_in :: "manager_event list \<Rightarrow> manager \<Rightarrow> manager \<Rightarrow> bool" where
  "took_in es m m' \<longleftrightarrow>
     mg_capacity m' = mg_capacity m \<and> mg_identity m' = mg_identity m \<and>
     mg_events m' = mg_events m @ take (room m es) es \<and>
     mg_overflow_count m' = mg_overflow_count m + (length es - room m es) \<and>
     (mg_needs_resync m' \<longleftrightarrow> mg_needs_resync m \<or> room m es < length es)"

lemma took_in_nothing [simp]: "took_in [] m m"
  by (simp add: took_in_def)

lemma took_in_frame [simp]:
  "took_in es m (m'\<lparr>mg_parser := p\<rparr>) = took_in es m m'" "took_in es (m\<lparr>mg_parser := p\<rparr>) m' = took_in es m m'"
  "took_in es (m\<lparr>mg_sent := t\<rparr>) m' = took_in es m m'" "took_in es (m\<lparr>mg_request_counter := n\<rparr>) m' = took_in es m m'"
  by (simp_all add: took_in_def room_def)

lemma took_in_trans: "took_in es a b \<Longrightarrow> took_in fs b c \<Longrightarrow> took_in (es @ fs) a c"
  by (cases "mg_capacity a = 0") (auto simp: took_in_def room_def min_def)

lemma took_in_event: "took_in [e] m (snd (queue_event e m))"
  by (auto simp: took_in_def room_def queue_event_def)

lemma took_in_then: "took_in es (snd (queue_event e m)) m' \<Longrightarrow> took_in (e # es) m m'"
  using took_in_trans [OF took_in_event [of e m]] by simp

lemma parser_queue_event [simp]: "mg_parser (snd (queue_event e m)) = mg_parser m"
  by (simp add: queue_event_def)

text \<open>What the frames of one read are worth: a result is an event, an answer to another request is an
  unexpected one, and another frame with the id of the request is skipped.\<close>

definition result_event :: "manager \<Rightarrow> context_provider \<Rightarrow> frame \<Rightarrow> manager_event" where
  "result_event m provider fr =
     (manager_event_of ''result'' (Some fr) [])
       \<lparr>me_device_id := ident m ''device'', me_boot_id := ident m ''boot'',
        me_keg_id := fst (capture_context provider), me_calibration_id := snd (capture_context provider),
        me_context_captured := (provider \<noteq> None)\<rparr>"

definition frame_events :: "manager \<Rightarrow> string \<Rightarrow> context_provider \<Rightarrow> frame \<Rightarrow> manager_event list" where
  "frame_events m rid provider fr =
     (if fr_operation fr = ''RESULT'' then [result_event m provider fr]
      else if fr_request_id fr = rid then [] else [manager_event_of ''unexpected'' (Some fr) []])"

text \<open>A result of another device or boot ends the exchange as well.\<close>

definition foreign_result :: "manager \<Rightarrow> frame \<Rightarrow> bool" where
  "foreign_result m fr \<longleftrightarrow> fr_operation fr = ''RESULT'' \<and>
     (ident m ''device'' = [] \<or> ident m ''boot'' = [] \<or> od_get (fr_fields fr) ''dev'' \<noteq> Some (ident m ''device'') \<or>
      od_get (fr_fields fr) ''boot'' \<noteq> Some (ident m ''boot''))"

definition stops :: "manager \<Rightarrow> string \<Rightarrow> string \<Rightarrow> frame \<Rightarrow> bool" where
  "stops m rid ex fr \<longleftrightarrow> ends_exchange rid ex fr \<or> foreign_result m fr"

definition error_event :: "frame_error \<Rightarrow> manager_event" where
  "error_event e = manager_event_of ''protocol_error'' None (frame_error_code_value (err_code e))"

fun exchange_events :: "manager \<Rightarrow> string \<Rightarrow> string \<Rightarrow> frame_parser \<Rightarrow> link_event list \<Rightarrow> manager_event list" where
  "exchange_events m rid ex p (Received chunk provider # link) =
     (let (p', frames, errors) = parser_feed p chunk
      in map error_event errors @
         concat (map (frame_events m rid provider) (takeWhile (\<lambda>fr. \<not> stops m rid ex fr) frames)) @
         (if list_ex (stops m rid ex) frames then [] else exchange_events m rid ex p' link))"
| "exchange_events m rid ex p link = []"

lemma same_identity_events:
  assumes "mg_identity m' = mg_identity m"
  shows "frame_events m' = frame_events m" "stops m' = stops m" "exchange_events m' = exchange_events m"
proof -
  have i: "ident m' = ident m" using assms by (simp add: ident_def fun_eq_iff)
  then show f: "frame_events m' = frame_events m" and s: "stops m' = stops m"
    by (simp_all add: fun_eq_iff frame_events_def result_event_def stops_def foreign_result_def)
  have "exchange_events m' rid ex p link = exchange_events m rid ex p link" for rid ex p link
  proof (induction link arbitrary: p)
    case (Cons e link)
    then show ?case by (cases e) (simp_all add: f s split: prod.split)
  qed simp
  then show "exchange_events m' = exchange_events m" by (simp add: fun_eq_iff)
qed

lemma took_in_errors: "took_in (map error_event es) m (queue_errors es m) \<and> mg_parser (queue_errors es m) = mg_parser m"
proof (induction es arbitrary: m)
  case (Cons e es)
  let ?m = "snd (queue_event (error_event e) m)"
  have "took_in (map error_event es) ?m (queue_errors (e # es) m) \<and> mg_parser (queue_errors (e # es) m) = mg_parser m"
    using Cons.IH [of ?m] unfolding error_event_def by simp
  then show ?case using took_in_then by simp
qed simp

lemma took_in_result:
  "queue_result fr provider m =
     (if foreign_result m fr then (Inl (TransportUnavailable
          (if ident m ''device'' = [] \<or> ident m ''boot'' = [] then ''device result arrived before a confirmed handshake''
           else ''device result identity changed; re-handshaking'')), m)
      else (Inr (), snd (queue_event (result_event m provider fr) m)))" if "fr_operation fr = ''RESULT''"
  using that by (auto simp: queue_result_def foreign_result_def result_event_def split: prod.split)

lemma dispatch_took_in:
  assumes "dispatch rid op ex provider frames m = (r, m')"
  shows "took_in (concat (map (frame_events m rid provider) (takeWhile (\<lambda>fr. \<not> stops m rid ex fr) frames))) m m' \<and>
    mg_parser m' = mg_parser m \<and> (r = Inr None \<longleftrightarrow> \<not> list_ex (stops m rid ex) frames)"
  using assms
proof (induction frames arbitrary: m)
  case (Cons fr frames)
  have go: ?case if "dispatch rid op ex provider frames (snd (queue_event e m)) = (r, m')"
    "frame_events m rid provider fr = [e]" "\<not> stops m rid ex fr" for e
  proof -
    let ?m = "snd (queue_event e m)"
    have id: "mg_identity ?m = mg_identity m" by (simp add: queue_event_def)
    show ?thesis
      using Cons.IH [OF that(1)] that(2,3) took_in_then
      by (simp add: same_identity_events [OF id])
  qed
  consider (result) "fr_operation fr = ''RESULT''" | (own) "fr_operation fr \<noteq> ''RESULT''" "fr_request_id fr = rid"
    | (other) "fr_operation fr \<noteq> ''RESULT''" "fr_request_id fr \<noteq> rid" by blast
  then show ?case
  proof cases
    case result
    show ?thesis
    proof (cases "foreign_result m fr")
      case True
      then show ?thesis using Cons.prems result took_in_result [OF result, of provider m] by (auto simp: stops_def)
    next
      case False
      then have "\<not> stops m rid ex fr" using result by (simp add: stops_def ends_exchange_def)
      moreover have "dispatch rid op ex provider frames (snd (queue_event (result_event m provider fr) m)) = (r, m')"
        using Cons.prems result False took_in_result [OF result, of provider m] by simp
      ultimately show ?thesis using go [of "result_event m provider fr"] result by (simp add: frame_events_def)
    qed
  next
    case own
    then have "stops m rid ex fr \<longleftrightarrow> fr_kind fr = ''E'' \<or> fr_operation fr = ex"
      by (auto simp: stops_def ends_exchange_def foreign_result_def)
    then show ?thesis using Cons own by (auto simp: frame_events_def split: if_split_asm)
  next
    case other
    then have "\<not> stops m rid ex fr" by (simp add: stops_def ends_exchange_def foreign_result_def)
    then show ?thesis
      using go [of "manager_event_of ''unexpected'' (Some fr) []"] Cons.prems other by (simp add: frame_events_def)
  qed
qed simp

lemma await_took_in:
  "await rid op ex link m = (r, rest, m') \<Longrightarrow> took_in (exchange_events m rid ex (mg_parser m) link) m m'"
proof (induction rid op ex link m arbitrary: r rest m' rule: await.induct)
  case (4 rid op ex chunk provider link m)
  obtain p' frames errors where f: "parser_feed (mg_parser m) chunk = (p', frames, errors)" by (rule prod_cases3)
  obtain m1 where c: "read_chunk chunk m = (frames, m1)" and m1: "took_in (map error_event errors) m m1" "mg_parser m1 = p'"
  proof (cases "chunk = []")
    case True
    then show ?thesis using that [of m] f by (simp add: read_chunk_def)
  next
    case False
    let ?m = "queue_errors errors (m\<lparr>mg_parser := p'\<rparr>)"
    have "took_in (map error_event errors) m ?m" "mg_parser ?m = p'"
      using took_in_errors [of errors "m\<lparr>mg_parser := p'\<rparr>"] by simp_all
    then show ?thesis using that [of ?m] f False by (simp add: read_chunk_def)
  qed
  obtain q m2 where d: "dispatch rid op ex provider frames m1 = (q, m2)" by force
  have id1: "mg_identity m1 = mg_identity m" using m1 by (simp add: took_in_def)
  note step = dispatch_took_in [OF d, unfolded same_identity_events [OF id1]]
  then have id2: "mg_identity m2 = mg_identity m" using id1 by (simp add: took_in_def)
  note both = took_in_trans [OF m1(1) conjunct1 [OF step]]
  show ?case
  proof (cases "q = Inr None")
    case True
    then have "await rid op ex link m2 = (r, rest, m')" using "4.prems" c d by simp
    then have "took_in (exchange_events m2 rid ex (mg_parser m2) link) m2 m'"
      using "4.IH" [OF c [symmetric] refl d [symmetric] refl True refl] by blast
    from took_in_trans [OF both this] show ?thesis
      using True step f m1(2) by (simp add: same_identity_events [OF id2])
  next
    case False
    then have "m' = m2" using "4.prems" c d by (auto split: sum.split_asm option.split_asm)
    then show ?thesis using False both step f by simp
  qed
qed (simp_all)

text \<open>C30: an exchange returns an answer to its own request, and what arrived meanwhile is handed over.
  The frame returned carries the id of the request that was just written, is not an error frame and
  not a result, and has the operation waited for.  The events offered to the queue, in their order,
  are \<open>exchange_events\<close>: one for each damaged line, result and answer to another request in the reads,
  up to the frame that ends the exchange.  The queue took in as many of them as it had room for,
  counted every other one, and is to be resynchronized if there was one; no event queued before is
  lost.  What follows the ending frame in the same read is dropped without trace: the device keeps its
  results and replays them.\<close>

theorem roundtrip_answers_own_request:
  assumes "roundtrip operation flds term link m = (r, rest, m')"
    and "ex = (case term of Some t \<Rightarrow> if t = [] then operation else t | None \<Rightarrow> operation)"
    and "es = (case encode_frame ''Q'' (fst (next_request_id m)) operation flds of
      Inl _ \<Rightarrow> [] | Inr _ \<Rightarrow> exchange_events m (fst (next_request_id m)) ex (mg_parser m) link)"
  shows "(\<forall>fr. r = Inr fr \<longrightarrow>
      fr_request_id fr = fst (next_request_id m) \<and> fr_kind fr \<noteq> ''E'' \<and> fr_operation fr \<noteq> ''RESULT'' \<and> fr_operation fr = ex) \<and>
    mg_events m' = mg_events m @ take (room m es) es \<and>
    mg_overflow_count m' = mg_overflow_count m + (length es - room m es) \<and>
    (mg_needs_resync m' \<longleftrightarrow> mg_needs_resync m \<or> room m es < length es) \<and> safe m m'"
proof -
  obtain rid m1 where n: "next_request_id m = (rid, m1)" by force
  have m1: "m1 = m\<lparr>mg_request_counter := mg_request_counter m1\<rparr>" using n by (auto simp: next_request_id_def Let_def)
  have same: "mg_identity (m1\<lparr>mg_sent := t\<rparr>) = mg_identity m" "mg_parser m1 = mg_parser m"
    "took_in es (m1\<lparr>mg_sent := t\<rparr>) m' = took_in es m m'" for t
    using n by (auto simp: next_request_id_def Let_def)
  have "took_in es m m'"
  proof (cases "encode_frame ''Q'' rid operation flds")
    case (Inl e)
    then show ?thesis using assms n same(3) by (auto simp: roundtrip_def Let_def next_request_id_def)
  next
    case (Inr b)
    then have "await rid operation ex link (m1\<lparr>mg_sent := mg_sent m1 @ b\<rparr>) = (r, rest, m')"
      using assms(1,2) n by (simp add: roundtrip_def Let_def)
    from await_took_in [OF this] show ?thesis
      using assms(3) n Inr same by (simp add: same_identity_events [OF same(1)])
  qed
  moreover have "fr_request_id fr = rid \<and> fr_kind fr \<noteq> ''E'' \<and> fr_operation fr \<noteq> ''RESULT'' \<and> fr_operation fr = ex"
    if "r = Inr fr" for fr
    using assms(1,2) n that
    by (cases "encode_frame ''Q'' rid operation flds") (auto simp: roundtrip_def Let_def dest: await_answer)
  ultimately show ?thesis using safe_roundtrip [OF assms(1)] n by (auto simp: took_in_def)
qed

definition result_frames :: "manager_event list \<Rightarrow> frame option list" where
  "result_frames es = map me_frame (filter (\<lambda>e. me_kind e = ''result'') es)"

lemma result_frames_simps [simp]:
  "result_frames [] = []" "result_frames (xs @ ys) = result_frames xs @ result_frames ys"
  by (simp_all add: result_frames_def)

lemma queue_event_ok:
  "mg_overflow_count (snd (queue_event e m)) = mg_overflow_count m \<Longrightarrow>
     mg_events (snd (queue_event e m)) = mg_events m @ [e]"
  by (auto simp: queue_event_def split: if_splits)

lemma overflow_between:
  "safe a b \<Longrightarrow> safe b c \<Longrightarrow> mg_overflow_count c = mg_overflow_count a \<Longrightarrow>
     mg_overflow_count b = mg_overflow_count a \<and> mg_overflow_count c = mg_overflow_count b"
  by (auto simp: safe_def grows_def)

lemma queue_result_event:
  assumes "queue_result fr provider m = (Inr (), m')" "mg_overflow_count m' = mg_overflow_count m"
  shows "result_frames (mg_events m') = result_frames (mg_events m) @ [Some fr]"
proof -
  obtain e where e: "m' = snd (queue_event e m)" "me_kind e = ''result''" "me_frame e = Some fr"
    using assms(1) by (auto simp: queue_result_def manager_event_of_def Let_def split: if_splits prod.splits)
  with assms(2) queue_event_ok [of e m] show ?thesis by (simp add: result_frames_def)
qed

lemma dispatch_results:
  assumes "dispatch rid op ex provider frames m = (Inr r, m')" "mg_overflow_count m' = mg_overflow_count m"
  shows "result_frames (mg_events m') = result_frames (mg_events m) @
    map Some (filter (\<lambda>fr. fr_operation fr = ''RESULT'') (takeWhile (\<lambda>fr. \<not> ends_exchange rid ex fr) frames))"
  using assms
proof (induction frames arbitrary: m)
  case (Cons fr frames)
  show ?case
  proof (cases "fr_operation fr = ''RESULT''")
    case True
    then obtain m1 where q: "queue_result fr provider m = (Inr (), m1)"
      and d: "dispatch rid op ex provider frames m1 = (Inr r, m')"
      using Cons.prems(1) by (auto simp: bind_st_eq_Inr)
    have s: "safe m m1" "safe m1 m'"
      using safe_queue_result [of m fr provider] safe_dispatch [of m1 rid op ex provider frames] q d by simp_all
    note o = overflow_between [OF s Cons.prems(2)]
    show ?thesis
      using queue_result_event [OF q] Cons.IH [OF d] o True by (simp add: ends_exchange_def)
  next
    case False
    show ?thesis
    proof (cases "fr_request_id fr = rid")
      case True
      then show ?thesis
        using Cons.prems Cons.IH False by (auto simp: ends_exchange_def split: if_splits)
    next
      case other: False
      let ?m = "snd (queue_event (manager_event_of ''unexpected'' (Some fr) []) m)"
      have d: "dispatch rid op ex provider frames ?m = (Inr r, m')"
        using Cons.prems(1) False other by simp
      have s: "safe m ?m" "safe ?m m'"
        using safe_queue_event safe_dispatch [of ?m rid op ex provider frames] d by simp_all
      note o = overflow_between [OF s Cons.prems(2)]
      show ?thesis
        using queue_event_ok [of "manager_event_of ''unexpected'' (Some fr) []" m] Cons.IH [OF d] o False other
        by (simp add: ends_exchange_def result_frames_def manager_event_of_def)
    qed
  qed
qed simp

text \<open>Results that arrive while the host waits are handed over.  When a batch of frames is
  processed and no event overflowed, the result events queued are exactly the RESULT frames of the
  batch up to the frame that ends the exchange, in their order.  (Frames behind that one in the same
  read are dropped; the device still retains their results and replays them.)\<close>

theorem dispatch_hands_over_results:
  assumes "dispatch rid op ex provider frames m = (Inr r, m')" "mg_overflow_count m' = mg_overflow_count m"
  shows "result_frames (mg_events m') = result_frames (mg_events m) @
    map Some (filter (\<lambda>fr. fr_operation fr = ''RESULT'') (takeWhile (\<lambda>fr. \<not> ends_exchange rid ex fr) frames))"
  by (rule dispatch_results [OF assms])

section \<open>The suppression caches\<close>

text \<open>Polling never hides a state.  A status frame that repeats the cached one produces no event;
  any other is either queued as a status event, and only then cached, or leaves the cache as it was
  with the resynchronization flag up, so the same frame is offered again by the next poll.\<close>

theorem status_not_suppressed:
  "case record_status fr m of
     (Inl e, m') \<Rightarrow> m' = m \<and> od_get (fr_fields fr) ''boot'' \<noteq> od_get (mg_identity m) ''boot''
   | (Inr _, m') \<Rightarrow>
       if od_same (mg_status m) (fr_fields fr) then m' = m
       else if mg_capacity m = 0 \<or> length (mg_events m) < mg_capacity m then
         mg_status m' = fr_fields fr \<and>
         (\<exists>e. mg_events m' = mg_events m @ [e] \<and> me_kind e = ''status'' \<and> me_frame e = Some fr \<and>
            me_boot_id e = ident m ''boot'')
       else mg_status m' = mg_status m \<and> mg_events m' = mg_events m \<and> mg_needs_resync m'"
  by (auto simp: record_status_def queue_event_def manager_event_of_def ident_def Let_def split: if_splits)

text \<open>C31: the resynchronization flag is cleared only by a replay that lost nothing.  If the flag was
  up and is down after a resynchronization, then the replay of status, counters and retained results
  completed, and from its start to its end no event was dropped.\<close>

theorem resync_clears_only_complete:
  assumes "resynchronize_after_overflow name provider l1 l2 l3 m = (r, m')"
    "mg_needs_resync m" "\<not> mg_needs_resync m'"
  shows "\<exists>m1. synchronize provider l1 l2 l3 m = (Inr (), m1) \<and>
    mg_overflow_count m1 = mg_overflow_count m \<and> mg_overflow_count m' = mg_overflow_count m \<and>
    mg_state m' = CONNECTED \<and> r = Inr ()"
proof -
  obtain q m1 where s: "synchronize provider l1 l2 l3 m = (q, m1)" by force
  have "mg_needs_resync m1"
    using safe_synchronize [of m provider l1 l2 l3] s assms(2) by (simp add: safe_def grows_def)
  then show ?thesis
    using assms s
    by (cases q) (auto simp: resynchronize_after_overflow_def queue_event_def Let_def split: if_splits)
qed

section \<open>Exchanges over a clean link\<close>

definition link_ready :: "manager \<Rightarrow> bool" where
  "link_ready m \<longleftrightarrow> pending (mg_parser m) [] \<and> ps_max_bytes (mg_parser m) = MAX_FRAME_BYTES"

lemma link_ready_frame [simp]:
  "link_ready (m\<lparr>mg_status := d\<rparr>) = link_ready m" "link_ready (m\<lparr>mg_counters := d\<rparr>) = link_ready m"
  "link_ready (m\<lparr>mg_events := es\<rparr>) = link_ready m" "link_ready (m\<lparr>mg_request_counter := n\<rparr>) = link_ready m"
  "link_ready (m\<lparr>mg_sent := t\<rparr>) = link_ready m" "link_ready (m\<lparr>mg_identity := d\<rparr>) = link_ready m"
  by (simp_all add: link_ready_def)

lemma read_chunk_stream:
  assumes "link_ready m" "\<forall>f \<in> set fs. frame_fits MAX_FRAME_BYTES f" "fs \<noteq> []"
  shows "\<exists>p'. read_chunk (kp1.stream fs) m = (fs, m\<lparr>mg_parser := p'\<rparr>) \<and> link_ready (m\<lparr>mg_parser := p'\<rparr>)"
proof -
  obtain p' where "parser_feed (mg_parser m) (kp1.stream fs) = (p', fs, [])" "pending p' []"
      "ps_max_bytes p' = ps_max_bytes (mg_parser m)"
    using parser_stream [of "mg_parser m" fs] assms(1,2) by (auto simp: link_ready_def)
  moreover have "kp1.stream fs \<noteq> []"
    using assms(3) by (cases fs) (simp_all add: kp1.stream_simps)
  ultimately show ?thesis using assms(1) by (auto simp: read_chunk_def link_ready_def)
qed

definition issued :: "manager \<Rightarrow> string \<Rightarrow> manager" where
  "issued m bytes = (snd (next_request_id m))\<lparr>mg_sent := mg_sent m @ bytes\<rparr>"

lemma issued_simps [simp]:
  "mg_events (issued m b) = mg_events m" "mg_status (issued m b) = mg_status m"
  "mg_counters (issued m b) = mg_counters m" "mg_identity (issued m b) = mg_identity m"
  "mg_capacity (issued m b) = mg_capacity m" "mg_overflow_count (issued m b) = mg_overflow_count m"
  "mg_needs_resync (issued m b) = mg_needs_resync m" "mg_parser (issued m b) = mg_parser m"
  "link_ready (issued m b) = link_ready m"
  "mg_request_counter (issued m b) = mg_request_counter (snd (next_request_id m))"
  by (simp_all add: issued_def next_request_id_def Let_def link_ready_def)

lemma roundtrip_clean:
  assumes "encode_frame ''Q'' (fst (next_request_id m)) operation flds = Inr bytes"
    "link_ready m" "\<forall>f \<in> set fs. frame_fits MAX_FRAME_BYTES f" "fs \<noteq> []"
    "\<And>p'. dispatch (fst (next_request_id m)) operation
       (case term of Some t \<Rightarrow> if t = [] then operation else t | None \<Rightarrow> operation) provider fs
       (issued m bytes\<lparr>mg_parser := p'\<rparr>) = (Inr (Some fr), m2 p')"
  shows "\<exists>p'. roundtrip operation flds term (Received (kp1.stream fs) provider # link) m = (Inr fr, link, m2 p') \<and>
    link_ready (issued m bytes\<lparr>mg_parser := p'\<rparr>)"
proof -
  obtain p' where p': "read_chunk (kp1.stream fs) (issued m bytes) = (fs, issued m bytes\<lparr>mg_parser := p'\<rparr>)"
    "link_ready (issued m bytes\<lparr>mg_parser := p'\<rparr>)"
    using read_chunk_stream [of "issued m bytes" fs] assms(2-4) by auto
  have "next_request_id m = (fst (next_request_id m), snd (next_request_id m))" by simp
  then have "roundtrip operation flds term (Received (kp1.stream fs) provider # link) m =
    await (fst (next_request_id m)) operation
      (case term of Some t \<Rightarrow> if t = [] then operation else t | None \<Rightarrow> operation)
      (Received (kp1.stream fs) provider # link) (issued m bytes)"
    using assms(1) by (simp add: roundtrip_def issued_def Let_def next_request_id_def)
  with p' assms(5) show ?thesis by auto
qed

definition demo_answer :: "string \<Rightarrow> string \<Rightarrow> field_dict \<Rightarrow> frame" where
  "demo_answer rid op flds =
     \<lparr>fr_kind = ''R'', fr_request_id = rid, fr_operation = op, fr_fields = flds\<rparr>"

lemmas fits_defs = frame_fits_def frame_ok_def frame_kinds_def frame_re_defs fullmatch_def
  frame_class_defs od_wf_def od_keys_def frame_line_def frame_payload_def field_token_def MAX_FRAME_BYTES_def

lemma demo_id: "show_hex 8 1 = ''00000001''" "show_hex 8 2 = ''00000002''" "show_hex 8 3 = ''00000003''"
  by (simp_all add: eval_nat_numeral digit_char_def digit_chars_def)

lemma encode_plain:
  "re_RID rid \<Longrightarrow> re_OP op \<Longrightarrow> encode_frame ''Q'' rid op [] =
     Inr (frame_line \<lparr>fr_kind = ''Q'', fr_request_id = rid, fr_operation = op, fr_fields = []\<rparr> @ [LF])"
proof -
  let ?f = "\<lparr>fr_kind = ''Q'', fr_request_id = rid, fr_operation = op, fr_fields = []\<rparr>"
  assume "re_RID rid" "re_OP op"
  moreover from this have "frame_ok ?f" "length (frame_line ?f) < 256"
    by (auto simp: frame_ok_def frame_kinds_def frame_line_def frame_payload_def frame_re_defs fullmatch_def)
  ultimately show ?thesis
    using encode_frame_bytes [of ?f] by (simp add: MAX_FRAME_BYTES_def)
qed

theorem roundtrip_answers_own_request_witness:
  "\<exists>m'. roundtrip ''PING'' [] None [Received (kp1.stream [demo_answer ''00000001'' ''PING'' []]) None] (new_manager 4)
      = (Inr (demo_answer ''00000001'' ''PING'' []), [], m') \<and>
    fr_request_id (demo_answer ''00000001'' ''PING'' []) = fst (next_request_id (new_manager 4)) \<and>
    safe (new_manager 4) m'"
proof -
  let ?m = "new_manager 4"
  let ?f = "demo_answer ''00000001'' ''PING'' []"
  have id: "fst (next_request_id ?m) = ''00000001''"
    by (simp add: next_request_id_def new_manager_def Let_def demo_id)
  have ready: "link_ready ?m" by (simp add: link_ready_def new_manager_def pending_new) (simp add: new_parser_def)
  have enc: "\<exists>b. encode_frame ''Q'' (fst (next_request_id ?m)) ''PING'' [] = Inr b"
    by (simp add: id encode_plain frame_re_defs fullmatch_def frame_class_defs)
  then obtain b where enc: "encode_frame ''Q'' (fst (next_request_id ?m)) ''PING'' [] = Inr b" ..
  have fit: "frame_fits MAX_FRAME_BYTES ?f" by (simp add: demo_answer_def fits_defs)
  obtain m' where rt: "roundtrip ''PING'' [] None [Received (kp1.stream [?f]) None] ?m = (Inr ?f, [], m')"
    using roundtrip_clean [OF enc ready, of "[?f]" None None ?f "\<lambda>p'. issued ?m b\<lparr>mg_parser := p'\<rparr>" "[]"] fit
    by (auto simp: id demo_answer_def)
  from rt roundtrip_answers_own_request [OF rt refl refl] show ?thesis by blast
qed

definition demo_manager :: manager where
  "demo_manager = (new_manager 8)\<lparr>mg_identity := [(''device'', ''D''), (''boot'', ''B'')],
     mg_needs_resync := True, mg_state := CONN_DEGRADED\<rparr>"

theorem dispatch_hands_over_results_witness:
  "\<exists>m'. dispatch ''00000001'' ''PING'' ''PING'' None
      [demo_answer ''00000000'' ''RESULT'' [(''dev'', ''D''), (''boot'', ''B'')], demo_answer ''00000001'' ''PING'' [],
       demo_answer ''00000000'' ''RESULT'' [(''dev'', ''D''), (''boot'', ''B'')]] demo_manager =
      (Inr (Some (demo_answer ''00000001'' ''PING'' [])), m') \<and>
    result_frames (mg_events m') = [Some (demo_answer ''00000000'' ''RESULT'' [(''dev'', ''D''), (''boot'', ''B'')])]"
proof -
  let ?res = "demo_answer ''00000000'' ''RESULT'' [(''dev'', ''D''), (''boot'', ''B'')]"
  let ?ans = "demo_answer ''00000001'' ''PING'' []"
  obtain m' where d: "dispatch ''00000001'' ''PING'' ''PING'' None [?res, ?ans, ?res] demo_manager = (Inr (Some ?ans), m')"
    and o: "mg_overflow_count m' = mg_overflow_count demo_manager"
    by (simp add: demo_answer_def demo_manager_def new_manager_def queue_result_def ident_def queue_event_def
        capture_context_def)
  from dispatch_hands_over_results [OF d o] d show ?thesis
    by (simp add: ends_exchange_def demo_answer_def demo_manager_def new_manager_def)
qed

lemma demo_exchange:
  assumes "link_ready m" "mg_request_counter m \<in> {1, 2, 3}" "re_OP op" "op \<noteq> ''RESULT''" "re_OP ex" "ex \<noteq> ''RESULT''"
    "tm = (if ex = op then None else Some ex)"
  shows "\<exists>b p'. roundtrip op [] tm
      [Received (kp1.stream [demo_answer (fst (next_request_id m)) ex []]) None] m =
      (Inr (demo_answer (fst (next_request_id m)) ex []), [], issued m b\<lparr>mg_parser := p'\<rparr>) \<and>
    link_ready (issued m b\<lparr>mg_parser := p'\<rparr>)"
proof -
  let ?rid = "fst (next_request_id m)"
  let ?f = "demo_answer ?rid ex []"
  have "counter_ok m" using assms(2) by (auto simp: counter_ok_def)
  then have rid: "re_RID ?rid" by (simp add: request_id_ok)
  obtain b where enc: "encode_frame ''Q'' ?rid op [] = Inr b"
    using encode_plain [OF rid assms(3)] by blast
  have "ex \<noteq> []" using assms(5) by (auto simp: re_OP_def fullmatch_def)
  then have disp: "dispatch ?rid op (case tm of Some t \<Rightarrow> if t = [] then op else t | None \<Rightarrow> op) None [?f] m2 =
      (Inr (Some ?f), m2)" for m2
    using assms(4,6,7) by (cases "ex = op") (simp_all add: demo_answer_def)
  have "frame_fits MAX_FRAME_BYTES ?f"
    using rid assms(5)
    by (auto simp: demo_answer_def frame_fits_def frame_ok_def frame_kinds_def frame_line_def
        frame_payload_def frame_re_defs fullmatch_def MAX_FRAME_BYTES_def)
  then show ?thesis
    using roundtrip_clean [OF enc assms(1) _ _ disp] by (simp, blast)
qed

theorem resync_clears_only_complete_witness:
  "\<exists>l1 l2 l3 m'. resynchronize_after_overflow ''sim'' None l1 l2 l3 (demo_manager\<lparr>mg_identity := []\<rparr>) =
      (Inr (), m') \<and> mg_state m' = CONNECTED"
proof -
  let ?m0 = "demo_manager\<lparr>mg_identity := []\<rparr>"
  have r0: "link_ready ?m0"
    by (simp add: demo_manager_def link_ready_def new_manager_def pending_new) (simp add: new_parser_def)
  have c0: "mg_request_counter ?m0 = 1" by (simp add: demo_manager_def new_manager_def)
  have ops: "re_OP ''STATUS''" "re_OP ''COUNTERS''" "re_OP ''RESULTS''" "re_OP ''RESULTS_END''"
    by (simp_all add: frame_re_defs fullmatch_def frame_class_defs)
  have step: "mg_request_counter (snd (next_request_id m)) = n + 1" if "mg_request_counter m = n" "n < 3" for m n
    using that by (simp add: next_request_id_def Let_def)
  obtain b1 p1 l1 f1 where 1: "roundtrip ''STATUS'' [] None l1 ?m0 = (Inr f1, [], issued ?m0 b1\<lparr>mg_parser := p1\<rparr>)"
    "link_ready (issued ?m0 b1\<lparr>mg_parser := p1\<rparr>)" "fr_fields f1 = []"
    using demo_exchange [OF r0, of "''STATUS''" "''STATUS''" None] ops c0 by (auto simp: demo_answer_def)
  let ?m1 = "issued ?m0 b1\<lparr>mg_parser := p1\<rparr>"
  have c1: "mg_request_counter ?m1 = 2" using step [OF c0] by simp
  obtain b2 p2 l2 f2 where 2: "roundtrip ''COUNTERS'' [] None l2 ?m1 = (Inr f2, [], issued ?m1 b2\<lparr>mg_parser := p2\<rparr>)"
    "link_ready (issued ?m1 b2\<lparr>mg_parser := p2\<rparr>)" "fr_fields f2 = []"
    using demo_exchange [OF 1(2), of "''COUNTERS''" "''COUNTERS''" None] ops c1 by (auto simp: demo_answer_def)
  let ?m2 = "issued ?m1 b2\<lparr>mg_parser := p2\<rparr>"
  have c2: "mg_request_counter ?m2 = 3" using step [OF c1] by simp
  obtain b3 p3 l3 f3 where 3: "roundtrip ''RESULTS'' [] (Some ''RESULTS_END'') l3 ?m2 =
      (Inr f3, [], issued ?m2 b3\<lparr>mg_parser := p3\<rparr>)"
    using demo_exchange [OF 2(2), of "''RESULTS''" "''RESULTS_END''" "Some ''RESULTS_END''"] ops c2 by auto
  have e: "mg_status ?m0 = []" "mg_counters ?m0 = []" "mg_identity ?m0 = []" "mg_events ?m0 = []"
    "mg_capacity ?m0 = 8" "mg_needs_resync ?m0"
    by (simp_all add: demo_manager_def new_manager_def)
  have s1: "record_status f1 ?m1 = (Inr (), ?m1)" using 1(3) e by (simp add: record_status_def)
  have s2: "record_counters f2 None ?m2 = ?m2" using 2(3) e by (simp add: record_counters_def)
  have "synchronize None l1 l2 l3 ?m0 = (Inr (), issued ?m2 b3\<lparr>mg_parser := p3\<rparr>)"
    by (simp add: synchronize_def 1(1) s1 2(1) s2 3)
  then obtain m' where r: "resynchronize_after_overflow ''sim'' None l1 l2 l3 ?m0 = (Inr (), m')"
      "\<not> mg_needs_resync m'"
    using e by (simp add: resynchronize_after_overflow_def queue_event_def Let_def)
  from resync_clears_only_complete [OF r(1) e(6) r(2)] r(1) show ?thesis by blast
qed

end
