(* ===== verification/KP_Retry.thy ===== *)
theory KP_Retry
  imports KP_Manager "HOL-Library.Product_Lexorder"
begin

text \<open>
  The retry queue of the coordinator, \<open>_schedule_event_retry\<close> and its helpers in
  \<open>src/kegpulse/application/coordinator.py\<close>: events whose processing failed wait with a deadline
  and an attempt count; replays of the same measurement are folded into the one that waits, and the
  cumulative counter snapshots of one boot are kept in the order of their values, so that pulses
  keep the keg and calibration that were active when they were first observed.

  Times are milliseconds.  A function returns the queue after the call and the code of the
  diagnostic it emits, if any.
\<close>

section \<open>The queue\<close>

type_synonym retry = "int \<times> nat \<times> manager_event"

abbreviation retry_event :: "retry \<Rightarrow> manager_event" where
  "retry_event r \<equiv> snd (snd r)"

definition measurement :: "manager_event \<Rightarrow> bool" where
  "measurement e \<longleftrightarrow> me_kind e = ''result'' \<or> me_kind e = ''counters''"

definition retry_delay :: "nat \<Rightarrow> int" where
  "retry_delay attempt = min (100 * 2 ^ min (attempt - 1) 6) 5000"

definition retry_identity :: "manager_event \<Rightarrow> string \<times> string \<times> string \<times> string" where
  "retry_identity e =
     (me_kind e, me_device_id e, me_boot_id e,
      (case me_frame e of
         Some fr \<Rightarrow> if me_kind e = ''result'' then field (fr_fields fr) ''seq'' else []
       | None \<Rightarrow> []))"

definition counter_stream :: "manager_event \<Rightarrow> (string \<times> string) option" where
  "counter_stream e = (if me_kind e \<noteq> ''counters'' then None else Some (me_device_id e, me_boot_id e))"

definition counter_value :: "manager_event \<Rightarrow> int option" where
  "counter_value e =
     (case me_frame e of
        None \<Rightarrow> None
      | Some fr \<Rightarrow>
          if me_kind e \<noteq> ''counters'' then None
          else (case od_get (fr_fields fr) ''recovery'' of None \<Rightarrow> None | Some t \<Rightarrow> py_int t))"

definition measurement_context :: "manager_event \<Rightarrow> bool \<times> string option \<times> string option" where
  "measurement_context e = (me_context_captured e, me_keg_id e, me_calibration_id e)"

definition MAX_RETRIES :: nat where
  "MAX_RETRIES = 128"

fun update_first :: "('a \<Rightarrow> bool) \<Rightarrow> ('a \<Rightarrow> 'a) \<Rightarrow> 'a list \<Rightarrow> 'a list" where
  "update_first P f [] = []"
| "update_first P f (x # xs) = (if P x then f x # xs else x # update_first P f xs)"

fun remove_first :: "('a \<Rightarrow> bool) \<Rightarrow> 'a list \<Rightarrow> 'a list" where
  "remove_first P [] = []"
| "remove_first P (x # xs) = (if P x then xs else x # remove_first P xs)"

section \<open>Counter boundaries\<close>

definition boundary_key :: "retry \<Rightarrow> bool \<times> int" where
  "boundary_key r =
     (counter_value (retry_event r) = None,
      (case counter_value (retry_event r) of Some v \<Rightarrow> v | None \<Rightarrow> 0))"

text \<open>One step of the normalization loop; the list built so far is kept in reverse.\<close>

fun normalize_step :: "retry list \<Rightarrow> retry \<Rightarrow> retry list" where
  "normalize_step [] r = [r]"
| "normalize_step ((prior_deadline, prior_attempt, prior_event) # rest) (deadline, queued_attempt, queued_event) =
     (let v = counter_value queued_event; prior_v = counter_value prior_event
      in if v \<noteq> None \<and> v = prior_v then
           (prior_deadline, max prior_attempt queued_attempt, prior_event) # rest
         else if v \<noteq> None \<and> prior_v \<noteq> None \<and>
             measurement_context queued_event = measurement_context prior_event then
           (prior_deadline, max prior_attempt queued_attempt, queued_event) # rest
         else
           (max deadline prior_deadline, queued_attempt, queued_event)
             # (prior_deadline, prior_attempt, prior_event) # rest)"

definition normalize_boundaries :: "retry list \<Rightarrow> retry list" where
  "normalize_boundaries boundaries = rev (foldl normalize_step [] boundaries)"

definition schedule_counter_retry ::
    "int \<Rightarrow> manager_event \<Rightarrow> nat \<Rightarrow> retry list \<Rightarrow> retry list \<times> string option" where
  "schedule_counter_retry now e attempt q =
     (let candidate = (now + retry_delay attempt, attempt, e);
          same = (\<lambda>r. counter_stream (retry_event r) = counter_stream e);
          unrelated = filter (\<lambda>r. \<not> same r) q;
          boundaries = filter same q @ [candidate];
          normalized = normalize_boundaries (sort_key boundary_key boundaries)
      in if length (unrelated @ normalized) > MAX_RETRIES then
           (if list_all (\<lambda>r. measurement (retry_event r)) unrelated then
              (q, Some ''coordinator_retry_queue_full'')
            else (remove_first (\<lambda>r. \<not> measurement (retry_event r)) unrelated @ normalized, None))
         else (unrelated @ normalized, None))"

section \<open>Scheduling\<close>

definition schedule_event_retry ::
    "int \<Rightarrow> manager_event \<Rightarrow> nat \<Rightarrow> retry list \<Rightarrow> retry list \<times> string option" where
  "schedule_event_retry now e attempt q =
     (if attempt > 12 \<and> \<not> measurement e then (q, Some ''coordinator_event_abandoned'')
      else if me_kind e = ''counters'' then schedule_counter_retry now e attempt q
      else
        let same = (\<lambda>r. retry_identity (retry_event r) = retry_identity e)
        in if list_ex same q then
             (update_first same
                (\<lambda>(queued_deadline, queued_attempt, queued_event).
                  (if me_kind e = ''result'' then queued_deadline else now + retry_delay attempt,
                   max attempt queued_attempt,
                   if me_kind e = ''result'' then queued_event else e)) q, None)
           else
             let fresh = (now + retry_delay attempt, attempt, e)
             in if length q \<ge> MAX_RETRIES then
                  (if list_all (\<lambda>r. measurement (retry_event r)) q then
                     (q, Some ''coordinator_retry_queue_full'')
                   else (remove_first (\<lambda>r. \<not> measurement (retry_event r)) q @ [fresh], None))
                else (q @ [fresh], None))"

definition defer_behind_pending ::
    "int \<Rightarrow> manager_event \<Rightarrow> nat \<Rightarrow> retry list \<Rightarrow> bool \<times> retry list \<times> string option" where
  "defer_behind_pending now e attempt q =
     (if me_kind e = ''result'' then
        (if attempt = 0 \<and>
            list_ex (\<lambda>r. me_kind (retry_event r) = ''result'' \<and>
                         retry_identity (retry_event r) = retry_identity e) q then
           (True, schedule_event_retry now e attempt q)
         else (False, q, None))
      else if me_kind e \<noteq> ''counters'' then (False, q, None)
      else
        let v = counter_value e;
            behind = (\<lambda>r. counter_stream (retry_event r) = counter_stream e \<and>
              (let queued_v = counter_value (retry_event r)
               in v = None \<or> queued_v = None \<or> the queued_v < the v \<or>
                  (queued_v = v \<and> attempt = 0)))
        in if list_ex behind q then (True, schedule_event_retry now e attempt q)
           else (False, q, None))"

text \<open>The due retries and the ones that stay, as \<open>_event_loop\<close> splits them.\<close>

definition due_retries :: "int \<Rightarrow> retry list \<Rightarrow> retry list \<times> retry list" where
  "due_retries now q = (filter (\<lambda>r. fst r \<le> now) q, filter (\<lambda>r. \<not> fst r \<le> now) q)"

section \<open>Capacity\<close>

lemma length_update_first [simp]: "length (update_first P f xs) = length xs"
  by (induction xs) simp_all

lemma length_remove_first: "list_ex P xs \<Longrightarrow> length (remove_first P xs) = length xs - 1"
proof (induction xs)
  case (Cons x xs)
  then show ?case by (cases xs) auto
qed simp

lemma not_all_ex: "\<not> list_all P xs \<longleftrightarrow> list_ex (\<lambda>x. \<not> P x) xs"
  by (auto simp: list_all_iff list_ex_iff)

lemma length_normalize_step: "length (normalize_step acc r) \<le> length acc + 1"
  by (cases "(acc, r)" rule: normalize_step.cases) (auto simp: Let_def)

lemma length_normalize_fold: "length (foldl normalize_step acc rs) \<le> length acc + length rs"
proof (induction rs arbitrary: acc)
  case (Cons r rs)
  have "length (foldl normalize_step (normalize_step acc r) rs) \<le> length (normalize_step acc r) + length rs"
    by (rule Cons.IH)
  also have "\<dots> \<le> length acc + 1 + length rs" using length_normalize_step [of acc r] by simp
  finally show ?case by simp
qed simp

lemma length_normalize: "length (normalize_boundaries rs) \<le> length rs"
  using length_normalize_fold [of "[]" rs] by (simp add: normalize_boundaries_def)


lemma length_filter_split: "length (filter (\<lambda>x. \<not> P x) xs) + length (filter P xs) = length xs"
  by (induction xs) simp_all

lemma schedule_counter_length:
  assumes "length q \<le> MAX_RETRIES"
  shows "length (fst (schedule_counter_retry now e attempt q)) \<le> MAX_RETRIES"
proof -
  let ?same = "\<lambda>r. counter_stream (retry_event r) = counter_stream e"
  let ?u = "filter (\<lambda>r. \<not> ?same r) q"
  let ?n = "normalize_boundaries (sort_key boundary_key (filter ?same q @ [(now + retry_delay attempt, attempt, e)]))"
  have "length ?n \<le> length (filter ?same q) + 1"
    using length_normalize [of "sort_key boundary_key (filter ?same q @ [(now + retry_delay attempt, attempt, e)])"]
    by simp
  then have "length (?u @ ?n) \<le> MAX_RETRIES + 1"
    using assms length_filter_split [of ?same q] by simp
  moreover have "length (remove_first (\<lambda>r. \<not> measurement (retry_event r)) ?u) = length ?u - 1 \<and> 0 < length ?u" if "\<not> list_all (\<lambda>r. measurement (retry_event r)) ?u"
    using that length_remove_first [of "\<lambda>r. \<not> measurement (retry_event r)" ?u]
    by (cases ?u) (simp_all add: not_all_ex)
  ultimately have "\<not> list_all (\<lambda>r. measurement (retry_event r)) ?u \<Longrightarrow>
      length (remove_first (\<lambda>r. \<not> measurement (retry_event r)) ?u @ ?n) \<le> MAX_RETRIES"
    by (simp, linarith)
  then show ?thesis
    using assms unfolding schedule_counter_retry_def Let_def by (simp split: if_split)
qed

lemma schedule_length:
  assumes "length q \<le> MAX_RETRIES"
  shows "length (fst (schedule_event_retry now e attempt q)) \<le> MAX_RETRIES"
  using assms schedule_counter_length [OF assms] length_remove_first [of "\<lambda>r. \<not> measurement (retry_event r)" q]
  by (auto simp: schedule_event_retry_def Let_def not_all_ex MAX_RETRIES_def)

section \<open>Attribution\<close>


definition stream_boundaries :: "(string \<times> string) option \<Rightarrow> retry list \<Rightarrow> retry list" where
  "stream_boundaries s q = filter (\<lambda>r. counter_stream (retry_event r) = s) q"












lemma stream_boundaries_append [simp]:
  "stream_boundaries s (xs @ ys) = stream_boundaries s xs @ stream_boundaries s ys"
  by (simp add: stream_boundaries_def)























lemma update_first_events:
  "(\<And>r. P r \<Longrightarrow> g (f r) = g r) \<Longrightarrow> map g (update_first P f q) = map g q"
  by (induction q) simp_all

text \<open>The retry queue is bounded and keeps the first observation of a result.  Scheduling never
  lets the queue exceed 128 entries; and while a result waits, scheduling a replay of it (same
  device, boot and sequence number) leaves every queued event as it is, so the keg and calibration
  captured first are the ones that will be committed.\<close>

theorem retry_first_result_kept:
  assumes "length q \<le> MAX_RETRIES" "me_kind e = ''result''"
    "list_ex (\<lambda>r. retry_identity (retry_event r) = retry_identity e) q"
  shows "length (fst (schedule_event_retry now e attempt q)) \<le> MAX_RETRIES \<and>
    map retry_event (fst (schedule_event_retry now e attempt q)) = map retry_event q \<and>
    map fst (fst (schedule_event_retry now e attempt q)) = map fst q"
  using assms schedule_length [OF assms(1), of now e attempt]
  by (simp add: schedule_event_retry_def measurement_def Let_def)
    (auto intro!: update_first_events)

definition demo_retry_result :: "string \<Rightarrow> manager_event" where
  "demo_retry_result keg = (manager_event_of ''result''
     (Some \<lparr>fr_kind = ''R'', fr_request_id = ''00000000'', fr_operation = ''RESULT'',
        fr_fields = [(''seq'', ''7'')]\<rparr>) [])
     \<lparr>me_device_id := ''D'', me_boot_id := ''B'', me_keg_id := Some keg\<rparr>"

theorem retry_first_result_kept_witness:
  "map retry_event (fst (schedule_event_retry 900 (demo_retry_result ''keg2'') 3 [(50, 1, demo_retry_result ''keg1'')])) =
     [demo_retry_result ''keg1'']"
proof -
  have k: "me_kind (demo_retry_result ''keg2'') = ''result''"
    "retry_identity (demo_retry_result ''keg1'') = retry_identity (demo_retry_result ''keg2'')"
    by (simp_all add: demo_retry_result_def manager_event_of_def retry_identity_def)
  have "length [(50 :: int, 1 :: nat, demo_retry_result ''keg1'')] \<le> MAX_RETRIES" by (simp add: MAX_RETRIES_def)
  from retry_first_result_kept [OF this k(1)] k(2) show ?thesis by simp
qed
end
