(* ===== verification/KP_Decimal.thy ===== *)
theory KP_Decimal
  imports Complex_Main KP_Text
begin

text \<open>
  Python's \<open>Decimal\<close> as the program uses it: finite values are rationals, and an operation is the
  exact result rounded half-even to the precision of the context (28 digits, or 38 inside
  \<open>analyze_calibration\<close>).  Exponent limits are never reached by the program's quantities and are
  left out; trailing zeros of the representation do not affect any value.  A value that may be
  given as text, number or \<open>Decimal\<close> is a \<open>rat option\<close>, where \<open>None\<close> is a text that is not a
  finite number.
\<close>

section \<open>Rounding\<close>

definition round_half_even :: "rat \<Rightarrow> int" where
  "round_half_even x =
     (let f = \<lfloor>x\<rfloor>; d = x - of_int f
      in if d < 1 / 2 then f else if d > 1 / 2 then f + 1 else if even f then f else f + 1)"

definition round_half_up :: "rat \<Rightarrow> int" where
  "round_half_up x = (if x < 0 then - \<lfloor>- x + 1 / 2\<rfloor> else \<lfloor>x + 1 / 2\<rfloor>)"

definition ten_pow :: "int \<Rightarrow> rat" where
  "ten_pow e = (if 0 \<le> e then 10 ^ nat e else 1 / 10 ^ nat (- e))"

text \<open>The exponent of the leading digit, \<open>\<lfloor>log 10 \<bar>x\<bar>\<rfloor>\<close>.\<close>

definition digits :: "int \<Rightarrow> int" where
  "digits n = int (length (show_digits n))"

definition leading_exponent :: "rat \<Rightarrow> int" where
  "leading_exponent x =
     (let (n, d) = quotient_of \<bar>x\<bar>; k = digits d - digits n
      in if \<bar>x\<bar> * ten_pow k \<ge> 1 then - k else - k - 1)"

definition dec_round :: "int \<Rightarrow> rat \<Rightarrow> rat" where
  "dec_round prec x =
     (if x = 0 then 0
      else let q = ten_pow (leading_exponent x - prec + 1)
           in of_int (round_half_even (x / q)) * q)"

definition DEFAULT_PREC :: int where "DEFAULT_PREC = 28"

definition dec_add :: "int \<Rightarrow> rat \<Rightarrow> rat \<Rightarrow> rat" where
  "dec_add prec x y = dec_round prec (x + y)"

definition dec_sub :: "int \<Rightarrow> rat \<Rightarrow> rat \<Rightarrow> rat" where
  "dec_sub prec x y = dec_round prec (x - y)"

definition dec_mult :: "int \<Rightarrow> rat \<Rightarrow> rat \<Rightarrow> rat" where
  "dec_mult prec x y = dec_round prec (x * y)"

definition dec_div :: "int \<Rightarrow> rat \<Rightarrow> rat \<Rightarrow> rat" where
  "dec_div prec x y = dec_round prec (x / y)"

definition dec_sum :: "int \<Rightarrow> rat list \<Rightarrow> rat" where
  "dec_sum prec xs = foldl (dec_add prec) 0 xs"

function isqrt :: "nat \<Rightarrow> nat" where
  "isqrt n = (if n = 0 then 0
     else let r = 2 * isqrt (n div 4) in if (r + 1) * (r + 1) \<le> n then r + 1 else r)"
  by pat_completeness auto
termination
  by (relation "measure id") auto

declare isqrt.simps [simp del]

definition dec_sqrt :: "int \<Rightarrow> rat \<Rightarrow> rat" where
  "dec_sqrt prec x =
     (if x \<le> 0 then 0
      else let q = leading_exponent x div 2 - prec + 1; m = x / ten_pow (2 * q);
               s = int (isqrt (nat \<lfloor>m\<rfloor>)); h = of_int s + 1 / 2
           in (if m > h * h then of_int (s + 1) else if m < h * h then of_int s
               else of_int (if even s then s else s + 1)) * ten_pow q)"

section \<open>Facts about rounding\<close>

lemma round_half_even_mono: "x \<le> y \<Longrightarrow> round_half_even x \<le> round_half_even y"
proof -
  assume le: "x \<le> y"
  have f: "\<lfloor>x\<rfloor> \<le> \<lfloor>y\<rfloor>" using le by (rule floor_mono)
  show ?thesis
  proof (cases "\<lfloor>x\<rfloor> = \<lfloor>y\<rfloor>")
    case True
    then show ?thesis using le by (auto simp: round_half_even_def Let_def)
  next
    case False
    then have "\<lfloor>x\<rfloor> + 1 \<le> \<lfloor>y\<rfloor>" using f by simp
    then show ?thesis by (auto simp: round_half_even_def Let_def)
  qed
qed

lemma round_half_even_int [simp]: "round_half_even (of_int n) = n"
  by (simp add: round_half_even_def)

lemma round_half_even_nearest: "\<bar>of_int (round_half_even x) - x\<bar> \<le> 1 / 2"
proof -
  have "of_int \<lfloor>x\<rfloor> \<le> x" "x < of_int \<lfloor>x\<rfloor> + 1" using floor_correct [of x] by auto
  then show ?thesis by (auto simp: round_half_even_def Let_def abs_le_iff)
qed

lemma ten_pow_pos [simp]: "0 < ten_pow e"
  by (simp add: ten_pow_def)

lemma ten_pow_ne [simp]: "ten_pow e \<noteq> 0"
  using ten_pow_pos [of e] by linarith

lemma dec_round_nonneg: "0 \<le> x \<Longrightarrow> 0 \<le> dec_round prec x"
proof -
  assume "0 \<le> x"
  then have "0 \<le> round_half_even (x / q)" if "0 < q" for q
    using round_half_even_mono [of 0 "x / q"] round_half_even_int [of 0] that by simp
  then show ?thesis by (auto simp: dec_round_def Let_def intro!: mult_nonneg_nonneg order_less_imp_le [OF ten_pow_pos])
qed

lemma dec_round_zero [simp]: "dec_round prec 0 = 0"
  by (simp add: dec_round_def)

text \<open>The error of one operation is at most half a unit in its last place.\<close>

lemma dec_round_error:
  assumes "x \<noteq> 0"
  shows "\<bar>dec_round prec x - x\<bar> \<le> ten_pow (leading_exponent x - prec + 1) / 2"
proof -
  let ?q = "ten_pow (leading_exponent x - prec + 1)"
  have q: "0 < ?q" by simp
  have "dec_round prec x - x = (of_int (round_half_even (x / ?q)) - x / ?q) * ?q"
    using assms q by (simp add: dec_round_def Let_def left_diff_distrib)
  then have "\<bar>dec_round prec x - x\<bar> = \<bar>of_int (round_half_even (x / ?q)) - x / ?q\<bar> * ?q"
    using q by (simp add: abs_mult abs_of_pos)
  also have "\<dots> \<le> 1 / 2 * ?q"
    using round_half_even_nearest [of "x / ?q"] by (intro mult_right_mono order_less_imp_le [OF q])
  finally show ?thesis by simp
qed


section \<open>The leading exponent\<close>

lemma ten_pow_add: "ten_pow (a + b) = ten_pow a * ten_pow b"
proof -
  have nat_case: "ten_pow (int m + int n) = ten_pow (int m) * ten_pow (int n)" for m n
    by (simp add: ten_pow_def nat_add_distrib power_add)
  have inv: "ten_pow (- c) * ten_pow c = 1" for c
    by (simp add: ten_pow_def)
  have shift: "ten_pow (int m - int n) * ten_pow (int n) = ten_pow (int m)" for m n
  proof (cases "n \<le> m")
    case True
    then show ?thesis using nat_case [of "m - n" n] by (simp add: of_nat_diff)
  next
    case False
    then have "ten_pow (int n) = ten_pow (int (n - m)) * ten_pow (int m)"
      using nat_case [of "n - m" m] by (simp add: of_nat_diff)
    moreover have "ten_pow (int m - int n) * ten_pow (int (n - m)) = 1"
      using inv [of "int (n - m)"] False by (simp add: of_nat_diff)
    ultimately show ?thesis by (simp add: mult.assoc [symmetric])
  qed
  obtain m n where a: "a = int m - int n" by (metis int_diff_cases)
  obtain k l where b: "b = int k - int l" by (metis int_diff_cases)
  have "ten_pow (a + b) * ten_pow (int (n + l)) = ten_pow (int (m + k))"
    using shift [of "m + k" "n + l"] by (simp add: a b algebra_simps)
  also have "\<dots> = (ten_pow a * ten_pow (int n)) * (ten_pow b * ten_pow (int l))"
    using shift [of m n] shift [of k l] nat_case [of m k] by (simp add: a b)
  also have "\<dots> = (ten_pow a * ten_pow b) * ten_pow (int (n + l))"
    using nat_case [of n l] by simp
  finally show ?thesis by simp
qed

lemma ten_pow_simps [simp]: "ten_pow 0 = 1" "ten_pow 1 = 10" "ten_pow (- 1) = 1 / 10"
  by (simp_all add: ten_pow_def)

lemma ten_pow_mono: "a \<le> b \<Longrightarrow> ten_pow a \<le> ten_pow b"
proof -
  assume "a \<le> b"
  then have "1 \<le> ten_pow (b - a)" by (simp add: ten_pow_def)
  then have "ten_pow a * 1 \<le> ten_pow a * ten_pow (b - a)"
    by (rule mult_left_mono) (simp add: order_less_imp_le)
  then show ?thesis using ten_pow_add [of a "b - a"] by simp
qed

lemma show_digits_lower: "1 \<le> n \<Longrightarrow> 10 ^ (length (show_digits n) - 1) \<le> n"
proof (induction n rule: show_digits.induct)
  case (1 n)
  show ?case
  proof (cases "n < 10")
    case True
    then show ?thesis using "1.prems" by (simp add: show_digits.simps)
  next
    case False
    then have "1 \<le> n div 10" by simp
    with "1.IH" False have ih: "10 ^ (length (show_digits (n div 10)) - 1) \<le> n div 10" by simp
    have "show_digits n = show_digits (n div 10) @ [digit_char (n mod 10)]"
      using False by (subst show_digits.simps) simp
    then obtain k where k: "length (show_digits (n div 10)) = Suc k" "length (show_digits n) = Suc (Suc k)"
      using show_digits_nonempty [of "n div 10"] by (cases "show_digits (n div 10)") simp_all
    then have "(10 :: int) ^ (length (show_digits n) - 1) = 10 * 10 ^ (length (show_digits (n div 10)) - 1)"
      by simp
    also have "\<dots> \<le> 10 * (n div 10)" using ih by simp
    also have "\<dots> \<le> n" by simp
    finally show ?thesis .
  qed
qed

lemma show_digits_upper: "0 \<le> n \<Longrightarrow> n < 10 ^ length (show_digits n)"
proof (induction n rule: show_digits.induct)
  case (1 n)
  show ?case
  proof (cases "n < 10")
    case True
    then show ?thesis using "1.prems" by (simp add: show_digits.simps)
  next
    case False
    with "1.IH" "1.prems" have "n div 10 < 10 ^ length (show_digits (n div 10))" by simp
    then have "n < 10 * 10 ^ length (show_digits (n div 10))" by linarith
    moreover have "length (show_digits n) = Suc (length (show_digits (n div 10)))"
      using False by (subst show_digits.simps) simp
    ultimately show ?thesis by simp
  qed
qed

lemma digits_bounds:
  assumes "1 \<le> n"
  shows "ten_pow (digits n - 1) \<le> of_int n" "of_int n < ten_pow (digits n)" "1 \<le> digits n"
proof -
  have len: "1 \<le> length (show_digits n)"
    using show_digits_nonempty [of n] by (cases "show_digits n") simp_all
  then show "1 \<le> digits n" by (simp add: digits_def)
  have "of_int (10 ^ (length (show_digits n) - 1)) \<le> (of_int n :: rat)"
    using show_digits_lower [OF assms] by (simp only: of_int_le_iff)
  then show "ten_pow (digits n - 1) \<le> of_int n"
    using len by (simp add: ten_pow_def digits_def nat_diff_distrib)
  have "(of_int n :: rat) < of_int (10 ^ length (show_digits n))"
    using show_digits_upper [of n] assms by (simp only: of_int_less_iff)
  then show "of_int n < ten_pow (digits n)"
    by (simp add: ten_pow_def digits_def)
qed

lemma leading_exponent_bounds:
  assumes "x \<noteq> 0"
  shows "ten_pow (leading_exponent x) \<le> \<bar>x\<bar> \<and> \<bar>x\<bar> < ten_pow (leading_exponent x + 1)"
proof -
  obtain n d where nd: "quotient_of \<bar>x\<bar> = (n, d)" by force
  have d: "0 < d" and x: "\<bar>x\<bar> = of_int n / of_int d"
    using quotient_of_denom_pos [OF nd] quotient_of_div [OF nd] by simp_all
  have n: "1 \<le> n"
  proof -
    have "0 < of_int n / (of_int d :: rat)" using x assms by simp
    then show ?thesis using d by (simp add: zero_less_divide_iff)
  qed
  let ?k = "digits d - digits n"
  have d1: "1 \<le> d" using d by simp
  note bn = digits_bounds [OF n] and bd = digits_bounds [OF d1]
  have dpos: "(0 :: rat) < of_int d" using d by simp
  have shift: "\<bar>x\<bar> * ten_pow ?k = of_int n * ten_pow ?k / of_int d" by (simp add: x)
  have "of_int n * ten_pow ?k < ten_pow (digits n) * ten_pow ?k"
    using bn(2) by (rule mult_strict_right_mono) simp
  also have "\<dots> = 10 * ten_pow (digits d - 1)"
    using ten_pow_add [of "digits n" ?k] ten_pow_add [of 1 "digits d - 1"] by simp
  also have "\<dots> \<le> 10 * of_int d" using bd(1) by simp
  finally have upper: "\<bar>x\<bar> * ten_pow ?k < 10"
    using dpos by (simp add: shift divide_less_eq)
  have "of_int d < ten_pow (digits d)" by (rule bd(2))
  also have "\<dots> = 10 * (ten_pow (digits n - 1) * ten_pow ?k)"
    using ten_pow_add [of "digits n - 1" ?k] ten_pow_add [of 1 "digits d - 1"] by simp
  also have "\<dots> \<le> 10 * (of_int n * ten_pow ?k)"
    using mult_right_mono [OF bn(1), of "ten_pow ?k"] by (simp add: order_less_imp_le)
  finally have lower: "1 / 10 < \<bar>x\<bar> * ten_pow ?k"
    using dpos by (simp add: shift less_divide_eq)
  have un: "\<bar>x\<bar> = (\<bar>x\<bar> * ten_pow ?k) * ten_pow (- ?k)"
    using ten_pow_add [of ?k "- ?k"] by (simp add: mult.assoc)
  have scale: "a * ten_pow (- ?k) \<le> \<bar>x\<bar>" if "a \<le> \<bar>x\<bar> * ten_pow ?k" for a
  proof -
    have "a * ten_pow (- ?k) \<le> (\<bar>x\<bar> * ten_pow ?k) * ten_pow (- ?k)"
      using that by (rule mult_right_mono) (simp add: order_less_imp_le)
    then show ?thesis by (simp only: un [symmetric])
  qed
  have scale': "\<bar>x\<bar> < b * ten_pow (- ?k)" if "\<bar>x\<bar> * ten_pow ?k < b" for b
  proof -
    have "(\<bar>x\<bar> * ten_pow ?k) * ten_pow (- ?k) < b * ten_pow (- ?k)"
      using that by (rule mult_strict_right_mono) simp
    then show ?thesis by (simp only: un [symmetric])
  qed
  show ?thesis
  proof (cases "\<bar>x\<bar> * ten_pow ?k \<ge> 1")
    case True
    then have "leading_exponent x = - ?k" by (simp add: leading_exponent_def nd)
    then show ?thesis
      using scale [OF True] scale' [OF upper] ten_pow_add [of 1 "- ?k"] by (simp add: add.commute)
  next
    case False
    then have L: "leading_exponent x = - ?k - 1" by (simp add: leading_exponent_def nd)
    have "1 / 10 * ten_pow (- ?k) \<le> \<bar>x\<bar>" using lower by (intro scale) simp
    moreover have "\<bar>x\<bar> < 1 * ten_pow (- ?k)" using False by (intro scale') simp
    ultimately show ?thesis using ten_pow_add [of "- 1" "- ?k"] by (simp add: L)
  qed
qed

text \<open>Half a unit in the last place is a relative error of \<open>5 * 10 ^ - prec\<close>.\<close>

lemma dec_round_relative: "\<bar>dec_round prec x - x\<bar> \<le> \<bar>x\<bar> * (5 * ten_pow (- prec))"
proof (cases "x = 0")
  case False
  have "\<bar>dec_round prec x - x\<bar> \<le> ten_pow (leading_exponent x - prec + 1) / 2"
    by (rule dec_round_error [OF False])
  also have "\<dots> = ten_pow (leading_exponent x) * (5 * ten_pow (- prec))"
    using ten_pow_add [of "leading_exponent x" "1 - prec"] ten_pow_add [of 1 "- prec"]
    by (simp add: algebra_simps)
  also have "\<dots> \<le> \<bar>x\<bar> * (5 * ten_pow (- prec))"
    using leading_exponent_bounds [OF False] by (intro mult_right_mono) (simp_all add: order_less_imp_le)
  finally show ?thesis .
qed simp

text \<open>A value with at most \<open>prec\<close> digits is not changed.\<close>

lemma dec_round_exact:
  assumes "x = of_int m * ten_pow e" "\<bar>x\<bar> < ten_pow (prec + e)"
  shows "dec_round prec x = x"
proof (cases "x = 0")
  case False
  have "ten_pow (leading_exponent x) < ten_pow (prec + e)"
    using leading_exponent_bounds [OF False] assms(2) by linarith
  then have le: "leading_exponent x < prec + e"
    using ten_pow_mono [of "prec + e" "leading_exponent x"] by (meson not_le_imp_less not_less)
  let ?u = "leading_exponent x - prec + 1"
  have "ten_pow e = ten_pow (e - ?u) * ten_pow ?u" using ten_pow_add [of "e - ?u" ?u] by simp
  moreover have "ten_pow (e - ?u) = of_int (10 ^ nat (e - ?u))" using le by (simp add: ten_pow_def)
  ultimately have "x = of_int (m * 10 ^ nat (e - ?u)) * ten_pow ?u" using assms(1) by simp
  then have "x / ten_pow ?u = of_int (m * 10 ^ nat (e - ?u))"
    by (metis nonzero_mult_div_cancel_right ten_pow_ne)
  then have "round_half_even (x / ten_pow ?u) = m * 10 ^ nat (e - ?u)"
    by (metis round_half_even_int)
  then have "dec_round prec x = (x / ten_pow ?u) * ten_pow ?u"
    using False \<open>x / ten_pow ?u = _\<close> by (simp add: dec_round_def Let_def del: of_int_mult times_divide_eq_left)
  then show ?thesis by simp
qed simp

end
