(* ===== verification/KP_Measure.thy ===== *)
theory KP_Measure
  imports KP_Decimal KP_Domain
begin

text \<open>
  Volumes: \<open>domain/units.py\<close>, \<open>domain/inventory.py\<close> and \<open>domain/calibration.py\<close> of
  \<open>src/kegpulse\<close>, over the decimal arithmetic of \<open>KP_Decimal\<close>, operation by operation with the
  rounding each one makes.
\<close>

section \<open>Units\<close>

definition ML_PER_US_FL_OZ :: rat where "ML_PER_US_FL_OZ = 295735295625 / 10 ^ 10"
definition ML_PER_LITER :: rat where "ML_PER_LITER = 1000"

definition finite_decimal :: "rat option \<Rightarrow> string \<Rightarrow> rat result" where
  "finite_decimal v name =
     (case v of Some x \<Rightarrow> Inr x | None \<Rightarrow> Inl (DomainError (name @ '' must be a finite number'')))"

definition to_milliliters :: "rat option \<Rightarrow> string \<Rightarrow> rat result" where
  "to_milliliters v unit_name =
     bind_res (finite_decimal v ''volume'') (\<lambda>amount.
       if unit_name = ''ml'' then Inr amount
       else if unit_name = ''l'' then Inr (dec_mult DEFAULT_PREC amount ML_PER_LITER)
       else if unit_name = ''us_fl_oz'' then Inr (dec_mult DEFAULT_PREC amount ML_PER_US_FL_OZ)
       else Inl (DomainError ''unit must be ml, l, or us_fl_oz''))"

definition from_milliliters :: "rat option \<Rightarrow> string \<Rightarrow> rat result" where
  "from_milliliters v unit_name =
     bind_res (finite_decimal v ''volume_ml'') (\<lambda>amount.
       if unit_name = ''ml'' then Inr amount
       else if unit_name = ''l'' then Inr (dec_div DEFAULT_PREC amount ML_PER_LITER)
       else if unit_name = ''us_fl_oz'' then Inr (dec_div DEFAULT_PREC amount ML_PER_US_FL_OZ)
       else Inl (DomainError ''unit must be ml, l, or us_fl_oz''))"

section \<open>Inventory\<close>

record inventory_state =
  is_starting_ml :: rat
  is_poured_ml :: rat
  is_adjustments_ml :: rat
  is_remaining_ml :: rat
  is_percent_remaining :: rat
  is_overrun_ml :: rat
  is_has_unknown_pours :: bool

text \<open>The loop over the pours: \<open>None\<close> is a pour of unknown volume.\<close>

fun sum_pours :: "rat option option list \<Rightarrow> rat \<Rightarrow> bool \<Rightarrow> (rat \<times> bool) result" where
  "sum_pours [] poured unknown = Inr (poured, unknown)"
| "sum_pours (None # rest) poured unknown = sum_pours rest poured True"
| "sum_pours (Some raw # rest) poured unknown =
     bind_res (finite_decimal raw ''pour_volume_ml'') (\<lambda>v.
       if v < 0 then Inl (DomainError ''pour volumes cannot be negative'')
       else sum_pours rest (dec_add DEFAULT_PREC poured v) unknown)"

fun sum_adjustments :: "rat option list \<Rightarrow> rat \<Rightarrow> rat result" where
  "sum_adjustments [] tot = Inr tot"
| "sum_adjustments (raw # rest) tot =
     bind_res (finite_decimal raw ''adjustment_ml'') (\<lambda>v.
       sum_adjustments rest (dec_add DEFAULT_PREC tot v))"

definition calculate_inventory ::
    "rat option \<Rightarrow> rat option option list \<Rightarrow> rat option list \<Rightarrow> inventory_state result" where
  "calculate_inventory starting_ml pour_volumes_ml adjustments_ml =
     bind_res (finite_decimal starting_ml ''starting_ml'') (\<lambda>starting.
       if starting \<le> 0 then Inl (DomainError ''starting_ml must be positive'')
       else
         bind_res (sum_pours pour_volumes_ml 0 False) (\<lambda>(poured, unknown).
         bind_res (sum_adjustments adjustments_ml 0) (\<lambda>adjustments.
           let remaining = dec_add DEFAULT_PREC (dec_sub DEFAULT_PREC starting poured) adjustments;
               percent = dec_mult DEFAULT_PREC (dec_div DEFAULT_PREC remaining starting) 100;
               overrun = (if remaining < 0 then dec_round DEFAULT_PREC \<bar>remaining\<bar> else 0)
           in Inr \<lparr>is_starting_ml = starting, is_poured_ml = poured, is_adjustments_ml = adjustments,
                   is_remaining_ml = remaining, is_percent_remaining = percent,
                   is_overrun_ml = overrun, is_has_unknown_pours = unknown\<rparr>)))"

section \<open>Calibration\<close>

definition MIN_SAMPLES :: nat where "MIN_SAMPLES = 10"
definition MIN_INCLUDED_SAMPLES :: nat where "MIN_INCLUDED_SAMPLES = 7"
definition CALIBRATION_PREC :: int where "CALIBRATION_PREC = 38"

record calibration_sample =
  cl_raw_pulses :: int
  cl_mass_g :: rat
  cl_density_g_per_ml :: rat
  cl_included :: bool

definition volume_ml :: "int \<Rightarrow> calibration_sample \<Rightarrow> rat" where
  "volume_ml prec s = dec_div prec (cl_mass_g s) (cl_density_g_per_ml s)"

definition sample_ratio :: "int \<Rightarrow> calibration_sample \<Rightarrow> rat" where
  "sample_ratio prec s = dec_div prec (of_int (cl_raw_pulses s)) (volume_ml prec s)"

record sample_analysis =
  an_predicted_volume_ml :: rat
  an_residual_ml :: rat
  an_percentage_error :: rat
  an_suspected_outlier :: bool

record calibration_analysis =
  ca_pulses_per_ml :: rat
  ca_samples :: "sample_analysis list"
  ca_included_count :: nat
  ca_coefficient_of_variation_pct :: "rat option"

definition ensure_plausible_factor :: "rat \<Rightarrow> unit result" where
  "ensure_plausible_factor factor =
     check (1 / 10 \<le> factor \<and> factor \<le> 100)
       (DomainError ''calibration factor is outside the plausible range for a flow sensor; check the sample masses and pulse counts'')"

definition make_sample :: "pyval \<Rightarrow> rat option \<Rightarrow> rat option \<Rightarrow> bool \<Rightarrow> calibration_sample result" where
  "make_sample raw_pulses mass_g density_g_per_ml included =
     bind_res (finite_decimal mass_g ''mass_g'') (\<lambda>mass.
     bind_res (finite_decimal density_g_per_ml ''density_g_per_ml'') (\<lambda>density.
       case raw_pulses of
         VInt n \<Rightarrow>
           (if \<not> (1 \<le> n \<and> n \<le> 2 ^ 63 - 1) then
              Inl (DomainError ''raw_pulses is outside the supported range'')
            else if \<not> (1 / 10 \<le> mass \<and> mass \<le> 10000) then
              Inl (DomainError ''mass_g is outside the supported range'')
            else if \<not> (1 / 2 \<le> density \<and> density \<le> 2) then
              Inl (DomainError ''density_g_per_ml is outside the supported range'')
            else Inr \<lparr>cl_raw_pulses = n, cl_mass_g = mass, cl_density_g_per_ml = density,
                      cl_included = included\<rparr>)
       | _ \<Rightarrow> Inl (DomainError ''raw_pulses must be an integer'')))"

text \<open>\<open>statistics.median\<close> of a nonempty list.\<close>

definition median :: "int \<Rightarrow> rat list \<Rightarrow> rat" where
  "median prec xs =
     (let s = sort xs; n = length xs
      in if odd n then s ! (n div 2)
         else dec_div prec (dec_add prec (s ! (n div 2 - 1)) (s ! (n div 2))) 2)"

definition outlier_flags :: "int \<Rightarrow> rat list \<Rightarrow> bool list" where
  "outlier_flags prec ratios =
     (if ratios = [] then []
      else
        let center = median prec ratios;
            deviation = (\<lambda>v. dec_round prec \<bar>dec_sub prec v center\<bar>);
            mad = median prec (map deviation ratios)
        in if mad = 0 then
             (if center = 0 then map (\<lambda>v. v \<noteq> center) ratios
              else map (\<lambda>v. dec_div prec (deviation v) (dec_round prec \<bar>center\<bar>) > 5 / 100) ratios)
           else map (\<lambda>v. dec_div prec (dec_mult prec (6745 / 10000) (deviation v)) mad > 35 / 10) ratios)"

fun analyze_samples :: "int \<Rightarrow> rat \<Rightarrow> calibration_sample list \<Rightarrow> bool list \<Rightarrow> sample_analysis list" where
  "analyze_samples prec factor [] flags = []"
| "analyze_samples prec factor (s # rest) flags =
     (let predicted = dec_div prec (of_int (cl_raw_pulses s)) factor;
          residual = dec_sub prec predicted (volume_ml prec s);
          percentage = dec_mult prec (dec_div prec (dec_round prec \<bar>residual\<bar>) (volume_ml prec s)) 100
      in \<lparr>an_predicted_volume_ml = predicted, an_residual_ml = residual,
          an_percentage_error = percentage,
          an_suspected_outlier = (cl_included s \<and> flags \<noteq> [] \<and> hd flags)\<rparr>
           # analyze_samples prec factor rest (if cl_included s then tl flags else flags))"

definition variation_pct :: "int \<Rightarrow> rat list \<Rightarrow> rat option" where
  "variation_pct prec ratios =
     (if length ratios < 2 then None
      else
        let n = of_nat (length ratios);
            mean = dec_div prec (dec_sum prec ratios) n;
            squares = map (\<lambda>r. let d = dec_sub prec r mean in dec_mult prec d d) ratios;
            variance = dec_div prec (dec_sum prec squares) n
        in Some (if mean \<noteq> 0 then dec_mult prec (dec_div prec (dec_sqrt prec variance) mean) 100 else 0))"

definition analyze_calibration :: "calibration_sample list \<Rightarrow> bool \<Rightarrow> calibration_analysis result" where
  "analyze_calibration values require_ten =
     (if require_ten \<and> length values \<noteq> MIN_SAMPLES then
        Inl (DomainError ''a calibration run requires exactly ten samples'')
      else
        let included = filter cl_included values;
            minimum_included = (if require_ten then MIN_INCLUDED_SAMPLES else 1)
        in if length included < minimum_included then
             Inl (DomainError (if require_ten then ''at least seven samples must be included''
                               else ''at least one sample must be included''))
           else
             let prec = CALIBRATION_PREC;
                 total_pulses = dec_sum prec (map (\<lambda>s. of_int (cl_raw_pulses s)) included);
                 total_volume = dec_sum prec (map (volume_ml prec) included)
             in if total_volume \<le> 0 then
                  Inl (DomainError ''included calibration volume must be positive'')
                else
                  let factor = dec_div prec total_pulses total_volume
                  in if factor \<le> 0 then Inl (DomainError ''calibration factor is invalid'')
                     else
                       let ratios = map (sample_ratio prec) included
                       in Inr \<lparr>ca_pulses_per_ml = factor,
                               ca_samples = analyze_samples prec factor values (outlier_flags prec ratios),
                               ca_included_count = length included,
                               ca_coefficient_of_variation_pct = variation_pct prec ratios\<rparr>)"

definition pulses_to_ml :: "pyval \<Rightarrow> rat option \<Rightarrow> rat result" where
  "pulses_to_ml raw_pulses pulses_per_ml =
     bind_res (finite_decimal pulses_per_ml ''pulses_per_ml'') (\<lambda>factor.
       case raw_pulses of
         VInt n \<Rightarrow>
           (if n < 0 then Inl (DomainError ''raw_pulses must be a nonnegative integer'')
            else if factor \<le> 0 then Inl (DomainError ''pulses_per_ml must be positive'')
            else Inr (dec_div DEFAULT_PREC (of_int n) factor))
       | _ \<Rightarrow> Inl (DomainError ''raw_pulses must be a nonnegative integer''))"

definition verification_error ::
    "pyval \<Rightarrow> rat option \<Rightarrow> rat option \<Rightarrow> rat option \<Rightarrow> (rat \<times> rat \<times> rat \<times> rat) result" where
  "verification_error raw_pulses mass_g density_g_per_ml pulses_per_ml =
     bind_res (make_sample raw_pulses mass_g density_g_per_ml True) (\<lambda>sample.
     bind_res (pulses_to_ml raw_pulses pulses_per_ml) (\<lambda>predicted.
       let actual = volume_ml DEFAULT_PREC sample;
           absolute = dec_round DEFAULT_PREC \<bar>dec_sub DEFAULT_PREC predicted actual\<bar>;
           percentage = dec_mult DEFAULT_PREC (dec_div DEFAULT_PREC absolute actual) 100
       in Inr (predicted, actual, absolute, percentage)))"


section \<open>Facts about rounded arithmetic of positive values\<close>

lemma dec_round_between:
  assumes "0 \<le> x"
  shows "x * (1 - 5 * ten_pow (- prec)) \<le> dec_round prec x"
    and "dec_round prec x \<le> x * (1 + 5 * ten_pow (- prec))"
  using dec_round_relative [of prec x] assms by (simp_all add: abs_le_iff algebra_simps)

lemma ulp_small:
  assumes "1 \<le> prec"
  shows "5 * ten_pow (- prec) \<le> 1 / 2"
  using ten_pow_mono [of "- prec" "- 1"] assms by simp

lemma dec_round_pos:
  assumes "0 < x" "1 \<le> prec"
  shows "0 < dec_round prec x"
proof -
  have "0 < x * (1 - 5 * ten_pow (- prec))"
    using assms ulp_small [of prec] by (intro mult_pos_pos) simp_all
  then show ?thesis using dec_round_between(1) [of x prec] assms by linarith
qed

lemma dec_sum_pos:
  assumes "1 \<le> prec" "xs \<noteq> []" "list_all (\<lambda>x. 0 < x) xs"
  shows "0 < dec_sum prec xs"
proof -
  have "list_all (\<lambda>x. 0 < x) xs \<Longrightarrow> 0 \<le> a \<Longrightarrow> xs \<noteq> [] \<or> 0 < a \<Longrightarrow> 0 < foldl (dec_add prec) a xs" for a
  proof (induction xs arbitrary: a)
    case (Cons x xs)
    have "0 < dec_add prec a x" using Cons.prems assms(1) by (simp add: dec_add_def dec_round_pos)
    then show ?case using Cons.prems by (simp add: Cons.IH)
  qed simp
  then show ?thesis using assms by (simp add: dec_sum_def)
qed

text \<open>C34 \<open>pulses_to_ml\<close> (\<open>calibration.py\<close>) answers exactly for a nonnegative integer pulse count and a
  positive factor, and its volume is nonnegative and within one part in \<open>2 * 10 ^ 27\<close> of the
  exact quotient; every other pair of arguments is a \<open>DomainError\<close>.\<close>

theorem pulses_to_ml_accurate:
  "(case pulses_to_ml raw factor of
      Inr v \<Rightarrow> (\<exists>n f. raw = VInt n \<and> factor = Some f \<and> 0 \<le> n \<and> 0 < f \<and> 0 \<le> v \<and>
                  \<bar>v - of_int n / f\<bar> * (2 * 10 ^ 27) \<le> of_int n / f)
    | Inl e \<Rightarrow> (\<exists>m. e = DomainError m) \<and>
        \<not> (\<exists>n f. raw = VInt n \<and> factor = Some f \<and> 0 \<le> n \<and> 0 < f))"
proof (cases factor)
  case None
  then show ?thesis by (simp add: pulses_to_ml_def finite_decimal_def)
next
  case (Some f)
  have accurate: "\<bar>dec_div DEFAULT_PREC (of_int n) f - of_int n / f\<bar> * (2 * 10 ^ 27) \<le> of_int n / f"
    if "0 \<le> n" "0 < f" for n
  proof -
    let ?x = "of_int n / f"
    have "0 \<le> ?x" using that by simp
    moreover have "5 * ten_pow (- DEFAULT_PREC) = 1 / (2 * 10 ^ 27)"
      by (simp add: ten_pow_def DEFAULT_PREC_def)
    ultimately have "\<bar>dec_round DEFAULT_PREC ?x - ?x\<bar> \<le> ?x * (1 / (2 * 10 ^ 27))"
      using dec_round_relative [of DEFAULT_PREC ?x] by (simp only: abs_of_nonneg)
    then show ?thesis by (simp add: dec_div_def)
  qed
  have "0 \<le> dec_div DEFAULT_PREC (of_int n) f" if "0 \<le> n" "0 < f" for n
    using that by (simp add: dec_div_def dec_round_nonneg)
  with Some accurate show ?thesis
    by (simp add: pulses_to_ml_def finite_decimal_def split: pyval.splits)
qed

section \<open>Inventory arithmetic\<close>

definition known_pours :: "rat option option list \<Rightarrow> rat list" where
  "known_pours ps = List.map_filter (\<lambda>p. case p of Some (Some v) \<Rightarrow> Some v | _ \<Rightarrow> None) ps"

lemma known_pours_simps [simp]:
  "known_pours [] = []" "known_pours (None # ps) = known_pours ps"
  "known_pours (Some None # ps) = known_pours ps"
  "known_pours (Some (Some v) # ps) = v # known_pours ps"
  by (simp_all add: known_pours_def map_filter_simps)

lemma sum_pours_meaning:
  assumes "sum_pours ps poured unknown = Inr (p, u)"
  shows "list_all (\<lambda>v. 0 \<le> v) (known_pours ps) \<and> Some None \<notin> set ps \<and>
         (u \<longleftrightarrow> unknown \<or> None \<in> set ps)"
  using assms
  by (induction ps poured unknown rule: sum_pours.induct)
    (auto simp: res_simps finite_decimal_def split: option.splits if_splits)

lemma sum_pours_between:
  assumes "sum_pours ps poured unknown = Inr (p, u)" "0 \<le> poured"
  shows "(poured + sum_list (known_pours ps)) * (1 - 5 * ten_pow (- DEFAULT_PREC)) ^ length (known_pours ps) \<le> p \<and>
         p \<le> (poured + sum_list (known_pours ps)) * (1 + 5 * ten_pow (- DEFAULT_PREC)) ^ length (known_pours ps)"
  using assms
proof (induction ps arbitrary: poured unknown)
  case (Cons pour ps)
  let ?e = "5 * ten_pow (- DEFAULT_PREC)"
  have e: "0 \<le> ?e" "?e \<le> 1 / 2"
    using ulp_small [of DEFAULT_PREC] by (simp_all add: order_less_imp_le DEFAULT_PREC_def)
  show ?case
  proof (cases pour)
    case None
    then show ?thesis using Cons.IH [of poured True] Cons.prems by simp
  next
    case (Some raw)
    then obtain v where v: "raw = Some v" "0 \<le> v"
        "sum_pours ps (dec_add DEFAULT_PREC poured v) unknown = Inr (p, u)"
      using Cons.prems(1) by (auto simp: res_simps finite_decimal_def split: option.splits if_splits)
    let ?a = "dec_add DEFAULT_PREC poured v" and ?s = "sum_list (known_pours ps)"
      and ?n = "length (known_pours ps)"
    have "list_all (\<lambda>v. 0 \<le> v) (known_pours ps)" using sum_pours_meaning [OF v(3)] by simp
    then have s: "0 \<le> ?s" by (simp add: list_all_iff sum_list_nonneg)
    have pv: "0 \<le> poured + v" using v Cons.prems by simp
    have a: "(poured + v) * (1 - ?e) \<le> ?a" "?a \<le> (poured + v) * (1 + ?e)" "0 \<le> ?a"
      using dec_round_between [OF pv, of DEFAULT_PREC] dec_round_nonneg [OF pv, of DEFAULT_PREC]
      by (simp_all add: dec_add_def)
    note ih = Cons.IH [OF v(3) a(3)]
    have s1: "?s * (1 - ?e) \<le> ?s * 1" "?s * 1 \<le> ?s * (1 + ?e)"
      using s e by (intro mult_left_mono; simp)+
    have "(poured + v + ?s) * (1 - ?e) \<le> ?a + ?s" "?a + ?s \<le> (poured + v + ?s) * (1 + ?e)"
      using a s1 by (simp_all add: algebra_simps)
    then have "(poured + v + ?s) * (1 - ?e) * (1 - ?e) ^ ?n \<le> (?a + ?s) * (1 - ?e) ^ ?n"
      and "(?a + ?s) * (1 + ?e) ^ ?n \<le> (poured + v + ?s) * (1 + ?e) * (1 + ?e) ^ ?n"
      using e by (intro mult_right_mono; simp)+
    with ih have "(poured + v + ?s) * (1 - ?e) * (1 - ?e) ^ ?n \<le> p"
      "p \<le> (poured + v + ?s) * (1 + ?e) * (1 + ?e) ^ ?n" by linarith+
    then show ?thesis by (simp add: Some v(1) mult.assoc add.assoc)
  qed
qed simp


lemma sum_adjustments_total:
  "sum_adjustments adjs t = Inr a \<Longrightarrow> None \<notin> set adjs \<and> a = foldl (dec_add DEFAULT_PREC) t (map the adjs)"
  by (induction adjs t rule: sum_adjustments.induct)
    (auto simp: res_simps finite_decimal_def split: option.splits)

text \<open>What \<open>calculate_inventory\<close> (\<open>inventory.py\<close>) answers: a positive starting volume; the poured
  volume is the sum of the known pours up to the rounding of one addition per pour; the unknown
  flag says whether a pour has no volume; the remaining volume is starting minus poured plus
  adjustments, rounded twice; the overrun is the deficit, and zero unless the keg is overdrawn.\<close>

theorem inventory_accounts_for_pours:
  assumes "calculate_inventory starting pours adjustments = Inr iv"
  shows "(\<exists>s. starting = Some s \<and> 0 < s \<and> is_starting_ml iv = s) \<and>
         sum_list (known_pours pours) * (1 - 5 / 10 ^ 28) ^ length (known_pours pours) \<le> is_poured_ml iv \<and>
         is_poured_ml iv \<le> sum_list (known_pours pours) * (1 + 5 / 10 ^ 28) ^ length (known_pours pours) \<and>
         (is_has_unknown_pours iv \<longleftrightarrow> None \<in> set pours) \<and>
         is_remaining_ml iv =
           dec_round 28 (dec_round 28 (is_starting_ml iv - is_poured_ml iv) + is_adjustments_ml iv) \<and>
         0 \<le> is_overrun_ml iv \<and> (is_overrun_ml iv = 0 \<longleftrightarrow> 0 \<le> is_remaining_ml iv)"
proof -
  have p: "DEFAULT_PREC = 28" "5 * ten_pow (- 28) = 5 / 10 ^ 28" by (simp_all add: DEFAULT_PREC_def ten_pow_def)
  obtain s pd u a where s: "starting = Some s" "0 < s" and pd: "sum_pours pours 0 False = Inr (pd, u)"
    and iv: "is_starting_ml iv = s" "is_poured_ml iv = pd" "is_has_unknown_pours iv = u"
      "is_adjustments_ml iv = a"
      "is_remaining_ml iv = dec_round 28 (dec_round 28 (s - pd) + a)"
      "is_overrun_ml iv = (if is_remaining_ml iv < 0 then dec_round 28 \<bar>is_remaining_ml iv\<bar> else 0)"
    using assms
    by (clarsimp simp: calculate_inventory_def finite_decimal_def res_simps Let_def p(1)
        dec_add_def dec_sub_def split: option.splits)
  have "0 \<le> is_overrun_ml iv \<and> (is_overrun_ml iv = 0 \<longleftrightarrow> 0 \<le> is_remaining_ml iv)"
    using dec_round_pos [of "- is_remaining_ml iv" 28] by (auto simp: iv(6) not_less)
  moreover have "sum_list (known_pours pours) * (1 - 5 / 10 ^ 28) ^ length (known_pours pours) \<le> pd \<and>
      pd \<le> sum_list (known_pours pours) * (1 + 5 / 10 ^ 28) ^ length (known_pours pours)"
    using sum_pours_between [OF pd] by (simp only: p add_0 order_refl simp_thms)
  ultimately show ?thesis
    using s sum_pours_meaning [OF pd] by (simp add: iv(1-5))
qed

theorem inventory_accounts_for_pours_witness:
  "\<exists>iv. calculate_inventory (Some 1000) [Some (Some 250), None, Some (Some 900)] [Some 10] = Inr iv \<and>
     is_has_unknown_pours iv \<and> 0 \<le> is_overrun_ml iv"
proof -
  have "is_ok (calculate_inventory (Some 1000) [Some (Some 250), None, Some (Some 900)] [Some 10])"
    by (simp add: calculate_inventory_def finite_decimal_def Let_def)
  then obtain iv where "calculate_inventory (Some 1000) [Some (Some 250), None, Some (Some 900)] [Some 10] = Inr iv"
    by (auto simp: is_ok_iff)
  with inventory_accounts_for_pours [OF this] show ?thesis by auto
qed

section \<open>Calibration runs\<close>

definition plausible_sample :: "calibration_sample \<Rightarrow> bool" where
  "plausible_sample s \<longleftrightarrow> 1 \<le> cl_raw_pulses s \<and> cl_raw_pulses s \<le> 2 ^ 63 - 1 \<and>
     1 / 10 \<le> cl_mass_g s \<and> cl_mass_g s \<le> 10000 \<and>
     1 / 2 \<le> cl_density_g_per_ml s \<and> cl_density_g_per_ml s \<le> 2"

lemma make_sample_plausible:
  "make_sample raw mass density inc = Inr s \<Longrightarrow> plausible_sample s \<and> cl_included s = inc"
  by (auto simp: make_sample_def finite_decimal_def plausible_sample_def res_simps
      split: option.splits pyval.splits)

lemma volume_ml_pos: "plausible_sample s \<Longrightarrow> 1 \<le> prec \<Longrightarrow> 0 < volume_ml prec s"
  by (simp add: plausible_sample_def volume_ml_def dec_div_def dec_round_pos)

lemma analyze_samples_length [simp]: "length (analyze_samples prec f ss flags) = length ss"
  by (induction prec f ss flags rule: analyze_samples.induct) (simp_all add: Let_def)

lemma analyze_samples_excluded:
  "i < length ss \<Longrightarrow> \<not> cl_included (ss ! i) \<Longrightarrow> \<not> an_suspected_outlier (analyze_samples prec f ss flags ! i)"
  by (induction prec f ss flags arbitrary: i rule: analyze_samples.induct)
    (auto simp: Let_def nth_Cons split: nat.splits)

text \<open>The analyses of the included samples are the analysis of the included samples alone.\<close>

lemma analyze_samples_included:
  "map snd (filter (cl_included \<circ> fst) (zip ss (analyze_samples prec f ss flags))) =
   analyze_samples prec f (filter cl_included ss) flags"
  by (induction prec f ss flags rule: analyze_samples.induct) (auto simp: Let_def)

lemma calibration_analysis_cases:
  assumes "analyze_calibration values require_ten = Inr a"
  shows "length (filter cl_included values) \<ge> (if require_ten then 7 else 1)"
    "require_ten \<Longrightarrow> length values = 10"
    "0 < ca_pulses_per_ml a"
    "ca_pulses_per_ml a = dec_div 38 (dec_sum 38 (map (\<lambda>s. of_int (cl_raw_pulses s)) (filter cl_included values)))
       (dec_sum 38 (map (volume_ml 38) (filter cl_included values)))"
    "ca_samples a = analyze_samples 38 (ca_pulses_per_ml a) values
       (outlier_flags 38 (map (sample_ratio 38) (filter cl_included values)))"
    "ca_included_count a = length (filter cl_included values)"
    "ca_coefficient_of_variation_pct a = variation_pct 38 (map (sample_ratio 38) (filter cl_included values))"
  using assms
  by (auto simp: analyze_calibration_def Let_def res_simps MIN_SAMPLES_def MIN_INCLUDED_SAMPLES_def
      CALIBRATION_PREC_def not_le not_less split: if_splits)

lemma calibration_counts_enough:
  assumes "list_all plausible_sample values" "length values = 10" "7 \<le> length (filter cl_included values)"
  shows "is_ok (analyze_calibration values True)"
proof -
  let ?inc = "filter cl_included values"
  have ne: "?inc \<noteq> []" and all: "list_all plausible_sample ?inc"
    using assms by (auto simp: list_all_iff)
  have v: "0 < dec_sum 38 (map (volume_ml 38) ?inc)"
    using all ne by (intro dec_sum_pos) (auto simp: list_all_iff volume_ml_pos)
  have "0 < dec_sum 38 (map (\<lambda>s. rat_of_int (cl_raw_pulses s)) ?inc)"
    using all ne by (intro dec_sum_pos) (auto simp: list_all_iff plausible_sample_def)
  with v have "0 < dec_div 38 (dec_sum 38 (map (\<lambda>s. rat_of_int (cl_raw_pulses s)) ?inc))
      (dec_sum 38 (map (volume_ml 38) ?inc))"
    unfolding dec_div_def by (intro dec_round_pos divide_pos_pos) simp_all
  with v show ?thesis
    using assms by (simp add: analyze_calibration_def Let_def MIN_SAMPLES_def MIN_INCLUDED_SAMPLES_def CALIBRATION_PREC_def)
qed

text \<open>One analysis for each sample: a positive volume, its difference to the weighed one, an error that is
  not negative, and a flag only for a sample that counts.\<close>

definition analysed_as :: "rat \<Rightarrow> calibration_sample \<Rightarrow> sample_analysis \<Rightarrow> bool" where
  "analysed_as factor s x \<longleftrightarrow>
     0 < an_predicted_volume_ml x \<and> an_predicted_volume_ml x = dec_div 38 (of_int (cl_raw_pulses s)) factor \<and>
     an_residual_ml x = dec_sub 38 (an_predicted_volume_ml x) (volume_ml 38 s) \<and>
     0 \<le> an_percentage_error x \<and> (an_suspected_outlier x \<longrightarrow> cl_included s)"

lemma samples_analysed:
  "list_all plausible_sample ss \<Longrightarrow> 0 < factor \<Longrightarrow> list_all2 (analysed_as factor) ss (analyze_samples 38 factor ss flags)"
proof (induction ss arbitrary: flags)
  case (Cons s ss)
  have "0 < volume_ml 38 s" using Cons.prems by (intro volume_ml_pos) simp_all
  moreover have "0 < dec_div 38 (of_int (cl_raw_pulses s)) factor"
    using Cons.prems unfolding dec_div_def by (intro dec_round_pos divide_pos_pos) (simp_all add: plausible_sample_def)
  ultimately have "analysed_as factor s (hd (analyze_samples 38 factor (s # ss) flags))"
    by (simp add: analysed_as_def Let_def dec_mult_def dec_div_def dec_round_nonneg)
  then show ?case using Cons by (simp add: Let_def)
qed simp

text \<open>C35 A calibration run of samples that \<open>make_sample\<close> accepted is analysed when it has ten samples of
  which at least seven are included, and refused for the one of these it lacks: the checks on the
  total volume and on the factor never fail for such samples, whatever the rounding.  The result has
  a positive factor, the number of included samples, a coefficient of variation, and for each sample
  an analysis that fits it.\<close>

theorem calibration_run_analysed:
  assumes "\<forall>s\<in>set values. \<exists>raw mass density inc. make_sample raw mass density inc = Inr s"
  shows "case analyze_calibration values True of
      Inl e \<Rightarrow>
        if length values \<noteq> 10 then e = DomainError ''a calibration run requires exactly ten samples''
        else length (filter cl_included values) < 7 \<and> e = DomainError ''at least seven samples must be included''
    | Inr a \<Rightarrow>
        length values = 10 \<and> 7 \<le> length (filter cl_included values) \<and>
        0 < ca_pulses_per_ml a \<and> ca_included_count a = length (filter cl_included values) \<and>
        ca_coefficient_of_variation_pct a \<noteq> None \<and>
        list_all2 (analysed_as (ca_pulses_per_ml a)) values (ca_samples a)"
proof -
  have all: "list_all plausible_sample values" using assms make_sample_plausible by (fastforce simp: list_all_iff)
  show ?thesis
  proof (cases "analyze_calibration values True")
    case (Inl e)
    have "length values \<noteq> 10 \<or> length (filter cl_included values) < 7"
      using calibration_counts_enough [OF all] Inl by (auto simp: is_ok_iff not_less [symmetric])
    then show ?thesis using Inl by (auto simp: analyze_calibration_def Let_def MIN_SAMPLES_def MIN_INCLUDED_SAMPLES_def)
  next
    case (Inr a)
    note c = calibration_analysis_cases [OF Inr]
    have "variation_pct 38 (map (sample_ratio 38) (filter cl_included values)) \<noteq> None"
      using c(1) by (simp add: variation_pct_def Let_def)
    then show ?thesis
      using c samples_analysed [OF all c(3)] Inr by simp
  qed
qed

definition demo_samples :: "calibration_sample list" where
  "demo_samples = map (\<lambda>i. \<lparr>cl_raw_pulses = 450 + i, cl_mass_g = 100, cl_density_g_per_ml = 1,
     cl_included = (i < 8)\<rparr>) [0..9]"

lemma demo_samples_eval:
  "list_all plausible_sample demo_samples" "length demo_samples = 10"
  "length (filter cl_included demo_samples) = 8" "cl_included (demo_samples ! 9) = False"
  by (simp_all add: demo_samples_def plausible_sample_def upto.simps)

theorem calibration_run_analysed_witness:
  "\<exists>a. analyze_calibration demo_samples True = Inr a \<and> 0 < ca_pulses_per_ml a \<and> ca_included_count a = 8"
proof -
  have "make_sample (VInt (450 + i)) (Some 100) (Some 1) (i < 8) =
      Inr \<lparr>cl_raw_pulses = 450 + i, cl_mass_g = 100, cl_density_g_per_ml = 1, cl_included = (i < 8)\<rparr>" if "i \<in> set [0..9]" for i
    using that by (simp add: make_sample_def finite_decimal_def)
  then have "\<exists>raw mass density inc. make_sample raw mass density inc =
      Inr \<lparr>cl_raw_pulses = 450 + i, cl_mass_g = 100, cl_density_g_per_ml = 1, cl_included = (i < 8)\<rparr>" if "i \<in> set [0..9]" for i
    using that by blast
  then have made: "\<forall>s\<in>set demo_samples. \<exists>raw mass density inc. make_sample raw mass density inc = Inr s"
    unfolding demo_samples_def set_map by (blast elim: imageE)
  obtain a where "analyze_calibration demo_samples True = Inr a"
    using calibration_counts_enough [of demo_samples] by (auto simp: demo_samples_eval is_ok_iff)
  then show ?thesis using calibration_run_analysed [OF made] by (simp add: demo_samples_eval)
qed

text \<open>Excluding a sample removes it from the calibration: the factor, the coefficient of
  variation and the analyses of the included samples are those of a run with only the included
  samples, and an excluded sample is never flagged as an outlier, though it still gets its
  predicted volume and error.\<close>

theorem excluded_samples_do_not_count:
  assumes "analyze_calibration values True = Inr a"
  shows "(\<exists>b. analyze_calibration (filter cl_included values) False = Inr b \<and>
            ca_pulses_per_ml b = ca_pulses_per_ml a \<and>
            ca_coefficient_of_variation_pct b = ca_coefficient_of_variation_pct a \<and>
            ca_included_count b = ca_included_count a \<and>
            ca_samples b = map snd (filter (cl_included \<circ> fst) (zip values (ca_samples a)))) \<and>
         length (ca_samples a) = 10 \<and>
         (\<forall>i<10. \<not> cl_included (values ! i) \<longrightarrow> \<not> an_suspected_outlier (ca_samples a ! i))"
proof -
  note c = calibration_analysis_cases [OF assms]
  have "is_ok (analyze_calibration (filter cl_included values) False)"
    using assms by (auto simp: analyze_calibration_def Let_def res_simps is_ok_iff MIN_INCLUDED_SAMPLES_def split: if_splits)
  then obtain b where b: "analyze_calibration (filter cl_included values) False = Inr b"
    by (auto simp: is_ok_iff)
  note d = calibration_analysis_cases [OF b]
  have f: "ca_pulses_per_ml b = ca_pulses_per_ml a" using c(4) d(4) by simp
  have "ca_samples b = map snd (filter (cl_included \<circ> fst) (zip values (ca_samples a)))"
    unfolding c(5) d(5) analyze_samples_included f by simp
  moreover have "length (ca_samples a) = 10" using c(2,5) by simp
  moreover have "\<not> an_suspected_outlier (ca_samples a ! i)" if "i < 10" "\<not> cl_included (values ! i)" for i
    using analyze_samples_excluded that c(2,5) by simp
  ultimately show ?thesis using b f c(6,7) d(6,7) by auto
qed

theorem excluded_samples_do_not_count_witness:
  "\<exists>a. analyze_calibration demo_samples True = Inr a \<and> \<not> an_suspected_outlier (ca_samples a ! 9)"
proof -
  have "is_ok (analyze_calibration demo_samples True)"
    by (rule calibration_counts_enough) (simp_all add: demo_samples_eval)
  then obtain a where "analyze_calibration demo_samples True = Inr a" by (auto simp: is_ok_iff)
  with excluded_samples_do_not_count [OF this] show ?thesis using demo_samples_eval by auto
qed

end
