(* ===== verification/KP_Json.thy ===== *)
theory KP_Json
  imports KP_Decimal KP_Prelude
begin

text \<open>
  The standard-library texts the repository stores: JSON values as \<open>json.dumps\<close> writes them with
  \<open>separators=(",", ":")\<close> and \<open>ensure_ascii=True\<close>, and the values \<open>Decimal(text)\<close> accepts.  JSON
  numbers are the integers; the repository writes no other number into the values modelled here.
  Strings hold the code points below 256.
\<close>

section \<open>JSON\<close>

datatype json =
    JNull
  | JBool bool
  | JInt int
  | JStr string
  | JList "json list"
  | JObj "(string \<times> json) list"

definition json_char :: "char \<Rightarrow> string" where
  "json_char c =
     (let backslash = CHR 0x5C in
      if c = CHR 0x22 then [backslash, CHR 0x22]
      else if c = backslash then [backslash, backslash]
      else if code c = 10 then [backslash, CHR ''n'']
      else if code c = 13 then [backslash, CHR ''r'']
      else if code c = 9 then [backslash, CHR ''t'']
      else if code c = 12 then [backslash, CHR ''f'']
      else if code c = 8 then [backslash, CHR ''b'']
      else if in_range 32 126 c then [c]
      else backslash # CHR ''u'' # map (\<lambda>d. if is_upper d then char_of (code d + 32) else d)
             (show_hex 4 (int (code c))))"

definition json_string :: "string \<Rightarrow> string" where
  "json_string s = CHR 0x22 # concat (map json_char s) @ [CHR 0x22]"

fun dumps :: "json \<Rightarrow> string" where
  "dumps JNull = ''null''"
| "dumps (JBool b) = (if b then ''true'' else ''false'')"
| "dumps (JInt n) = show_int n"
| "dumps (JStr s) = json_string s"
| "dumps (JList xs) = CHR ''['' # join '','' (map dumps xs) @ '']''"
| "dumps (JObj kvs) = CHR 0x7B # join '','' (map (\<lambda>kv. json_string (fst kv) @ '':'' @ dumps (snd kv)) kvs) @ [CHR 0x7D]"

section \<open>Decimal texts\<close>

datatype decimal_value = Finite rat | Infinite bool | NaN

text \<open>An unsigned decimal literal: digits with an optional point and an optional exponent.\<close>

definition lower :: "string \<Rightarrow> string" where
  "lower s = map (\<lambda>c. if is_upper c then char_of (code c + 32) else c) s"

definition exponent_of_text :: "string \<Rightarrow> int option" where
  "exponent_of_text s =
     (let (neg, d) = (case s of CHR ''-'' # r \<Rightarrow> (True, r) | CHR ''+'' # r \<Rightarrow> (False, r) | _ \<Rightarrow> (False, s))
      in if is_ascii_decimal d then Some (if neg then - digits_val 10 d else digits_val 10 d) else None)"

definition unsigned_decimal :: "string \<Rightarrow> rat option" where
  "unsigned_decimal s =
     (let (mantissa, exponent) =
            (if CHR ''e'' \<in> set s then (fst (split_first CHR ''e'' s), exponent_of_text (snd (split_first CHR ''e'' s)))
             else (s, Some 0));
          (whole, fraction) =
            (if CHR ''.'' \<in> set mantissa then split_first CHR ''.'' mantissa else (mantissa, []))
      in if list_all is_digit whole \<and> list_all is_digit fraction \<and> whole @ fraction \<noteq> []
         then map_option (\<lambda>e. of_int (digits_val 10 (whole @ fraction)) * ten_pow (e - int (length fraction))) exponent
         else None)"

definition decimal_of_text :: "string \<Rightarrow> decimal_value option" where
  "decimal_of_text text =
     (let s = lower (filter (\<lambda>c. c \<noteq> CHR ''_'') (strip text));
          (neg, u) = (case s of CHR ''-'' # r \<Rightarrow> (True, r) | CHR ''+'' # r \<Rightarrow> (False, r) | _ \<Rightarrow> (False, s))
      in if u = ''inf'' \<or> u = ''infinity'' then Some (Infinite neg)
         else if starts_with ''nan'' u \<and> list_all is_digit (drop 3 u) \<or>
                 starts_with ''snan'' u \<and> list_all is_digit (drop 4 u) then Some NaN
         else map_option (\<lambda>x. Finite (if neg then - x else x)) (unsigned_decimal u))"

text \<open>\<open>Decimal(str(value))\<close> of a stored setting; \<open>None\<close> is \<open>InvalidOperation\<close>.\<close>

fun decimal_of_json :: "json \<Rightarrow> decimal_value option" where
  "decimal_of_json (JInt n) = Some (Finite (of_int n))"
| "decimal_of_json (JStr s) = decimal_of_text s"
| "decimal_of_json _ = None"

lemma decimal_texts:
  "decimal_of_text ''250'' = Some (Finite 250)"
  "decimal_of_text '' -12.50 '' = Some (Finite (- (25 / 2)))"
  "decimal_of_text ''1E+3'' = Some (Finite 1000)"
  "decimal_of_text ''.5'' = Some (Finite (1 / 2))"
  "decimal_of_text ''sNaN12'' = Some NaN" "decimal_of_text ''-Infinity'' = Some (Infinite True)"
  "decimal_of_text ''.'' = None" "decimal_of_text ''1e'' = None" "decimal_of_text ''free'' = None"
  by code_simp+

lemma dumps_example:
  "dumps (JObj [(''keys'', JList [JStr ''a'', JInt 3]), (''truncated'', JBool True)]) =
   CHR 0x7B # CHR 0x22 # ''keys'' @ CHR 0x22 # '':['' @ CHR 0x22 # ''a'' @ CHR 0x22 # '',3],'' @
   CHR 0x22 # ''truncated'' @ CHR 0x22 # '':true'' @ [CHR 0x7D]"
  by code_simp

end
