(* ===== verification/KP_Store.thy ===== *)
theory KP_Store
  imports KP_Measure KP_Json
begin

text \<open>
  The store of \<open>persistence/repository.py\<close>: one record field per table of \<open>migrations/*.sql\<close>,
  each an insertion-ordered dictionary from the primary key to the row, and the transaction of
  \<open>persistence/database.py\<close>.  Timestamps are milliseconds; the fixed-width ISO texts of the
  database order like them.  Decimal columns hold the value of their text.  A fresh identifier
  (\<open>uuid4\<close>) and the clock are arguments of every operation, and a repeated identifier fails the
  way the primary key makes SQLite fail.
\<close>

section \<open>Rows\<close>

record participant =
  pt_display_name :: string
  pt_active :: bool
  pt_balance_cents :: int
  pt_avatar_updated_at :: "int option"
  pt_created_at :: int
  pt_updated_at :: int

record keg =
  kg_label :: string
  kg_starting_volume_ml :: rat
  kg_opened_at :: int
  kg_closed_at :: "int option"
  kg_notes :: string

datatype calibration_status = Draft | Active | Superseded

record calibration =
  cb_liquid :: string
  cb_default_density :: rat
  cb_pulses_per_ml :: "rat option"
  cb_status :: calibration_status
  cb_notes :: string
  cb_created_at :: int
  cb_activated_at :: "int option"

record sample_row =
  sm_calibration_id :: string
  sm_ordinal :: int
  sm_raw_pulses :: int
  sm_mass_g :: rat
  sm_density_g_per_ml :: rat
  sm_derived_volume_ml :: rat
  sm_included :: bool
  sm_suspected_outlier :: bool
  sm_captured_at :: int
  sm_superseded_at :: "int option"

record verification_row =
  vr_calibration_id :: string
  vr_keg_id :: "string option"
  vr_raw_pulses :: int
  vr_mass_g :: rat
  vr_density_g_per_ml :: rat
  vr_predicted_volume_ml :: rat
  vr_actual_volume_ml :: rat
  vr_absolute_error_ml :: rat
  vr_percentage_error :: rat
  vr_warning :: bool
  vr_created_at :: int

record provisional =
  pv_idempotency_key :: string
  pv_purpose :: string
  pv_participant_id :: "string option"
  pv_keg_id :: "string option"
  pv_calibration_id :: "string option"
  pv_target_ordinal :: "int option"
  pv_device_id :: "string option"
  pv_boot_id :: "string option"
  pv_event_seq :: "int option"
  pv_confirmed_lifetime :: int
  pv_captured_raw_pulses :: "int option"
  pv_consumed_entity_id :: "string option"
  pv_status :: string
  pv_created_at :: int
  pv_updated_at :: int

record pour =
  pe_session_id :: string
  pe_participant_id :: "string option"
  pe_keg_id :: "string option"
  pe_calibration_id :: "string option"
  pe_device_id :: string
  pe_boot_id :: string
  pe_event_seq :: "int option"
  pe_raw_pulses :: int
  pe_volume_ml :: "rat option"
  pe_attributed :: bool
  pe_quality :: string
  pe_started_at :: int
  pe_ended_at :: int
  pe_device_started_ms :: int
  pe_device_ended_ms :: int
  pe_fault :: string
  pe_created_at :: int

record stored_result =
  sr_session_id :: string
  sr_status :: string
  sr_raw_pulses :: int
  sr_pour_id :: "string option"
  sr_committed_at :: int

record checkpoint =
  cp_recovery_pulses :: int
  cp_last_pour_id :: "string option"
  cp_updated_at :: int
  cp_accepted_pulses :: int
  cp_device_uptime_ms :: int

record adjustment =
  ad_keg_id :: string
  ad_amount_ml :: rat
  ad_reason :: string
  ad_created_at :: int

record audit_row =
  au_pour_id :: string
  au_old_participant_id :: "string option"
  au_new_participant_id :: string
  au_reason :: string
  au_created_at :: int

record charge =
  ch_participant_id :: string
  ch_volume_ml :: rat
  ch_rate :: rat
  ch_amount_cents :: int
  ch_created_at :: int

datatype ledger_kind = Adjustment | Charge | Refund

record ledger_row =
  lg_participant_id :: string
  lg_amount_cents :: int
  lg_kind :: ledger_kind
  lg_pour_id :: "string option"
  lg_reason :: string
  lg_balance_after_cents :: int
  lg_created_at :: int

record photo =
  ph_session_id :: "string option"
  ph_captured_at :: int
  ph_relative_path :: string
  ph_size_bytes :: int
  ph_sha256 :: string

record anomaly =
  an_identity_key :: string
  an_source :: string
  an_device_id :: "string option"
  an_boot_id :: "string option"
  an_event_seq :: "string option"
  an_observed_value :: string
  an_reason :: string
  an_context_json :: string
  an_created_at :: int

record diagnostic =
  dg_created_at :: int
  dg_level :: string
  dg_code :: string
  dg_context_json :: string

type_synonym event_key = "string \<times> string \<times> int"

record store =
  st_participants :: "(string, participant) odict"
  st_kegs :: "(string, keg) odict"
  st_calibrations :: "(string, calibration) odict"
  st_samples :: "(string, sample_row) odict"
  st_verifications :: "(string, verification_row) odict"
  st_sessions :: "(string, provisional) odict"
  st_pours :: "(string, pour) odict"
  st_results :: "(event_key, stored_result) odict"
  st_checkpoints :: "(string \<times> string, checkpoint) odict"
  st_adjustments :: "(string, adjustment) odict"
  st_audit :: "(string, audit_row) odict"
  st_charges :: "(string, charge) odict"
  st_ledger :: "(string, ledger_row) odict"
  st_photos :: "(string, photo) odict"
  st_anomalies :: "(string, anomaly) odict"
  st_settings :: "(string, json) odict"
  st_diagnostics :: "(int, diagnostic) odict"
  st_next_diagnostic :: int

definition empty_store :: store where
  "empty_store = \<lparr>st_participants = [], st_kegs = [], st_calibrations = [], st_samples = [],
     st_verifications = [], st_sessions = [], st_pours = [], st_results = [], st_checkpoints = [],
     st_adjustments = [], st_audit = [], st_charges = [], st_ledger = [], st_photos = [],
     st_anomalies = [], st_settings = [], st_diagnostics = [], st_next_diagnostic = 1\<rparr>"

section \<open>Statements\<close>

text \<open>\<open>INSERT\<close>, \<open>UPDATE ... WHERE id=?\<close>, \<open>UPDATE ... WHERE\<close>, and the first row of a \<open>SELECT\<close>.\<close>

definition insert_row :: "string \<Rightarrow> 'k \<Rightarrow> 'v \<Rightarrow> ('k, 'v) odict \<Rightarrow> ('k, 'v) odict result" where
  "insert_row name k v t =
     (if od_mem k t then Inl (IntegrityError (''UNIQUE constraint failed: '' @ name))
      else Inr (od_set t k v))"

definition update_row :: "'k \<Rightarrow> ('v \<Rightarrow> 'v) \<Rightarrow> ('k, 'v) odict \<Rightarrow> ('k, 'v) odict" where
  "update_row k f t = map (\<lambda>(k', v). (k', if k' = k then f v else v)) t"

definition update_where :: "('v \<Rightarrow> bool) \<Rightarrow> ('v \<Rightarrow> 'v) \<Rightarrow> ('k, 'v) odict \<Rightarrow> ('k, 'v) odict" where
  "update_where P f t = map (\<lambda>(k, v). (k, if P v then f v else v)) t"

definition find_row :: "('v \<Rightarrow> bool) \<Rightarrow> ('k, 'v) odict \<Rightarrow> ('k \<times> 'v) option" where
  "find_row P t = find (\<lambda>(k, v). P v) t"

definition some_row :: "('v \<Rightarrow> bool) \<Rightarrow> ('k, 'v) odict \<Rightarrow> bool" where
  "some_row P t \<longleftrightarrow> list_ex (\<lambda>(k, v). P v) t"

text \<open>A foreign key: absent, or the key of a row.\<close>

definition references :: "string option \<Rightarrow> (string, 'v) odict \<Rightarrow> unit result" where
  "references k t =
     check (case k of None \<Rightarrow> True | Some i \<Rightarrow> od_mem i t) (IntegrityError ''FOREIGN KEY constraint failed'')"

text \<open>An \<open>int\<close> bound to a statement must fit SQLite's 64-bit integers.\<close>

definition sqlite_int :: "int \<Rightarrow> unit result" where
  "sqlite_int n =
     check (- (2 ^ 63) \<le> n \<and> n \<le> 2 ^ 63 - 1) (OverflowError ''Python int too large to convert to SQLite INTEGER'')"

definition fetch :: "('k, 'v) odict \<Rightarrow> 'k \<Rightarrow> py_exc \<Rightarrow> 'v result" where
  "fetch t k e = (case od_get t k of None \<Rightarrow> Inl e | Some v \<Rightarrow> Inr v)"

text \<open>
  \<open>Database.transaction\<close>: the statements run on the connection, and an exception rolls all of them
  back.  Checks an operation makes before it opens the transaction are part of the body here; they
  raise before any statement, so the rollback has nothing to undo.
\<close>

definition transaction :: "(store \<Rightarrow> ('a \<times> store) result) \<Rightarrow> store \<Rightarrow> 'a result \<times> store" where
  "transaction body s = (case body s of Inl e \<Rightarrow> (Inl e, s) | Inr (x, s') \<Rightarrow> (Inr x, s'))"

definition ACTIVE_STATUSES :: "string list" where
  "ACTIVE_STATUSES = [''arming'', ''armed'', ''pouring'', ''settling'', ''finalizing'']"

definition session_active :: "store \<Rightarrow> bool" where
  "session_active s \<longleftrightarrow> some_row (\<lambda>v. pv_status v \<in> set ACTIVE_STATUSES) (st_sessions s)"

definition text_between :: "nat \<Rightarrow> nat \<Rightarrow> string \<Rightarrow> bool" where
  "text_between lo hi t \<longleftrightarrow> lo \<le> length t \<and> length t \<le> hi"

text \<open>Truth of an optional text: \<open>None\<close> and the empty text are false.\<close>

definition truthy :: "string option \<Rightarrow> bool" where
  "truthy t \<longleftrightarrow> t \<noteq> None \<and> t \<noteq> Some []"

section \<open>Session identifiers\<close>

text \<open>
  \<open>str(uuid.UUID(value))\<close>: the prefixes \<open>urn:\<close> and \<open>uuid:\<close>, braces and hyphens are dropped; 32
  characters must remain and form a hexadecimal integer in the sense of \<open>int(text, 16)\<close>, which
  allows surrounding whitespace, a sign, a \<open>0x\<close> prefix and single underscores; the result is
  written in lower case with hyphens.
\<close>

definition is_hex_any :: "char \<Rightarrow> bool" where
  "is_hex_any c \<longleftrightarrow> is_hex_lower c \<or> is_hex_upper c"

fun hex_groups :: "bool \<Rightarrow> string \<Rightarrow> bool" where
  "hex_groups after_digit [] = after_digit"
| "hex_groups after_digit (c # s) =
     (if is_hex_any c then hex_groups True s
      else c = CHR ''_'' \<and> after_digit \<and> s \<noteq> [] \<and> hex_groups False s)"

definition upper_hex :: "char \<Rightarrow> char" where
  "upper_hex c = (if is_lower c then char_of (code c - 32) else c)"

definition hex_int :: "string \<Rightarrow> int option" where
  "hex_int text =
     (let t = strip text;
          (neg, u) = (case t of CHR ''-'' # r \<Rightarrow> (True, r) | CHR ''+'' # r \<Rightarrow> (False, r) | _ \<Rightarrow> (False, t));
          body = (if lower (take 2 u) = ''0x'' then (if drop 2 u \<noteq> [] \<and> hd (drop 2 u) = CHR ''_'' then drop 3 u else drop 2 u) else u)
      in if hex_groups False body then
           let n = digits_val 16 (map upper_hex (filter is_hex_any body))
           in Some (if neg then - n else n)
         else None)"

fun remove_all_sub :: "string \<Rightarrow> string \<Rightarrow> string" where
  "remove_all_sub pat [] = []"
| "remove_all_sub pat (c # s) =
     (if pat \<noteq> [] \<and> starts_with pat (c # s) then remove_all_sub pat (drop (length pat - 1) s)
      else c # remove_all_sub pat s)"

definition hyphenated :: "string \<Rightarrow> string" where
  "hyphenated h = join ''-'' [take 8 h, take 4 (drop 8 h), take 4 (drop 12 h), take 4 (drop 16 h), drop 20 h]"

definition is_brace :: "char \<Rightarrow> bool" where
  "is_brace c \<longleftrightarrow> c = CHR 0x7B \<or> c = CHR 0x7D"

definition canonical_session :: "string \<Rightarrow> string result" where
  "canonical_session value =
     (let t = remove_all_sub ''uuid:'' (remove_all_sub ''urn:'' value);
          h = filter (\<lambda>c. c \<noteq> CHR ''-'') (rev (dropWhile is_brace (rev (dropWhile is_brace t))))
      in if length h \<noteq> 32 then Inl (ValueError ''badly formed hexadecimal UUID string'')
         else case hex_int h of
                None \<Rightarrow> Inl (ValueError ''invalid literal for int() with base 16'')
              | Some n \<Rightarrow> (if n < 0 then Inl (ValueError ''int is out of range (need a 128-bit value)'')
                           else Inr (hyphenated (lower (show_hex 32 n)))))"

section \<open>Facts about statements\<close>

lemma transaction_cases:
  obtains (raised) e where "body s = Inl e" "transaction body s = (Inl e, s)"
  | (committed) x s' where "body s = Inr (x, s')" "transaction body s = (Inr x, s')"
  by (cases "body s") (auto simp: transaction_def)

lemma transaction_Inr: "transaction body s = (Inr x, s') \<longleftrightarrow> body s = Inr (x, s')"
  by (auto simp: transaction_def split: sum.splits prod.splits)

lemma transaction_Inl: "transaction body s = (Inl e, s') \<longleftrightarrow> body s = Inl e \<and> s' = s"
  by (auto simp: transaction_def split: sum.splits prod.splits)

lemma insert_row_iff [res_simps]: "insert_row name k v t = Inr t' \<longleftrightarrow> \<not> od_mem k t \<and> t' = t @ [(k, v)]"
  by (auto simp: insert_row_def od_mem_iff od_set_fresh)

lemma references_iff [res_simps]:
  "references k t = Inr u \<longleftrightarrow> (\<forall>i. k = Some i \<longrightarrow> od_mem i t)"
  by (auto simp: references_def check_eq_Inr split: option.splits)

lemma fetch_iff [res_simps]: "fetch t k e = Inr v \<longleftrightarrow> od_get t k = Some v"
  by (auto simp: fetch_def split: option.splits)

lemma sqlite_int_iff [res_simps]:
  "sqlite_int n = Inr u \<longleftrightarrow> - (2 ^ 63) \<le> n \<and> n \<le> 2 ^ 63 - 1"
  by (simp add: sqlite_int_def check_eq_Inr)

lemma od_get_update_row: "od_get (update_row k f t) j = (if j = k then map_option f (od_get t j) else od_get t j)"
  by (induction t) (auto simp: update_row_def)

lemma od_keys_update_row [simp]: "od_keys (update_row k f t) = od_keys t"
  by (induction t) (auto simp: update_row_def od_keys_def)

lemma od_keys_update_where [simp]: "od_keys (update_where P f t) = od_keys t"
  by (induction t) (auto simp: update_where_def od_keys_def)

lemma od_get_update_where:
  "od_get (update_where P f t) j = map_option (\<lambda>v. if P v then f v else v) (od_get t j)"
  by (induction t) (auto simp: update_where_def)

lemma od_mem_update [simp]:
  "od_mem j (update_row k f t) = od_mem j t" "od_mem j (update_where P f t) = od_mem j t"
  by (simp_all add: od_mem_def)

lemma od_get_snoc: "od_get (t @ [(k, v)]) j = (case od_get t j of None \<Rightarrow> if j = k then Some v else None | x \<Rightarrow> x)"
  by (induction t) auto

lemma od_mem_snoc [simp]: "od_mem j (t @ [(k, v)]) \<longleftrightarrow> od_mem j t \<or> j = k"
  by (auto simp: od_mem_def od_keys_def)

lemma od_wf_snoc: "od_wf (t @ [(k, v)]) \<longleftrightarrow> od_wf t \<and> \<not> od_mem k t"
  by (auto simp: od_wf_def od_mem_def od_keys_def)

lemma od_wf_update [simp]: "od_wf (update_row k f t) = od_wf t" "od_wf (update_where P f t) = od_wf t"
  by (simp_all add: od_wf_def)

lemma find_row_Some: "find_row P t = Some (k, v) \<Longrightarrow> (k, v) \<in> set t \<and> P v"
  by (auto simp: find_row_def find_Some_iff) (metis nth_mem)

lemma find_row_None: "find_row P t = None \<longleftrightarrow> list_all (\<lambda>(k, v). \<not> P v) t"
  by (auto simp: find_row_def find_None_iff list_all_iff)

text \<open>A device session token of 32 lower-case digits is accepted and only gets its hyphens.\<close>

lemma hex_groups_all: "list_all is_hex_any s \<Longrightarrow> hex_groups b s = (b \<or> s \<noteq> [])"
  by (induction s arbitrary: b) auto

end
