(* ===== verification/KP_Accounts.thy ===== *)
theory KP_Accounts
  imports KP_Store
begin

text \<open>
  People and money in \<open>persistence/repository.py\<close>: participants, the fund adjustments of the
  manager, and the charge made for a pour.  Every movement of a balance is one \<open>UPDATE\<close> of the
  participant and one row of the account ledger in the same transaction.
\<close>

section \<open>Participants\<close>

definition create_participant :: "string \<Rightarrow> int \<Rightarrow> string \<Rightarrow> store \<Rightarrow> participant result \<times> store" where
  "create_participant participant_id now display_name =
     transaction (\<lambda>s.
       let name = strip display_name;
           row = \<lparr>pt_display_name = name, pt_active = True, pt_balance_cents = 0,
                  pt_avatar_updated_at = None, pt_created_at = now, pt_updated_at = now\<rparr>
       in if \<not> text_between 1 80 name then
            Inl (ValueError ''display name must contain 1 to 80 characters'')
          else
            bind_res (insert_row ''participants.id'' participant_id row (st_participants s)) (\<lambda>t.
              Inr (row, s\<lparr>st_participants := t\<rparr>)))"

definition update_participant ::
    "int \<Rightarrow> string \<Rightarrow> string option \<Rightarrow> bool option \<Rightarrow> store \<Rightarrow> participant result \<times> store" where
  "update_participant now participant_id display_name active =
     transaction (\<lambda>s.
       bind_res (fetch (st_participants s) participant_id (NotFoundError ''participant not found'')) (\<lambda>current.
         let name = (case display_name of None \<Rightarrow> pt_display_name current | Some n \<Rightarrow> strip n);
             enabled = (case active of None \<Rightarrow> pt_active current | Some b \<Rightarrow> b);
             row = current\<lparr>pt_display_name := name, pt_active := enabled, pt_updated_at := now\<rparr>
         in if \<not> text_between 1 80 name then
              Inl (ValueError ''display name must contain 1 to 80 characters'')
            else Inr (row, s\<lparr>st_participants := update_row participant_id (\<lambda>_. row) (st_participants s)\<rparr>)))"

definition mark_participant_avatar ::
    "int \<Rightarrow> string \<Rightarrow> bool \<Rightarrow> store \<Rightarrow> participant option result \<times> store" where
  "mark_participant_avatar now participant_id only_if_missing =
     transaction (\<lambda>s.
       bind_res (fetch (st_participants s) participant_id (NotFoundError ''participant not found'')) (\<lambda>current.
         let row = current\<lparr>pt_avatar_updated_at := Some now, pt_updated_at := now\<rparr>
         in if only_if_missing \<and> pt_avatar_updated_at current \<noteq> None then Inr (None, s)
            else Inr (Some row,
                   s\<lparr>st_participants := update_row participant_id
                      (\<lambda>p. p\<lparr>pt_avatar_updated_at := Some now, pt_updated_at := now\<rparr>) (st_participants s)\<rparr>)))"

definition clear_participant_avatar :: "int \<Rightarrow> string \<Rightarrow> store \<Rightarrow> participant result \<times> store" where
  "clear_participant_avatar now participant_id =
     transaction (\<lambda>s.
       bind_res (fetch (st_participants s) participant_id (NotFoundError ''participant not found'')) (\<lambda>current.
         let row = current\<lparr>pt_avatar_updated_at := None, pt_updated_at := now\<rparr>
         in Inr (row, s\<lparr>st_participants := update_row participant_id
                      (\<lambda>p. p\<lparr>pt_avatar_updated_at := None, pt_updated_at := now\<rparr>) (st_participants s)\<rparr>)))"

section \<open>Moving a balance\<close>

text \<open>
  The two statements of every movement: \<open>UPDATE participants SET balance_cents=?\<close> and the ledger
  row that carries the amount and the balance after it.
\<close>

definition set_balance :: "string \<Rightarrow> int \<Rightarrow> int \<Rightarrow> store \<Rightarrow> store result" where
  "set_balance participant_id balance now s =
     bind_res (sqlite_int balance) (\<lambda>_.
       Inr (s\<lparr>st_participants := update_row participant_id
              (\<lambda>p. p\<lparr>pt_balance_cents := balance, pt_updated_at := now\<rparr>) (st_participants s)\<rparr>))"

definition add_ledger ::
    "string \<Rightarrow> string \<Rightarrow> int \<Rightarrow> ledger_kind \<Rightarrow> string option \<Rightarrow> string \<Rightarrow> int \<Rightarrow> int \<Rightarrow> store \<Rightarrow> store result" where
  "add_ledger ledger_id participant_id amount kind pour_id reason balance now s =
     bind_res (sqlite_int amount) (\<lambda>_.
     bind_res (check (amount \<noteq> 0) (IntegrityError ''CHECK constraint failed: amount_cents != 0'')) (\<lambda>_.
     bind_res (references pour_id (st_pours s)) (\<lambda>_.
     bind_res (insert_row ''account_ledger.id'' ledger_id
         \<lparr>lg_participant_id = participant_id, lg_amount_cents = amount, lg_kind = kind,
          lg_pour_id = pour_id, lg_reason = reason, lg_balance_after_cents = balance,
          lg_created_at = now\<rparr> (st_ledger s)) (\<lambda>t.
       Inr (s\<lparr>st_ledger := t\<rparr>)))))"

definition adjust_participant_balance ::
    "string \<Rightarrow> int \<Rightarrow> string \<Rightarrow> pyval \<Rightarrow> string \<Rightarrow> store \<Rightarrow> participant option result \<times> store" where
  "adjust_participant_balance ledger_id now participant_id amount_cents reason =
     transaction (\<lambda>s.
       let clean_reason = strip reason
       in case amount_cents of
            VInt amount \<Rightarrow>
              (if amount = 0 \<or> \<bar>amount\<bar> > 10000000 then
                 Inl (ValueError ''fund adjustment must be a nonzero amount within $100,000'')
               else if \<not> text_between 1 500 clean_reason then
                 Inl (ValueError ''an adjustment reason is required'')
               else
                 bind_res (fetch (st_participants s) participant_id (NotFoundError ''participant not found'')) (\<lambda>current.
                   let balance = pt_balance_cents current + amount
                   in bind_res (set_balance participant_id balance now s) (\<lambda>s1.
                      bind_res (add_ledger ledger_id participant_id amount Adjustment None clean_reason balance now s1) (\<lambda>s2.
                        Inr (od_get (st_participants s2) participant_id, s2)))))
          | _ \<Rightarrow> Inl (ValueError ''fund adjustment must be a nonzero amount within $100,000''))"

section \<open>The charge for a pour\<close>

text \<open>
  The price per fluid ounce in cents.  A text that is no number makes \<open>Decimal\<close> raise
  \<open>InvalidOperation\<close>, which is an \<open>ArithmeticError\<close> and not one of the exceptions the code catches;
  a signalling comparison with \<open>NaN\<close> and the rounding of an infinite amount raise it too.  Rounding
  to a whole cent also raises it beyond the 28 digits of the context.
\<close>

definition charge_amount :: "rat \<Rightarrow> rat \<Rightarrow> int result" where
  "charge_amount rate vol =
     (let cents = dec_mult DEFAULT_PREC (dec_div DEFAULT_PREC vol ML_PER_US_FL_OZ) rate;
          amount = round_half_up cents
      in if \<bar>amount\<bar> \<ge> 10 ^ 28 then Inl (InvalidOperation ''quantize result has too many digits'')
         else Inr amount)"

definition price_rate :: "store \<Rightarrow> rat result" where
  "price_rate s =
     (case od_get (st_settings s) ''beer_price_cents_per_fl_oz'' of
        None \<Rightarrow> Inr 0
      | Some v \<Rightarrow>
          (case decimal_of_json v of
             None \<Rightarrow> Inl (InvalidOperation ''invalid decimal literal'')
           | Some NaN \<Rightarrow> Inl (InvalidOperation ''comparison involving NaN'')
           | Some (Infinite neg) \<Rightarrow>
               (if neg then Inr (- 1) else Inl (InvalidOperation ''quantize with one INF''))
           | Some (Finite r) \<Rightarrow> Inr r))"

definition insert_charge :: "string \<Rightarrow> string \<Rightarrow> rat \<Rightarrow> rat \<Rightarrow> int \<Rightarrow> int \<Rightarrow> store \<Rightarrow> store result" where
  "insert_charge pour_id participant_id vol rate amount now s =
     bind_res (sqlite_int amount) (\<lambda>_.
     bind_res (references (Some pour_id) (st_pours s)) (\<lambda>_.
     bind_res (insert_row ''pour_charges.pour_id'' pour_id
         \<lparr>ch_participant_id = participant_id, ch_volume_ml = vol, ch_rate = rate,
          ch_amount_cents = amount, ch_created_at = now\<rparr> (st_charges s)) (\<lambda>t.
       Inr (s\<lparr>st_charges := t\<rparr>))))"

definition charge_pour ::
    "string \<Rightarrow> string \<Rightarrow> string \<Rightarrow> rat \<Rightarrow> int \<Rightarrow> store \<Rightarrow> store result" where
  "charge_pour ledger_id pour_id participant_id vol now s =
     bind_res (price_rate s) (\<lambda>rate.
       if rate \<le> 0 then Inr s
       else
         bind_res (charge_amount rate vol) (\<lambda>amount.
           if amount \<le> 0 then Inr s
           else
             case od_get (st_participants s) participant_id of
               None \<Rightarrow> Inr s
             | Some current \<Rightarrow>
                 let balance = pt_balance_cents current - amount
                 in bind_res (set_balance participant_id balance now s) (\<lambda>s1.
                    bind_res (insert_charge pour_id participant_id vol rate amount now s1) (\<lambda>s2.
                      add_ledger ledger_id participant_id (- amount) Charge (Some pour_id)
                        ''Beer pour'' balance now s2))))"

end
