(* ===== verification/KP_Kegs.thy ===== *)
theory KP_Kegs
  imports KP_Store
begin

text \<open>
  Kegs, inventory and calibrations in \<open>persistence/repository.py\<close>: every operation that writes
  the tables \<open>kegs\<close>, \<open>inventory_adjustments\<close>, \<open>calibrations\<close>, \<open>calibration_samples\<close> and
  \<open>verification_checks\<close>, and the reads the other parts use.
\<close>

section \<open>Kegs\<close>

text \<open>A timestamp argument: an ISO text that does not parse, a naive time, or an instant.\<close>

datatype timestamp = Unparsable | Naive | Instant int

definition utc_timestamp :: "timestamp \<Rightarrow> string \<Rightarrow> int result" where
  "utc_timestamp t name =
     (case t of
        Unparsable \<Rightarrow> Inl (ValueError (name @ '' must be an ISO 8601 timestamp''))
      | Naive \<Rightarrow> Inl (ValueError (name @ '' must include a timezone''))
      | Instant ms \<Rightarrow> Inr ms)"

definition keg_open :: "keg \<Rightarrow> bool" where
  "keg_open k \<longleftrightarrow> kg_closed_at k = None"

definition current_keg :: "store \<Rightarrow> (string \<times> keg) option" where
  "current_keg s = find_row keg_open (st_kegs s)"

text \<open>The unique index \<open>one_open_keg\<close> of the schema.\<close>

definition insert_open_keg :: "string \<Rightarrow> keg \<Rightarrow> (string, keg) odict \<Rightarrow> (string, keg) odict result" where
  "insert_open_keg k row t =
     (if some_row keg_open t then Inl (IntegrityError ''UNIQUE constraint failed: index one_open_keg'')
      else insert_row ''kegs.id'' k row t)"

definition replace_keg ::
    "string \<Rightarrow> int \<Rightarrow> string \<Rightarrow> rat option \<Rightarrow> string \<Rightarrow> timestamp option \<Rightarrow> store \<Rightarrow> keg result \<times> store" where
  "replace_keg keg_id now label starting_volume_ml notes installed_at =
     transaction (\<lambda>s.
       bind_res (finite_decimal starting_volume_ml ''starting_volume_ml'') (\<lambda>vol.
         let clean_label = strip label; clean_notes = strip notes
         in if \<not> text_between 1 120 clean_label \<or> length clean_notes > 1000 \<or> vol \<le> 0 then
              Inl (ValueError ''invalid keg label, notes, or starting volume'')
            else
              bind_res (case installed_at of None \<Rightarrow> Inr now | Some t \<Rightarrow> utc_timestamp t ''installed_at'') (\<lambda>opened_at.
                if session_active s then
                  Inl (ConflictError ''cannot replace a keg during an active pour'')
                else if (case current_keg s of None \<Rightarrow> False | Some (_, previous) \<Rightarrow> opened_at < kg_opened_at previous) then
                  Inl (ConflictError ''installed_at cannot precede the current keg installation'')
                else
                  let closed = update_where keg_open (\<lambda>k. k\<lparr>kg_closed_at := Some opened_at\<rparr>) (st_kegs s);
                      row = \<lparr>kg_label = clean_label, kg_starting_volume_ml = vol, kg_opened_at = opened_at,
                             kg_closed_at = None, kg_notes = clean_notes\<rparr>
                  in bind_res (insert_open_keg keg_id row closed) (\<lambda>t.
                       Inr (row, s\<lparr>st_kegs := t\<rparr>)))))"

section \<open>Inventory\<close>

definition adjust_inventory ::
    "string \<Rightarrow> int \<Rightarrow> string \<Rightarrow> rat option \<Rightarrow> string \<Rightarrow> store \<Rightarrow> adjustment result \<times> store" where
  "adjust_inventory adjustment_id now keg_id amount_ml reason =
     transaction (\<lambda>s.
       bind_res (finite_decimal amount_ml ''amount_ml'') (\<lambda>amount.
         let clean_reason = strip reason;
             row = \<lparr>ad_keg_id = keg_id, ad_amount_ml = amount, ad_reason = clean_reason, ad_created_at = now\<rparr>
         in if amount = 0 \<or> \<not> text_between 1 500 clean_reason then
              Inl (ValueError ''adjustment must be nonzero and include a reason'')
            else
              bind_res (fetch (st_kegs s) keg_id (NotFoundError ''keg not found'')) (\<lambda>_.
              bind_res (insert_row ''inventory_adjustments.id'' adjustment_id row (st_adjustments s)) (\<lambda>t.
                Inr (row, s\<lparr>st_adjustments := t\<rparr>)))))"

definition pours_of_keg :: "store \<Rightarrow> string \<Rightarrow> rat option list" where
  "pours_of_keg s k = map pe_volume_ml (filter (\<lambda>p. pe_keg_id p = Some k) (od_values (st_pours s)))"

definition adjustments_of_keg :: "store \<Rightarrow> string \<Rightarrow> rat list" where
  "adjustments_of_keg s k = map ad_amount_ml (filter (\<lambda>a. ad_keg_id a = k) (od_values (st_adjustments s)))"

definition inventory :: "string option \<Rightarrow> store \<Rightarrow> inventory_state option result" where
  "inventory keg_id s =
     (case (if truthy keg_id then map_option (Pair (the keg_id)) (od_get (st_kegs s) (the keg_id)) else current_keg s) of
        None \<Rightarrow> Inr None
      | Some (k, row) \<Rightarrow>
          bind_res (calculate_inventory (Some (kg_starting_volume_ml row))
              (map (map_option Some) (pours_of_keg s k)) (map Some (adjustments_of_keg s k))) (\<lambda>iv.
            Inr (Some iv)))"

definition set_current_keg_remaining_percent ::
    "string \<Rightarrow> int \<Rightarrow> rat option \<Rightarrow> string \<Rightarrow> store \<Rightarrow> adjustment result \<times> store" where
  "set_current_keg_remaining_percent adjustment_id now percent_remaining reason =
     transaction (\<lambda>s.
       bind_res (finite_decimal percent_remaining ''percent_remaining'') (\<lambda>percent.
         let clean_reason = strip reason
         in if \<not> (0 \<le> percent \<and> percent \<le> 100) then
              Inl (ValueError ''remaining percentage must be between 0 and 100'')
            else if \<not> text_between 1 500 clean_reason then
              Inl (ValueError ''an inventory correction reason is required'')
            else if session_active s then
              Inl (ConflictError ''cannot change remaining inventory during an active pour'')
            else
              case current_keg s of
                None \<Rightarrow> Inl (NotFoundError ''no current keg is installed'')
              | Some (k, row) \<Rightarrow>
                  let starting = kg_starting_volume_ml row;
                      poured = dec_sum DEFAULT_PREC (List.map_filter id (pours_of_keg s k));
                      adjustments = dec_sum DEFAULT_PREC (adjustments_of_keg s k);
                      current = dec_add DEFAULT_PREC (dec_sub DEFAULT_PREC starting poured) adjustments;
                      target = dec_div DEFAULT_PREC (dec_mult DEFAULT_PREC starting percent) 100;
                      delta = dec_sub DEFAULT_PREC target current;
                      adj = \<lparr>ad_keg_id = k, ad_amount_ml = delta, ad_reason = clean_reason, ad_created_at = now\<rparr>
                  in if delta = 0 then
                       Inl (ConflictError ''keg inventory is already at that percentage'')
                     else
                       bind_res (insert_row ''inventory_adjustments.id'' adjustment_id adj (st_adjustments s)) (\<lambda>t.
                         Inr (adj, s\<lparr>st_adjustments := t\<rparr>))))"

section \<open>Calibrations\<close>

definition cal_active :: "calibration \<Rightarrow> bool" where
  "cal_active c \<longleftrightarrow> cb_status c = Active"

definition active_calibration :: "store \<Rightarrow> (string \<times> calibration) option" where
  "active_calibration s = find_row cal_active (st_calibrations s)"

definition measurement_ids :: "store \<Rightarrow> string option \<times> string option" where
  "measurement_ids s = (map_option fst (current_keg s), map_option fst (active_calibration s))"

definition create_calibration ::
    "string \<Rightarrow> int \<Rightarrow> string \<Rightarrow> rat option \<Rightarrow> string \<Rightarrow> store \<Rightarrow> calibration result \<times> store" where
  "create_calibration calibration_id now liquid density_g_per_ml notes =
     transaction (\<lambda>s.
       bind_res (finite_decimal density_g_per_ml ''density_g_per_ml'') (\<lambda>density.
         let clean_liquid = strip liquid; clean_notes = strip notes;
             row = \<lparr>cb_liquid = clean_liquid, cb_default_density = density, cb_pulses_per_ml = None,
                    cb_status = Draft, cb_notes = clean_notes, cb_created_at = now, cb_activated_at = None\<rparr>
         in if \<not> (1 / 2 \<le> density \<and> density \<le> 2) then
              Inl (ValueError ''density must be between 0.5 and 2.0 g/mL'')
            else if \<not> text_between 1 80 clean_liquid \<or> length clean_notes > 1000 then
              Inl (ValueError ''invalid calibration liquid or notes'')
            else
              bind_res (insert_row ''calibrations.id'' calibration_id row (st_calibrations s)) (\<lambda>t.
                Inr (row, s\<lparr>st_calibrations := t\<rparr>))))"

text \<open>The current samples of a run, ordered by their ordinal.\<close>

definition sample_current :: "string \<Rightarrow> sample_row \<Rightarrow> bool" where
  "sample_current c r \<longleftrightarrow> sm_calibration_id r = c \<and> sm_superseded_at r = None"

definition current_samples :: "store \<Rightarrow> string \<Rightarrow> (string \<times> sample_row) list" where
  "current_samples s c =
     sort_key (\<lambda>(k, r). sm_ordinal r) (filter (\<lambda>(k, r). sample_current c r) (st_samples s))"

fun samples_from_rows :: "(string \<times> sample_row) list \<Rightarrow> calibration_sample list result" where
  "samples_from_rows [] = Inr []"
| "samples_from_rows ((k, r) # rows) =
     bind_res (make_sample (VInt (sm_raw_pulses r)) (Some (sm_mass_g r)) (Some (sm_density_g_per_ml r)) (sm_included r)) (\<lambda>x.
     bind_res (samples_from_rows rows) (\<lambda>xs. Inr (x # xs)))"

definition included_count :: "(string \<times> sample_row) list \<Rightarrow> nat" where
  "included_count rows = length (filter (\<lambda>(k, r). sm_included r) rows)"

fun flag_rows :: "(string \<times> sample_row) list \<Rightarrow> sample_analysis list \<Rightarrow> (string, sample_row) odict \<Rightarrow> (string, sample_row) odict" where
  "flag_rows ((k, r) # rows) (item # items) t =
     flag_rows rows items (update_row k (\<lambda>x. x\<lparr>sm_suspected_outlier := an_suspected_outlier item\<rparr>) t)"
| "flag_rows _ _ t = t"

definition update_outlier_flags :: "(string \<times> sample_row) list \<Rightarrow> store \<Rightarrow> store result" where
  "update_outlier_flags rows s =
     (if included_count rows < 3 then
        (case rows of
           [] \<Rightarrow> Inr s
         | (k, r) # _ \<Rightarrow>
             Inr (s\<lparr>st_samples := update_where (\<lambda>x. sm_calibration_id x = sm_calibration_id r)
                      (\<lambda>x. x\<lparr>sm_suspected_outlier := False\<rparr>) (st_samples s)\<rparr>))
      else
        bind_res (samples_from_rows rows) (\<lambda>xs.
        bind_res (analyze_calibration xs False) (\<lambda>analysis.
          Inr (s\<lparr>st_samples := flag_rows rows (ca_samples analysis) (st_samples s)\<rparr>))))"

definition fetch_draft :: "string \<Rightarrow> store \<Rightarrow> calibration result" where
  "fetch_draft calibration_id s =
     bind_res (fetch (st_calibrations s) calibration_id (NotFoundError ''calibration not found'')) (\<lambda>c.
       if cb_status c \<noteq> Draft then
         Inl (ConflictError ''active or historical calibration samples are immutable'')
       else Inr c)"

text \<open>
  The three statements that record a sample: supersede the current row of the ordinal, insert the
  new one, and recompute the outlier flags of the run.
\<close>

definition store_sample ::
    "string \<Rightarrow> int \<Rightarrow> string \<Rightarrow> int \<Rightarrow> calibration_sample \<Rightarrow> store \<Rightarrow> store result" where
  "store_sample sample_id now calibration_id ordinal sample s =
     (let superseded = update_where (\<lambda>r. sample_current calibration_id r \<and> sm_ordinal r = ordinal)
            (\<lambda>r. r\<lparr>sm_superseded_at := Some now\<rparr>) (st_samples s);
          row = \<lparr>sm_calibration_id = calibration_id, sm_ordinal = ordinal,
                 sm_raw_pulses = cl_raw_pulses sample, sm_mass_g = cl_mass_g sample,
                 sm_density_g_per_ml = cl_density_g_per_ml sample,
                 sm_derived_volume_ml = volume_ml DEFAULT_PREC sample,
                 sm_included = cl_included sample, sm_suspected_outlier = False,
                 sm_captured_at = now, sm_superseded_at = None\<rparr>
      in bind_res (insert_row ''calibration_samples.id'' sample_id row superseded) (\<lambda>t.
         let s' = s\<lparr>st_samples := t\<rparr>
         in update_outlier_flags (current_samples s' calibration_id) s'))"

definition add_calibration_sample ::
    "string \<Rightarrow> int \<Rightarrow> string \<Rightarrow> pyval \<Rightarrow> pyval \<Rightarrow> rat option \<Rightarrow> rat option \<Rightarrow> bool \<Rightarrow> store \<Rightarrow>
     sample_row option result \<times> store" where
  "add_calibration_sample sample_id now calibration_id ordinal raw_pulses mass_g density_g_per_ml included =
     transaction (\<lambda>s.
       case ordinal of
         VInt n \<Rightarrow>
           (if \<not> (1 \<le> n \<and> n \<le> 10) then Inl (ValueError ''sample ordinal must be between 1 and 10'')
            else
              bind_res (make_sample raw_pulses mass_g density_g_per_ml included) (\<lambda>sample.
              bind_res (fetch_draft calibration_id s) (\<lambda>_.
              bind_res (store_sample sample_id now calibration_id n sample s) (\<lambda>s'.
                Inr (od_get (st_samples s') sample_id, s')))))
       | _ \<Rightarrow> Inl (ValueError ''sample ordinal must be between 1 and 10''))"

definition set_sample_included ::
    "string \<Rightarrow> int \<Rightarrow> bool \<Rightarrow> store \<Rightarrow> sample_row option result \<times> store" where
  "set_sample_included calibration_id ordinal included =
     transaction (\<lambda>s.
       bind_res (fetch_draft calibration_id s) (\<lambda>_.
         let chosen = (\<lambda>r. sample_current calibration_id r \<and> sm_ordinal r = ordinal);
             changed = length (filter (\<lambda>(k, r). chosen r) (st_samples s));
             s1 = s\<lparr>st_samples := update_where chosen (\<lambda>r. r\<lparr>sm_included := included\<rparr>) (st_samples s)\<rparr>
         in if changed \<noteq> 1 then Inl (NotFoundError ''calibration sample not found'')
            else
              bind_res (update_outlier_flags (current_samples s1 calibration_id) s1) (\<lambda>s2.
                Inr (map_option snd (find_row chosen (st_samples s2)), s2))))"

definition calibration_detail ::
    "string \<Rightarrow> store \<Rightarrow> (calibration \<times> (string \<times> sample_row) list \<times> calibration_analysis option) result" where
  "calibration_detail calibration_id s =
     bind_res (fetch (st_calibrations s) calibration_id (NotFoundError ''calibration not found'')) (\<lambda>c.
       let rows = current_samples s calibration_id
       in if included_count rows > 0 then
            bind_res (samples_from_rows rows) (\<lambda>xs.
            bind_res (analyze_calibration xs False) (\<lambda>a. Inr (c, rows, Some a)))
          else Inr (c, rows, None))"

text \<open>The two \<open>UPDATE\<close>s of an activation.\<close>

definition make_active :: "string \<Rightarrow> rat \<Rightarrow> string \<Rightarrow> int \<Rightarrow> store \<Rightarrow> store" where
  "make_active calibration_id factor notes now s =
     s\<lparr>st_calibrations :=
         update_row calibration_id
           (\<lambda>c. if cb_status c = Draft
                then c\<lparr>cb_status := Active, cb_pulses_per_ml := Some factor, cb_notes := notes,
                       cb_activated_at := Some now\<rparr>
                else c)
           (update_where cal_active (\<lambda>c. c\<lparr>cb_status := Superseded\<rparr>) (st_calibrations s))\<rparr>"

definition activate_calibration ::
    "int \<Rightarrow> string \<Rightarrow> store \<Rightarrow> calibration option result \<times> store" where
  "activate_calibration now calibration_id =
     transaction (\<lambda>s.
       bind_res (fetch (st_calibrations s) calibration_id (NotFoundError ''calibration not found'')) (\<lambda>c.
         if cb_status c \<noteq> Draft then Inl (ConflictError ''only a draft calibration can be activated'')
         else
           let rows = current_samples s calibration_id
           in if length rows \<noteq> 10 \<or> included_count rows < 7 then
                Inl (ConflictError ''calibration needs ten samples and at least seven included'')
              else
                bind_res (samples_from_rows rows) (\<lambda>xs.
                bind_res (analyze_calibration xs True) (\<lambda>analysis.
                bind_res (ensure_plausible_factor (ca_pulses_per_ml analysis)) (\<lambda>_.
                  if session_active s then
                    Inl (ConflictError ''cannot activate calibration during an active pour'')
                  else
                    let s' = make_active calibration_id (ca_pulses_per_ml analysis) (cb_notes c) now s
                    in Inr (od_get (st_calibrations s') calibration_id, s'))))))"

definition provisional_marker :: "nat \<Rightarrow> string" where
  "provisional_marker n =
     ''[PROVISIONAL: estimate from '' @ show_int (int n) @ '' included '' @
     (if n = 1 then ''sample'' else ''samples'') @ ''; replace with a full calibration run]''"

definition activate_provisional_calibration ::
    "int \<Rightarrow> string \<Rightarrow> store \<Rightarrow> calibration option result \<times> store" where
  "activate_provisional_calibration now calibration_id =
     transaction (\<lambda>s.
       bind_res (fetch (st_calibrations s) calibration_id (NotFoundError ''calibration not found'')) (\<lambda>c.
         if cb_status c \<noteq> Draft then Inl (ConflictError ''only a draft calibration can be activated'')
         else
           let rows = current_samples s calibration_id
           in if \<not> (1 \<le> length rows \<and> length rows < 10) \<or> included_count rows = 0 then
                Inl (ConflictError (''provisional activation requires a partial run with at least '' @
                  ''one included sample; complete runs use the reviewed activation''))
              else if session_active s then
                Inl (ConflictError ''cannot activate calibration during an active pour'')
              else
                bind_res (samples_from_rows rows) (\<lambda>xs.
                bind_res (analyze_calibration xs False) (\<lambda>analysis.
                bind_res (ensure_plausible_factor (ca_pulses_per_ml analysis)) (\<lambda>_.
                  let marker = provisional_marker (included_count rows);
                      old = strip (cb_notes c);
                      notes = (if old \<noteq> [] then old @ [CHR 0x0A] @ marker else marker);
                      s' = make_active calibration_id (ca_pulses_per_ml analysis) notes now s
                  in if length notes > 1000 then
                       Inl (IntegrityError ''CHECK constraint failed: length(notes) <= 1000'')
                     else Inr (od_get (st_calibrations s') calibration_id, s'))))))"

section \<open>Verification\<close>

text \<open>The \<open>INSERT\<close> of a verification check for a calibration, a keg and a measured pulse count.\<close>

definition insert_verification ::
    "string \<Rightarrow> int \<Rightarrow> string \<Rightarrow> string option \<Rightarrow> int \<Rightarrow> rat \<Rightarrow> rat \<Rightarrow> rat \<times> rat \<times> rat \<times> rat \<Rightarrow> rat \<Rightarrow> store \<Rightarrow>
     (verification_row \<times> store) result" where
  "insert_verification verification_id now calibration_id keg_id raw mass density errors threshold s =
     (let (predicted, actual, absolute, percentage) = errors;
          row = \<lparr>vr_calibration_id = calibration_id, vr_keg_id = keg_id, vr_raw_pulses = raw,
                 vr_mass_g = mass, vr_density_g_per_ml = density, vr_predicted_volume_ml = predicted,
                 vr_actual_volume_ml = actual, vr_absolute_error_ml = absolute,
                 vr_percentage_error = percentage, vr_warning = (percentage > threshold),
                 vr_created_at = now\<rparr>
      in bind_res (references keg_id (st_kegs s)) (\<lambda>_.
         bind_res (insert_row ''verification_checks.id'' verification_id row (st_verifications s)) (\<lambda>t.
           Inr (row, s\<lparr>st_verifications := t\<rparr>))))"

definition add_verification ::
    "string \<Rightarrow> int \<Rightarrow> pyval \<Rightarrow> rat option \<Rightarrow> rat option \<Rightarrow> rat option \<Rightarrow> store \<Rightarrow>
     verification_row result \<times> store" where
  "add_verification verification_id now raw_pulses mass_g density_g_per_ml warning_threshold_pct =
     transaction (\<lambda>s.
       bind_res (finite_decimal warning_threshold_pct ''warning_threshold_pct'') (\<lambda>threshold.
         case active_calibration s of
           None \<Rightarrow> Inl (ConflictError ''an active calibration is required'')
         | Some (cid, c) \<Rightarrow>
             (case cb_pulses_per_ml c of
                None \<Rightarrow> Inl (ConflictError ''an active calibration is required'')
              | Some factor \<Rightarrow>
                  bind_res (verification_error raw_pulses mass_g density_g_per_ml (Some factor)) (\<lambda>errors.
                  bind_res (finite_decimal mass_g ''mass_g'') (\<lambda>mass.
                  bind_res (finite_decimal density_g_per_ml ''density_g_per_ml'') (\<lambda>density.
                    case raw_pulses of
                      VInt n \<Rightarrow> insert_verification verification_id now cid (map_option fst (current_keg s)) n
                                  mass density errors threshold s
                    | _ \<Rightarrow> Inl (DomainError ''raw_pulses must be an integer'')))))))"

end
