(* ===== verification/KP_Sessions.thy ===== *)
theory KP_Sessions
  imports KP_Accounts KP_Kegs "HOL-Library.List_Lexorder" "HOL-Library.Char_ord"
begin

text \<open>
  Sessions, device results and recovery counters in \<open>persistence/repository.py\<close>: the provisional
  sessions and their captures, the exactly-once commit of a device result, the checkpoint of the
  cumulative recovery counter, reassignment, and the bounded logs of anomalies and diagnostics.
  \<open>uuid5\<close> is the name-based identifier \<open>str(uuid.uuid5(NAMESPACE_URL, name))\<close>, an argument of
  the operations that derive an identifier; nothing is assumed of it.
\<close>

section \<open>Provisional sessions\<close>

definition purpose_of :: "string \<Rightarrow> bool" where
  "purpose_of p \<longleftrightarrow> p \<in> {''pour'', ''calibration'', ''verification''}"

definition fetch_capture_calibration :: "string \<Rightarrow> string option \<Rightarrow> store \<Rightarrow> unit result" where
  "fetch_capture_calibration purpose calibration_id s =
     (case calibration_id of
        None \<Rightarrow> Inr ()
      | Some cid \<Rightarrow>
          bind_res (fetch (st_calibrations s) cid (NotFoundError ''calibration not found'')) (\<lambda>c.
            if purpose = ''calibration'' \<and> cb_status c \<noteq> Draft then
              Inl (ConflictError ''calibration captures require a draft calibration'')
            else if purpose = ''verification'' \<and> cb_status c \<noteq> Active then
              Inl (ConflictError ''verification captures require the active calibration'')
            else Inr ()))"

definition fetch_active_participant :: "string option \<Rightarrow> store \<Rightarrow> unit result" where
  "fetch_active_participant participant_id s =
     (case participant_id of
        None \<Rightarrow> Inr ()
      | Some pid \<Rightarrow>
          (case od_get (st_participants s) pid of
             None \<Rightarrow> Inl (NotFoundError ''active participant not found'')
           | Some pt \<Rightarrow> check (pt_active pt) (NotFoundError ''active participant not found'')))"

definition create_provisional ::
    "string \<Rightarrow> int \<Rightarrow> string option \<Rightarrow> string \<Rightarrow> string \<Rightarrow> string option \<Rightarrow> int option \<Rightarrow> store \<Rightarrow>
     ((string \<times> provisional) \<times> bool) result \<times> store" where
  "create_provisional session_id now participant_id idempotency_key purpose calibration_id target_ordinal =
     transaction (\<lambda>s.
       if \<not> purpose_of purpose then Inl (ValueError ''invalid session purpose'')
       else if purpose = ''calibration'' \<and>
               (calibration_id = None \<or> (case target_ordinal of None \<Rightarrow> True | Some n \<Rightarrow> \<not> (1 \<le> n \<and> n \<le> 10))) then
         Inl (ValueError ''calibration capture requires a calibration and sample ordinal'')
       else if purpose = ''verification'' \<and> calibration_id = None then
         Inl (ValueError ''verification capture requires an active calibration'')
       else
         case find_row (\<lambda>v. pv_idempotency_key v = idempotency_key) (st_sessions s) of
           Some existing \<Rightarrow> Inr ((existing, True), s)
         | None \<Rightarrow>
             if session_active s then Inl (ConflictError ''a pour session is already active'')
             else
               bind_res (fetch_active_participant participant_id s) (\<lambda>_.
               bind_res (fetch_capture_calibration purpose calibration_id s) (\<lambda>_.
                 let keg = current_keg s; active = active_calibration s;
                     row = \<lparr>pv_idempotency_key = idempotency_key, pv_purpose = purpose,
                            pv_participant_id = participant_id,
                            pv_keg_id = (if purpose = ''pour'' \<or> purpose = ''verification'' then map_option fst keg else None),
                            pv_calibration_id = (if truthy calibration_id then calibration_id
                               else if purpose = ''pour'' then map_option fst active else None),
                            pv_target_ordinal = target_ordinal, pv_device_id = None, pv_boot_id = None,
                            pv_event_seq = None, pv_confirmed_lifetime = 0,
                            pv_captured_raw_pulses = None, pv_consumed_entity_id = None,
                            pv_status = ''arming'', pv_created_at = now, pv_updated_at = now\<rparr>
                 in bind_res (check (case target_ordinal of None \<Rightarrow> True | Some n \<Rightarrow> 1 \<le> n \<and> n \<le> 10)
                      (IntegrityError ''CHECK constraint failed: target_ordinal'')) (\<lambda>_.
                    bind_res (insert_row ''provisional_sessions.session_id'' session_id row (st_sessions s)) (\<lambda>t.
                      Inr (((session_id, row), False), s\<lparr>st_sessions := t\<rparr>))))))"

text \<open>The unique key \<open>(device_id, boot_id, event_seq)\<close> of the sessions.\<close>

definition bound_to :: "string \<Rightarrow> string \<Rightarrow> int \<Rightarrow> provisional \<Rightarrow> bool" where
  "bound_to dev boot sq v \<longleftrightarrow> pv_device_id v = Some dev \<and> pv_boot_id v = Some boot \<and> pv_event_seq v = Some sq"

definition bind_provisional ::
    "int \<Rightarrow> string \<Rightarrow> string \<Rightarrow> string \<Rightarrow> int \<Rightarrow> int \<Rightarrow> store \<Rightarrow> provisional option result \<times> store" where
  "bind_provisional now session_id device_id boot_id event_seq confirmed_lifetime =
     transaction (\<lambda>s.
       if od_mem session_id (st_sessions s) \<and>
          list_ex (\<lambda>(k, v). k \<noteq> session_id \<and> bound_to device_id boot_id event_seq v) (st_sessions s) then
         Inl (ConflictError ''device event is already bound'')
       else if \<not> od_mem session_id (st_sessions s) then
         Inl (NotFoundError ''provisional session not found'')
       else
         let s' = s\<lparr>st_sessions := update_row session_id
                      (\<lambda>v. v\<lparr>pv_device_id := Some device_id, pv_boot_id := Some boot_id,
                             pv_event_seq := Some event_seq, pv_confirmed_lifetime := confirmed_lifetime,
                             pv_status := ''armed'', pv_updated_at := now\<rparr>) (st_sessions s)\<rparr>
         in Inr (od_get (st_sessions s') session_id, s'))"

definition set_status :: "int \<Rightarrow> string \<Rightarrow> string \<Rightarrow> store \<Rightarrow> store" where
  "set_status now session_id status s =
     s\<lparr>st_sessions := update_row session_id (\<lambda>v. v\<lparr>pv_status := status, pv_updated_at := now\<rparr>) (st_sessions s)\<rparr>"

definition update_provisional_status :: "int \<Rightarrow> string \<Rightarrow> string \<Rightarrow> store \<Rightarrow> unit result \<times> store" where
  "update_provisional_status now session_id status =
     transaction (\<lambda>s.
       if \<not> od_mem session_id (st_sessions s) then Inl (NotFoundError ''provisional session not found'')
       else Inr ((), set_status now session_id status s))"

definition set_captured :: "int \<Rightarrow> string \<Rightarrow> string \<Rightarrow> int \<Rightarrow> store \<Rightarrow> store" where
  "set_captured now session_id status raw s =
     s\<lparr>st_sessions := update_row session_id
         (\<lambda>v. v\<lparr>pv_status := status, pv_captured_raw_pulses := Some raw, pv_updated_at := now\<rparr>) (st_sessions s)\<rparr>"

definition set_consumed :: "int \<Rightarrow> string \<Rightarrow> string \<Rightarrow> store \<Rightarrow> store" where
  "set_consumed now session_id entity_id s =
     s\<lparr>st_sessions := update_row session_id
         (\<lambda>v. v\<lparr>pv_status := ''consumed'', pv_consumed_entity_id := Some entity_id, pv_updated_at := now\<rparr>)
         (st_sessions s)\<rparr>"

definition active_provisional :: "store \<Rightarrow> (string \<times> provisional) option" where
  "active_provisional s =
     (case sort_key (\<lambda>(k, v). pv_created_at v)
             (filter (\<lambda>(k, v). pv_status v \<in> set ACTIVE_STATUSES) (st_sessions s)) of
        [] \<Rightarrow> None | r # _ \<Rightarrow> Some r)"

section \<open>Captures\<close>

text \<open>A capture has an integer ordinal; \<open>int(None)\<close> is a \<open>TypeError\<close>.\<close>

definition captured_ordinal :: "provisional \<Rightarrow> int result" where
  "captured_ordinal v =
     (case pv_target_ordinal v of None \<Rightarrow> Inl (TypeError ''int() argument must not be NoneType'') | Some n \<Rightarrow> Inr n)"

definition consumed_entity :: "(string, 'v) odict \<Rightarrow> provisional \<Rightarrow> string \<Rightarrow> 'v result" where
  "consumed_entity t v message =
     (case pv_consumed_entity_id v of
        None \<Rightarrow> Inl (ConflictError message)
      | Some i \<Rightarrow> fetch t i (ConflictError message))"

definition consume_calibration_capture ::
    "string \<Rightarrow> int \<Rightarrow> string \<Rightarrow> rat option \<Rightarrow> rat option \<Rightarrow> bool \<Rightarrow> store \<Rightarrow> sample_row option result \<times> store" where
  "consume_calibration_capture sample_id now session_id mass_g density_g_per_ml included =
     transaction (\<lambda>s.
       bind_res (fetch (st_sessions s) session_id (NotFoundError ''session not found'')) (\<lambda>v.
         if pv_purpose v \<noteq> ''calibration'' \<or> pv_status v \<notin> {''complete'', ''consumed''} then
           Inl (ConflictError ''calibration capture is not complete'')
         else if pv_status v = ''consumed'' then
           bind_res (consumed_entity (st_samples s) v ''consumed calibration capture is missing its sample'')
             (\<lambda>r. Inr (Some r, s))
         else
           case pv_captured_raw_pulses v of
             None \<Rightarrow> Inl (ConflictError ''calibration capture has no measured pulses'')
           | Some raw \<Rightarrow>
               (case pv_calibration_id v of
                  None \<Rightarrow> Inl (NotFoundError ''calibration not found'')
                | Some cid \<Rightarrow>
                    bind_res (fetch_draft cid s) (\<lambda>_.
                    bind_res (captured_ordinal v) (\<lambda>ordinal.
                    bind_res (make_sample (VInt raw) mass_g density_g_per_ml included) (\<lambda>sample.
                    bind_res (store_sample sample_id now cid ordinal sample s) (\<lambda>s'.
                      let s2 = set_consumed now session_id sample_id s'
                      in Inr (od_get (st_samples s2) sample_id, s2))))))))"

definition consume_verification_capture ::
    "string \<Rightarrow> int \<Rightarrow> string \<Rightarrow> rat option \<Rightarrow> rat option \<Rightarrow> rat option \<Rightarrow> store \<Rightarrow>
     verification_row result \<times> store" where
  "consume_verification_capture verification_id now session_id mass_g density_g_per_ml warning_threshold_pct =
     transaction (\<lambda>s.
       bind_res (fetch (st_sessions s) session_id (NotFoundError ''session not found'')) (\<lambda>v.
         if pv_purpose v \<noteq> ''verification'' \<or> pv_status v \<notin> {''complete'', ''consumed''} then
           Inl (ConflictError ''verification capture is not complete'')
         else if pv_status v = ''consumed'' then
           bind_res (consumed_entity (st_verifications s) v ''consumed verification capture is missing its check'')
             (\<lambda>r. Inr (r, s))
         else
           case pv_captured_raw_pulses v of
             None \<Rightarrow> Inl (ConflictError ''verification capture has no measured pulses'')
           | Some raw \<Rightarrow>
               (case (case pv_calibration_id v of None \<Rightarrow> None | Some cid \<Rightarrow>
                        (case od_get (st_calibrations s) cid of None \<Rightarrow> None | Some c \<Rightarrow>
                           map_option (Pair cid) (cb_pulses_per_ml c))) of
                  None \<Rightarrow> Inl (ConflictError ''the captured calibration is required'')
                | Some (cid, factor) \<Rightarrow>
                    bind_res (verification_error (VInt raw) mass_g density_g_per_ml (Some factor)) (\<lambda>errors.
                    bind_res (finite_decimal warning_threshold_pct ''warning_threshold_pct'') (\<lambda>threshold.
                    bind_res (finite_decimal mass_g ''mass_g'') (\<lambda>mass.
                    bind_res (finite_decimal density_g_per_ml ''density_g_per_ml'') (\<lambda>density.
                    bind_res (insert_verification verification_id now cid (pv_keg_id v) raw mass density
                                errors threshold s) (\<lambda>(row, s').
                      Inr (row, set_consumed now session_id verification_id s')))))))))"

end
