(* ===== verification/KP_Results.thy ===== *)
theory KP_Results
  imports KP_Sessions
begin

text \<open>
  Device results, recovery counters, reassignment and the bounded logs of
  \<open>persistence/repository.py\<close>.
\<close>

section \<open>The rows of a pour and of a device result\<close>

text \<open>The constraints of \<open>pour_events\<close>: primary key, unique session, unique event, foreign keys.\<close>

definition same_event :: "pour \<Rightarrow> pour \<Rightarrow> bool" where
  "same_event p q \<longleftrightarrow> pe_event_seq p \<noteq> None \<and> pe_device_id p = pe_device_id q \<and>
     pe_boot_id p = pe_boot_id q \<and> pe_event_seq p = pe_event_seq q"

definition insert_pour :: "string \<Rightarrow> pour \<Rightarrow> store \<Rightarrow> store result" where
  "insert_pour pour_id row s =
     (if some_row (\<lambda>p. pe_session_id p = pe_session_id row) (st_pours s) then
        Inl (IntegrityError ''UNIQUE constraint failed: pour_events.session_id'')
      else if some_row (\<lambda>p. same_event p row) (st_pours s) then
        Inl (IntegrityError ''UNIQUE constraint failed: pour_events.device_id, boot_id, event_seq'')
      else
        bind_res (check (0 \<le> pe_raw_pulses row) (IntegrityError ''CHECK constraint failed: raw_pulses >= 0'')) (\<lambda>_.
        bind_res (references (pe_participant_id row) (st_participants s)) (\<lambda>_.
        bind_res (references (pe_keg_id row) (st_kegs s)) (\<lambda>_.
        bind_res (references (pe_calibration_id row) (st_calibrations s)) (\<lambda>_.
        bind_res (insert_row ''pour_events.id'' pour_id row (st_pours s)) (\<lambda>t.
          Inr (s\<lparr>st_pours := t\<rparr>)))))))"

definition insert_result :: "event_key \<Rightarrow> stored_result \<Rightarrow> store \<Rightarrow> store result" where
  "insert_result key row s =
     bind_res (insert_row ''device_results'' key row (st_results s)) (\<lambda>t. Inr (s\<lparr>st_results := t\<rparr>))"

text \<open>The pulses per millilitre of a calibration, and the volume of a pulse count under it.\<close>

definition factor_of :: "string option \<Rightarrow> store \<Rightarrow> rat option" where
  "factor_of calibration_id s =
     (if truthy calibration_id then
        (case od_get (st_calibrations s) (the calibration_id) of None \<Rightarrow> None | Some c \<Rightarrow> cb_pulses_per_ml c)
      else None)"

definition volume_of :: "int \<Rightarrow> rat option \<Rightarrow> rat option result" where
  "volume_of raw factor =
     (case factor of
        None \<Rightarrow> Inr None
      | Some f \<Rightarrow> bind_res (pulses_to_ml (VInt raw) (Some f)) (\<lambda>v. Inr (Some v)))"

section \<open>Committing a device result\<close>

definition pour_quality :: "rat option \<Rightarrow> device_result \<Rightarrow> string" where
  "pour_quality factor r =
     (if factor = None then ''needs_review''
      else if dr_status r = INTERRUPTED then ''interrupted''
      else if \<not> dr_attributed r then ''unattributed''
      else ''complete'')"

definition event_key :: "device_result \<Rightarrow> event_key" where
  "event_key r = (dr_device_id r, dr_boot_id r, dr_event_seq r)"

definition result_session :: "(string \<Rightarrow> string) \<Rightarrow> device_result \<Rightarrow> string result" where
  "result_session uuid5 r =
     (if truthy (dr_session_id r) then canonical_session (the (dr_session_id r))
      else Inr (uuid5 (''kegpulse://'' @ dr_device_id r @ ''/'' @ dr_boot_id r @ ''/'' @ show_int (dr_event_seq r))))"

definition binding_matches :: "provisional option \<Rightarrow> device_result \<Rightarrow> bool" where
  "binding_matches pv r \<longleftrightarrow>
     (case pv of None \<Rightarrow> False | Some v \<Rightarrow> bound_to (dr_device_id r) (dr_boot_id r) (dr_event_seq r) v)"

text \<open>A result whose event is already in \<open>device_results\<close>.\<close>

definition replay_result :: "stored_result \<Rightarrow> store \<Rightarrow> ((pour option \<times> bool) \<times> store) result" where
  "replay_result d s =
     (case sr_pour_id d of
        None \<Rightarrow> Inr ((None, True), s)
      | Some pid \<Rightarrow>
          bind_res (fetch (st_pours s) pid (TypeError ''NoneType object is not iterable'')) (\<lambda>p.
            Inr ((Some p, True), s)))"

definition stored_result_of ::
    "string \<Rightarrow> device_result \<Rightarrow> string option \<Rightarrow> int \<Rightarrow> stored_result" where
  "stored_result_of session_id r pour_id ended_at =
     \<lparr>sr_session_id = session_id, sr_status = device_state_value (dr_status r),
      sr_raw_pulses = dr_raw_pulses r, sr_pour_id = pour_id, sr_committed_at = ended_at\<rparr>"

text \<open>A calibration or verification capture: the pulses go to the session, not to a pour.\<close>

definition commit_capture :: "string \<Rightarrow> device_result \<Rightarrow> int \<Rightarrow> store \<Rightarrow> ((pour option \<times> bool) \<times> store) result" where
  "commit_capture session_id r ended_at s =
     bind_res (insert_result (event_key r) (stored_result_of session_id r None ended_at) s) (\<lambda>s1.
       Inr ((None, False), set_captured ended_at session_id (device_state_value (dr_status r)) (dr_raw_pulses r) s1))"

text \<open>An armed session that timed out without a pulse leaves no pour.\<close>

definition commit_timeout ::
    "string \<Rightarrow> provisional option \<Rightarrow> device_result \<Rightarrow> int \<Rightarrow> store \<Rightarrow> ((pour option \<times> bool) \<times> store) result" where
  "commit_timeout session_id pv r ended_at s =
     bind_res (insert_result (event_key r) (stored_result_of session_id r None ended_at) s) (\<lambda>s1.
       Inr ((None, False), if pv \<noteq> None then set_status ended_at session_id ''timed_out'' s1 else s1))"

definition pour_of_result ::
    "string \<Rightarrow> provisional option \<Rightarrow> device_result \<Rightarrow> string option \<Rightarrow> string option \<Rightarrow> rat option \<Rightarrow> rat option \<Rightarrow>
     int \<Rightarrow> int \<Rightarrow> pour" where
  "pour_of_result session_id pv r keg_id calibration_id factor vol started_at ended_at =
     \<lparr>pe_session_id = session_id,
      pe_participant_id = (case pv of None \<Rightarrow> None | Some v \<Rightarrow> pv_participant_id v),
      pe_keg_id = keg_id, pe_calibration_id = calibration_id,
      pe_device_id = dr_device_id r, pe_boot_id = dr_boot_id r, pe_event_seq = Some (dr_event_seq r),
      pe_raw_pulses = dr_raw_pulses r, pe_volume_ml = vol, pe_attributed = dr_attributed r,
      pe_quality = pour_quality factor r, pe_started_at = started_at, pe_ended_at = ended_at,
      pe_device_started_ms = dr_started_ms r, pe_device_ended_ms = dr_ended_ms r,
      pe_fault = dr_fault r, pe_created_at = ended_at\<rparr>"

text \<open>The keg and the calibration a pour is booked to.\<close>

definition pour_context ::
    "provisional option \<Rightarrow> string option \<Rightarrow> string option \<Rightarrow> bool \<Rightarrow> store \<Rightarrow> string option \<times> string option" where
  "pour_context pv keg_id calibration_id context_captured s =
     (case pv of
        Some v \<Rightarrow> (pv_keg_id v, pv_calibration_id v)
      | None \<Rightarrow>
          (if \<not> context_captured \<and> keg_id = None then map_option fst (current_keg s) else keg_id,
           if \<not> context_captured \<and> calibration_id = None then map_option fst (active_calibration s) else calibration_id))"

definition commit_pour ::
    "string \<Rightarrow> string \<Rightarrow> string \<Rightarrow> provisional option \<Rightarrow> device_result \<Rightarrow> string option \<Rightarrow> string option \<Rightarrow> bool \<Rightarrow>
     int \<Rightarrow> int \<Rightarrow> store \<Rightarrow> ((pour option \<times> bool) \<times> store) result" where
  "commit_pour pour_id ledger_id session_id pv r keg_id calibration_id context_captured started_at ended_at s =
     (let (keg, cal) = pour_context pv keg_id calibration_id context_captured s;
          factor = factor_of cal s
      in bind_res (volume_of (dr_raw_pulses r) factor) (\<lambda>vol.
           let row = pour_of_result session_id pv r keg cal factor vol started_at ended_at
           in bind_res (insert_pour pour_id row s) (\<lambda>s1.
              bind_res (insert_result (event_key r) (stored_result_of session_id r (Some pour_id) ended_at) s1) (\<lambda>s2.
              bind_res (case (pe_participant_id row, vol) of
                          (Some p, Some v) \<Rightarrow> charge_pour ledger_id pour_id p v ended_at s2
                        | _ \<Rightarrow> Inr s2) (\<lambda>s3.
                let s4 = (if pv \<noteq> None then set_status ended_at session_id ''complete'' s3 else s3)
                in Inr ((od_get (st_pours s4) pour_id, False), s4))))))"

definition finalize_device_result ::
    "(string \<Rightarrow> string) \<Rightarrow> string \<Rightarrow> string \<Rightarrow> int \<Rightarrow> device_result \<Rightarrow> string option \<Rightarrow> string option \<Rightarrow> bool \<Rightarrow> store \<Rightarrow>
     (pour option \<times> bool) result \<times> store" where
  "finalize_device_result uuid5 pour_id ledger_id now r keg_id calibration_id context_captured =
     transaction (\<lambda>s.
       bind_res (elapsed_u32 (dr_started_ms r) (dr_ended_ms r)) (\<lambda>duration.
       bind_res (ensure_plausible_pulse_count (VInt (dr_raw_pulses r)) (VInt duration) ''device result pulse count'') (\<lambda>_.
       bind_res (result_session uuid5 r) (\<lambda>session_id.
         let pv = (if truthy (dr_session_id r) then od_get (st_sessions s) session_id else None)
         in if dr_attributed r \<and> \<not> binding_matches pv r then
              Inl (ConflictError ''attributed device result does not match its durable session binding'')
            else
              case od_get (st_results s) (event_key r) of
                Some d \<Rightarrow> replay_result d s
              | None \<Rightarrow>
                  if (case pv of None \<Rightarrow> False | Some v \<Rightarrow> pv_purpose v \<noteq> ''pour'') then
                    commit_capture session_id r now s
                  else if dr_status r = TIMED_OUT \<and> dr_raw_pulses r = 0 then
                    commit_timeout session_id pv r now s
                  else
                    commit_pour pour_id ledger_id session_id pv r keg_id calibration_id context_captured
                      (now - duration) now s))))"

section \<open>Recovered pulses\<close>

text \<open>A pour that carries pulses counted outside any event.\<close>

definition recovered_pour ::
    "string \<Rightarrow> string option \<Rightarrow> string option \<Rightarrow> string \<Rightarrow> string \<Rightarrow> int \<Rightarrow> rat option \<Rightarrow> int \<Rightarrow> int \<Rightarrow> string \<Rightarrow> pour" where
  "recovered_pour session_id keg_id calibration_id device_id boot_id raw vol now uptime fault =
     \<lparr>pe_session_id = session_id, pe_participant_id = None, pe_keg_id = keg_id,
      pe_calibration_id = calibration_id, pe_device_id = device_id, pe_boot_id = boot_id,
      pe_event_seq = None, pe_raw_pulses = raw, pe_volume_ml = vol, pe_attributed = False,
      pe_quality = ''estimated_recovered'', pe_started_at = now, pe_ended_at = now,
      pe_device_started_ms = uptime, pe_device_ended_ms = uptime, pe_fault = fault, pe_created_at = now\<rparr>"

definition recover_same_boot_delta ::
    "(string \<Rightarrow> string) \<Rightarrow> string \<Rightarrow> int \<Rightarrow> string \<Rightarrow> string \<Rightarrow> string \<Rightarrow> int \<Rightarrow> int \<Rightarrow> int \<Rightarrow> store \<Rightarrow>
     ((pour + provisional) \<times> bool) result \<times> store" where
  "recover_same_boot_delta uuid5 pour_id now session_id device_id boot_id confirmed current uptime =
     transaction (\<lambda>s.
       let recovered = current - confirmed
       in if recovered \<le> 0 \<or> uptime < 0 then
            Inl (ValueError ''recovery requires a positive same-boot counter delta'')
          else
            bind_res (ensure_plausible_pulse_count (VInt recovered) (VInt uptime) ''same-boot recovered pulse count'') (\<lambda>_.
              let recovery_session = uuid5 (''kegpulse://recovery/'' @ device_id @ ''/'' @ boot_id @ ''/'' @
                    session_id @ ''/'' @ show_int confirmed @ ''/'' @ show_int current)
              in case find_row (\<lambda>p. pe_session_id p = recovery_session) (st_pours s) of
                   Some (k, p) \<Rightarrow> Inr ((Inl p, True), s)
                 | None \<Rightarrow>
                     bind_res (fetch (st_sessions s) session_id (NotFoundError ''provisional session not found'')) (\<lambda>v.
                       if pv_purpose v \<noteq> ''pour'' then
                         let s' = set_captured now session_id ''complete'' recovered s
                         in bind_res (fetch (st_sessions s') session_id (NotFoundError ''provisional session not found'')) (\<lambda>w.
                              Inr ((Inr w, False), s'))
                       else
                         bind_res (volume_of recovered (factor_of (pv_calibration_id v) s)) (\<lambda>vol.
                           let row = recovered_pour recovery_session (pv_keg_id v) (pv_calibration_id v)
                                 device_id boot_id recovered vol now uptime ''same_boot_lifetime_delta''
                           in bind_res (insert_pour pour_id row s) (\<lambda>s1.
                                Inr ((Inl row, False), set_status now session_id ''interrupted_uncertain'' s1))))))"

section \<open>The checkpoint of the recovery counter\<close>

definition checkpoint_context ::
    "string option \<Rightarrow> string option \<Rightarrow> bool \<Rightarrow> store \<Rightarrow> string option \<times> string option \<times> rat option" where
  "checkpoint_context keg_id calibration_id context_captured s =
     (if context_captured then
        (case keg_id of None \<Rightarrow> None | Some k \<Rightarrow> (if od_mem k (st_kegs s) then Some k else None),
         case calibration_id of None \<Rightarrow> None | Some c \<Rightarrow> (if od_mem c (st_calibrations s) then Some c else None),
         case calibration_id of None \<Rightarrow> None | Some c \<Rightarrow>
           (case od_get (st_calibrations s) c of None \<Rightarrow> None | Some row \<Rightarrow> cb_pulses_per_ml row))
      else
        (map_option fst (current_keg s), map_option fst (active_calibration s),
         case active_calibration s of None \<Rightarrow> None | Some (c, row) \<Rightarrow> cb_pulses_per_ml row))"

definition cp_numbers :: "checkpoint option \<Rightarrow> int \<times> int \<times> int" where
  "cp_numbers cp =
     (case cp of None \<Rightarrow> (0, 0, 0)
      | Some c \<Rightarrow> (cp_recovery_pulses c, cp_accepted_pulses c, cp_device_uptime_ms c))"

text \<open>The checks of one counter report against the stored checkpoint; the value is the new part.\<close>

definition recovery_delta_of :: "checkpoint option \<Rightarrow> int \<Rightarrow> int \<Rightarrow> int \<Rightarrow> int result" where
  "recovery_delta_of cp recovery_pulses accepted uptime =
     (let (previous_recovery, previous_accepted, previous_uptime) = cp_numbers cp;
          accepted_delta = accepted - previous_accepted;
          recovery_delta = recovery_pulses - previous_recovery;
          elapsed = (if cp \<noteq> None then and (uptime - previous_uptime) UINT32_MAX else uptime)
      in if recovery_pulses < previous_recovery \<or> accepted < previous_accepted then
           Inl (ConflictError ''same-boot pulse counters cannot decrease'')
         else if recovery_delta > accepted_delta then
           Inl (MeasurementRejectedError ''recovery pulse delta exceeds the accepted pulse delta'')
         else if cp \<noteq> None \<and> elapsed \<ge> 0x80000000 then
           Inl (ConflictError ''same-boot device uptime moved backwards ambiguously'')
         else
           bind_res (ensure_plausible_pulse_count (VInt recovery_delta) (VInt elapsed) ''recovery pulse counter delta'')
             (\<lambda>_. Inr recovery_delta))"

definition checkpoint_inputs :: "string \<Rightarrow> string \<Rightarrow> int \<Rightarrow> int \<Rightarrow> int \<Rightarrow> unit result" where
  "checkpoint_inputs device_id boot_id recovery_pulses accepted uptime =
     (if \<not> text_between 1 64 device_id \<or> \<not> text_between 1 64 boot_id then
        Inl (ValueError ''device and boot identities are required'')
      else if \<not> (0 \<le> recovery_pulses \<and> recovery_pulses \<le> UINT64_MAX) then
        Inl (MeasurementRejectedError ''recovery_pulses is out of range'')
      else if \<not> (0 \<le> accepted \<and> accepted \<le> UINT64_MAX) then
        Inl (MeasurementRejectedError ''accepted_pulses is out of range'')
      else if recovery_pulses > accepted then
        Inl (MeasurementRejectedError ''recovery pulses exceed accepted pulses'')
      else if \<not> (0 \<le> uptime \<and> uptime \<le> UINT32_MAX) then
        Inl (ValueError ''device_uptime_ms is out of range'')
      else Inr ())"

definition checkpoint_recovery_pulses ::
    "(string \<Rightarrow> string) \<Rightarrow> string \<Rightarrow> int \<Rightarrow> string \<Rightarrow> string \<Rightarrow> int \<Rightarrow> int \<Rightarrow> int option \<Rightarrow> string option \<Rightarrow> string option \<Rightarrow>
     bool \<Rightarrow> store \<Rightarrow> (pour option \<times> bool) result \<times> store" where
  "checkpoint_recovery_pulses uuid5 pour_id now device_id boot_id recovery_pulses uptime accepted_pulses
       keg_id calibration_id context_captured =
     transaction (\<lambda>s.
       let accepted = (case accepted_pulses of None \<Rightarrow> recovery_pulses | Some a \<Rightarrow> a);
           key = (device_id, boot_id);
           cp = od_get (st_checkpoints s) key;
           previous_recovery = fst (cp_numbers cp)
       in bind_res (checkpoint_inputs device_id boot_id recovery_pulses accepted uptime) (\<lambda>_.
          bind_res (recovery_delta_of cp recovery_pulses accepted uptime) (\<lambda>delta.
            if delta = 0 then
              let prior = (case cp of None \<Rightarrow> None
                           | Some c \<Rightarrow> (if truthy (cp_last_pour_id c) then od_get (st_pours s) (the (cp_last_pour_id c)) else None));
                  row = (case cp of
                           None \<Rightarrow> \<lparr>cp_recovery_pulses = recovery_pulses, cp_last_pour_id = None, cp_updated_at = now,
                                    cp_accepted_pulses = accepted, cp_device_uptime_ms = uptime\<rparr>
                         | Some c \<Rightarrow> c\<lparr>cp_updated_at := now, cp_accepted_pulses := accepted, cp_device_uptime_ms := uptime\<rparr>)
              in Inr ((prior, True), s\<lparr>st_checkpoints := od_set (st_checkpoints s) key row\<rparr>)
            else
              let session_id = uuid5 (''kegpulse://recovery-counter/'' @ device_id @ ''/'' @ boot_id @ ''/'' @
                    show_int previous_recovery @ ''/'' @ show_int recovery_pulses);
                  (keg, cal, factor) = checkpoint_context keg_id calibration_id context_captured s
              in bind_res (volume_of delta factor) (\<lambda>vol.
                   let row = recovered_pour session_id keg cal device_id boot_id delta vol now uptime
                         ''device_recovery_counter'';
                       new_cp = \<lparr>cp_recovery_pulses = recovery_pulses, cp_last_pour_id = Some pour_id,
                         cp_updated_at = now, cp_accepted_pulses = accepted, cp_device_uptime_ms = uptime\<rparr>
                   in bind_res (insert_pour pour_id row s) (\<lambda>s1.
                        Inr ((Some row, False), s1\<lparr>st_checkpoints := od_set (st_checkpoints s1) key new_cp\<rparr>))))))"

section \<open>Reassignment\<close>

text \<open>The refund to the person charged before, when there is one.\<close>

definition refund_old ::
    "string \<Rightarrow> int \<Rightarrow> string \<Rightarrow> string option \<Rightarrow> int \<Rightarrow> store \<Rightarrow> store result" where
  "refund_old ledger_id now pour_id old amount s =
     (case (case old of None \<Rightarrow> None | Some b \<Rightarrow> map_option (Pair b) (od_get (st_participants s) b)) of
        None \<Rightarrow> Inr s
      | Some (b, row) \<Rightarrow>
          let balance = pt_balance_cents row + amount
          in bind_res (set_balance b balance now s) (\<lambda>s1.
               add_ledger ledger_id b amount Refund (Some pour_id) ''Pour reassigned'' balance now s1))"

definition charge_new ::
    "string \<Rightarrow> int \<Rightarrow> string \<Rightarrow> string \<Rightarrow> int \<Rightarrow> store \<Rightarrow> store result" where
  "charge_new ledger_id now pour_id new amount s =
     bind_res (fetch (st_participants s) new (TypeError ''NoneType object is not subscriptable'')) (\<lambda>row.
       let balance = pt_balance_cents row - amount
       in bind_res (set_balance new balance now s) (\<lambda>s1.
          let s2 = s1\<lparr>st_charges := update_row pour_id (\<lambda>c. c\<lparr>ch_participant_id := new\<rparr>) (st_charges s1)\<rparr>
          in add_ledger ledger_id new (- amount) Charge (Some pour_id) ''Reassigned beer pour'' balance now s2))"

definition reassign_pour ::
    "string \<Rightarrow> string \<Rightarrow> string \<Rightarrow> int \<Rightarrow> string \<Rightarrow> string \<Rightarrow> string \<Rightarrow> store \<Rightarrow> pour option result \<times> store" where
  "reassign_pour audit_id refund_id charge_id now pour_id participant_id reason =
     transaction (\<lambda>s.
       let clean_reason = strip reason
       in if \<not> text_between 1 500 clean_reason then Inl (ValueError ''a reassignment reason is required'')
          else
            bind_res (fetch (st_pours s) pour_id (NotFoundError ''pour not found'')) (\<lambda>pour.
            bind_res (fetch (st_participants s) participant_id (NotFoundError ''participant not found'')) (\<lambda>_.
            bind_res (insert_row ''attribution_audit.id'' audit_id
                \<lparr>au_pour_id = pour_id, au_old_participant_id = pe_participant_id pour,
                 au_new_participant_id = participant_id, au_reason = clean_reason, au_created_at = now\<rparr>
                (st_audit s)) (\<lambda>audit.
              let s1 = s\<lparr>st_audit := audit,
                         st_pours := update_row pour_id
                           (\<lambda>p. p\<lparr>pe_participant_id := Some participant_id, pe_attributed := True\<rparr>) (st_pours s)\<rparr>
              in bind_res
                   (case od_get (st_charges s1) pour_id of
                      Some charge \<Rightarrow>
                        (if pe_participant_id pour \<noteq> Some participant_id then
                           bind_res (refund_old refund_id now pour_id (pe_participant_id pour) (ch_amount_cents charge) s1) (\<lambda>s2.
                             charge_new charge_id now pour_id participant_id (ch_amount_cents charge) s2)
                         else Inr s1)
                    | None \<Rightarrow>
                        (case pe_volume_ml pour of
                           None \<Rightarrow> Inr s1
                         | Some v \<Rightarrow> charge_pour charge_id pour_id participant_id v now s1)) (\<lambda>s3.
                   Inr (od_get (st_pours s3) pour_id, s3))))))"

section \<open>Photos, settings and bounded logs\<close>

definition add_pour_photo ::
    "string \<Rightarrow> int \<Rightarrow> string option \<Rightarrow> string \<Rightarrow> int \<Rightarrow> string \<Rightarrow> store \<Rightarrow> photo result \<times> store" where
  "add_pour_photo photo_id now session_id relative_path size_bytes sha256 =
     transaction (\<lambda>s.
       bind_res (case session_id of None \<Rightarrow> Inr None
                 | Some sid \<Rightarrow> bind_res (canonical_session sid) (\<lambda>c. Inr (Some c))) (\<lambda>canonical.
       bind_res (case canonical of None \<Rightarrow> Inr ()
                 | Some c \<Rightarrow>
                     bind_res (fetch (st_sessions s) c (NotFoundError ''pour session not found'')) (\<lambda>v.
                       check (pv_purpose v = ''pour'' \<and> pv_status v \<in> {''pouring'', ''settling''})
                         (ConflictError ''photos are only accepted while a pour is active''))) (\<lambda>_.
         let row = \<lparr>ph_session_id = canonical, ph_captured_at = now, ph_relative_path = relative_path,
                    ph_size_bytes = size_bytes, ph_sha256 = sha256\<rparr>
         in if some_row (\<lambda>p. ph_relative_path p = relative_path) (st_photos s) then
              Inl (IntegrityError ''UNIQUE constraint failed: pour_photos.relative_path'')
            else if \<not> (4 \<le> size_bytes \<and> size_bytes \<le> 65536) \<or> length sha256 \<noteq> 64 then
              Inl (IntegrityError ''CHECK constraint failed: pour_photos'')
            else
              bind_res (insert_row ''pour_photos.id'' photo_id row (st_photos s)) (\<lambda>t.
                Inr (row, s\<lparr>st_photos := t\<rparr>)))))"

definition prune_unattributed_photos :: "nat \<Rightarrow> store \<Rightarrow> string list result \<times> store" where
  "prune_unattributed_photos keep =
     transaction (\<lambda>s.
       let rows = rev (sort_key (\<lambda>(k, p). ph_captured_at p) (rev (filter (\<lambda>(k, p). ph_session_id p = None) (st_photos s))));
           stale = drop keep rows
       in Inr (map (\<lambda>(k, p). ph_relative_path p) stale,
               s\<lparr>st_photos := filter (\<lambda>(k, p). k \<notin> fst ` set stale) (st_photos s)\<rparr>))"

definition set_setting :: "string \<Rightarrow> json \<Rightarrow> store \<Rightarrow> unit result \<times> store" where
  "set_setting key v =
     transaction (\<lambda>s.
       if \<not> text_between 1 80 key then Inl (ValueError ''setting key is invalid'')
       else if length (dumps v) > 16384 then Inl (ValueError ''setting value is too large'')
       else Inr ((), s\<lparr>st_settings := od_set (st_settings s) key v\<rparr>))"

definition LOG_LIMIT :: nat where "LOG_LIMIT = 500"

definition add_diagnostic :: "int \<Rightarrow> string \<Rightarrow> string \<Rightarrow> (string \<times> json) list \<Rightarrow> store \<Rightarrow> unit result \<times> store" where
  "add_diagnostic now level code_text context =
     transaction (\<lambda>s.
       let row = \<lparr>dg_created_at = now, dg_level = take 16 level, dg_code = take 80 code_text,
                  dg_context_json = take 2000 (dumps (JObj context))\<rparr>;
           t = st_diagnostics s @ [(st_next_diagnostic s, row)]
       in Inr ((), s\<lparr>st_diagnostics := drop (length t - LOG_LIMIT) t,
                     st_next_diagnostic := st_next_diagnostic s + 1\<rparr>))"

definition anomaly_context :: "(string \<times> json) list \<Rightarrow> string" where
  "anomaly_context context =
     (let encoded = dumps (JObj context)
      in if length encoded > 4000 then
           dumps (JObj [(''truncated'', JBool True),
             (''keys'', JList (map JStr (take 40 (sort (map (\<lambda>kv. take 80 (fst kv)) context)))))])
         else encoded)"

text \<open>The newest rows by \<open>created_at\<close>, then by row number; the dictionary is in row-number order.\<close>

definition keep_newest :: "nat \<Rightarrow> ('v \<Rightarrow> int) \<Rightarrow> ('k, 'v) odict \<Rightarrow> ('k, 'v) odict" where
  "keep_newest n created t =
     (let newest = drop (length t - n) (sort_key (\<lambda>(k, v). created v) t)
      in filter (\<lambda>(k, v). k \<in> fst ` set newest) t)"

definition record_measurement_anomaly ::
    "string \<Rightarrow> int \<Rightarrow> string \<Rightarrow> string \<Rightarrow> string \<Rightarrow> string \<Rightarrow> (string \<times> json) list \<Rightarrow> string option \<Rightarrow> string option \<Rightarrow>
     string option \<Rightarrow> store \<Rightarrow> bool result \<times> store" where
  "record_measurement_anomaly anomaly_id now identity_key source observed_value reason context device_id boot_id event_seq =
     transaction (\<lambda>s.
       let key = strip identity_key; src = strip source; why = strip reason
       in if \<not> text_between 1 500 key then Inl (ValueError ''measurement anomaly identity is invalid'')
          else if \<not> text_between 1 40 src then Inl (ValueError ''measurement anomaly source is invalid'')
          else if \<not> text_between 1 500 why then Inl (ValueError ''measurement anomaly reason is invalid'')
          else
            let inserted = (\<not> od_mem anomaly_id (st_anomalies s) \<and>
                  \<not> some_row (\<lambda>a. an_identity_key a = key) (st_anomalies s));
                row = \<lparr>an_identity_key = key, an_source = src, an_device_id = device_id, an_boot_id = boot_id,
                       an_event_seq = event_seq, an_observed_value = take 200 observed_value,
                       an_reason = why, an_context_json = anomaly_context context, an_created_at = now\<rparr>;
                t = (if inserted then st_anomalies s @ [(anomaly_id, row)] else st_anomalies s)
            in Inr (inserted, s\<lparr>st_anomalies := keep_newest LOG_LIMIT an_created_at t\<rparr>))"

end
