(* ===== verification/KP_Money.thy ===== *)
theory KP_Money
  imports KP_Results
begin

text \<open>
  The money of the store: what each statement of a balance movement does, and the invariant that
  ties the balances, the account ledger and the charges of the pours together.
\<close>

section \<open>The invariant\<close>

definition balance_of :: "store \<Rightarrow> string \<Rightarrow> int option" where
  "balance_of s p = map_option pt_balance_cents (od_get (st_participants s) p)"

definition owner_of :: "store \<Rightarrow> string \<Rightarrow> string option option" where
  "owner_of s i = map_option pe_participant_id (od_get (st_pours s) i)"

definition ledger_sum :: "(ledger_row \<Rightarrow> bool) \<Rightarrow> (string, ledger_row) odict \<Rightarrow> int" where
  "ledger_sum P t = sum_list (map (\<lambda>(k, r). if P r then lg_amount_cents r else 0) t)"

definition of_person :: "string \<Rightarrow> ledger_row \<Rightarrow> bool" where
  "of_person p r \<longleftrightarrow> lg_participant_id r = p"

definition of_pour :: "string \<Rightarrow> ledger_row \<Rightarrow> bool" where
  "of_pour i r \<longleftrightarrow> lg_pour_id r = Some i"

definition charge_of :: "store \<Rightarrow> string \<Rightarrow> int" where
  "charge_of s i = (case od_get (st_charges s) i of None \<Rightarrow> 0 | Some c \<Rightarrow> ch_amount_cents c)"

text \<open>
  A balance is the sum of its ledger rows; a row has a participant; the rows of a pour sum to its
  charge; a charge is positive and belongs to the participant of its pour.
\<close>

definition money_inv :: "store \<Rightarrow> bool" where
  "money_inv s \<longleftrightarrow>
     (\<forall>p b. balance_of s p = Some b \<longrightarrow> b = ledger_sum (of_person p) (st_ledger s)) \<and>
     (\<forall>p. balance_of s p = None \<longrightarrow> list_all (\<lambda>(k, r). \<not> of_person p r) (st_ledger s)) \<and>
     (\<forall>i. ledger_sum (of_pour i) (st_ledger s) = - charge_of s i) \<and>
     (\<forall>i c. od_get (st_charges s) i = Some c \<longrightarrow>
        0 < ch_amount_cents c \<and> owner_of s i = Some (Some (ch_participant_id c)) \<and>
        balance_of s (ch_participant_id c) \<noteq> None) \<and>
     od_wf (st_charges s)"

lemma ledger_sum_simps [simp]:
  "ledger_sum P [] = 0"
  "ledger_sum P (t @ [(k, r)]) = ledger_sum P t + (if P r then lg_amount_cents r else 0)"
  by (simp_all add: ledger_sum_def)

lemma ledger_sum_none: "list_all (\<lambda>(k, r). \<not> P r) t \<Longrightarrow> ledger_sum P t = 0"
  by (induction t) (auto simp: ledger_sum_def)

lemma money_inv_frame:
  assumes "money_inv s" "balance_of s' = balance_of s" "st_ledger s' = st_ledger s"
    "st_charges s' = st_charges s" "\<And>i. owner_of s i \<noteq> None \<Longrightarrow> owner_of s' i = owner_of s i"
  shows "money_inv s'"
proof -
  have "charge_of s' = charge_of s" using assms(4) by (simp add: charge_of_def fun_eq_iff)
  moreover have "owner_of s' i = Some (Some (ch_participant_id c))"
    if "od_get (st_charges s) i = Some c" for i c
    using assms(1) assms(5) [of i] that by (auto simp: money_inv_def)
  ultimately show ?thesis using assms(1) by (simp add: money_inv_def assms(2-4))
qed

section \<open>What the statements do\<close>

lemma set_balance_iff [res_simps]:
  "set_balance p b now s = Inr s' \<longleftrightarrow> - (2 ^ 63) \<le> b \<and> b \<le> 2 ^ 63 - 1 \<and>
     s' = s\<lparr>st_participants := update_row p (\<lambda>x. x\<lparr>pt_balance_cents := b, pt_updated_at := now\<rparr>) (st_participants s)\<rparr>"
  by (auto simp: set_balance_def res_simps)

lemma add_ledger_iff [res_simps]:
  "add_ledger l p amount kind pour reason b now s = Inr s' \<longleftrightarrow>
     - (2 ^ 63) \<le> amount \<and> amount \<le> 2 ^ 63 - 1 \<and> amount \<noteq> 0 \<and>
     (\<forall>i. pour = Some i \<longrightarrow> od_mem i (st_pours s)) \<and> \<not> od_mem l (st_ledger s) \<and>
     s' = s\<lparr>st_ledger := st_ledger s @ [(l, \<lparr>lg_participant_id = p, lg_amount_cents = amount, lg_kind = kind,
              lg_pour_id = pour, lg_reason = reason, lg_balance_after_cents = b, lg_created_at = now\<rparr>)]\<rparr>"
  by (auto simp: add_ledger_def res_simps)

lemma insert_charge_iff [res_simps]:
  "insert_charge i p vol rate amount now s = Inr s' \<longleftrightarrow>
     - (2 ^ 63) \<le> amount \<and> amount \<le> 2 ^ 63 - 1 \<and> od_mem i (st_pours s) \<and> \<not> od_mem i (st_charges s) \<and>
     s' = s\<lparr>st_charges := st_charges s @ [(i, \<lparr>ch_participant_id = p, ch_volume_ml = vol, ch_rate = rate,
              ch_amount_cents = amount, ch_created_at = now\<rparr>)]\<rparr>"
  by (auto simp: insert_charge_def res_simps)

text \<open>The store after a person's balance moved by an amount booked to the ledger.\<close>

definition moved :: "string \<Rightarrow> string \<Rightarrow> int \<Rightarrow> int \<Rightarrow> ledger_kind \<Rightarrow> string option \<Rightarrow> string \<Rightarrow> int \<Rightarrow> store \<Rightarrow> store" where
  "moved l p b amount kind pour reason now s =
     s\<lparr>st_participants := update_row p (\<lambda>x. x\<lparr>pt_balance_cents := b, pt_updated_at := now\<rparr>) (st_participants s),
       st_ledger := st_ledger s @ [(l, \<lparr>lg_participant_id = p, lg_amount_cents = amount, lg_kind = kind,
              lg_pour_id = pour, lg_reason = reason, lg_balance_after_cents = b, lg_created_at = now\<rparr>)]\<rparr>"

lemma moved_simps [simp]:
  "st_charges (moved l p b a k i r n s) = st_charges s" "st_pours (moved l p b a k i r n s) = st_pours s"
  "st_results (moved l p b a k i r n s) = st_results s" "st_checkpoints (moved l p b a k i r n s) = st_checkpoints s"
  "st_kegs (moved l p b a k i r n s) = st_kegs s" "st_calibrations (moved l p b a k i r n s) = st_calibrations s"
  "st_samples (moved l p b a k i r n s) = st_samples s" "st_sessions (moved l p b a k i r n s) = st_sessions s"
  by (simp_all add: moved_def)

lemma moved_balance:
  "balance_of (moved l p b a k i r n s) q =
     (if q = p then map_option (\<lambda>_. b) (balance_of s p) else balance_of s q)"
  by (simp add: balance_of_def moved_def od_get_update_row option.map_comp o_def)

lemma moved_ledger:
  "ledger_sum P (st_ledger (moved l p b a k i r n s)) =
     ledger_sum P (st_ledger s) +
     (if P \<lparr>lg_participant_id = p, lg_amount_cents = a, lg_kind = k, lg_pour_id = i, lg_reason = r,
            lg_balance_after_cents = b, lg_created_at = n\<rparr> then a else 0)"
  by (simp add: moved_def)

lemma moved_rows:
  "list_all P (st_ledger (moved l p b a k i r n s)) \<longleftrightarrow> list_all P (st_ledger s) \<and>
     P (l, \<lparr>lg_participant_id = p, lg_amount_cents = a, lg_kind = k, lg_pour_id = i, lg_reason = r,
            lg_balance_after_cents = b, lg_created_at = n\<rparr>)"
  by (simp add: moved_def)

lemma moved_owner [simp]: "owner_of (moved l p b a k i r n s) = owner_of s"
  by (simp add: owner_of_def fun_eq_iff)

text \<open>The part of the invariant about people is kept by any movement, the part about pours shifts.\<close>

definition people_inv :: "store \<Rightarrow> bool" where
  "people_inv s \<longleftrightarrow>
     (\<forall>p b. balance_of s p = Some b \<longrightarrow> b = ledger_sum (of_person p) (st_ledger s)) \<and>
     (\<forall>p. balance_of s p = None \<longrightarrow> list_all (\<lambda>(k, r). \<not> of_person p r) (st_ledger s))"

lemma moved_people:
  assumes "people_inv s" "balance_of s p = Some b0"
  shows "people_inv (moved l p (b0 + a) a k i r n s)"
  using assms
  by (auto simp: people_inv_def moved_balance moved_ledger moved_rows of_person_def split: if_splits)

lemma moved_some [simp]: "balance_of (moved l p b a k i r n s) q = None \<longleftrightarrow> balance_of s q = None"
  by (simp add: moved_balance)

lemma money_people: "money_inv s \<Longrightarrow> people_inv s"
  by (simp add: money_inv_def people_inv_def)

definition pours_inv :: "store \<Rightarrow> bool" where
  "pours_inv s \<longleftrightarrow>
     (\<forall>i. ledger_sum (of_pour i) (st_ledger s) = - charge_of s i) \<and>
     (\<forall>i c. od_get (st_charges s) i = Some c \<longrightarrow>
        0 < ch_amount_cents c \<and> owner_of s i = Some (Some (ch_participant_id c)) \<and>
        balance_of s (ch_participant_id c) \<noteq> None) \<and>
     od_wf (st_charges s)"

lemma money_inv_parts: "money_inv s \<longleftrightarrow> people_inv s \<and> pours_inv s"
  by (auto simp: money_inv_def people_inv_def pours_inv_def)

section \<open>Charging a pour\<close>

lemma charge_pour_cases:
  assumes "charge_pour l i p vol now s = Inr s'"
  obtains (free) "s' = s"
  | (charged) row current where "0 < ch_amount_cents row" "ch_participant_id row = p"
      "od_get (st_participants s) p = Some current"
      "\<not> od_mem i (st_charges s)" "od_mem i (st_pours s)"
      "s' = moved l p (pt_balance_cents current - ch_amount_cents row) (- ch_amount_cents row) Charge (Some i)
              ''Beer pour'' now (s\<lparr>st_charges := st_charges s @ [(i, row)]\<rparr>)"
proof -
  obtain rate where rate: "price_rate s = Inr rate"
    using assms by (auto simp: charge_pour_def res_simps)
  show thesis
  proof (cases "s' = s")
    case False
    with assms rate obtain c current where c: "\<not> rate \<le> 0" "charge_amount rate vol = Inr c" "\<not> c \<le> 0"
      "od_get (st_participants s) p = Some current"
      by (auto simp: charge_pour_def res_simps split: if_splits option.splits)
    let ?row = "\<lparr>ch_participant_id = p, ch_volume_ml = vol, ch_rate = rate, ch_amount_cents = c,
      ch_created_at = now\<rparr>"
    show thesis
      using assms rate c by (intro charged [of ?row current])
        (auto simp: charge_pour_def res_simps Let_def moved_def)
  qed (rule free)
qed

lemma charge_pour_money:
  assumes "charge_pour l i p vol now s = Inr s'" "people_inv s" "pours_inv s" "owner_of s i = Some (Some p)"
  shows "money_inv s'"
  using assms(1)
proof (cases rule: charge_pour_cases)
  case free
  then show ?thesis using assms by (simp add: money_inv_parts)
next
  case (charged row current)
  let ?c = "ch_amount_cents row" and ?s = "s\<lparr>st_charges := st_charges s @ [(i, row)]\<rparr>"
  have b: "balance_of ?s q = balance_of s q" "owner_of ?s = owner_of s" for q
    by (simp_all add: balance_of_def owner_of_def fun_eq_iff)
  have "people_inv ?s" using assms(2) by (simp add: people_inv_def b)
  moreover have cur: "balance_of ?s p = Some (pt_balance_cents current)"
    using charged(3) by (simp add: balance_of_def)
  ultimately have "people_inv s'"
    using moved_people [of ?s p "pt_balance_cents current" l "- ?c" Charge "Some i" "''Beer pour''" now] charged(6)
    by simp
  moreover have "pours_inv s'"
  proof -
    have ch: "od_get (st_charges s') j = (if j = i then Some row else od_get (st_charges s) j)" for j
      using charged(4,6) by (simp add: od_get_snoc od_mem_iff split: option.splits)
    have "charge_of s' j = (if j = i then ?c else charge_of s j)" for j
      using ch [of j] by (simp add: charge_of_def)
    moreover have "charge_of s i = 0" using charged(4) by (simp add: charge_of_def od_mem_iff)
    moreover have "ledger_sum (of_pour j) (st_ledger s') =
        ledger_sum (of_pour j) (st_ledger s) + (if j = i then - ?c else 0)" for j
      using charged(6) by (simp add: moved_ledger of_pour_def)
    moreover have own: "owner_of s' = owner_of s" and bal: "balance_of s' q = None \<longleftrightarrow> balance_of s q = None" for q
      using b charged(6) by simp_all
    moreover have "balance_of s p \<noteq> None" using cur b by simp
    moreover have "od_wf (st_charges s')"
      using assms(3) charged(4,6) by (simp add: pours_inv_def od_wf_snoc)
    ultimately show ?thesis using assms(3,4) charged(1,2)
      by (auto simp: pours_inv_def ch)
  qed
  ultimately show ?thesis by (simp add: money_inv_parts)
qed

section \<open>The operations\<close>

lemma transaction_keeps:
  "(\<And>x s'. body s = Inr (x, s') \<Longrightarrow> P s') \<Longrightarrow> P s \<Longrightarrow> P (snd (transaction body s))"
  by (cases rule: transaction_cases [of body s]) simp_all

text \<open>A new participant starts with nothing in the ledger.\<close>

lemma create_participant_money: "money_inv s \<Longrightarrow> money_inv (snd (create_participant pid now name s))"
  unfolding create_participant_def
proof (rule transaction_keeps)
  fix x s'
  assume inv: "money_inv s" and "(let name' = strip name; row = \<lparr>pt_display_name = name', pt_active = True,
      pt_balance_cents = 0, pt_avatar_updated_at = None, pt_created_at = now, pt_updated_at = now\<rparr>
    in if \<not> text_between 1 80 name' then Inl (ValueError ''display name must contain 1 to 80 characters'')
       else bind_res (insert_row ''participants.id'' pid row (st_participants s)) (\<lambda>t.
              Inr (row, s\<lparr>st_participants := t\<rparr>))) = Inr (x, s')"
  then have fresh: "\<not> od_mem pid (st_participants s)"
    and s': "s' = s\<lparr>st_participants := st_participants s @ [(pid, \<lparr>pt_display_name = strip name, pt_active = True,
      pt_balance_cents = 0, pt_avatar_updated_at = None, pt_created_at = now, pt_updated_at = now\<rparr>)]\<rparr>"
    by (auto simp: res_simps Let_def)
  then have "balance_of s' p = (if p = pid then Some 0 else balance_of s p)" "balance_of s pid = None" for p
    by (simp_all add: balance_of_def od_get_snoc od_mem_iff split: option.splits)
  then show "money_inv s'"
    using inv s' ledger_sum_none [of "of_person pid" "st_ledger s"]
    by (auto simp: money_inv_def owner_of_def charge_of_def)
qed

lemma money_profile_row:
  assumes "money_inv s" "od_get (st_participants s) p = Some old" "pt_balance_cents (f old) = pt_balance_cents old"
  shows "money_inv (s\<lparr>st_participants := update_row p f (st_participants s)\<rparr>)"
  using assms(1)
proof (rule money_inv_frame)
  show "balance_of (s\<lparr>st_participants := update_row p f (st_participants s)\<rparr>) = balance_of s"
    using assms(2,3) by (auto simp: balance_of_def fun_eq_iff od_get_update_row)
qed (simp_all add: owner_of_def)

lemma update_participant_money: "money_inv s \<Longrightarrow> money_inv (snd (update_participant now p name act s))"
  unfolding update_participant_def
  by (rule transaction_keeps) (auto simp: res_simps Let_def intro!: money_profile_row)

lemma mark_avatar_money: "money_inv s \<Longrightarrow> money_inv (snd (mark_participant_avatar now p only s))"
  unfolding mark_participant_avatar_def
  by (rule transaction_keeps) (auto simp: res_simps Let_def intro!: money_profile_row split: if_splits)

lemma clear_avatar_money: "money_inv s \<Longrightarrow> money_inv (snd (clear_participant_avatar now p s))"
  unfolding clear_participant_avatar_def
  by (rule transaction_keeps) (auto simp: res_simps Let_def intro!: money_profile_row)

lemma adjust_cases:
  assumes "adjust_participant_balance l now p amount reason s = (Inr x, s')"
  obtains n current where "amount = VInt n" "n \<noteq> 0" "\<bar>n\<bar> \<le> 10000000" "od_get (st_participants s) p = Some current"
    "s' = moved l p (pt_balance_cents current + n) n Adjustment None (strip reason) now s"
  using assms
  by (auto simp: adjust_participant_balance_def transaction_Inr res_simps Let_def moved_def split: pyval.splits if_splits)

lemma adjust_money: "money_inv s \<Longrightarrow> money_inv (snd (adjust_participant_balance l now p amount reason s))"
proof (cases "adjust_participant_balance l now p amount reason s")
  case (Pair r s')
  assume inv: "money_inv s"
  show ?thesis
  proof (cases r)
    case (Inl e)
    then have "s' = s" using Pair by (simp add: adjust_participant_balance_def transaction_Inl)
    then show ?thesis using Pair inv by simp
  next
    case (Inr x)
    with Pair obtain n current where c: "od_get (st_participants s) p = Some current"
        "s' = moved l p (pt_balance_cents current + n) n Adjustment None (strip reason) now s"
      by (auto elim: adjust_cases)
    then have "people_inv s'" using moved_people money_people [OF inv] by (simp add: balance_of_def)
    moreover have "pours_inv s'"
      using inv c(2) by (simp add: money_inv_parts pours_inv_def moved_ledger of_pour_def charge_of_def)
    ultimately show ?thesis using Pair by (simp add: money_inv_parts)
  qed
qed

end
