(* ===== verification/KP_StoreFrames.thy ===== *)
theory KP_StoreFrames
  imports KP_Money
begin

section \<open>Operations that leave the measurements alone\<close>

text \<open>
  The tables that account for pulses and money.  The operations on kegs, calibrations, captures,
  photos, settings and logs do not write them.
\<close>

definition core :: "store \<Rightarrow> (string, participant) odict \<times> (string, ledger_row) odict \<times> (string, charge) odict \<times>
    (string, pour) odict \<times> (event_key, stored_result) odict \<times> (string \<times> string, checkpoint) odict" where
  "core s = (st_participants s, st_ledger s, st_charges s, st_pours s, st_results s, st_checkpoints s)"

named_theorems core_frame \<open>operations that keep the measurement tables\<close>

lemma core_simps [simp]:
  "core (s\<lparr>st_kegs := k\<rparr>) = core s" "core (s\<lparr>st_calibrations := c\<rparr>) = core s"
  "core (s\<lparr>st_samples := sm\<rparr>) = core s" "core (s\<lparr>st_verifications := v\<rparr>) = core s"
  "core (s\<lparr>st_sessions := ss\<rparr>) = core s" "core (s\<lparr>st_adjustments := a\<rparr>) = core s"
  "core (s\<lparr>st_photos := p\<rparr>) = core s" "core (s\<lparr>st_anomalies := an\<rparr>) = core s"
  "core (s\<lparr>st_settings := st\<rparr>) = core s" "core (s\<lparr>st_diagnostics := d\<rparr>) = core s"
  "core (s\<lparr>st_next_diagnostic := n\<rparr>) = core s" "core (s\<lparr>st_audit := au\<rparr>) = core s"
  by (simp_all add: core_def)

lemma core_helpers [simp]:
  "core (set_status now i st s) = core s" "core (set_captured now i st raw s) = core s"
  "core (set_consumed now i e s) = core s" "core (make_active c f n now s) = core s"
  by (simp_all add: set_status_def set_captured_def set_consumed_def make_active_def)

lemma update_outlier_core: "update_outlier_flags rows s = Inr s' \<Longrightarrow> core s' = core s"
  by (auto simp: update_outlier_flags_def res_simps split: if_splits list.splits)

lemma store_sample_core: "store_sample i now c n x s = Inr s' \<Longrightarrow> core s' = core s"
  by (auto simp: store_sample_def res_simps Let_def dest!: update_outlier_core)

lemma insert_verification_core: "insert_verification i now c k raw m d e th s = Inr (row, s') \<Longrightarrow> core s' = core s"
  by (auto simp: insert_verification_def res_simps Let_def split: prod.splits)

lemma core_keeps:
  "(\<And>x s'. body s = Inr (x, s') \<Longrightarrow> core s' = core s) \<Longrightarrow> core (snd (transaction body s)) = core s"
  by (rule transaction_keeps) simp_all

lemma bind_InrE: "bind_res r f = Inr y \<Longrightarrow> (\<And>x. r = Inr x \<Longrightarrow> f x = Inr y \<Longrightarrow> P) \<Longrightarrow> P"
  by (auto simp: bind_res_eq_Inr)

lemmas frame_helpers = update_outlier_core store_sample_core insert_verification_core

lemma replace_keg_core [core_frame]: "core (snd (replace_keg k now l v n t s)) = core s"
  unfolding replace_keg_def
  by (rule core_keeps)
    (auto simp: res_simps Let_def simp del: split_paired_Ex split: if_split_asm)

lemma adjust_inventory_core [core_frame]: "core (snd (adjust_inventory a now k m r s)) = core s"
  unfolding adjust_inventory_def
  by (rule core_keeps)
    (clarsimp simp: res_simps Let_def frame_helpers split: option.splits pyval.splits if_split_asm prod.splits)

lemma set_current_keg_remaining_percent_core [core_frame]: "core (snd (set_current_keg_remaining_percent a now pc r s)) = core s"
  unfolding set_current_keg_remaining_percent_def
  by (rule core_keeps)
    (clarsimp simp: res_simps Let_def frame_helpers split: option.splits pyval.splits if_split_asm prod.splits)

lemma create_calibration_core [core_frame]: "core (snd (create_calibration c now l d n s)) = core s"
  unfolding create_calibration_def
  by (rule core_keeps)
    (clarsimp simp: res_simps Let_def frame_helpers split: option.splits pyval.splits if_split_asm prod.splits)

lemma add_calibration_sample_core [core_frame]: "core (snd (add_calibration_sample i now c od raw m d inc s)) = core s"
  unfolding add_calibration_sample_def
  by (rule core_keeps)
    (clarsimp simp: res_simps Let_def frame_helpers split: option.splits pyval.splits if_split_asm prod.splits)

lemma set_sample_included_core [core_frame]: "core (snd (set_sample_included c od inc s)) = core s"
  unfolding set_sample_included_def
  by (rule core_keeps)
    (clarsimp simp: res_simps Let_def frame_helpers split: option.splits pyval.splits if_split_asm prod.splits)

lemma activate_calibration_core [core_frame]: "core (snd (activate_calibration now c s)) = core s"
  unfolding activate_calibration_def
  by (rule core_keeps)
    (clarsimp simp: res_simps Let_def frame_helpers split: option.splits pyval.splits if_split_asm prod.splits)

lemma activate_provisional_calibration_core [core_frame]: "core (snd (activate_provisional_calibration now c s)) = core s"
  unfolding activate_provisional_calibration_def
  by (rule core_keeps)
    (auto simp: res_simps Let_def simp del: split_paired_Ex split: if_split_asm)

lemma add_verification_core [core_frame]: "core (snd (add_verification i now raw m d th s)) = core s"
  unfolding add_verification_def
  by (rule core_keeps)
    (auto elim!: bind_InrE simp: Let_def insert_row_iff dest!: insert_verification_core split: option.split_asm pyval.split_asm if_split_asm prod.split_asm)

lemma create_provisional_core [core_frame]: "core (snd (create_provisional i now p key pu c od s)) = core s"
  unfolding create_provisional_def
  by (rule core_keeps)
    (clarsimp simp: res_simps Let_def frame_helpers split: option.splits pyval.splits if_split_asm prod.splits)

lemma bind_provisional_core [core_frame]: "core (snd (bind_provisional now i dev boot sq life s)) = core s"
  unfolding bind_provisional_def
  by (rule core_keeps)
    (clarsimp simp: res_simps Let_def frame_helpers split: option.splits pyval.splits if_split_asm prod.splits)

lemma update_provisional_status_core [core_frame]: "core (snd (update_provisional_status now i st s)) = core s"
  unfolding update_provisional_status_def
  by (rule core_keeps)
    (clarsimp simp: res_simps Let_def frame_helpers split: option.splits pyval.splits if_split_asm prod.splits)

lemma consume_calibration_capture_core [core_frame]: "core (snd (consume_calibration_capture x now i m d inc s)) = core s"
  unfolding consume_calibration_capture_def
  by (rule core_keeps)
    (auto elim!: bind_InrE simp: Let_def dest!: store_sample_core split: option.split_asm if_split_asm)

lemma consume_verification_capture_core [core_frame]: "core (snd (consume_verification_capture x now i m d th s)) = core s"
  unfolding consume_verification_capture_def
  by (rule core_keeps)
    (auto elim!: bind_InrE simp: Let_def insert_row_iff dest!: insert_verification_core split: option.split_asm pyval.split_asm if_split_asm prod.split_asm)

lemma add_pour_photo_core [core_frame]: "core (snd (add_pour_photo i now sid path sz sha s)) = core s"
  unfolding add_pour_photo_def
  by (rule core_keeps)
    (auto elim!: bind_InrE simp: Let_def insert_row_iff dest!: insert_verification_core split: option.split_asm pyval.split_asm if_split_asm prod.split_asm)

lemma prune_unattributed_photos_core [core_frame]: "core (snd (prune_unattributed_photos keep s)) = core s"
  unfolding prune_unattributed_photos_def
  by (rule core_keeps)
    (clarsimp simp: res_simps Let_def frame_helpers split: option.splits pyval.splits if_split_asm prod.splits)

lemma set_setting_core [core_frame]: "core (snd (set_setting key v s)) = core s"
  unfolding set_setting_def
  by (rule core_keeps)
    (clarsimp simp: res_simps Let_def frame_helpers split: option.splits pyval.splits if_split_asm prod.splits)

lemma add_diagnostic_core [core_frame]: "core (snd (add_diagnostic now lv cd ctx s)) = core s"
  unfolding add_diagnostic_def
  by (rule core_keeps)
    (clarsimp simp: res_simps Let_def frame_helpers split: option.splits pyval.splits if_split_asm prod.splits)

lemma record_measurement_anomaly_core [core_frame]: "core (snd (record_measurement_anomaly i now key src ov why ctx dev boot sq s)) = core s"
  unfolding record_measurement_anomaly_def
  by (rule core_keeps)
    (clarsimp simp: res_simps Let_def frame_helpers split: option.splits pyval.splits if_split_asm prod.splits)

end
