(* ===== verification/KP_Exact.thy ===== *)
theory KP_Exact
  imports KP_StoreFrames
begin

section \<open>Pulses: each event once, each recovered pulse once\<close>

text \<open>
  A stored device result that names a pour names the pour of its event with its pulses, and every
  pour of an event has that result.  The recovery pours of a device boot sum to its checkpoint.
\<close>

definition event_of :: "pour \<Rightarrow> string \<times> string \<times> int option" where
  "event_of p = (pe_device_id p, pe_boot_id p, pe_event_seq p)"

definition events_inv :: "store \<Rightarrow> bool" where
  "events_inv s \<longleftrightarrow>
     (\<forall>dev boot sq d i. od_get (st_results s) (dev, boot, sq) = Some d \<longrightarrow> sr_pour_id d = Some i \<longrightarrow>
        (\<exists>p. od_get (st_pours s) i = Some p \<and> event_of p = (dev, boot, Some sq) \<and>
             pe_raw_pulses p = sr_raw_pulses d)) \<and>
     (\<forall>i p sq. od_get (st_pours s) i = Some p \<longrightarrow> pe_event_seq p = Some sq \<longrightarrow>
        (\<exists>d. od_get (st_results s) (pe_device_id p, pe_boot_id p, sq) = Some d \<and> sr_pour_id d = Some i))"

definition from_recovery :: "string \<Rightarrow> string \<Rightarrow> pour \<Rightarrow> bool" where
  "from_recovery dev boot p \<longleftrightarrow> event_of p = (dev, boot, None) \<and> pe_fault p = ''device_recovery_counter''"

definition recovery_sum :: "string \<Rightarrow> string \<Rightarrow> (string, pour) odict \<Rightarrow> int" where
  "recovery_sum dev boot t = sum_list (map (\<lambda>(k, p). if from_recovery dev boot p then pe_raw_pulses p else 0) t)"

definition checkpoint_inv :: "store \<Rightarrow> bool" where
  "checkpoint_inv s \<longleftrightarrow>
     (\<forall>dev boot. recovery_sum dev boot (st_pours s) = fst (cp_numbers (od_get (st_checkpoints s) (dev, boot))))"

definition store_inv :: "store \<Rightarrow> bool" where
  "store_inv s \<longleftrightarrow> money_inv s \<and> events_inv s \<and> checkpoint_inv s"

lemma recovery_sum_simps [simp]:
  "recovery_sum dev boot [] = 0"
  "recovery_sum dev boot (t @ [(k, p)]) =
     recovery_sum dev boot t + (if from_recovery dev boot p then pe_raw_pulses p else 0)"
  by (simp_all add: recovery_sum_def)

lemma recovery_sum_update:
  "(\<And>p. from_recovery dev boot (f p) = from_recovery dev boot p) \<Longrightarrow> (\<And>p. pe_raw_pulses (f p) = pe_raw_pulses p) \<Longrightarrow>
   recovery_sum dev boot (update_row k f t) = recovery_sum dev boot t"
  by (induction t) (auto simp: recovery_sum_def update_row_def)

lemma core_fields:
  assumes "core s' = core s"
  shows "st_participants s' = st_participants s" "st_ledger s' = st_ledger s" "st_charges s' = st_charges s"
    "st_pours s' = st_pours s" "st_results s' = st_results s" "st_checkpoints s' = st_checkpoints s"
  using assms by (simp_all add: core_def)

lemma core_eq_iff:
  "core s' = core s \<longleftrightarrow> st_participants s' = st_participants s \<and> st_ledger s' = st_ledger s \<and>
     st_charges s' = st_charges s \<and> st_pours s' = st_pours s \<and> st_results s' = st_results s \<and>
     st_checkpoints s' = st_checkpoints s"
  by (auto simp: core_def)

lemma money_inv_core: "core s' = core s \<Longrightarrow> money_inv s' = money_inv s"
  by (simp add: core_eq_iff money_inv_def balance_of_def owner_of_def charge_of_def)

lemma events_inv_core: "core s' = core s \<Longrightarrow> events_inv s' = events_inv s"
  by (simp add: core_eq_iff events_inv_def)

lemma checkpoint_inv_core: "core s' = core s \<Longrightarrow> checkpoint_inv s' = checkpoint_inv s"
  by (simp add: core_eq_iff checkpoint_inv_def)

lemma store_inv_core: "core s' = core s \<Longrightarrow> store_inv s' = store_inv s"
  using money_inv_core [of s' s] events_inv_core [of s' s] checkpoint_inv_core [of s' s]
  by (simp only: store_inv_def)

lemma insert_pour_iff [res_simps]:
  "insert_pour i row s = Inr s' \<longleftrightarrow>
     \<not> some_row (\<lambda>p. pe_session_id p = pe_session_id row) (st_pours s) \<and>
     \<not> some_row (\<lambda>p. same_event p row) (st_pours s) \<and> 0 \<le> pe_raw_pulses row \<and>
     (\<forall>x. pe_participant_id row = Some x \<longrightarrow> od_mem x (st_participants s)) \<and>
     (\<forall>x. pe_keg_id row = Some x \<longrightarrow> od_mem x (st_kegs s)) \<and>
     (\<forall>x. pe_calibration_id row = Some x \<longrightarrow> od_mem x (st_calibrations s)) \<and>
     \<not> od_mem i (st_pours s) \<and> s' = s\<lparr>st_pours := st_pours s @ [(i, row)]\<rparr>"
  by (auto simp: insert_pour_def res_simps)

lemma insert_result_iff [res_simps]:
  "insert_result key row s = Inr s' \<longleftrightarrow> \<not> od_mem key (st_results s) \<and> s' = s\<lparr>st_results := st_results s @ [(key, row)]\<rparr>"
  by (auto simp: insert_result_def res_simps)

lemma od_get_fresh_snoc:
  "\<not> od_mem k t \<Longrightarrow> od_get (t @ [(k, v)]) j = (if j = k then Some v else od_get t j)"
  by (simp add: od_get_snoc od_mem_iff split: option.splits)

text \<open>A pour row alone: money is untouched, recovery sums grow by a recovery pour.\<close>

lemma add_pour_money:
  "money_inv s \<Longrightarrow> \<not> od_mem i (st_pours s) \<Longrightarrow> money_inv (s\<lparr>st_pours := st_pours s @ [(i, row)]\<rparr>)"
  by (erule money_inv_frame) (auto simp: balance_of_def owner_of_def od_get_fresh_snoc od_mem_iff)

lemma add_result_core:
  "money_inv (s\<lparr>st_results := r\<rparr>) = money_inv s" "checkpoint_inv (s\<lparr>st_results := r\<rparr>) = checkpoint_inv s"
  by (simp_all add: money_inv_def balance_of_def owner_of_def charge_of_def checkpoint_inv_def)

text \<open>The same pulses and events before and after.\<close>

definition pulse_view :: "store \<Rightarrow> (string, pour) odict \<times> (event_key, stored_result) odict \<times> (string \<times> string, checkpoint) odict" where
  "pulse_view s = (st_pours s, st_results s, st_checkpoints s)"

lemma pulse_view_inv:
  "pulse_view s' = pulse_view s \<Longrightarrow> events_inv s' = events_inv s \<and> checkpoint_inv s' = checkpoint_inv s"
  by (simp add: pulse_view_def events_inv_def checkpoint_inv_def)

lemma charge_pour_view: "charge_pour l i p vol now s = Inr s' \<Longrightarrow> pulse_view s' = pulse_view s"
  by (erule charge_pour_cases) (simp_all add: pulse_view_def)

lemma core_view: "core s' = core s \<Longrightarrow> pulse_view s' = pulse_view s"
  by (simp add: core_eq_iff pulse_view_def)

section \<open>Committing a result\<close>

lemma commit_pour_cases:
  assumes "commit_pour pid l sid pv r k c cap t0 t1 s = Inr ((out, dup), s')"
  obtains row s2 s3 where "\<not> dup"
    "\<not> od_mem pid (st_pours s)" "\<not> od_mem (event_key r) (st_results s)" "0 \<le> dr_raw_pulses r"
    "event_of row = (dr_device_id r, dr_boot_id r, Some (dr_event_seq r))" "pe_raw_pulses row = dr_raw_pulses r"
    "pe_participant_id row = (case pv of None \<Rightarrow> None | Some v \<Rightarrow> pv_participant_id v)"
    "pe_session_id row = sid"
    "s2 = s\<lparr>st_pours := st_pours s @ [(pid, row)],
            st_results := st_results s @ [(event_key r, stored_result_of sid r (Some pid) t1)]\<rparr>"
    "s3 = s2 \<or> (\<exists>p vol. pe_participant_id row = Some p \<and> charge_pour l pid p vol t1 s2 = Inr s3)"
    "core s' = core s3" "out = Some row"
proof -
  obtain keg cal where ctx: "pour_context pv k c cap s = (keg, cal)" by force
  obtain vol where vol: "volume_of (dr_raw_pulses r) (factor_of cal s) = Inr vol"
    using assms by (auto simp: commit_pour_def ctx res_simps Let_def)
  let ?row = "pour_of_result sid pv r keg cal (factor_of cal s) vol t0 t1"
  let ?s2 = "s\<lparr>st_pours := st_pours s @ [(pid, ?row)],
            st_results := st_results s @ [(event_key r, stored_result_of sid r (Some pid) t1)]\<rparr>"
  have fields: "event_of ?row = (dr_device_id r, dr_boot_id r, Some (dr_event_seq r))"
    "pe_raw_pulses ?row = dr_raw_pulses r" "pe_session_id ?row = sid"
    "pe_participant_id ?row = (case pv of None \<Rightarrow> None | Some v \<Rightarrow> pv_participant_id v)"
    by (simp_all add: pour_of_result_def event_of_def)
  obtain s3 where s3: "(case (pe_participant_id ?row, vol) of (Some p, Some v) \<Rightarrow> charge_pour l pid p v t1 ?s2
                        | _ \<Rightarrow> Inr ?s2) = Inr s3"
    and ins: "\<not> od_mem pid (st_pours s)" "\<not> od_mem (event_key r) (st_results s)" "0 \<le> dr_raw_pulses r"
    and out: "s' = (if pv \<noteq> None then set_status t1 sid ''complete'' s3 else s3)" "\<not> dup"
      "out = od_get (st_pours s') pid"
    using assms fields(2)
    by (auto simp: commit_pour_def ctx vol res_simps Let_def simp del: not_None_eq cong: option.case_cong prod.case_cong)
  have cases: "s3 = ?s2 \<or> (\<exists>p v. pe_participant_id ?row = Some p \<and> charge_pour l pid p v t1 ?s2 = Inr s3)"
    using s3 by (auto split: option.splits)
  then have "st_pours s3 = st_pours ?s2"
    using charge_pour_view by (fastforce simp: pulse_view_def)
  then have "od_get (st_pours s3) pid = Some ?row" using ins(1) by (simp add: od_get_fresh_snoc)
  moreover have "core s' = core s3" using out(1) by simp
  ultimately have "out = Some ?row" using out(3) core_fields(4) by metis
  with that [of ?row ?s2 s3] fields ins out(2) cases \<open>core s' = core s3\<close> show thesis by blast
qed

lemma commit_pour_inv:
  assumes "commit_pour pid l sid pv r k c cap t0 t1 s = Inr ((out, dup), s')" "store_inv s"
  shows "store_inv s'"
  using assms(1)
proof (cases rule: commit_pour_cases)
  case (1 row s2 s3)
  have m2: "money_inv s2"
    using add_pour_money [of s pid row] assms(2) 1 add_result_core(1) [of _ "s\<lparr>st_pours := st_pours s @ [(pid, row)]\<rparr>"]
    by (simp add: store_inv_def)
  have own: "owner_of s2 pid = Some (pe_participant_id row)"
    using 1 by (simp add: owner_of_def od_get_fresh_snoc)
  have m3: "money_inv s3"
    using 1(10) m2 own charge_pour_money [of l pid _ _ t1 s2 s3] by (auto simp: money_inv_parts)
  have v3: "pulse_view s3 = pulse_view s2" using 1(10) charge_pour_view by blast
  have c2: "checkpoint_inv s2"
    using assms(2) 1 by (simp add: store_inv_def checkpoint_inv_def from_recovery_def)
  have "events_inv s2"
  proof -
    have ev: "events_inv s" using assms(2) by (simp add: store_inv_def)
    have rget: "od_get (st_results s2) j = (if j = event_key r then Some (stored_result_of sid r (Some pid) t1)
        else od_get (st_results s) j)" for j using 1 by (simp add: od_get_fresh_snoc)
    have pget: "od_get (st_pours s2) j = (if j = pid then Some row else od_get (st_pours s) j)" for j
      using 1 by (simp add: od_get_fresh_snoc)
    have none: "od_get (st_pours s) pid = None" "od_get (st_results s) (event_key r) = None"
      using 1 by (auto simp: od_mem_iff)
    show ?thesis
      unfolding events_inv_def
    proof (intro conjI allI impI, goal_cases)
      case (1 dev boot sq d i)
      show ?case
      proof (cases "(dev, boot, sq) = event_key r")
        case True
        with 1 have "i = pid" "sr_raw_pulses d = dr_raw_pulses r" by (auto simp: rget stored_result_of_def)
        then show ?thesis
          using True \<open>event_of row = _\<close> \<open>pe_raw_pulses row = _\<close> by (simp add: pget event_key_def)
      next
        case False
        with 1 ev obtain p where "od_get (st_pours s) i = Some p" "event_of p = (dev, boot, Some sq)"
            "pe_raw_pulses p = sr_raw_pulses d"
          unfolding events_inv_def by (metis rget)
        then show ?thesis using none by (auto simp: pget)
      qed
    next
      case (2 i p sq)
      show ?case
      proof (cases "i = pid")
        case True
        with 2 have "(pe_device_id p, pe_boot_id p, sq) = event_key r"
          using \<open>event_of row = _\<close> by (simp add: pget event_of_def event_key_def)
        then show ?thesis using True by (simp add: rget stored_result_of_def)
      next
        case False
        with 2 ev obtain d where "od_get (st_results s) (pe_device_id p, pe_boot_id p, sq) = Some d"
            "sr_pour_id d = Some i"
          unfolding events_inv_def by (metis pget)
        then show ?thesis using none by (metis option.distinct(1) rget)
      qed
    qed
  qed
  with m3 v3 c2 have "store_inv s3" using pulse_view_inv [OF v3] by (simp add: store_inv_def)
  then show ?thesis using store_inv_core [OF 1(11)] by simp
qed

text \<open>A result without a pour.\<close>

lemma plain_result_inv:
  assumes "store_inv s" "\<not> od_mem key (st_results s)" "sr_pour_id d = None"
    "core s' = core (s\<lparr>st_results := st_results s @ [(key, d)]\<rparr>)"
  shows "store_inv s'"
proof -
  let ?s = "s\<lparr>st_results := st_results s @ [(key, d)]\<rparr>"
  have get: "od_get (st_results ?s) j = (if j = key then Some d else od_get (st_results s) j)" for j
    using assms(2) by (simp add: od_get_fresh_snoc)
  have "od_get (st_results s) key = None" using assms(2) by (simp add: od_mem_iff)
  then have "events_inv ?s"
    using assms(1,3) unfolding store_inv_def events_inv_def get by (auto split: if_splits) (metis option.distinct(1))
  then have "store_inv ?s" using assms(1) by (simp add: store_inv_def add_result_core)
  then show ?thesis using store_inv_core [OF assms(4)] by simp
qed

text \<open>The outcomes of \<open>finalize_device_result\<close>.\<close>

lemma finalize_cases:
  assumes "finalize_device_result u pid l now r k c cap s = (Inr (out, dup), s')"
  obtains (replayed) d where "dup" "s' = s" "od_get (st_results s) (event_key r) = Some d"
      "case sr_pour_id d of None \<Rightarrow> out = None | Some i \<Rightarrow> out = od_get (st_pours s) i \<and> out \<noteq> None"
  | (no_pour) d where "\<not> dup" "out = None" "\<not> od_mem (event_key r) (st_results s)" "sr_pour_id d = None"
      "sr_raw_pulses d = dr_raw_pulses r"
      "core s' = core (s\<lparr>st_results := st_results s @ [(event_key r, d)]\<rparr>)"
  | (poured) sid pv t0 where "\<not> od_mem (event_key r) (st_results s)"
      "commit_pour pid l sid pv r k c cap t0 now s = Inr ((out, dup), s')"
      "result_session u r = Inr sid"
      "pv = (if truthy (dr_session_id r) then od_get (st_sessions s) sid else None)"
proof -
  obtain duration sid where d: "elapsed_u32 (dr_started_ms r) (dr_ended_ms r) = Inr duration"
      "result_session u r = Inr sid"
    using assms by (auto simp: finalize_device_result_def transaction_Inr Let_def elim!: bind_InrE)
  define pv where "pv = (if truthy (dr_session_id r) then od_get (st_sessions s) sid else None)"
  show thesis
  proof (cases "od_get (st_results s) (event_key r)")
    case (Some row)
    then have "replay_result row s = Inr ((out, dup), s')"
      using assms d by (auto simp: finalize_device_result_def transaction_Inr Let_def elim!: bind_InrE split: if_splits)
    then show thesis
      using Some by (intro replayed [of row]) (auto simp: replay_result_def res_simps split: option.splits)
  next
    case None
    then have fresh: "\<not> od_mem (event_key r) (st_results s)" by (simp add: od_mem_iff)
    have "commit_capture sid r now s = Inr ((out, dup), s') \<or> commit_timeout sid pv r now s = Inr ((out, dup), s') \<or>
        commit_pour pid l sid pv r k c cap (now - duration) now s = Inr ((out, dup), s')"
      using assms d None
      by (auto simp: finalize_device_result_def transaction_Inr Let_def pv_def elim!: bind_InrE split: if_splits)
    then show thesis
    proof (elim disjE)
      assume "commit_capture sid r now s = Inr ((out, dup), s')"
      then show thesis
        by (intro no_pour [of "stored_result_of sid r None now"])
          (auto simp: commit_capture_def res_simps stored_result_of_def core_def set_captured_def)
    next
      assume "commit_timeout sid pv r now s = Inr ((out, dup), s')"
      then show thesis
        by (intro no_pour [of "stored_result_of sid r None now"])
          (auto simp: commit_timeout_def res_simps stored_result_of_def core_def set_status_def)
    qed (rule poured [OF fresh _ d(2) pv_def])
  qed
qed

lemma finalize_result_inv: "store_inv s \<Longrightarrow> store_inv (snd (finalize_device_result u pid l now r k c cap s))"
proof (cases "finalize_device_result u pid l now r k c cap s")
  case (Pair res s')
  assume inv: "store_inv s"
  show ?thesis
  proof (cases res)
    case (Inl e)
    then have "s' = s" using Pair by (simp add: finalize_device_result_def transaction_Inl)
    then show ?thesis using Pair inv by simp
  next
    case (Inr x)
    with Pair obtain out dup where f: "finalize_device_result u pid l now r k c cap s = (Inr (out, dup), s')"
      by (cases x) simp
    from f have "store_inv s'"
    proof (cases rule: finalize_cases)
      case (no_pour d)
      then show ?thesis using plain_result_inv [OF inv] by blast
    next
      case (poured sid pv t0)
      then show ?thesis using commit_pour_inv inv by blast
    qed (simp add: inv)
    then show ?thesis using Pair by simp
  qed
qed

section \<open>Recovered pulses\<close>

lemma add_unsequenced_events:
  assumes "events_inv s" "\<not> od_mem i (st_pours s)" "pe_event_seq row = None"
  shows "events_inv (s\<lparr>st_pours := st_pours s @ [(i, row)]\<rparr>)"
proof -
  have get: "od_get (st_pours (s\<lparr>st_pours := st_pours s @ [(i, row)]\<rparr>)) j =
      (if j = i then Some row else od_get (st_pours s) j)" for j
    using assms(2) by (simp add: od_get_fresh_snoc)
  have "od_get (st_pours s) i = None" using assms(2) by (simp add: od_mem_iff)
  then show ?thesis
    using assms(1,3) unfolding events_inv_def get by (auto split: if_splits) (metis option.distinct(1))+
qed

lemma recovered_fields [simp]:
  "pe_event_seq (recovered_pour x k c dev boot n v now up f) = None"
  "pe_fault (recovered_pour x k c dev boot n v now up f) = f"
  "pe_raw_pulses (recovered_pour x k c dev boot n v now up f) = n"
  "pe_participant_id (recovered_pour x k c dev boot n v now up f) = None"
  "pe_session_id (recovered_pour x k c dev boot n v now up f) = x"
  "event_of (recovered_pour x k c dev boot n v now up f) = (dev, boot, None)"
  by (simp_all add: recovered_pour_def event_of_def)

lemma recover_cases:
  assumes "recover_same_boot_delta u pid now sid dev boot a b up s = (Inr (out, dup), s')"
  obtains (same) "core s' = core s"
  | (added) row where "\<not> od_mem pid (st_pours s)" "pe_event_seq row = None" "pe_fault row = ''same_boot_lifetime_delta''"
      "pe_raw_pulses row = b - a" "\<not> dup" "out = Inl row"
      "core s' = core (s\<lparr>st_pours := st_pours s @ [(pid, row)]\<rparr>)"
proof -
  have "core s' = core s \<or>
    (\<exists>row. out = Inl row \<and> \<not> od_mem pid (st_pours s) \<and> \<not> dup \<and> pe_event_seq row = None \<and>
       pe_fault row = ''same_boot_lifetime_delta'' \<and> pe_raw_pulses row = b - a \<and>
       core s' = core (s\<lparr>st_pours := st_pours s @ [(pid, row)]\<rparr>))"
    using assms
    by (auto simp: recover_same_boot_delta_def transaction_Inr Let_def insert_pour_iff
        elim!: bind_InrE split: if_splits option.splits)
  then show thesis using added same by blast
qed

lemma recover_inv: "store_inv s \<Longrightarrow> store_inv (snd (recover_same_boot_delta u pid now sid dev boot a b up s))"
proof (cases "recover_same_boot_delta u pid now sid dev boot a b up s")
  case (Pair res s')
  assume inv: "store_inv s"
  show ?thesis
  proof (cases res)
    case (Inl e)
    then have "s' = s" using Pair by (simp add: recover_same_boot_delta_def transaction_Inl)
    then show ?thesis using Pair inv by simp
  next
    case (Inr x)
    with Pair obtain out dup where f: "recover_same_boot_delta u pid now sid dev boot a b up s = (Inr (out, dup), s')"
      by (cases x) simp
    from f show ?thesis
    proof (cases rule: recover_cases)
      case same
      then show ?thesis using store_inv_core [OF same] inv Pair by simp
    next
      case (added row)
      let ?s = "s\<lparr>st_pours := st_pours s @ [(pid, row)]\<rparr>"
      have "\<not> from_recovery d bt row" for d bt using added(3) by (simp add: from_recovery_def)
      then have "checkpoint_inv ?s" using inv by (simp add: store_inv_def checkpoint_inv_def)
      then have "store_inv ?s"
        using inv added by (simp add: store_inv_def add_pour_money add_unsequenced_events)
      then show ?thesis using store_inv_core [OF added(7)] Pair by simp
    qed
  qed
qed

section \<open>The recovery checkpoint\<close>

lemma recovery_delta_iff:
  assumes "recovery_delta_of cp rec acc up = Inr delta"
  shows "delta = rec - fst (cp_numbers cp) \<and> 0 \<le> delta \<and> fst (snd (cp_numbers cp)) \<le> acc \<and>
         delta \<le> acc - fst (snd (cp_numbers cp))"
  using assms
  by (cases "cp_numbers cp") (auto simp: recovery_delta_of_def Let_def res_simps split: if_splits)

lemma checkpoint_cases:
  assumes "checkpoint_recovery_pulses u pid now dev boot rec up accepted k c cap s = (Inr (out, dup), s')"
  defines "prev \<equiv> fst (cp_numbers (od_get (st_checkpoints s) (dev, boot)))"
  obtains (known) row where "dup" "rec = prev" "cp_recovery_pulses row = rec"
      "s' = s\<lparr>st_checkpoints := od_set (st_checkpoints s) (dev, boot) row\<rparr>"
  | (fresh) row cp where "\<not> dup" "out = Some row" "prev < rec" "\<not> od_mem pid (st_pours s)"
      "event_of row = (dev, boot, None)" "pe_fault row = ''device_recovery_counter''" "pe_raw_pulses row = rec - prev"
      "pe_participant_id row = None" "cp_recovery_pulses cp = rec"
      "s' = s\<lparr>st_pours := st_pours s @ [(pid, row)],
              st_checkpoints := od_set (st_checkpoints s) (dev, boot) cp\<rparr>"
proof -
  define acc where "acc = (case accepted of None \<Rightarrow> rec | Some a \<Rightarrow> a)"
  define cp where "cp = od_get (st_checkpoints s) (dev, boot)"
  obtain delta where inp: "checkpoint_inputs dev boot rec acc up = Inr ()"
      and del: "recovery_delta_of cp rec acc up = Inr delta"
    using assms(1) by (auto simp: checkpoint_recovery_pulses_def transaction_Inr Let_def acc_def cp_def elim!: bind_InrE)
  note d = recovery_delta_iff [OF del]
  note run = assms(1) [unfolded checkpoint_recovery_pulses_def transaction_Inr Let_def, folded acc_def cp_def,
    unfolded inp del bind_res_Inr]
  show thesis
  proof (cases "delta = 0")
    case True
    then have "rec = prev" using d by (simp add: prev_def cp_def)
    with True show thesis
      using run
      by (intro known [of "case cp of None \<Rightarrow> \<lparr>cp_recovery_pulses = rec, cp_last_pour_id = None, cp_updated_at = now,
             cp_accepted_pulses = acc, cp_device_uptime_ms = up\<rparr>
           | Some x \<Rightarrow> x\<lparr>cp_updated_at := now, cp_accepted_pulses := acc, cp_device_uptime_ms := up\<rparr>"])
        (auto simp: prev_def cp_def [symmetric] cp_numbers_def split: option.splits)
  next
    case False
    then have lt: "prev < rec" "delta = rec - prev" using d by (simp_all add: prev_def cp_def)
    obtain keg cal factor where ctx: "checkpoint_context k c cap s = (keg, cal, factor)" by (metis prod_cases3)
    let ?cp = "\<lparr>cp_recovery_pulses = rec, cp_last_pour_id = Some pid, cp_updated_at = now,
      cp_accepted_pulses = acc, cp_device_uptime_ms = up\<rparr>"
    have "\<exists>row. out = Some row \<and> \<not> dup \<and> \<not> od_mem pid (st_pours s) \<and> event_of row = (dev, boot, None) \<and>
        pe_fault row = ''device_recovery_counter'' \<and> pe_raw_pulses row = delta \<and> pe_participant_id row = None \<and>
        s' = s\<lparr>st_pours := st_pours s @ [(pid, row)],
              st_checkpoints := od_set (st_checkpoints s) (dev, boot) ?cp\<rparr>"
      using run False by (auto simp: ctx insert_pour_iff elim!: bind_InrE)
    then obtain row where row: "out = Some row" "\<not> dup" "\<not> od_mem pid (st_pours s)" "event_of row = (dev, boot, None)"
        "pe_fault row = ''device_recovery_counter''" "pe_raw_pulses row = delta" "pe_participant_id row = None"
        "s' = s\<lparr>st_pours := st_pours s @ [(pid, row)],
              st_checkpoints := od_set (st_checkpoints s) (dev, boot) ?cp\<rparr>"
      by blast
    show thesis using row lt by (intro fresh [of row ?cp]) simp_all
  qed
qed

lemma set_checkpoint_frame:
  "money_inv (s\<lparr>st_checkpoints := c\<rparr>) = money_inv s" "events_inv (s\<lparr>st_checkpoints := c\<rparr>) = events_inv s"
  by (simp_all add: money_inv_def events_inv_def balance_of_def owner_of_def charge_of_def)

lemma checkpoint_op_inv:
  "store_inv s \<Longrightarrow> store_inv (snd (checkpoint_recovery_pulses u pid now dev boot rec up accepted k c cap s))"
proof (cases "checkpoint_recovery_pulses u pid now dev boot rec up accepted k c cap s")
  case (Pair res s')
  assume inv: "store_inv s"
  let ?num = "\<lambda>t d b. fst (cp_numbers (od_get t (d, b)))"
  show ?thesis
  proof (cases res)
    case (Inl e)
    then have "s' = s" using Pair by (simp add: checkpoint_recovery_pulses_def transaction_Inl)
    then show ?thesis using Pair inv by simp
  next
    case (Inr x)
    with Pair obtain out dup
      where f: "checkpoint_recovery_pulses u pid now dev boot rec up accepted k c cap s = (Inr (out, dup), s')"
      by (cases x) simp
    from f have "store_inv s'"
    proof (cases rule: checkpoint_cases)
      case (known row)
      then have "?num (st_checkpoints s') d b = ?num (st_checkpoints s) d b" for d b
        by (simp add: od_get_set cp_numbers_def)
      then show ?thesis
        using inv known(4) by (simp add: store_inv_def set_checkpoint_frame checkpoint_inv_def)
    next
      case (fresh row cp)
      let ?s = "s\<lparr>st_pours := st_pours s @ [(pid, row)]\<rparr>"
      have "money_inv ?s \<and> events_inv ?s"
        using inv fresh(4,5) by (simp add: store_inv_def add_pour_money add_unsequenced_events event_of_def)
      moreover have "checkpoint_inv s'"
        unfolding checkpoint_inv_def
      proof (intro allI)
        fix d b
        have "recovery_sum d b (st_pours s') = recovery_sum d b (st_pours s) +
            (if (d, b) = (dev, boot) then pe_raw_pulses row else 0)"
          using fresh(5,6,10) by (auto simp: from_recovery_def)
        then show "recovery_sum d b (st_pours s') = ?num (st_checkpoints s') d b"
          using inv fresh(7,9,10) by (auto simp: store_inv_def checkpoint_inv_def od_get_set cp_numbers_def)
      qed
      ultimately show ?thesis
        using set_checkpoint_frame [of "st_checkpoints s'" ?s] fresh(10) by (simp add: store_inv_def)
    qed
    then show ?thesis using Pair by simp
  qed
qed

end
