(* ===== verification/KP_Reassign.thy ===== *)
theory KP_Reassign
  imports KP_Exact
begin

text \<open>
  Attribution of a pour after the fact, \<open>reassign_pour\<close> of \<open>persistence/repository.py\<close>: the charge is
  taken back from the old owner and put on the new one, and the money stays balanced.
\<close>

section \<open>Reassigning a pour\<close>

text \<open>The store after the audit row and the new owner are written.\<close>

definition owned :: "string \<Rightarrow> audit_row \<Rightarrow> string \<Rightarrow> string \<Rightarrow> store \<Rightarrow> store" where
  "owned aid audit i new s =
     s\<lparr>st_audit := st_audit s @ [(aid, audit)],
       st_pours := update_row i (\<lambda>p. p\<lparr>pe_participant_id := Some new, pe_attributed := True\<rparr>) (st_pours s)\<rparr>"

lemma owned_simps [simp]:
  "st_participants (owned a au i n s) = st_participants s" "st_ledger (owned a au i n s) = st_ledger s"
  "st_charges (owned a au i n s) = st_charges s" "st_results (owned a au i n s) = st_results s"
  "st_checkpoints (owned a au i n s) = st_checkpoints s" "st_settings (owned a au i n s) = st_settings s"
  "balance_of (owned a au i n s) = balance_of s" "charge_of (owned a au i n s) = charge_of s"
  by (simp_all add: owned_def balance_of_def charge_of_def fun_eq_iff)

lemma owned_owner:
  "owner_of (owned a au i n s) j = (if j = i then map_option (\<lambda>_. Some n) (owner_of s i) else owner_of s j)"
  by (simp add: owner_of_def owned_def od_get_update_row option.map_comp o_def)

lemma owned_people: "people_inv (owned a au i n s) = people_inv s"
  by (simp add: people_inv_def)

lemma owned_pulses:
  "events_inv (owned a au i n s) = events_inv s" "checkpoint_inv (owned a au i n s) = checkpoint_inv s"
proof -
  have get: "map_option (\<lambda>p. (event_of p, pe_raw_pulses p)) (od_get (st_pours (owned a au i n s)) j) =
      map_option (\<lambda>p. (event_of p, pe_raw_pulses p)) (od_get (st_pours s) j)" for j
    by (simp add: owned_def od_get_update_row option.map_comp o_def event_of_def)
  have ev: "events_inv t \<longleftrightarrow>
     (\<forall>dev boot sq d i. od_get (st_results t) (dev, boot, sq) = Some d \<longrightarrow> sr_pour_id d = Some i \<longrightarrow>
        map_option (\<lambda>p. (event_of p, pe_raw_pulses p)) (od_get (st_pours t) i) =
          Some ((dev, boot, Some sq), sr_raw_pulses d)) \<and>
     (\<forall>i dev boot sq n. map_option (\<lambda>p. (event_of p, pe_raw_pulses p)) (od_get (st_pours t) i) =
          Some ((dev, boot, Some sq), n) \<longrightarrow>
        (\<exists>d. od_get (st_results t) (dev, boot, sq) = Some d \<and> sr_pour_id d = Some i))" for t
    unfolding events_inv_def event_of_def by (auto; metis)
  show "events_inv (owned a au i n s) = events_inv s" unfolding ev get by simp
  show "checkpoint_inv (owned a au i n s) = checkpoint_inv s"
    by (simp add: checkpoint_inv_def) (simp add: owned_def recovery_sum_update from_recovery_def event_of_def)
qed

lemma moved_pulses [simp]:
  "events_inv (moved l p b a k i r n s) = events_inv s" "checkpoint_inv (moved l p b a k i r n s) = checkpoint_inv s"
  by (simp_all add: events_inv_def checkpoint_inv_def)

lemma refund_cases:
  assumes "refund_old l now i (Some q) amount s = Inr s'" "balance_of s q = Some b"
  shows "s' = moved l q (b + amount) amount Refund (Some i) ''Pour reassigned'' now s"
  using assms
  by (auto simp: refund_old_def balance_of_def Let_def res_simps moved_def)

lemma charge_new_cases:
  assumes "charge_new l now i n amount s = Inr s'"
  obtains b where "balance_of s n = Some b"
    "s' = moved l n (b - amount) (- amount) Charge (Some i) ''Reassigned beer pour'' now
            (s\<lparr>st_charges := update_row i (\<lambda>c. c\<lparr>ch_participant_id := n\<rparr>) (st_charges s)\<rparr>)"
  using assms
  by (auto simp: charge_new_def Let_def moved_def balance_of_def set_balance_iff add_ledger_iff fetch_iff elim!: bind_InrE)

lemma set_charges_frame:
  "balance_of (s\<lparr>st_charges := u\<rparr>) = balance_of s" "people_inv (s\<lparr>st_charges := u\<rparr>) = people_inv s"
  "owner_of (s\<lparr>st_charges := u\<rparr>) = owner_of s"
  by (simp_all add: balance_of_def people_inv_def owner_of_def fun_eq_iff)

text \<open>The cases of a successful reassignment.\<close>

lemma reassign_cases:
  assumes "reassign_pour aid rid cid now i n reason s = (Inr out, s')" "store_inv s"
  obtains (kept) au p where "od_get (st_pours s) i = Some p" "od_mem n (st_participants s)"
      "s' = owned aid au i n s" "od_get (st_charges s) i = None \<or> pe_participant_id p = Some n"
  | (charged) au p v where "od_get (st_pours s) i = Some p" "od_mem n (st_participants s)"
      "od_get (st_charges s) i = None" "pe_volume_ml p = Some v"
      "charge_pour cid i n v now (owned aid au i n s) = Inr s'"
  | (moved_charge) au p c q bq sr bn where "od_get (st_pours s) i = Some p" "od_mem n (st_participants s)"
      "od_get (st_charges s) i = Some c" "pe_participant_id p = Some q" "q \<noteq> n" "ch_participant_id c = q"
      "balance_of s q = Some bq"
      "sr = moved rid q (bq + ch_amount_cents c) (ch_amount_cents c) Refund (Some i) ''Pour reassigned'' now (owned aid au i n s)"
      "balance_of s n = Some bn"
      "s' = moved cid n (bn - ch_amount_cents c) (- ch_amount_cents c) Charge (Some i) ''Reassigned beer pour'' now
              (sr\<lparr>st_charges := update_row i (\<lambda>c. c\<lparr>ch_participant_id := n\<rparr>) (st_charges sr)\<rparr>)"
proof -
  obtain p row where p: "od_get (st_pours s) i = Some p" "od_get (st_participants s) n = Some row"
    using assms(1) by (auto simp: reassign_pour_def transaction_Inr Let_def fetch_iff elim!: bind_InrE split: if_splits)
  define au where "au = \<lparr>au_pour_id = i, au_old_participant_id = pe_participant_id p,
                 au_new_participant_id = n, au_reason = strip reason, au_created_at = now\<rparr>"
  let ?s1 = "owned aid au i n s"
  have n: "od_mem n (st_participants s)" using p by (simp add: od_mem_iff)
  have step: "(case od_get (st_charges s) i of
                      Some charge \<Rightarrow>
                        (if pe_participant_id p \<noteq> Some n then
                           bind_res (refund_old rid now i (pe_participant_id p) (ch_amount_cents charge) ?s1) (\<lambda>sr.
                             charge_new cid now i n (ch_amount_cents charge) sr)
                         else Inr ?s1)
                    | None \<Rightarrow>
                        (case pe_volume_ml p of
                           None \<Rightarrow> Inr ?s1
                         | Some v \<Rightarrow> charge_pour cid i n v now ?s1)) = Inr s'"
    using assms(1) p
    by (auto simp: reassign_pour_def transaction_Inr Let_def fetch_iff insert_row_iff owned_def au_def
        elim!: bind_InrE split: if_splits cong: option.case_cong if_cong)
  show thesis
  proof (cases "od_get (st_charges s) i")
    case None
    then show thesis using step p n kept charged by (cases "pe_volume_ml p") auto
  next
    case (Some c)
    then have c: "owner_of s i = Some (Some (ch_participant_id c))" "balance_of s (ch_participant_id c) \<noteq> None"
      using assms(2) by (auto simp: store_inv_def money_inv_def)
    then obtain bq where q: "pe_participant_id p = Some (ch_participant_id c)" "balance_of s (ch_participant_id c) = Some bq"
      using p by (auto simp: owner_of_def)
    show thesis
    proof (cases "ch_participant_id c = n")
      case True
      then show thesis using step p n kept Some q by auto
    next
      case False
      then obtain sr where sr: "refund_old rid now i (Some (ch_participant_id c)) (ch_amount_cents c) ?s1 = Inr sr"
          "charge_new cid now i n (ch_amount_cents c) sr = Inr s'"
        using step Some q by (auto simp: res_simps)
      then have e2: "sr = moved rid (ch_participant_id c) (bq + ch_amount_cents c) (ch_amount_cents c) Refund (Some i)
          ''Pour reassigned'' now ?s1"
        using q by (intro refund_cases) simp_all
      from sr(2) show thesis
      proof (cases rule: charge_new_cases)
        case (1 b)
        then have "balance_of s n = Some b" using e2 False by (simp add: moved_balance)
        then show thesis using p n Some q False e2 1
            by (intro moved_charge [where au = au and p = p and c = c and q = "ch_participant_id c" and bq = bq
                  and sr = sr and bn = b]) simp_all
      qed
    qed
  qed
qed

lemma reassign_inv: "store_inv s \<Longrightarrow> store_inv (snd (reassign_pour aid rid cid now i n reason s))"
proof (cases "reassign_pour aid rid cid now i n reason s")
  case (Pair res s')
  assume inv: "store_inv s"
  then have ppl: "people_inv s" and prs: "pours_inv s" by (simp_all add: store_inv_def money_inv_parts)
  show ?thesis
  proof (cases res)
    case (Inl e)
    then have "s' = s" using Pair by (simp add: reassign_pour_def transaction_Inl)
    then show ?thesis using Pair inv by simp
  next
    case (Inr out)
    with Pair have f: "reassign_pour aid rid cid now i n reason s = (Inr out, s')" by simp
    from f inv have "store_inv s'"
    proof (cases rule: reassign_cases)
      case (kept au p)
      have own: "owner_of s i = Some (pe_participant_id p)" using kept(1) by (simp add: owner_of_def)
      have "pours_inv (owned aid au i n s)"
        using prs kept(4) own by (auto simp: pours_inv_def owned_owner)
      then show ?thesis using inv ppl kept(3)
        by (simp add: store_inv_def money_inv_parts owned_people owned_pulses)
    next
      case (charged au p v)
      have own: "owner_of (owned aid au i n s) i = Some (Some n)"
        using charged(1) by (simp add: owned_owner) (simp add: owner_of_def)
      have "pours_inv (owned aid au i n s)"
        using prs charged(1,3) by (auto simp: pours_inv_def owned_owner)
      then have "money_inv s'"
        using charge_pour_money [OF charged(5)] ppl own by (simp add: owned_people)
      moreover have "events_inv s' \<and> checkpoint_inv s'"
        using pulse_view_inv [OF charge_pour_view [OF charged(5)]] inv by (simp add: store_inv_def owned_pulses)
      ultimately show ?thesis by (simp add: store_inv_def)
    next
      case (moved_charge au p c q bq sr bn)
      have own: "owner_of s i = Some (pe_participant_id p)" using moved_charge(1) by (simp add: owner_of_def)
      have same: "pulse_view s' = pulse_view (owned aid au i n s)"
        using moved_charge(8,10) by (simp add: pulse_view_def)
      let ?c = "\<lambda>t. t\<lparr>st_charges := update_row i (\<lambda>c. c\<lparr>ch_participant_id := n\<rparr>) (st_charges t)\<rparr>"
      have p2: "people_inv sr"
        using moved_people [of "owned aid au i n s" q bq] ppl moved_charge(7,8) by (simp add: owned_people)
      have b2: "balance_of (?c sr) n = Some bn"
        using moved_charge(5,8,9) by (simp add: set_charges_frame moved_balance)
      have "people_inv s'"
        using moved_people [of "?c sr" n bn cid "- ch_amount_cents c"] p2 b2 moved_charge(10) by (simp add: set_charges_frame)
      moreover have "pours_inv s'"
      proof -
        have ch: "od_get (st_charges s') j = (if j = i then Some (c\<lparr>ch_participant_id := n\<rparr>) else od_get (st_charges s) j)" for j
          using moved_charge(3,8,10) by (simp add: od_get_update_row)
        have "charge_of s' j = charge_of s j" for j
          using moved_charge(3) ch [of j] by (simp add: charge_of_def)
        moreover have "ledger_sum (of_pour j) (st_ledger s') = ledger_sum (of_pour j) (st_ledger s)" for j
          using moved_charge(8,10) by (simp add: moved_ledger of_pour_def)
        moreover have "owner_of s' j = (if j = i then Some (Some n) else owner_of s j)" for j
          using moved_charge(8,10) own by (simp add: set_charges_frame owned_owner)
        moreover have "balance_of s' j = None \<longleftrightarrow> balance_of s j = None" for j
          using moved_charge(8,10) by (simp add: set_charges_frame)
        moreover have "od_wf (st_charges s')" using prs moved_charge(8,10) by (simp add: pours_inv_def)
        moreover have "0 < ch_amount_cents c" using prs moved_charge(3) by (simp add: pours_inv_def)
        ultimately show ?thesis using prs moved_charge(9)
          by (auto simp: pours_inv_def ch)
      qed
      moreover have "events_inv s' \<and> checkpoint_inv s'"
        using pulse_view_inv [OF same] inv by (simp add: store_inv_def owned_pulses)
      ultimately show ?thesis by (simp add: store_inv_def money_inv_parts)
    qed
    then show ?thesis using Pair by simp
  qed
qed

end
