(* ===== verification/KP_StoreRuns.thy ===== *)
theory KP_StoreRuns
  imports KP_Reassign
begin

text \<open>
  Histories of the store: the operations of the repository as data, the step they make, and what
  holds after any sequence of them, raising ones included.
\<close>

section \<open>The operations as data\<close>

datatype people_op =
    CreateParticipant string int string
  | UpdateParticipant int string "string option" "bool option"
  | MarkAvatar int string bool
  | ClearAvatar int string
  | AdjustBalance string int string pyval string

datatype keg_op =
    ReplaceKeg string int string "rat option" string "timestamp option"
  | AdjustInventory string int string "rat option" string
  | SetRemaining string int "rat option" string

datatype calibration_op =
    CreateCalibration string int string "rat option" string
  | AddSample string int string pyval pyval "rat option" "rat option" bool
  | SetIncluded string int bool
  | Activate int string
  | ActivateProvisional int string
  | AddVerification string int pyval "rat option" "rat option" "rat option"

datatype session_op =
    CreateProvisional string int "string option" string string "string option" "int option"
  | BindProvisional int string string string int int
  | UpdateStatus int string string
  | ConsumeCalibration string int string "rat option" "rat option" bool
  | ConsumeVerification string int string "rat option" "rat option" "rat option"

datatype measure_op =
    Recover string int string string string int int int
  | Finalize string string int device_result "string option" "string option" bool
  | Checkpoint string int string string int int "int option" "string option" "string option" bool
  | Reassign string string string int string string string

datatype log_op =
    AddPhoto string int "string option" string int string
  | PrunePhotos nat
  | SetSetting string json
  | AddDiagnostic int string string "(string \<times> json) list"
  | RecordAnomaly string int string string string string "(string \<times> json) list" "string option" "string option" "string option"

datatype store_op =
    People people_op | Kegs keg_op | Calibrations calibration_op | Sessions session_op | Measures measure_op | Logs log_op

text \<open>One call: whether it returned, and the store after it.\<close>

definition call :: "'a result \<times> store \<Rightarrow> bool \<times> store" where
  "call rs = (is_ok (fst rs), snd rs)"

fun people_call :: "(string \<Rightarrow> string) \<Rightarrow> people_op \<Rightarrow> store \<Rightarrow> bool \<times> store" where
  "people_call u (CreateParticipant i now n) s = call (create_participant i now n s)"
| "people_call u (UpdateParticipant now i n a) s = call (update_participant now i n a s)"
| "people_call u (MarkAvatar now i only) s = call (mark_participant_avatar now i only s)"
| "people_call u (ClearAvatar now i) s = call (clear_participant_avatar now i s)"
| "people_call u (AdjustBalance l now i a r) s = call (adjust_participant_balance l now i a r s)"

fun keg_call :: "(string \<Rightarrow> string) \<Rightarrow> keg_op \<Rightarrow> store \<Rightarrow> bool \<times> store" where
  "keg_call u (ReplaceKeg i now l v n t) s = call (replace_keg i now l v n t s)"
| "keg_call u (AdjustInventory i now k a r) s = call (adjust_inventory i now k a r s)"
| "keg_call u (SetRemaining i now p r) s = call (set_current_keg_remaining_percent i now p r s)"

fun calibration_call :: "(string \<Rightarrow> string) \<Rightarrow> calibration_op \<Rightarrow> store \<Rightarrow> bool \<times> store" where
  "calibration_call u (CreateCalibration i now l d n) s = call (create_calibration i now l d n s)"
| "calibration_call u (AddSample i now c n raw m d inc) s = call (add_calibration_sample i now c n raw m d inc s)"
| "calibration_call u (SetIncluded c n inc) s = call (set_sample_included c n inc s)"
| "calibration_call u (Activate now c) s = call (activate_calibration now c s)"
| "calibration_call u (ActivateProvisional now c) s = call (activate_provisional_calibration now c s)"
| "calibration_call u (AddVerification i now raw m d th) s = call (add_verification i now raw m d th s)"

fun session_call :: "(string \<Rightarrow> string) \<Rightarrow> session_op \<Rightarrow> store \<Rightarrow> bool \<times> store" where
  "session_call u (CreateProvisional i now p key pu c n) s = call (create_provisional i now p key pu c n s)"
| "session_call u (BindProvisional now i dev boot sq life) s = call (bind_provisional now i dev boot sq life s)"
| "session_call u (UpdateStatus now i st) s = call (update_provisional_status now i st s)"
| "session_call u (ConsumeCalibration x now i m d inc) s = call (consume_calibration_capture x now i m d inc s)"
| "session_call u (ConsumeVerification x now i m d th) s = call (consume_verification_capture x now i m d th s)"

fun measure_call :: "(string \<Rightarrow> string) \<Rightarrow> measure_op \<Rightarrow> store \<Rightarrow> bool \<times> store" where
  "measure_call u (Recover pid now i dev boot a b up) s = call (recover_same_boot_delta u pid now i dev boot a b up s)"
| "measure_call u (Finalize pid l now r k c cap) s = call (finalize_device_result u pid l now r k c cap s)"
| "measure_call u (Checkpoint pid now dev boot rec up acc k c cap) s = call (checkpoint_recovery_pulses u pid now dev boot rec up acc k c cap s)"
| "measure_call u (Reassign aid rid cid now i n r) s = call (reassign_pour aid rid cid now i n r s)"

fun log_call :: "(string \<Rightarrow> string) \<Rightarrow> log_op \<Rightarrow> store \<Rightarrow> bool \<times> store" where
  "log_call u (AddPhoto i now sid path sz sha) s = call (add_pour_photo i now sid path sz sha s)"
| "log_call u (PrunePhotos keep) s = call (prune_unattributed_photos keep s)"
| "log_call u (SetSetting key v) s = call (set_setting key v s)"
| "log_call u (AddDiagnostic now lv cd ctx) s = call (add_diagnostic now lv cd ctx s)"
| "log_call u (RecordAnomaly i now key src ov why ctx dev boot sq) s = call (record_measurement_anomaly i now key src ov why ctx dev boot sq s)"

fun store_call :: "(string \<Rightarrow> string) \<Rightarrow> store_op \<Rightarrow> store \<Rightarrow> bool \<times> store" where
  "store_call u (People op) s = people_call u op s"
| "store_call u (Kegs op) s = keg_call u op s"
| "store_call u (Calibrations op) s = calibration_call u op s"
| "store_call u (Sessions op) s = session_call u op s"
| "store_call u (Measures op) s = measure_call u op s"
| "store_call u (Logs op) s = log_call u op s"

definition store_step :: "(string \<Rightarrow> string) \<Rightarrow> store_op \<Rightarrow> store \<Rightarrow> store" where
  "store_step u op s = snd (store_call u op s)"

definition store_accepts :: "(string \<Rightarrow> string) \<Rightarrow> store_op \<Rightarrow> store \<Rightarrow> bool" where
  "store_accepts u op s = fst (store_call u op s)"

lemma call_simps [simp]: "fst (call rs) = is_ok (fst rs)" "snd (call rs) = snd rs"
  by (simp_all add: call_def)

lemmas call_rules = store_call.simps people_call.simps keg_call.simps calibration_call.simps session_call.simps
  measure_call.simps log_call.simps

text \<open>A proof about every operation is a proof per group.\<close>

lemma store_op_cases:
  assumes "\<And>x. P (People x)" "\<And>x. P (Kegs x)" "\<And>x. P (Calibrations x)" "\<And>x. P (Sessions x)"
    "\<And>x. P (Measures x)" "\<And>x. P (Logs x)"
  shows "P op"
  using assms by (cases op) simp_all

section \<open>Rollback\<close>

lemma transaction_rollback: "\<not> is_ok (fst (transaction body s)) \<Longrightarrow> snd (transaction body s) = s"
  by (cases rule: transaction_cases [of body s]) simp_all

definition atomic :: "bool \<times> store \<Rightarrow> store \<Rightarrow> bool" where
  "atomic bs s \<longleftrightarrow> (\<not> fst bs \<longrightarrow> snd bs = s)"

lemma atomic_rules: "atomic (call (transaction body s)) s"
  using transaction_rollback by (auto simp: atomic_def)

lemmas store_op_defs = create_participant_def update_participant_def mark_participant_avatar_def
  clear_participant_avatar_def adjust_participant_balance_def replace_keg_def adjust_inventory_def
  set_current_keg_remaining_percent_def create_calibration_def add_calibration_sample_def
  set_sample_included_def activate_calibration_def activate_provisional_calibration_def
  add_verification_def create_provisional_def bind_provisional_def update_provisional_status_def
  consume_calibration_capture_def consume_verification_capture_def recover_same_boot_delta_def
  finalize_device_result_def checkpoint_recovery_pulses_def reassign_pour_def add_pour_photo_def
  prune_unattributed_photos_def set_setting_def add_diagnostic_def record_measurement_anomaly_def

text \<open>A repository operation is atomic: one that raises, whatever it raised and however many
  statements it had executed, leaves the store exactly as it was.\<close>

theorem store_call_atomic:
  assumes "\<not> store_accepts u op s"
  shows "store_step u op s = s"
proof -
  have "atomic (store_call u op s) s"
  proof (induction op rule: store_op_cases)
    case (1 x) show ?case by (cases x) (simp_all only: call_rules store_op_defs atomic_rules)
  next
    case (2 x) show ?case by (cases x) (simp_all only: call_rules store_op_defs atomic_rules)
  next
    case (3 x) show ?case by (cases x) (simp_all only: call_rules store_op_defs atomic_rules)
  next
    case (4 x) show ?case by (cases x) (simp_all only: call_rules store_op_defs atomic_rules)
  next
    case (5 x) show ?case by (cases x) (simp_all only: call_rules store_op_defs atomic_rules)
  next
    case (6 x) show ?case by (cases x) (simp_all only: call_rules store_op_defs atomic_rules)
  qed
  then show ?thesis using assms by (simp add: atomic_def store_accepts_def store_step_def)
qed

theorem store_call_atomic_witness:
  "store_step (\<lambda>x. x) (People (AdjustBalance ''l'' 0 ''nobody'' (VInt 5) ''top up'')) empty_store = empty_store"
  by (rule store_call_atomic) (simp add: store_accepts_def adjust_participant_balance_def transaction_def
      Let_def strip_def is_space_def in_range_def text_between_def fetch_def empty_store_def)

section \<open>The invariant along histories\<close>

definition people_wf :: "store \<Rightarrow> bool" where
  "people_wf s \<longleftrightarrow> od_wf (st_participants s)"

definition ledger_store_inv :: "store \<Rightarrow> bool" where
  "ledger_store_inv s \<longleftrightarrow> store_inv s \<and> people_wf s"

lemma create_wf: "people_wf s \<Longrightarrow> people_wf (snd (create_participant i now n s))"
  unfolding create_participant_def
  by (rule transaction_keeps) (auto simp: people_wf_def Let_def insert_row_iff od_wf_snoc elim!: bind_InrE split: if_splits)

lemma profile_wf:
  "people_wf s \<Longrightarrow> people_wf (snd (update_participant now i name a s))"
  "people_wf s \<Longrightarrow> people_wf (snd (mark_participant_avatar now i only s))"
  "people_wf s \<Longrightarrow> people_wf (snd (clear_participant_avatar now i s))"
  unfolding update_participant_def mark_participant_avatar_def clear_participant_avatar_def
  by (rule transaction_keeps; auto simp: people_wf_def Let_def elim!: bind_InrE split: if_splits)+

lemma moved_wf [simp]: "people_wf (moved l p b a k i r n s) = people_wf s"
  by (simp add: people_wf_def moved_def)

lemma people_wf_core: "core s' = core s \<Longrightarrow> people_wf s' = people_wf s"
  by (simp add: core_eq_iff people_wf_def)

lemma charge_pour_wf: "charge_pour l i p vol now s = Inr s' \<Longrightarrow> people_wf s' = people_wf s"
  by (erule charge_pour_cases) (simp_all add: people_wf_def moved_def)

text \<open>A property of the store survives a call when it survives the call's success.\<close>

lemma kept:
  assumes "\<And>x s'. rs = (Inr x, s') \<Longrightarrow> P s'" "\<not> is_ok (fst rs) \<Longrightarrow> snd rs = s" "P s"
  shows "P (snd rs)"
  using assms by (cases rs; cases "fst rs") auto

lemma kept_eq:
  assumes "\<And>x s'. rs = (Inr x, s') \<Longrightarrow> f s' = f s" "\<not> is_ok (fst rs) \<Longrightarrow> snd rs = s"
  shows "f (snd rs) = f s"
  using assms by (cases rs; cases "fst rs") auto

lemma rollbacks:
  "\<not> is_ok (fst (adjust_participant_balance l now p am r s)) \<Longrightarrow> snd (adjust_participant_balance l now p am r s) = s"
  "\<not> is_ok (fst (finalize_device_result u pid l now rs k c cap s)) \<Longrightarrow>
     snd (finalize_device_result u pid l now rs k c cap s) = s"
  "\<not> is_ok (fst (recover_same_boot_delta u pid now i dev boot a b up s)) \<Longrightarrow>
     snd (recover_same_boot_delta u pid now i dev boot a b up s) = s"
  "\<not> is_ok (fst (checkpoint_recovery_pulses u pid now dev boot rec up acc k c cap s)) \<Longrightarrow>
     snd (checkpoint_recovery_pulses u pid now dev boot rec up acc k c cap s) = s"
  "\<not> is_ok (fst (reassign_pour aid rid cid now i n r s)) \<Longrightarrow> snd (reassign_pour aid rid cid now i n r s) = s"
  by (simp_all only: store_op_defs transaction_rollback simp_thms)

lemma adjust_wf: "people_wf s \<Longrightarrow> people_wf (snd (adjust_participant_balance l now p a r s))"
  by (rule kept [OF _ rollbacks(1)]) (auto elim: adjust_cases)

lemma commit_pour_wf:
  assumes "commit_pour pid l sid pv r k c cap t0 t1 s = Inr ((out, dup), s')"
  shows "people_wf s' = people_wf s"
  using assms
proof (cases rule: commit_pour_cases)
  case (1 row s2 s3)
  have "people_wf s2 = people_wf s" using 1(9) by (simp add: people_wf_def)
  moreover have "people_wf s3 = people_wf s2" using 1(10) charge_pour_wf by blast
  ultimately show ?thesis using people_wf_core [OF 1(11)] by simp
qed

lemma finalize_wf: "people_wf s \<Longrightarrow> people_wf (snd (finalize_device_result u pid l now r k c cap s))"
proof (rule kept [OF _ rollbacks(2)])
  fix x s'
  assume wf: "people_wf s" and "finalize_device_result u pid l now r k c cap s = (Inr x, s')"
  then obtain out dup where "finalize_device_result u pid l now r k c cap s = (Inr (out, dup), s')"
    by (cases x) simp
  then show "people_wf s'"
    by (cases rule: finalize_cases)
      (use wf commit_pour_wf in \<open>auto simp: people_wf_def core_def\<close>)
qed

lemma recover_wf: "people_wf s \<Longrightarrow> people_wf (snd (recover_same_boot_delta u pid now i dev boot a b up s))"
proof (rule kept [OF _ rollbacks(3)])
  fix x s'
  assume wf: "people_wf s" and "recover_same_boot_delta u pid now i dev boot a b up s = (Inr x, s')"
  then obtain out dup where "recover_same_boot_delta u pid now i dev boot a b up s = (Inr (out, dup), s')"
    by (cases x) simp
  then show "people_wf s'"
    by (cases rule: recover_cases) (use wf in \<open>auto simp: people_wf_def core_def\<close>)
qed

lemma checkpoint_wf: "people_wf s \<Longrightarrow> people_wf (snd (checkpoint_recovery_pulses u pid now dev boot rec up acc k c cap s))"
proof (rule kept [OF _ rollbacks(4)])
  fix x s'
  assume wf: "people_wf s" and "checkpoint_recovery_pulses u pid now dev boot rec up acc k c cap s = (Inr x, s')"
  then obtain out dup where "checkpoint_recovery_pulses u pid now dev boot rec up acc k c cap s = (Inr (out, dup), s')"
    by (cases x) simp
  then show "people_wf s'"
    by (cases rule: checkpoint_cases) (use wf in \<open>auto simp: people_wf_def\<close>)
qed

lemma reassign_wf:
  assumes "ledger_store_inv s"
  shows "people_wf (snd (reassign_pour aid rid cid now i n r s))"
proof (rule kept [OF _ rollbacks(5)])
  fix x s'
  have inv: "store_inv s" and wf: "people_wf s" using assms by (simp_all add: ledger_store_inv_def)
  assume "reassign_pour aid rid cid now i n r s = (Inr x, s')"
  from this inv show "people_wf s'"
    by (cases rule: reassign_cases) (use wf charge_pour_wf in \<open>auto simp: people_wf_def moved_def\<close>)
qed (use assms in \<open>simp_all add: ledger_store_inv_def\<close>)

lemma ledger_store_core: "core s' = core s \<Longrightarrow> ledger_store_inv s' = ledger_store_inv s"
  using store_inv_core [of s' s] people_wf_core [of s' s] by (simp only: ledger_store_inv_def)

text \<open>Operations that write only people or money.\<close>

lemma money_op:
  assumes "store_inv s" "money_inv s \<Longrightarrow> money_inv s'" "pulse_view s' = pulse_view s"
  shows "store_inv s'"
  using assms pulse_view_inv [OF assms(3)] by (simp add: store_inv_def)

lemma people_views:
  "pulse_view (snd (create_participant i now n s)) = pulse_view s"
  "pulse_view (snd (update_participant now i name a s)) = pulse_view s"
  "pulse_view (snd (mark_participant_avatar now i only s)) = pulse_view s"
  "pulse_view (snd (clear_participant_avatar now i s)) = pulse_view s"
  unfolding create_participant_def update_participant_def mark_participant_avatar_def clear_participant_avatar_def
  by (rule transaction_keeps; auto simp: pulse_view_def Let_def elim!: bind_InrE split: if_splits)+

lemma adjust_view: "pulse_view (snd (adjust_participant_balance l now p a r s)) = pulse_view s"
  by (rule kept [OF _ rollbacks(1)]) (auto elim: adjust_cases simp: pulse_view_def)

text \<open>Every operation keeps the invariant, group by group.\<close>

lemma people_call_inv: "ledger_store_inv s \<Longrightarrow> ledger_store_inv (snd (people_call u x s))"
  by (cases x)
    (simp_all add: ledger_store_inv_def create_wf profile_wf adjust_wf
       money_op [OF _ create_participant_money people_views(1)]
       money_op [OF _ update_participant_money people_views(2)]
       money_op [OF _ mark_avatar_money people_views(3)]
       money_op [OF _ clear_avatar_money people_views(4)] money_op [OF _ adjust_money adjust_view])

lemma keg_call_core: "core (snd (keg_call u x s)) = core s"
  by (cases x) (simp_all add: core_frame)

lemma calibration_call_core: "core (snd (calibration_call u x s)) = core s"
  by (cases x) (simp_all add: core_frame)

lemma session_call_core: "core (snd (session_call u x s)) = core s"
  by (cases x) (simp_all add: core_frame)

lemma log_call_core: "core (snd (log_call u x s)) = core s"
  by (cases x) (simp_all add: core_frame)

lemmas frame_calls_core = keg_call_core calibration_call_core session_call_core log_call_core

lemma measure_call_inv: "ledger_store_inv s \<Longrightarrow> ledger_store_inv (snd (measure_call u x s))"
  by (cases x)
    (simp_all add: reassign_wf ledger_store_inv_def finalize_wf recover_wf checkpoint_wf
       finalize_result_inv recover_inv checkpoint_op_inv reassign_inv)

lemma store_step_inv: "ledger_store_inv s \<Longrightarrow> ledger_store_inv (store_step u op s)"
  by (cases op) (simp_all add: store_step_def people_call_inv measure_call_inv
      frame_calls_core [THEN ledger_store_core])

section \<open>What holds after every history\<close>

lemma empty_store_inv: "ledger_store_inv empty_store"
  by (simp add: ledger_store_inv_def store_inv_def money_inv_def events_inv_def checkpoint_inv_def people_wf_def
      balance_of_def charge_of_def owner_of_def cp_numbers_def empty_store_def)

definition charges_total :: "store \<Rightarrow> int" where
  "charges_total s = sum_list (map (\<lambda>(k, c). ch_amount_cents c) (st_charges s))"

definition funds_held :: "store \<Rightarrow> int" where
  "funds_held s = ledger_sum (\<lambda>r. True) (st_ledger s) + charges_total s"

text \<open>What an accepted call adds to the funds: the amount of a fund adjustment, and nothing else.\<close>

fun people_funds :: "(string \<Rightarrow> string) \<Rightarrow> people_op \<Rightarrow> store \<Rightarrow> int" where
  "people_funds u (AdjustBalance l now i (VInt n) r) s =
     (if fst (people_call u (AdjustBalance l now i (VInt n) r) s) then n else 0)"
| "people_funds u _ s = 0"

fun funds_delta :: "(string \<Rightarrow> string) \<Rightarrow> store_op \<Rightarrow> store \<Rightarrow> int" where
  "funds_delta u (People x) s = people_funds u x s"
| "funds_delta u _ s = 0"

lemma funds_core: "core s' = core s \<Longrightarrow> funds_held s' = funds_held s"
  by (simp add: core_eq_iff funds_held_def charges_total_def)

lemma charge_pour_funds: "charge_pour l i p vol now s = Inr s' \<Longrightarrow> funds_held s' = funds_held s"
  by (erule charge_pour_cases) (simp_all add: funds_held_def charges_total_def moved_def)

lemma people_funds_frame:
  "funds_held (snd (create_participant i now n s)) = funds_held s"
  "funds_held (snd (update_participant now i name a s)) = funds_held s"
  "funds_held (snd (mark_participant_avatar now i only s)) = funds_held s"
  "funds_held (snd (clear_participant_avatar now i s)) = funds_held s"
  unfolding create_participant_def update_participant_def mark_participant_avatar_def clear_participant_avatar_def
  by (rule transaction_keeps;
      auto simp: funds_held_def charges_total_def Let_def elim!: bind_InrE split: if_splits)+

lemma adjust_funds:
  "funds_held (snd (people_call u (AdjustBalance l now i a r) s)) =
   funds_held s + people_funds u (AdjustBalance l now i a r) s"
proof (cases "adjust_participant_balance l now i a r s")
  case (Pair res s')
  show ?thesis
  proof (cases res)
    case (Inl e)
    then have "s' = s" using Pair by (simp add: adjust_participant_balance_def transaction_Inl)
    then show ?thesis using Pair Inl by (cases a) (simp_all add: call_def)
  next
    case (Inr x)
    with Pair have "adjust_participant_balance l now i a r s = (Inr x, s')" by simp
    then show ?thesis
    proof (cases rule: adjust_cases)
      case (1 n current)
      then show ?thesis using Pair Inr by (simp add: call_def funds_held_def charges_total_def moved_ledger)
    qed
  qed
qed

lemma people_call_funds: "funds_held (snd (people_call u x s)) = funds_held s + people_funds u x s"
proof (cases x)
  case (AdjustBalance l now i a r)
  then show ?thesis by (simp only: adjust_funds)
qed (simp_all add: call_def people_funds_frame)

lemma commit_pour_funds:
  assumes "commit_pour pid l sid pv r k c cap t0 t1 s = Inr ((out, dup), s')"
  shows "funds_held s' = funds_held s"
  using assms
proof (cases rule: commit_pour_cases)
  case (1 row s2 s3)
  have "funds_held s2 = funds_held s" using 1(9) by (simp add: funds_held_def charges_total_def)
  moreover have "funds_held s3 = funds_held s2" using 1(10) charge_pour_funds by blast
  ultimately show ?thesis using funds_core [OF 1(11)] by simp
qed

lemma charges_total_update:
  "sum_list (map (\<lambda>(k, c). ch_amount_cents c) (update_row i (\<lambda>c. c\<lparr>ch_participant_id := n\<rparr>) t)) =
   sum_list (map (\<lambda>(k, c). ch_amount_cents c) t)"
  by (induction t) (auto simp: update_row_def)

lemma reassign_funds:
  assumes "reassign_pour aid rid cid now i n r s = (Inr out, s')" "store_inv s"
  shows "funds_held s' = funds_held s"
  using assms
proof (cases rule: reassign_cases)
  case (kept au p)
  then show ?thesis by (simp add: funds_held_def charges_total_def)
next
  case (charged au p v)
  then have "funds_held s' = funds_held (owned aid au i n s)" by (intro charge_pour_funds)
  then show ?thesis by (simp add: funds_held_def charges_total_def)
next
  case (moved_charge au p c q bq sr bn)
  then show ?thesis
    by (simp add: funds_held_def charges_total_def moved_ledger charges_total_update)
qed

lemma measure_call_funds:
  assumes "store_inv s"
  shows "funds_held (snd (measure_call u x s)) = funds_held s"
proof (cases x)
  case (Finalize pid l now r k c cap)
  have "funds_held (snd (finalize_device_result u pid l now r k c cap s)) = funds_held s"
  proof (rule kept_eq [OF _ rollbacks(2)])
    fix y s'
    assume "finalize_device_result u pid l now r k c cap s = (Inr y, s')"
    then obtain out dup where "finalize_device_result u pid l now r k c cap s = (Inr (out, dup), s')"
      by (cases y) simp
    then show "funds_held s' = funds_held s"
    proof (cases rule: finalize_cases)
      case (no_pour d)
      then show ?thesis using funds_core [OF no_pour(6)] by (simp add: funds_held_def charges_total_def)
    next
      case (poured sid pv t0)
      then show ?thesis using commit_pour_funds by blast
    qed simp
  qed
  then show ?thesis by (simp add: Finalize call_def)
next
  case (Recover pid now i dev boot a b up)
  have "funds_held (snd (recover_same_boot_delta u pid now i dev boot a b up s)) = funds_held s"
  proof (rule kept_eq [OF _ rollbacks(3)])
    fix y s'
    assume "recover_same_boot_delta u pid now i dev boot a b up s = (Inr y, s')"
    then obtain out dup where "recover_same_boot_delta u pid now i dev boot a b up s = (Inr (out, dup), s')"
      by (cases y) simp
    then show "funds_held s' = funds_held s"
      by (cases rule: recover_cases) (auto simp: funds_held_def charges_total_def core_eq_iff core_def)
  qed
  then show ?thesis by (simp add: Recover call_def)
next
  case (Checkpoint pid now dev boot rec up acc k c cap)
  have "funds_held (snd (checkpoint_recovery_pulses u pid now dev boot rec up acc k c cap s)) = funds_held s"
  proof (rule kept_eq [OF _ rollbacks(4)])
    fix y s'
    assume "checkpoint_recovery_pulses u pid now dev boot rec up acc k c cap s = (Inr y, s')"
    then obtain out dup where "checkpoint_recovery_pulses u pid now dev boot rec up acc k c cap s = (Inr (out, dup), s')"
      by (cases y) simp
    then show "funds_held s' = funds_held s"
      by (cases rule: checkpoint_cases) (simp_all add: funds_held_def charges_total_def)
  qed
  then show ?thesis by (simp add: Checkpoint call_def)
next
  case (Reassign aid rid cid now i n r)
  have "funds_held (snd (reassign_pour aid rid cid now i n r s)) = funds_held s"
    by (rule kept_eq [OF _ rollbacks(5)]) (use reassign_funds assms in auto)
  then show ?thesis by (simp add: Reassign call_def)
qed

lemma store_step_funds:
  "ledger_store_inv s \<Longrightarrow> funds_held (store_step u op s) = funds_held s + funds_delta u op s"
  by (cases op) (simp_all add: store_step_def people_call_funds measure_call_funds ledger_store_inv_def
      frame_calls_core [THEN funds_core])

interpretation funds: balanced_machine "store_step u" ledger_store_inv "\<lambda>op s. True" funds_held "funds_delta u" for u
  by unfold_locales (simp_all add: store_step_inv store_step_funds)

lemma run_all_true: "run_all step (\<lambda>op s. True) ops s"
  by (induction ops arbitrary: s) simp_all

text \<open>The store after a history that starts with an empty database.\<close>

definition store_after :: "(string \<Rightarrow> string) \<Rightarrow> store_op list \<Rightarrow> store" where
  "store_after u ops = run_ops (store_step u) ops empty_store"

lemma store_after_inv: "ledger_store_inv (store_after u ops)"
  unfolding store_after_def by (rule funds.run_inv [OF empty_store_inv])

text \<open>C2 The account book balances after every history of repository calls: each participant's
  balance is the sum of that participant's ledger rows, no ledger row belongs to anyone else, the
  ledger rows of a pour sum to minus what is charged for it, and a charge belongs to the
  participant the pour is attributed to.\<close>

theorem ledger_balances:
  "(\<forall>p b. balance_of (store_after u ops) p = Some b \<longrightarrow>
      b = ledger_sum (of_person p) (st_ledger (store_after u ops))) \<and>
   (\<forall>p. balance_of (store_after u ops) p = None \<longrightarrow>
      list_all (\<lambda>(k, r). \<not> of_person p r) (st_ledger (store_after u ops))) \<and>
   (\<forall>i. ledger_sum (of_pour i) (st_ledger (store_after u ops)) = - charge_of (store_after u ops) i) \<and>
   (\<forall>i c. od_get (st_charges (store_after u ops)) i = Some c \<longrightarrow>
      0 < ch_amount_cents c \<and> owner_of (store_after u ops) i = Some (Some (ch_participant_id c)))"
  using store_after_inv [of u ops] by (simp add: ledger_store_inv_def store_inv_def money_inv_def)

text \<open>Money is neither created nor lost: after every history the sum of all ledger rows plus what
  is charged for pours equals the sum of the fund adjustments that were accepted.  Charging,
  reassigning with its refund, recovering and replaying move money without changing the total.\<close>

theorem funds_conserved:
  "ledger_sum (\<lambda>r. True) (st_ledger (store_after u ops)) + charges_total (store_after u ops) =
   run_sum (store_step u) (funds_delta u) ops empty_store"
proof -
  have "funds_held (store_after u ops) = funds_held empty_store + run_sum (store_step u) (funds_delta u) ops empty_store"
    unfolding store_after_def by (rule funds.run_balance [OF empty_store_inv run_all_true])
  then show ?thesis by (simp add: funds_held_def charges_total_def empty_store_def)
qed

text \<open>C16 Exactly one pour per device event: after every history a committed result that led to a
  pour names the pour with its own event and pulse count, every pour of a device event has such a
  result, and two pours of the same event are the same pour.\<close>

theorem one_pour_per_event:
  "(\<forall>dev boot sq d i. od_get (st_results (store_after u ops)) (dev, boot, sq) = Some d \<longrightarrow> sr_pour_id d = Some i \<longrightarrow>
      (\<exists>p. od_get (st_pours (store_after u ops)) i = Some p \<and> event_of p = (dev, boot, Some sq) \<and>
           pe_raw_pulses p = sr_raw_pulses d)) \<and>
   (\<forall>i j p q. od_get (st_pours (store_after u ops)) i = Some p \<longrightarrow> od_get (st_pours (store_after u ops)) j = Some q \<longrightarrow>
      event_of p = event_of q \<longrightarrow> pe_event_seq p \<noteq> None \<longrightarrow> i = j)"
proof -
  let ?s = "store_after u ops"
  have ev: "events_inv ?s" using store_after_inv [of u ops] by (simp add: ledger_store_inv_def store_inv_def)
  have "i = j" if pq: "od_get (st_pours ?s) i = Some p" "od_get (st_pours ?s) j = Some q" "event_of p = event_of q"
    "pe_event_seq p = Some sq" for i j p q sq
  proof -
    obtain d where "od_get (st_results ?s) (pe_device_id p, pe_boot_id p, sq) = Some d" "sr_pour_id d = Some i"
      using ev pq(1,4) unfolding events_inv_def by blast
    moreover obtain e where "od_get (st_results ?s) (pe_device_id q, pe_boot_id q, sq) = Some e" "sr_pour_id e = Some j"
      using ev pq unfolding events_inv_def event_of_def by (metis prod.inject)
    ultimately show ?thesis using pq(3) by (simp add: event_of_def)
  qed
  then show ?thesis using ev unfolding events_inv_def by blast
qed

text \<open>C17 The recovery watermark is exact: after every history the pulses of a boot's recovery pours
  sum to the recovery count stored in its checkpoint, so no recovered pulse is booked twice and
  none that the checkpoint covers is missing.\<close>

theorem recovery_watermark_exact:
  "recovery_sum dev boot (st_pours (store_after u ops)) =
   (case od_get (st_checkpoints (store_after u ops)) (dev, boot) of None \<Rightarrow> 0 | Some c \<Rightarrow> cp_recovery_pulses c)"
  using store_after_inv [of u ops]
  by (auto simp: ledger_store_inv_def store_inv_def checkpoint_inv_def cp_numbers_def split: option.splits)

section \<open>Replays\<close>

lemma people_call_view: "pulse_view (snd (people_call u x s)) = pulse_view s"
  by (cases x) (simp_all add: call_def people_views adjust_view)

lemma commit_pour_results:
  assumes "commit_pour pid l sid pv r k c cap t0 t1 s = Inr ((out, dup), s')"
  shows "st_results s' = st_results s @ [(event_key r, stored_result_of sid r (Some pid) t1)]"
  using assms
proof (cases rule: commit_pour_cases)
  case (1 row s2 s3)
  have "pulse_view s3 = pulse_view s2" using 1(10) charge_pour_view by blast
  then show ?thesis using 1(9,11) by (simp add: core_eq_iff pulse_view_def)
qed

lemma measure_call_results:
  assumes "od_get (st_results s) key = Some d"
  shows "od_get (st_results (snd (measure_call u x s))) key = Some d"
proof (cases x)
  case (Finalize pid l now r k c cap)
  have "od_get (st_results (snd (finalize_device_result u pid l now r k c cap s))) key = Some d"
  proof (cases "finalize_device_result u pid l now r k c cap s")
    case (Pair res s')
    show ?thesis
    proof (cases res)
      case (Inl e)
      then show ?thesis using rollbacks(2) [of u pid l now r k c cap s] Pair assms by simp
    next
      case (Inr y)
      with Pair obtain out dup where "finalize_device_result u pid l now r k c cap s = (Inr (out, dup), s')"
        by (cases y) simp
      then have "od_get (st_results s') key = Some d"
      proof (cases rule: finalize_cases)
        case (no_pour e)
        then show ?thesis using assms by (simp add: core_eq_iff core_def od_get_snoc)
      next
        case (poured sid pv t0)
        then show ?thesis using assms commit_pour_results by (simp add: od_get_snoc)
      qed (use assms in simp)
      then show ?thesis using Pair by simp
    qed
  qed
  then show ?thesis by (simp add: Finalize call_def)
next
  case (Recover pid now i dev boot a b up)
  have "st_results (snd (recover_same_boot_delta u pid now i dev boot a b up s)) = st_results s"
  proof (rule kept_eq [OF _ rollbacks(3)])
    fix y s'
    assume "recover_same_boot_delta u pid now i dev boot a b up s = (Inr y, s')"
    then obtain out dup where "recover_same_boot_delta u pid now i dev boot a b up s = (Inr (out, dup), s')"
      by (cases y) simp
    then show "st_results s' = st_results s"
      by (cases rule: recover_cases) (auto simp: core_def)
  qed
  then show ?thesis using assms by (simp add: Recover call_def)
next
  case (Checkpoint pid now dev boot rec up acc k c cap)
  have "st_results (snd (checkpoint_recovery_pulses u pid now dev boot rec up acc k c cap s)) = st_results s"
  proof (rule kept_eq [OF _ rollbacks(4)])
    fix y s'
    assume "checkpoint_recovery_pulses u pid now dev boot rec up acc k c cap s = (Inr y, s')"
    then obtain out dup where "checkpoint_recovery_pulses u pid now dev boot rec up acc k c cap s = (Inr (out, dup), s')"
      by (cases y) simp
    then show "st_results s' = st_results s" by (cases rule: checkpoint_cases) simp_all
  qed
  then show ?thesis using assms by (simp add: Checkpoint call_def)
next
  case (Reassign aid rid cid now i n r)
  have "st_results (snd (reassign_pour aid rid cid now i n r s)) = st_results s"
    by (rule kept_eq [OF _ rollbacks(5)])
      (auto simp: reassign_pour_def transaction_Inr Let_def fetch_iff insert_row_iff refund_old_def charge_new_def
        charge_pour_def set_balance_iff add_ledger_iff insert_charge_iff
        elim!: bind_InrE split: if_splits option.splits)
  then show ?thesis using assms by (simp add: Reassign call_def)
qed

lemma store_step_results:
  "od_get (st_results s) key = Some d \<Longrightarrow> od_get (st_results (store_step u op s)) key = Some d"
proof (cases op)
  case (People x)
  assume "od_get (st_results s) key = Some d"
  then show ?thesis using people_call_view [of u x s] by (simp add: store_step_def People pulse_view_def)
next
  case (Measures x)
  assume "od_get (st_results s) key = Some d"
  then show ?thesis using measure_call_results by (simp add: store_step_def Measures)
qed (simp_all add: store_step_def frame_calls_core [THEN core_fields(5)])

lemma run_results:
  "od_get (st_results s) key = Some d \<Longrightarrow> od_get (st_results (run_ops (store_step u) ops s)) key = Some d"
  by (induction ops arbitrary: s) (simp_all add: store_step_results)

lemma finalize_stores:
  assumes "finalize_device_result u pid l now r k c cap s = (Inr (out, dup), s')"
  obtains d where "od_get (st_results s') (event_key r) = Some d"
  using assms
proof (cases rule: finalize_cases)
  case (no_pour d)
  then show thesis using that by (simp add: core_eq_iff core_def od_get_fresh_snoc)
next
  case (poured sid pv t0)
  then show thesis using that commit_pour_results [OF poured(2)] by (simp add: od_get_fresh_snoc)
qed (use that in simp)

lemma checkpoint_stores:
  assumes "checkpoint_recovery_pulses u pid now dev boot rec up acc k c cap s = (Inr x, s1)"
  shows "checkpoint_inputs dev boot rec (case acc of None \<Rightarrow> rec | Some a \<Rightarrow> a) up = Inr () \<and>
    (\<exists>row. od_get (st_checkpoints s1) (dev, boot) = Some row \<and> cp_recovery_pulses row = rec \<and>
       cp_accepted_pulses row = (case acc of None \<Rightarrow> rec | Some a \<Rightarrow> a) \<and> cp_device_uptime_ms row = up)"
proof -
  define a where "a = (case acc of None \<Rightarrow> rec | Some a \<Rightarrow> a)"
  define cp where "cp = od_get (st_checkpoints s) (dev, boot)"
  obtain delta where inp: "checkpoint_inputs dev boot rec a up = Inr ()"
      and del: "recovery_delta_of cp rec a up = Inr delta"
    using assms by (auto simp: checkpoint_recovery_pulses_def transaction_Inr Let_def a_def cp_def elim!: bind_InrE)
  obtain keg cal factor where ctx: "checkpoint_context k c cap s = (keg, cal, factor)" by (metis prod_cases3)
  note d = recovery_delta_iff [OF del]
  note run = assms [unfolded checkpoint_recovery_pulses_def transaction_Inr Let_def, folded a_def cp_def,
    unfolded inp del bind_res_Inr]
  have "\<exists>row. od_get (st_checkpoints s1) (dev, boot) = Some row \<and> cp_recovery_pulses row = rec \<and>
       cp_accepted_pulses row = a \<and> cp_device_uptime_ms row = up"
    using run d by (auto simp: ctx insert_pour_iff od_get_set cp_numbers_def elim!: bind_InrE split: if_splits option.splits)
  then show ?thesis using inp unfolding a_def by blast
qed

end
