(* ===== verification/KP_StoreProps.thy ===== *)
theory KP_StoreProps
  imports KP_StoreRuns
begin

text \<open>
  Replays, recovery reports and reassignment on the store, with a history that runs a priced pour
  from the creation of its participants to its charge.
\<close>

section \<open>A demonstration history\<close>

definition demo_sid :: string where "demo_sid = ''00000000-0000-0000-0000-000000000000''"

definition demo_result :: device_result where
  "demo_result = \<lparr>dr_device_id = ''0123456789ABCDEF'', dr_boot_id = ''FEDCBA9876543210'', dr_event_seq = 1,
     dr_session_id = Some ''00000000000000000000000000000000'', dr_attributed = True, dr_status = COMPLETE,
     dr_raw_pulses = 296, dr_lifetime_pulses = 296, dr_started_ms = 0, dr_ended_ms = 5000, dr_fault = ''none''\<rparr>"

definition demo_ops :: "store_op list" where
  "demo_ops = [People (CreateParticipant ''a'' 1 ''Ann''), People (CreateParticipant ''b'' 2 ''Bob''),
     Logs (SetSetting ''beer_price_cents_per_fl_oz'' (JStr ''100'')),
     Calibrations (CreateCalibration ''c'' 3 ''beer'' (Some 1) ''''),
     Calibrations (AddSample ''s'' 4 ''c'' (VInt 1) (VInt 1000) (Some 1000) (Some 1) True),
     Calibrations (ActivateProvisional 5 ''c''),
     Sessions (CreateProvisional demo_sid 6 (Some ''a'') ''key00001'' ''pour'' None None),
     Sessions (BindProvisional 7 demo_sid ''0123456789ABCDEF'' ''FEDCBA9876543210'' 1 0)]"

definition demo_store :: store where "demo_store = store_after (\<lambda>x. x) demo_ops"

definition demo_commit :: "(pour option \<times> bool) result \<times> store" where
  "demo_commit = finalize_device_result (\<lambda>x. x) ''p'' ''l'' 9000 demo_result None None True demo_store"

definition demo_reassign :: "pour option result \<times> store" where
  "demo_reassign = reassign_pour ''x'' ''r'' ''n'' 9100 ''p'' ''b'' ''wrong person'' (snd demo_commit)"

lemma demo_evaluated:
  "(let c = demo_commit; r = reassign_pour ''x'' ''r'' ''n'' 9100 ''p'' ''b'' ''wrong person'' (snd c)
    in (is_ok (fst c), is_ok (fst r), owner_of (snd c) ''p'', charge_of (snd c) ''p'', balance_of (snd c) ''a'',
        map_option (\<lambda>d. (sr_pour_id d, sr_raw_pulses d)) (od_get (st_results (snd c)) (event_key demo_result)))) =
   (True, True, Some (Some ''a''), 1001, Some (- 1001), Some (Some ''p'', 296))"
  by code_simp

lemma demo_facts:
  "is_ok (fst demo_commit) \<and> is_ok (fst demo_reassign) \<and>
   owner_of (snd demo_commit) ''p'' = Some (Some ''a'') \<and>
   charge_of (snd demo_commit) ''p'' = 1001 \<and> balance_of (snd demo_commit) ''a'' = Some (- 1001)"
  using demo_evaluated by (simp add: Let_def demo_reassign_def)

lemma demo_commit_inv: "ledger_store_inv (snd demo_commit)"
  using store_step_inv [of demo_store "\<lambda>x. x" "Measures (Finalize ''p'' ''l'' 9000 demo_result None None True)"]
  by (simp add: demo_commit_def demo_store_def store_after_inv store_step_def call_def)

section \<open>The invariants on the demonstration history\<close>

definition demo_history :: "store_op list" where
  "demo_history = demo_ops @ [Measures (Finalize ''p'' ''l'' 9000 demo_result None None True)]"

lemma demo_history_store: "store_after (\<lambda>x. x) demo_history = snd demo_commit"
  by (simp add: demo_history_def demo_commit_def demo_store_def store_after_def run_ops_append store_step_def call_def)

theorem ledger_balances_witness:
  "ledger_sum (of_person ''a'') (st_ledger (snd demo_commit)) = - 1001"
  using ledger_balances [of "\<lambda>x. x" demo_history] demo_facts by (simp add: demo_history_store)

theorem one_pour_per_event_witness:
  "\<exists>p. od_get (st_pours (snd demo_commit)) ''p'' = Some p \<and> pe_event_seq p = Some 1 \<and> pe_raw_pulses p = 296"
proof -
  obtain d where "od_get (st_results (snd demo_commit)) (''0123456789ABCDEF'', ''FEDCBA9876543210'', 1) = Some d"
      "sr_pour_id d = Some ''p''" "sr_raw_pulses d = 296"
    using demo_evaluated by (auto simp: Let_def event_key_def demo_result_def)
  then show ?thesis
    using one_pour_per_event [of "\<lambda>x. x" demo_history, THEN conjunct1, rule_format]
    unfolding demo_history_store event_of_def by fastforce
qed

section \<open>Replays\<close>

text \<open>C4 A device result is committed once and for all: after \<open>finalize_device_result\<close> has returned
  for an event, no later commit of that event - after any history of other calls, with any clock,
  context or identifiers - changes the store; it raises or answers with the duplicate flag.\<close>

theorem result_committed_once:
  assumes "finalize_device_result u pid l now r k c cap s = (Inr first_answer, s1)"
    and "s2 = run_ops (store_step u) ops s1"
  shows "snd (finalize_device_result u pid' l' now' r k' c' cap' s2) = s2 \<and>
         (\<forall>out dup. fst (finalize_device_result u pid' l' now' r k' c' cap' s2) = Inr (out, dup) \<longrightarrow> dup)"
proof -
  obtain out dup where first: "finalize_device_result u pid l now r k c cap s = (Inr (out, dup), s1)"
    using assms(1) by (cases first_answer) simp
  obtain d where "od_get (st_results s1) (event_key r) = Some d" by (rule finalize_stores [OF first])
  then have "od_get (st_results s2) (event_key r) = Some d" using run_results assms(2) by simp
  then have mem: "od_mem (event_key r) (st_results s2)" by (simp add: od_mem_iff)
  show ?thesis
  proof (cases "fst (finalize_device_result u pid' l' now' r k' c' cap' s2)")
    case (Inl e)
    then show ?thesis using rollbacks(2) [of u pid' l' now' r k' c' cap' s2] by simp
  next
    case (Inr y)
    then obtain out' dup' s3 where again: "finalize_device_result u pid' l' now' r k' c' cap' s2 = (Inr (out', dup'), s3)"
      by (cases y; cases "finalize_device_result u pid' l' now' r k' c' cap' s2") auto
    from again show ?thesis by (cases rule: finalize_cases) (use again mem in auto)
  qed
qed

theorem result_committed_once_witness:
  "snd (finalize_device_result (\<lambda>x. x) ''p2'' ''l2'' 9999 demo_result None None False
      (run_ops (store_step (\<lambda>x. x)) [Sessions (UpdateStatus 9100 demo_sid ''consumed'')] (snd demo_commit))) =
    run_ops (store_step (\<lambda>x. x)) [Sessions (UpdateStatus 9100 demo_sid ''consumed'')] (snd demo_commit)"
proof -
  obtain x where "fst demo_commit = Inr x" using demo_facts by (auto simp: is_ok_iff)
  then have "finalize_device_result (\<lambda>x. x) ''p'' ''l'' 9000 demo_result None None True demo_store = (Inr x, snd demo_commit)"
    by (cases demo_commit) (simp add: demo_commit_def)
  from result_committed_once [OF this refl] show ?thesis by blast
qed

section \<open>Recovery reports\<close>

text \<open>A recovery report is booked once: when a report of a boot's counters was accepted, the same
  report is answered with the duplicate flag and books no pour, charge or balance; and a report
  below the stored watermark is refused without a change.\<close>

theorem checkpoint_replay:
  assumes "checkpoint_recovery_pulses u pid now dev boot rec up acc k c cap s = (Inr x, s1)"
  shows "(\<exists>out s2. checkpoint_recovery_pulses u pid' now' dev boot rec up acc k' c' cap' s1 = (Inr (out, True), s2) \<and>
            st_pours s2 = st_pours s1 \<and> st_participants s2 = st_participants s1 \<and> st_ledger s2 = st_ledger s1 \<and>
            st_charges s2 = st_charges s1 \<and> st_results s2 = st_results s1) \<and>
         (\<forall>rec' acc' up'. rec' < rec \<longrightarrow>
            \<not> is_ok (fst (checkpoint_recovery_pulses u pid' now' dev boot rec' up' acc' k' c' cap' s1)) \<and>
            snd (checkpoint_recovery_pulses u pid' now' dev boot rec' up' acc' k' c' cap' s1) = s1)"
proof
  define accepted where "accepted = (case acc of None \<Rightarrow> rec | Some a \<Rightarrow> a)"
  let ?cp = "od_get (st_checkpoints s1) (dev, boot)"
  obtain row where inp: "checkpoint_inputs dev boot rec accepted up = Inr ()"
    and row: "?cp = Some row" "cp_recovery_pulses row = rec" "cp_accepted_pulses row = accepted"
      "cp_device_uptime_ms row = up"
    using checkpoint_stores [OF assms] unfolding accepted_def by blast
  have "recovery_delta_of ?cp rec accepted up = Inr 0"
    by (simp add: recovery_delta_of_def row cp_numbers_def Let_def ensure_plausible_pulse_count_def
        pulse_limit_for_elapsed_def pulse_limits)
  then show "\<exists>out s2. checkpoint_recovery_pulses u pid' now' dev boot rec up acc k' c' cap' s1 = (Inr (out, True), s2) \<and>
            st_pours s2 = st_pours s1 \<and> st_participants s2 = st_participants s1 \<and> st_ledger s2 = st_ledger s1 \<and>
            st_charges s2 = st_charges s1 \<and> st_results s2 = st_results s1"
    using inp by (simp add: checkpoint_recovery_pulses_def transaction_def Let_def accepted_def)
  show "\<forall>rec' acc' up'. rec' < rec \<longrightarrow>
            \<not> is_ok (fst (checkpoint_recovery_pulses u pid' now' dev boot rec' up' acc' k' c' cap' s1)) \<and>
            snd (checkpoint_recovery_pulses u pid' now' dev boot rec' up' acc' k' c' cap' s1) = s1"
  proof (intro allI impI)
    fix rec' acc' up'
    assume lt: "rec' < rec"
    have "\<not> is_ok (fst (checkpoint_recovery_pulses u pid' now' dev boot rec' up' acc' k' c' cap' s1))"
    proof
      assume "is_ok (fst (checkpoint_recovery_pulses u pid' now' dev boot rec' up' acc' k' c' cap' s1))"
      then obtain out dup s2
        where "checkpoint_recovery_pulses u pid' now' dev boot rec' up' acc' k' c' cap' s1 = (Inr (out, dup), s2)"
        by (cases "checkpoint_recovery_pulses u pid' now' dev boot rec' up' acc' k' c' cap' s1")
          (auto simp: is_ok_iff)
      then show False by (cases rule: checkpoint_cases) (use lt row in \<open>simp_all add: cp_numbers_def\<close>)
    qed
    then show "\<not> is_ok (fst (checkpoint_recovery_pulses u pid' now' dev boot rec' up' acc' k' c' cap' s1)) \<and>
            snd (checkpoint_recovery_pulses u pid' now' dev boot rec' up' acc' k' c' cap' s1) = s1"
      using rollbacks(4) by blast
  qed
qed

theorem checkpoint_replay_witness:
  "\<exists>s1. od_get (st_checkpoints s1) (''0123456789ABCDEF'', ''FEDCBA9876543210'') \<noteq> None \<and>
     \<not> is_ok (fst (checkpoint_recovery_pulses (\<lambda>x. x) ''q'' 10 ''0123456789ABCDEF'' ''FEDCBA9876543210'' 3 600
                    (Some 8) None None False s1))"
proof -
  let ?c = "checkpoint_recovery_pulses (\<lambda>x. x) ''p'' 9 ''0123456789ABCDEF'' ''FEDCBA9876543210'' 7 500 (Some 8) None None False empty_store"
  have ok: "is_ok (fst ?c) \<and> od_get (st_checkpoints (snd ?c)) (''0123456789ABCDEF'', ''FEDCBA9876543210'') \<noteq> None" by code_simp
  then obtain x where "fst ?c = Inr x" by (auto simp: is_ok_iff)
  then have "?c = (Inr x, snd ?c)" by (metis prod.collapse)
  from checkpoint_replay [OF this, THEN conjunct2]
  have "\<not> is_ok (fst (checkpoint_recovery_pulses (\<lambda>x. x) ''q'' 10 ''0123456789ABCDEF'' ''FEDCBA9876543210'' 3 600
                    (Some 8) None None False (snd ?c)))" by simp
  with ok show ?thesis by blast
qed

section \<open>Reassignment\<close>

text \<open>C10 Reassigning a charged pour moves exactly its charge: the person charged before gets the
  amount back, the new person pays it, nobody else's balance changes, the pour and its charge
  belong to the new person, and the amount charged for every pour stays the same.\<close>

theorem reassign_moves_charge:
  assumes "ledger_store_inv s" "owner_of s i = Some (Some q)" "q \<noteq> n" "charge_of s i \<noteq> 0"
    and "reassign_pour aid rid cid now i n reason s = (Inr out, s')"
  shows "(\<exists>bq bn. balance_of s q = Some bq \<and> balance_of s n = Some bn \<and>
            balance_of s' q = Some (bq + charge_of s i) \<and> balance_of s' n = Some (bn - charge_of s i)) \<and>
         (\<forall>x. x \<noteq> q \<and> x \<noteq> n \<longrightarrow> balance_of s' x = balance_of s x) \<and>
         owner_of s' i = Some (Some n) \<and> charge_of s' = charge_of s"
proof -
  have inv: "store_inv s" using assms(1) by (simp add: ledger_store_inv_def)
  have some: "od_get (st_charges s) i \<noteq> None"
    using assms(4) by (cases "od_get (st_charges s) i") (simp_all add: charge_of_def)
  from assms(5) inv show ?thesis
  proof (cases rule: reassign_cases)
    case (kept au p)
    then show ?thesis using some assms(2,3) by (auto simp: owner_of_def)
  next
    case (charged au p v)
    then show ?thesis using some by simp
  next
    case (moved_charge au p c q' bq sr bn)
    have q: "q' = q" using moved_charge(1,4) assms(2) by (simp add: owner_of_def)
    have own: "owner_of s i = Some (pe_participant_id p)" using moved_charge(1) by (simp add: owner_of_def)
    have a: "charge_of s i = ch_amount_cents c" using moved_charge(3) by (simp add: charge_of_def)
    have ch: "od_get (st_charges s') j = (if j = i then Some (c\<lparr>ch_participant_id := n\<rparr>) else od_get (st_charges s) j)" for j
      using moved_charge(3,8,10) by (simp add: od_get_update_row)
    have bal: "balance_of s' x = (if x = n then Some (bn - charge_of s i) else if x = q then Some (bq + charge_of s i)
        else balance_of s x)" for x
      using moved_charge(5,7,8,9,10) q a by (simp add: moved_balance set_charges_frame)
    have "charge_of s' j = charge_of s j" for j using ch [of j] moved_charge(3) by (simp add: charge_of_def)
    moreover have "owner_of s' i = Some (Some n)"
      using moved_charge(8,10) own by (simp add: set_charges_frame owned_owner)
    ultimately show ?thesis using bal moved_charge(5,7,9) q assms(3) by auto
  qed
qed

theorem reassign_moves_charge_witness:
  "balance_of (snd demo_reassign) ''a'' = Some 0"
proof -
  obtain out where "fst demo_reassign = Inr out" using demo_facts by (auto simp: is_ok_iff)
  then have "reassign_pour ''x'' ''r'' ''n'' 9100 ''p'' ''b'' ''wrong person'' (snd demo_commit) = (Inr out, snd demo_reassign)"
    by (cases demo_reassign) (simp add: demo_reassign_def)
  from reassign_moves_charge [OF demo_commit_inv _ _ _ this, of "''a''"] show ?thesis
    using demo_facts by auto
qed

end
