(* ===== verification/KP_Coordinator.thy ===== *)
theory KP_Coordinator
  imports KP_Wire KP_Retry KP_StoreRuns
begin

text \<open>
  The coordinator, \<open>src/kegpulse/application/coordinator.py\<close>: processing of the device manager's
  events with their quarantines, the reconciliation after a reconnect, arming and cancelling a
  session, and one round of the event loop.

  A \<open>moment\<close> holds what a call gets from outside: the clock, the manager's identity, status and
  connection state at the points the call reads them, the answers of \<open>manager.request\<close>, the random
  identifiers it draws, and the digests \<open>uuid5\<close> and \<open>sha256\<close>.  The requests a call makes are
  recorded in order.  A call reads the clock once.  The broadcast of a snapshot has no effect on
  the state and is left out.
\<close>

section \<open>State\<close>

record moment =
  mo_now :: int
  mo_loop_time :: int
  mo_identity_before :: field_dict
  mo_identity :: field_dict
  mo_status :: field_dict
  mo_state :: connection_state
  mo_answer :: "string \<Rightarrow> field_dict \<Rightarrow> frame result"
  mo_pour_id :: string
  mo_ledger_id :: string
  mo_anomaly_id :: string
  mo_session_id :: string
  mo_uuid5 :: "string \<Rightarrow> string"
  mo_sha256 :: "string \<Rightarrow> string"

record coordinator =
  co_store :: store
  co_requests :: "(string \<times> field_dict) list"
  co_retries :: "retry list"
  co_revision :: int
  co_demo :: bool
  co_arm_timeout :: int

definition on_store :: "(store \<Rightarrow> 'a result \<times> store) \<Rightarrow> coordinator \<Rightarrow> 'a result \<times> coordinator" where
  "on_store op c = (fst (op (co_store c)), c\<lparr>co_store := snd (op (co_store c))\<rparr>)"

text \<open>\<open>except\<close>: the handler sees the exception and the state in which it was raised.\<close>

definition except_st :: "'a result \<times> 's \<Rightarrow> (py_exc \<Rightarrow> 's \<Rightarrow> 'b result \<times> 's) \<Rightarrow> ('a \<Rightarrow> 's \<Rightarrow> 'b result \<times> 's) \<Rightarrow> 'b result \<times> 's" where
  "except_st rs handler k = (case fst rs of Inl e \<Rightarrow> handler e (snd rs) | Inr x \<Rightarrow> k x (snd rs))"

definition diagnostic :: "moment \<Rightarrow> string \<Rightarrow> string \<Rightarrow> (string \<times> json) list \<Rightarrow> coordinator \<Rightarrow> coordinator" where
  "diagnostic m level code_text context c = snd (on_store (add_diagnostic (mo_now m) level code_text context) c)"

definition send_request :: "moment \<Rightarrow> string \<Rightarrow> field_dict \<Rightarrow> coordinator \<Rightarrow> frame result \<times> coordinator" where
  "send_request m op flds c = (mo_answer m op flds, c\<lparr>co_requests := co_requests c @ [(op, flds)]\<rparr>)"

fun exc_name :: "py_exc \<Rightarrow> string" where
  "exc_name (DomainError _) = ''DomainError''"
| "exc_name (ConflictError _) = ''ConflictError''"
| "exc_name (NotFoundError _) = ''NotFoundError''"
| "exc_name (AuthorizationError _) = ''AuthorizationError''"
| "exc_name (MeasurementRejectedError _) = ''MeasurementRejectedError''"
| "exc_name (ValueError _) = ''ValueError''"
| "exc_name (KeyError _) = ''KeyError''"
| "exc_name (RuntimeError _) = ''RuntimeError''"
| "exc_name (TransportUnavailable _) = ''TransportUnavailable''"
| "exc_name (TransportError _) = ''TransportError''"
| "exc_name (TimeoutError _) = ''TimeoutError''"
| "exc_name (IntegrityError _) = ''IntegrityError''"
| "exc_name (TypeError _) = ''TypeError''"
| "exc_name (InvalidOperation _) = ''InvalidOperation''"
| "exc_name (OverflowError _) = ''OverflowError''"
| "exc_name (DeviceCommandError _ _) = ''DeviceCommandError''"

fun measurement_rejected :: "py_exc \<Rightarrow> bool" where
  "measurement_rejected (MeasurementRejectedError _) = True"
| "measurement_rejected _ = False"

fun device_command_error :: "py_exc \<Rightarrow> bool" where
  "device_command_error (DeviceCommandError _ _) = True"
| "device_command_error _ = False"

fun is_conflict :: "py_exc \<Rightarrow> bool" where
  "is_conflict (ConflictError _) = True"
| "is_conflict _ = False"

definition fields_json :: "field_dict \<Rightarrow> json" where
  "fields_json flds = JObj (map (\<lambda>(k, v). (k, JStr v)) flds)"

text \<open>\<open>value or None\<close>, and \<open>fields.get(key, "unavailable")\<close>.\<close>

definition or_none :: "string \<Rightarrow> string option" where
  "or_none t = (if t = [] then None else Some t)"

definition get_or :: "field_dict \<Rightarrow> string \<Rightarrow> string \<Rightarrow> string" where
  "get_or flds k d = (case od_get flds k of None \<Rightarrow> d | Some v \<Rightarrow> v)"

definition no_hyphens :: "string \<Rightarrow> string" where
  "no_hyphens t = filter (\<lambda>c. c \<noteq> CHR ''-'') t"

section \<open>Quarantine\<close>

definition frame_fingerprint :: "moment \<Rightarrow> field_dict \<Rightarrow> string" where
  "frame_fingerprint m flds = mo_sha256 m (dumps (fields_json (sort_key fst flds)))"

definition usable_sequence :: "field_dict \<Rightarrow> int option" where
  "usable_sequence flds =
     (let sequence = (case py_int (field flds ''seq'') of None \<Rightarrow> 0 | Some n \<Rightarrow> n)
      in if 1 \<le> sequence \<and> sequence \<le> 0xFFFFFFFF then Some sequence else None)"

definition ack_fields :: "string \<Rightarrow> string \<Rightarrow> int \<Rightarrow> field_dict" where
  "ack_fields dev boot sq = [(''dev'', dev), (''boot'', boot), (''seq'', show_int sq)]"

definition anomaly_identity :: "string \<Rightarrow> manager_event \<Rightarrow> string \<Rightarrow> string" where
  "anomaly_identity kind e suffix = kind @ '':'' @ me_device_id e @ '':'' @ me_boot_id e @ '':'' @ suffix"

definition result_identity :: "moment \<Rightarrow> manager_event \<Rightarrow> field_dict \<Rightarrow> string" where
  "result_identity m e flds =
     anomaly_identity ''result'' e
       (case usable_sequence flds of Some n \<Rightarrow> show_int n | None \<Rightarrow> frame_fingerprint m flds)"

definition same_identity :: "field_dict \<Rightarrow> string \<Rightarrow> string \<Rightarrow> bool" where
  "same_identity ids dev boot \<longleftrightarrow> od_get ids ''device'' = Some dev \<and> od_get ids ''boot'' = Some boot"

definition quarantine_invalid_result ::
    "moment \<Rightarrow> manager_event \<Rightarrow> string \<Rightarrow> coordinator \<Rightarrow> unit result \<times> coordinator" where
  "quarantine_invalid_result m e reason c =
     (case me_frame e of
        None \<Rightarrow> (Inr (), c)
      | Some fr \<Rightarrow>
          let flds = fr_fields fr; usable = usable_sequence flds
          in bind_st (on_store (record_measurement_anomaly (mo_anomaly_id m) (mo_now m) (result_identity m e flds)
                 ''result'' (get_or flds ''pulses'' ''unavailable'') reason [(''fields'', fields_json flds)]
                 (or_none (me_device_id e)) (or_none (me_boot_id e)) (map_option show_int usable)) c)
               (\<lambda>inserted c.
                 let c1 = (if inserted then
                             diagnostic m ''error'' ''measurement_result_quarantined''
                               [(''boot'', JStr (me_boot_id e)), (''seq'', JStr (take 20 (field flds ''seq''))),
                                (''reason'', JStr (take 160 reason))] c
                           else c)
                 in case usable of
                      None \<Rightarrow> (Inr (), c1)
                    | Some sq \<Rightarrow>
                        if \<not> same_identity (mo_identity m) (me_device_id e) (me_boot_id e) then (Inr (), c1)
                        else
                          except_st (send_request m ''ACK'' (ack_fields (me_device_id e) (me_boot_id e) sq) c1)
                            (\<lambda>_ c2. (Inr (), diagnostic m ''warning'' ''quarantined_result_ack_pending''
                                      [(''event_seq'', JInt sq)] c2))
                            (\<lambda>_ c2. (Inr (), c2))))"

definition quarantine_counter ::
    "moment \<Rightarrow> manager_event \<Rightarrow> string \<Rightarrow> counter_snapshot option \<Rightarrow> coordinator \<Rightarrow> unit result \<times> coordinator" where
  "quarantine_counter m e reason counters c =
     (case me_frame e of
        None \<Rightarrow> (Inr (), c)
      | Some fr \<Rightarrow>
          let flds = fr_fields fr
          in bind_st (on_store (record_measurement_anomaly (mo_anomaly_id m) (mo_now m)
                 (anomaly_identity ''counter'' e (frame_fingerprint m flds)) ''recovery_counter''
                 (get_or flds ''recovery'' ''unavailable'') reason
                 [(''fields'', fields_json flds),
                  (''uptime_ms'', case me_uptime_ms e of None \<Rightarrow> JNull | Some n \<Rightarrow> JInt n)]
                 (or_none (me_device_id e)) (or_none (me_boot_id e)) None) c)
               (\<lambda>inserted c.
                 (Inr (), if inserted then
                    diagnostic m ''error'' ''measurement_counter_quarantined''
                      [(''boot'', JStr (me_boot_id e)),
                       (''accepted'', case counters of Some k \<Rightarrow> JInt (cs_accepted_pulses k)
                                       | None \<Rightarrow> JStr (get_or flds ''accepted'' ''unavailable'')),
                       (''recovery'', case counters of Some k \<Rightarrow> JInt (cs_recovery_pulses k)
                                       | None \<Rightarrow> JStr (get_or flds ''recovery'' ''unavailable'')),
                       (''reason'', JStr (take 160 reason))] c
                  else c)))"

definition quarantine_status ::
    "moment \<Rightarrow> manager_event \<Rightarrow> string \<Rightarrow> coordinator \<Rightarrow> unit result \<times> coordinator" where
  "quarantine_status m e reason c =
     (case me_frame e of
        None \<Rightarrow> (Inr (), c)
      | Some fr \<Rightarrow>
          let flds = fr_fields fr
          in bind_st (on_store (record_measurement_anomaly (mo_anomaly_id m) (mo_now m)
                 (anomaly_identity ''status'' e (frame_fingerprint m flds)) ''status''
                 (get_or flds ''lifetime'' ''unavailable'') reason [(''fields'', fields_json flds)]
                 (or_none (me_device_id e)) (or_none (me_boot_id e)) None) c)
               (\<lambda>inserted c.
                 (Inr (), if inserted then
                    diagnostic m ''error'' ''measurement_status_quarantined''
                      [(''boot'', JStr (me_boot_id e)), (''reason'', JStr (take 160 reason))] c
                  else c)))"

section \<open>The recovery counter\<close>

definition checkpoint_recovery_counter :: "moment \<Rightarrow> manager_event \<Rightarrow> coordinator \<Rightarrow> unit result \<times> coordinator" where
  "checkpoint_recovery_counter m e c =
     (case me_frame e of
        None \<Rightarrow> (Inr (), c)
      | Some fr \<Rightarrow>
          (case me_uptime_ms e of
             None \<Rightarrow> (Inl (ValueError ''recovery counter is missing its captured device identity''), c)
           | Some uptime \<Rightarrow>
               if \<not> re_DEVICE_ID (me_device_id e) \<or> \<not> re_DEVICE_ID (me_boot_id e) then
                 (Inl (ValueError ''recovery counter is missing its captured device identity''), c)
               else
                 except_st (parse_counter_snapshot (fr_fields fr) (VInt uptime), c)
                   (\<lambda>ex c. if measurement_rejected ex then quarantine_counter m e (exc_message ex) None c
                           else (Inl ex, c))
                   (\<lambda>counters c.
                     except_st (on_store (checkpoint_recovery_pulses (mo_uuid5 m) (mo_pour_id m) (mo_now m)
                           (me_device_id e) (me_boot_id e) (cs_recovery_pulses counters) uptime
                           (Some (cs_accepted_pulses counters)) (me_keg_id e) (me_calibration_id e)
                           (me_context_captured e)) c)
                       (\<lambda>ex c. if is_conflict ex \<or> measurement_rejected ex
                               then quarantine_counter m e (exc_message ex) (Some counters) c
                               else (Inl ex, c))
                       (\<lambda>(recovered, duplicate) c.
                         (Inr (), case recovered of
                            Some p \<Rightarrow>
                              (if duplicate then c
                               else diagnostic m ''warning'' ''device_recovery_pulses_materialized''
                                 [(''pulses'', JInt (pe_raw_pulses p)), (''pour_id'', JStr (mo_pour_id m)),
                                  (''boot'', JStr (me_boot_id e))] c)
                          | None \<Rightarrow> c)))))"

section \<open>The connected hardware\<close>

text \<open>The setting \<open>confirmed_device\<close>; a dictionary equals another one with the same entries.\<close>

definition is_confirmed :: "json option \<Rightarrow> string \<Rightarrow> string \<Rightarrow> bool" where
  "is_confirmed setting device port \<longleftrightarrow>
     (case setting of
        Some (JObj kvs) \<Rightarrow> length kvs = 2 \<and> od_get kvs ''device_id'' = Some (JStr device) \<and>
                           od_get kvs ''serial_port'' = Some (JStr port)
      | _ \<Rightarrow> False)"

definition remember_confirmed_hardware :: "moment \<Rightarrow> manager_event \<Rightarrow> coordinator \<Rightarrow> unit result \<times> coordinator" where
  "remember_confirmed_hardware m e c =
     (case me_frame e of
        None \<Rightarrow> (Inr (), c)
      | Some fr \<Rightarrow>
          let device = field (fr_fields fr) ''device''; boot = field (fr_fields fr) ''boot'';
              current = mo_identity_before m; port = me_detail e
          in if co_demo c \<or> port = [] then (Inr (), c)
             else if (me_device_id e \<noteq> [] \<and> me_device_id e \<noteq> device) \<or>
                     (me_boot_id e \<noteq> [] \<and> me_boot_id e \<noteq> boot) then (Inr (), c)
             else if current \<noteq> [] \<and> \<not> same_identity current device boot then (Inr (), c)
             else if \<not> text_between 1 64 device \<or> length port > 260 then (Inr (), c)
             else if is_confirmed (od_get (st_settings (co_store c)) ''confirmed_device'') device port then (Inr (), c)
             else on_store (set_setting ''confirmed_device''
                    (JObj [(''device_id'', JStr device), (''serial_port'', JStr port)])) c)"

definition mirror_session_state :: "moment \<Rightarrow> field_dict \<Rightarrow> coordinator \<Rightarrow> unit result \<times> coordinator" where
  "mirror_session_state m status c =
     (case active_provisional (co_store c) of
        None \<Rightarrow> (Inr (), c)
      | Some (sid, v) \<Rightarrow>
          if od_get status ''sid'' \<noteq> Some (no_hyphens sid) then (Inr (), c)
          else
            (case od_get status ''state'' of
               None \<Rightarrow> (Inr (), c)
             | Some st \<Rightarrow>
                 if st \<in> {''armed'', ''pouring'', ''settling''} \<and> pv_status v \<noteq> st then
                   on_store (update_provisional_status (mo_now m) sid st) c
                 else (Inr (), c)))"

text \<open>The readings of the status that reconciliation needs.\<close>

definition reconciliation_status :: "field_dict \<Rightarrow> (device_state \<times> int \<times> int \<times> int) result" where
  "reconciliation_status status =
     bind_res (need status ''state'') (\<lambda>st.
     bind_res (case device_state_of st of Some d \<Rightarrow> Inr d | None \<Rightarrow> Inl (ValueError ''not a valid DeviceState'')) (\<lambda>d.
     bind_res (parse_status_pulse_snapshot status) (\<lambda>pulses.
     bind_res (need_int status ''retained'') (\<lambda>retained.
       if \<not> (0 \<le> retained \<and> retained \<le> 255) then
         Inl (MeasurementRejectedError ''retained result count is out of range'')
       else Inr (d, ss_lifetime_pulses pulses, ss_uptime_ms pulses, retained)))))"

definition interrupt_session ::
    "moment \<Rightarrow> string \<Rightarrow> string \<Rightarrow> string \<Rightarrow> (string \<times> json) list \<Rightarrow> coordinator \<Rightarrow> unit result \<times> coordinator" where
  "interrupt_session m sid level code_text context c =
     bind_st (on_store (update_provisional_status (mo_now m) sid ''interrupted_uncertain'') c) (\<lambda>_ c.
       (Inr (), diagnostic m level code_text ((''session'', JStr (take 8 sid)) # context) c))"

text \<open>A status that cannot be read: the evidence is stored and the session ends as uncertain.\<close>

definition reconcile_invalid_status ::
    "moment \<Rightarrow> string \<Rightarrow> py_exc \<Rightarrow> coordinator \<Rightarrow> unit result \<times> coordinator" where
  "reconcile_invalid_status m sid ex c =
     (let ids = mo_identity m; status = mo_status m;
          key = ''reconciliation-status:'' @ get_or ids ''device'' [] @ '':'' @ get_or ids ''boot'' [] @ '':'' @
                frame_fingerprint m status
      in bind_st (on_store (record_measurement_anomaly (mo_anomaly_id m) (mo_now m) key ''status_reconciliation''
             (get_or status ''lifetime'' ''unavailable'') (exc_message ex)
             [(''fields'', fields_json status), (''session'', JStr sid)]
             (od_get ids ''device'') (od_get ids ''boot'') None) c) (\<lambda>_ c.
         let c1 = diagnostic m ''warning'' ''reconciliation_status_invalid''
               [(''session'', JStr (take 8 sid)), (''reason'', JStr (take 160 (exc_message ex)))] c
         in on_store (update_provisional_status (mo_now m) sid ''interrupted_uncertain'') c1))"

definition recovered_pulses :: "pour + provisional \<Rightarrow> int \<Rightarrow> int" where
  "recovered_pulses out recovered = (case out of Inl p \<Rightarrow> pe_raw_pulses p | Inr v \<Rightarrow> recovered)"

text \<open>An idle device of the same boot with a larger lifetime: the difference becomes a pour.\<close>

definition recover_session ::
    "moment \<Rightarrow> string \<Rightarrow> provisional \<Rightarrow> int \<Rightarrow> int \<Rightarrow> coordinator \<Rightarrow> unit result \<times> coordinator" where
  "recover_session m sid v lifetime uptime c =
     bind_st (need (mo_identity m) ''device'', c) (\<lambda>dev c.
     bind_st (need (mo_identity m) ''boot'', c) (\<lambda>boot c.
       except_st (on_store (recover_same_boot_delta (mo_uuid5 m) (mo_pour_id m) (mo_now m) sid dev boot
             (pv_confirmed_lifetime v) lifetime uptime) c)
         (\<lambda>ex c.
            if \<not> measurement_rejected ex then (Inl ex, c)
            else
              bind_st (on_store (record_measurement_anomaly (mo_anomaly_id m) (mo_now m)
                  (''same-boot:'' @ dev @ '':'' @ boot @ '':'' @ sid @ '':'' @ show_int lifetime) ''same_boot_recovery''
                  (show_int lifetime) (exc_message ex)
                  [(''confirmed_lifetime'', JStr (show_int (pv_confirmed_lifetime v))), (''device_uptime_ms'', JInt uptime)]
                  (Some dev) (Some boot) None) c) (\<lambda>_ c.
                interrupt_session m sid ''error'' ''same_boot_recovery_quarantined''
                  [(''reason'', JStr (take 160 (exc_message ex)))] c))
         (\<lambda>(out, duplicate) c.
            (Inr (), diagnostic m ''warning'' ''same_boot_pulses_recovered''
               [(''pulses'', JInt (recovered_pulses out (lifetime - pv_confirmed_lifetime v))),
                (''duplicate'', JBool duplicate)] c))))"

definition reconcile_after_connect :: "moment \<Rightarrow> coordinator \<Rightarrow> unit result \<times> coordinator" where
  "reconcile_after_connect m c =
     (case active_provisional (co_store c) of
        None \<Rightarrow> (Inr (), c)
      | Some (sid, v) \<Rightarrow>
          if mo_identity m = [] \<or> mo_status m = [] then (Inr (), c)
          else if truthy (pv_device_id v) \<and> pv_device_id v \<noteq> od_get (mo_identity m) ''device'' then
            interrupt_session m sid ''warning'' ''device_changed_during_session'' [] c
          else
            case reconciliation_status (mo_status m) of
              Inl ex \<Rightarrow> reconcile_invalid_status m sid ex c
            | Inr (state, lifetime, uptime, retained) \<Rightarrow>
                let status_sid = od_get (mo_status m) ''sid'';
                    decision = reconcile_provisional (no_hyphens sid) (pv_boot_id v) (pv_confirmed_lifetime v) True
                      (od_get (mo_identity m) ''boot'') (if status_sid = Some ''none'' then None else status_sid)
                      state lifetime
                in (case rd_action decision of
                      RESUME \<Rightarrow> mirror_session_state m (mo_status m) c
                    | RECOVER_UNATTRIBUTED \<Rightarrow>
                        if state = IDLE \<and> retained = 0 then recover_session m sid v lifetime uptime c
                        else if retained > 0 then (Inr (), c)
                        else interrupt_session m sid ''warning'' ''session_interrupted_uncertain''
                               [(''reason'', JStr (take 120 (rd_reason decision)))] c
                    | INTERRUPT_UNCERTAIN \<Rightarrow>
                        interrupt_session m sid ''warning'' ''session_interrupted_uncertain''
                          [(''reason'', JStr (take 120 (rd_reason decision)))] c
                    | _ \<Rightarrow> (Inr (), c)))"

section \<open>Events\<close>

definition acknowledge_result :: "moment \<Rightarrow> device_result \<Rightarrow> coordinator \<Rightarrow> unit result \<times> coordinator" where
  "acknowledge_result m r c =
     (if \<not> same_identity (mo_identity m) (dr_device_id r) (dr_boot_id r) then
        (Inr (), diagnostic m ''warning'' ''ack_deferred_identity_changed''
           [(''device'', JStr (dr_device_id r)), (''boot'', JStr (dr_boot_id r)), (''event_seq'', JInt (dr_event_seq r))] c)
      else
        except_st (send_request m ''ACK'' (ack_fields (dr_device_id r) (dr_boot_id r) (dr_event_seq r)) c)
          (\<lambda>_ c. (Inr (), diagnostic m ''warning'' ''ack_pending'' [(''event_seq'', JInt (dr_event_seq r))] c))
          (\<lambda>_ c. (Inr (), c)))"

text \<open>The result's identity against the handshake that was current when the frame arrived.\<close>

definition captured_mismatch :: "manager_event \<Rightarrow> device_result \<Rightarrow> bool" where
  "captured_mismatch e r \<longleftrightarrow>
     (me_device_id e \<noteq> [] \<and> dr_device_id r \<noteq> me_device_id e) \<or> (me_boot_id e \<noteq> [] \<and> dr_boot_id r \<noteq> me_boot_id e)"

definition process_result :: "moment \<Rightarrow> manager_event \<Rightarrow> frame \<Rightarrow> coordinator \<Rightarrow> unit result \<times> coordinator" where
  "process_result m e fr c =
     except_st (device_result_of_fields (fr_fields fr), c)
       (\<lambda>ex c. if is_value_error ex then quarantine_invalid_result m e (exc_message ex) c else (Inl ex, c))
       (\<lambda>r c.
         except_st
           (if captured_mismatch e r then
              (Inl (ValueError ''device result identity does not match its captured handshake''), c)
            else
              on_store (finalize_device_result (mo_uuid5 m) (mo_pour_id m) (mo_ledger_id m) (mo_now m) r
                (me_keg_id e) (me_calibration_id e) (me_context_captured e)) c)
           (\<lambda>ex c.
              if measurement_rejected ex then quarantine_invalid_result m e (exc_message ex) c
              else (Inl ex, diagnostic m ''error'' ''result_commit_failed'' [(''type'', JStr (exc_name ex))] c))
           (\<lambda>_ c. acknowledge_result m r c))"

definition process_status :: "moment \<Rightarrow> manager_event \<Rightarrow> frame \<Rightarrow> coordinator \<Rightarrow> unit result \<times> coordinator" where
  "process_status m e fr c =
     except_st (parse_status_pulse_snapshot (fr_fields fr), c)
       (\<lambda>ex c. if measurement_rejected ex then quarantine_status m e (exc_message ex) c else (Inl ex, c))
       (\<lambda>_ c.
         if od_get (fr_fields fr) ''boot'' = od_get (mo_identity m) ''boot'' then mirror_session_state m (fr_fields fr) c
         else (Inr (), c))"

definition process_event :: "moment \<Rightarrow> manager_event \<Rightarrow> coordinator \<Rightarrow> unit result \<times> coordinator" where
  "process_event m e c =
     (case me_frame e of
        Some fr \<Rightarrow>
          if me_kind e = ''result'' then process_result m e fr c
          else if me_kind e = ''status'' then process_status m e fr c
          else if me_kind e = ''counters'' then checkpoint_recovery_counter m e c
          else if me_kind e = ''protocol_error'' then
            (Inr (), diagnostic m ''warning'' ''protocol_error'' [(''code'', JStr (me_detail e))] c)
          else if me_kind e = ''hello'' then
            bind_st (remember_confirmed_hardware m e c) (\<lambda>_ c. reconcile_after_connect m c)
          else (Inr (), c)
      | None \<Rightarrow>
          if me_kind e = ''protocol_error'' then
            (Inr (), diagnostic m ''warning'' ''protocol_error'' [(''code'', JStr (me_detail e))] c)
          else if me_kind e = ''hello'' then
            bind_st (remember_confirmed_hardware m e c) (\<lambda>_ c. reconcile_after_connect m c)
          else (Inr (), c))"

section \<open>The event loop\<close>

text \<open>The diagnostics of the retry queue, which names their codes.\<close>

definition retry_diagnostic :: "moment \<Rightarrow> manager_event \<Rightarrow> nat \<Rightarrow> string option \<Rightarrow> coordinator \<Rightarrow> coordinator" where
  "retry_diagnostic m e attempt code_text c =
     (case code_text of
        None \<Rightarrow> c
      | Some t \<Rightarrow>
          diagnostic m ''error'' t
            ((''kind'', JStr (take 40 (me_kind e))) #
             (if t = ''coordinator_event_abandoned'' then [(''attempts'', JInt (int attempt))] else [])) c)"

definition schedule_retry :: "moment \<Rightarrow> manager_event \<Rightarrow> nat \<Rightarrow> coordinator \<Rightarrow> coordinator" where
  "schedule_retry m e attempt c =
     (let (q, code_text) = schedule_event_retry (mo_loop_time m) e attempt (co_retries c)
      in retry_diagnostic m e attempt code_text (c\<lparr>co_retries := q\<rparr>))"

definition handle_event :: "moment \<Rightarrow> manager_event \<Rightarrow> nat \<Rightarrow> coordinator \<Rightarrow> coordinator" where
  "handle_event m e attempt c =
     (let (deferred, q, code_text) = defer_behind_pending (mo_loop_time m) e attempt (co_retries c)
      in if deferred then retry_diagnostic m e attempt code_text (c\<lparr>co_retries := q\<rparr>)
         else
           (case process_event m e c of
              (Inr _, c1) \<Rightarrow> c1
            | (Inl ex, c1) \<Rightarrow>
                schedule_retry m e (attempt + 1)
                  (diagnostic m ''error'' ''coordinator_event_failed''
                     [(''kind'', JStr (take 40 (me_kind e))), (''type'', JStr (exc_name ex)),
                      (''attempt'', JInt (int attempt + 1))] c1)))"

text \<open>One round: the due retries first, then the events the manager handed over.\<close>

fun handle_events :: "(moment \<times> manager_event \<times> nat) list \<Rightarrow> coordinator \<Rightarrow> coordinator" where
  "handle_events [] c = c"
| "handle_events ((m, e, attempt) # rest) c = handle_events rest (handle_event m e attempt c)"

definition event_round :: "int \<Rightarrow> (nat \<Rightarrow> moment) \<Rightarrow> manager_event list \<Rightarrow> coordinator \<Rightarrow> coordinator" where
  "event_round now moments drained c =
     (let (due, later) = due_retries now (co_retries c);
          events = map (\<lambda>(_, attempt, e). (e, attempt)) due @ map (\<lambda>e. (e, 0)) drained;
          c1 = handle_events (map (\<lambda>(i, e, attempt). (moments i, e, attempt)) (zip [0..<length events] events))
                 (c\<lparr>co_retries := later\<rparr>)
      in if events = [] then c\<lparr>co_retries := later\<rparr> else c1\<lparr>co_revision := co_revision c1 + 1\<rparr>)"

section \<open>Commands\<close>

definition arm_timeout_ms :: "coordinator \<Rightarrow> int" where
  "arm_timeout_ms c =
     (case od_get (st_settings (co_store c)) ''arm_timeout_ms'' of
        Some (JInt n) \<Rightarrow> (if 1000 \<le> n \<and> n \<le> 120000 then n else co_arm_timeout c)
      | _ \<Rightarrow> co_arm_timeout c)"

text \<open>The session failed: the status is written and the exception goes on.\<close>

definition fail_session :: "moment \<Rightarrow> string \<Rightarrow> py_exc \<Rightarrow> coordinator \<Rightarrow> 'a result \<times> coordinator" where
  "fail_session m sid ex c =
     bind_st (on_store (update_provisional_status (mo_now m) sid ''failed'') c) (\<lambda>_ c. (Inl ex, c))"

text \<open>\<open>STATUS\<close> and the durable binding of the session to the event the device will use next.\<close>

definition bind_session ::
    "moment \<Rightarrow> string \<Rightarrow> coordinator \<Rightarrow> (frame \<times> provisional option) result \<times> coordinator" where
  "bind_session m sid c =
     bind_st (send_request m ''STATUS'' [] c) (\<lambda>status c.
     bind_st (need (mo_identity m) ''device'', c) (\<lambda>dev c.
     bind_st (need (fr_fields status) ''boot'', c) (\<lambda>boot c.
     bind_st (need_int (fr_fields status) ''next'', c) (\<lambda>sq c.
     bind_st (need_int (fr_fields status) ''lifetime'', c) (\<lambda>life c.
     bind_st (on_store (bind_provisional (mo_now m) sid dev boot sq life) c) (\<lambda>bound c.
       (Inr (status, bound), c)))))))"

definition send_arm :: "moment \<Rightarrow> string \<Rightarrow> frame \<Rightarrow> coordinator \<Rightarrow> frame result \<times> coordinator" where
  "send_arm m sid status c =
     bind_st (need (fr_fields status) ''boot'', c) (\<lambda>boot c.
     bind_st (need (fr_fields status) ''next'', c) (\<lambda>sq c.
       send_request m ''ARM''
         [(''boot'', boot), (''seq'', sq), (''sid'', no_hyphens sid), (''ttl'', show_int (arm_timeout_ms c))] c))"

text \<open>The part of \<open>arm_for_purpose\<close> after the session was created.\<close>

definition arm_device :: "moment \<Rightarrow> string \<Rightarrow> coordinator \<Rightarrow> provisional option result \<times> coordinator" where
  "arm_device m sid c =
     (if mo_state m \<noteq> CONNECTED then fail_session m sid (ConflictError ''flow device is not connected'') c
      else
        except_st (bind_session m sid c)
          (\<lambda>ex c. fail_session m sid ex c)
          (\<lambda>(status, bound) c.
            except_st (send_arm m sid status c)
              (\<lambda>ex c.
                 if device_command_error ex then fail_session m sid ex c
                 else (Inl ex, diagnostic m ''warning'' ''arm_acknowledgement_uncertain''
                         [(''session'', JStr (take 8 sid)), (''type'', JStr (exc_name ex))] c))
              (\<lambda>response c.
                 if fr_operation response \<noteq> ''ARM'' then (Inl (ConflictError ''device did not acknowledge arming''), c)
                 else (Inr bound, c\<lparr>co_revision := co_revision c + 1\<rparr>))))"

definition arm_for_purpose ::
    "moment \<Rightarrow> string option \<Rightarrow> string \<Rightarrow> string \<Rightarrow> string option \<Rightarrow> int option \<Rightarrow> coordinator \<Rightarrow>
     provisional option result \<times> coordinator" where
  "arm_for_purpose m participant_id idempotency_key purpose calibration_id target_ordinal c =
     bind_st (on_store (create_provisional (mo_session_id m) (mo_now m) participant_id idempotency_key purpose
         calibration_id target_ordinal) c)
       (\<lambda>((sid, v), duplicate) c. if duplicate then (Inr (Some v), c) else arm_device m sid c)"

definition arm_pour :: "moment \<Rightarrow> string option \<Rightarrow> string \<Rightarrow> coordinator \<Rightarrow> provisional option result \<times> coordinator" where
  "arm_pour m participant_id idempotency_key = arm_for_purpose m participant_id idempotency_key ''pour'' None None"

text \<open>\<open>mo_status\<close> is the manager's status after the device answered.\<close>

definition cancel_session :: "moment \<Rightarrow> coordinator \<Rightarrow> provisional result \<times> coordinator" where
  "cancel_session m c =
     (case active_provisional (co_store c) of
        None \<Rightarrow> (Inl (ConflictError ''there is no active pour to cancel''), c)
      | Some (sid, v) \<Rightarrow>
          bind_st
            (case pv_event_seq v of
               None \<Rightarrow> on_store (update_provisional_status (mo_now m) sid ''cancelled'') c
             | Some sq \<Rightarrow>
                 if \<not> truthy (pv_boot_id v) then on_store (update_provisional_status (mo_now m) sid ''cancelled'') c
                 else if mo_state m \<noteq> CONNECTED then
                   interrupt_session m sid ''warning'' ''session_cancelled_while_device_unavailable'' [] c
                 else
                   bind_st (send_request m ''CANCEL''
                       [(''boot'', the (pv_boot_id v)), (''seq'', show_int sq), (''sid'', no_hyphens sid)] c) (\<lambda>_ c.
                     on_store (update_provisional_status (mo_now m) sid
                       (if od_get (mo_status m) ''state'' = Some ''armed'' then ''cancelled'' else ''finalizing'')) c))
            (\<lambda>_ c.
              let c1 = c\<lparr>co_revision := co_revision c + 1\<rparr>
              in (case od_get (st_sessions (co_store c1)) sid of
                    None \<Rightarrow> (Inl (NotFoundError ''session not found''), c1)
                  | Some w \<Rightarrow> (Inr w, c1))))"

end
