(* ===== verification/KP_Catalogue.thy ===== *)
theory KP_Catalogue
  imports KP_StoreRuns
begin

text \<open>
  What is unique in the store: the open keg, the active calibration and the active session.  The
  schema enforces the first by an index; the others hold because of how the operations are used,
  which \<open>allowed\<close> states: a session's status is only made active, or bound, while the session is
  active, and a device result is terminal.
\<close>

section \<open>At most one row\<close>

definition at_most_one :: "('v \<Rightarrow> bool) \<Rightarrow> ('k, 'v) odict \<Rightarrow> bool" where
  "at_most_one P t \<longleftrightarrow> od_wf t \<and>
     (\<forall>i j v w. od_get t i = Some v \<longrightarrow> od_get t j = Some w \<longrightarrow> P v \<longrightarrow> P w \<longrightarrow> i = j)"

lemma some_row_iff: "od_wf t \<Longrightarrow> some_row P t \<longleftrightarrow> (\<exists>i v. od_get t i = Some v \<and> P v)"
proof -
  assume wf: "od_wf t"
  have "some_row P t \<longleftrightarrow> (\<exists>i v. (i, v) \<in> set t \<and> P v)" by (auto simp: some_row_def list_ex_iff)
  also have "\<dots> \<longleftrightarrow> (\<exists>i v. od_get t i = Some v \<and> P v)" using od_get_of_mem [OF wf] od_get_in by metis
  finally show ?thesis .
qed

lemma find_row_get: "od_wf t \<Longrightarrow> find_row P t = Some (k, v) \<Longrightarrow> od_get t k = Some v \<and> P v"
  using find_row_Some od_get_of_mem by metis

lemma at_most_one_wf: "at_most_one P t \<Longrightarrow> od_wf t"
  by (simp add: at_most_one_def)

lemma at_most_one_Nil [simp]: "at_most_one P []"
  by (simp add: at_most_one_def)

lemma at_most_one_snoc:
  assumes "at_most_one P t" "\<not> od_mem k t" "P v \<Longrightarrow> \<not> some_row P t"
  shows "at_most_one P (t @ [(k, v)])"
proof -
  have none: "od_get t k = None" using assms(2) by (simp add: od_mem_iff)
  have get: "od_get (t @ [(k, v)]) j = (if j = k then Some v else od_get t j)" for j
    using none by (auto simp: od_get_snoc split: option.splits)
  have wf: "od_wf t" using assms(1) by (rule at_most_one_wf)
  have "\<not> P w" if "od_get t j = Some w" "P v" for j w
    using assms(3) [OF that(2)] that(1) some_row_iff [OF wf] by blast
  then show ?thesis
    using assms(1,2) unfolding at_most_one_def get by (auto simp: od_wf_snoc split: if_splits)
qed

lemma at_most_one_update:
  assumes "at_most_one P t" "\<And>v. od_get t k = Some v \<Longrightarrow> P (f v) \<Longrightarrow> P v"
  shows "at_most_one P (update_row k f t)"
  using assms unfolding at_most_one_def
  by (auto simp: od_get_update_row map_option_case split: if_splits option.splits)

lemma at_most_one_update_where:
  assumes "at_most_one P t" "\<And>v. Q v \<Longrightarrow> P (f v) \<Longrightarrow> P v"
  shows "at_most_one P (update_where Q f t)"
  using assms unfolding at_most_one_def
  by (auto simp: od_get_update_where split: if_splits)

text \<open>A status moves from its holder to another row: clear it everywhere, then set it.\<close>

lemma at_most_one_none: "od_wf t \<Longrightarrow> \<not> some_row P t \<Longrightarrow> at_most_one P t"
  using some_row_iff by (fastforce simp: at_most_one_def)

lemma cleared: "od_wf t \<Longrightarrow> (\<And>v. \<not> P (f v)) \<Longrightarrow> \<not> some_row P (update_where P f t)"
  by (induction t) (auto simp: some_row_def update_where_def od_wf_def od_keys_def split: if_splits)

lemma at_most_one_set:
  assumes "od_wf t" "\<not> some_row P t"
  shows "at_most_one P (update_row k f t)"
proof -
  have "\<not> P v" if "od_get t i = Some v" for i v using assms some_row_iff that by blast
  then show ?thesis
    using assms(1) unfolding at_most_one_def by (auto simp: od_get_update_row split: if_splits)
qed

section \<open>The invariant\<close>

definition sess_active :: "provisional \<Rightarrow> bool" where
  "sess_active v \<longleftrightarrow> pv_status v \<in> set ACTIVE_STATUSES"

definition catalogue_inv :: "store \<Rightarrow> bool" where
  "catalogue_inv s \<longleftrightarrow> at_most_one keg_open (st_kegs s) \<and> at_most_one cal_active (st_calibrations s) \<and>
     at_most_one sess_active (st_sessions s)"

definition catalogue :: "store \<Rightarrow> (string, keg) odict \<times> (string, calibration) odict \<times> (string, provisional) odict" where
  "catalogue s = (st_kegs s, st_calibrations s, st_sessions s)"

lemma session_active_iff: "session_active s \<longleftrightarrow> some_row sess_active (st_sessions s)"
  by (simp add: session_active_def sess_active_def [abs_def])

lemma catalogue_frame: "catalogue s' = catalogue s \<Longrightarrow> catalogue_inv s \<Longrightarrow> catalogue_inv s'"
  by (simp add: catalogue_def catalogue_inv_def)

fun allowed :: "store_op \<Rightarrow> store \<Rightarrow> bool" where
  "allowed (Sessions (BindProvisional now i dev boot sq life)) s \<longleftrightarrow>
     (case od_get (st_sessions s) i of None \<Rightarrow> True | Some v \<Rightarrow> sess_active v)"
| "allowed (Sessions (UpdateStatus now i st)) s \<longleftrightarrow>
     st \<notin> set ACTIVE_STATUSES \<or> (case od_get (st_sessions s) i of None \<Rightarrow> True | Some v \<Rightarrow> sess_active v)"
| "allowed (Measures (Finalize pid l now r k c cap)) s \<longleftrightarrow> is_terminal (dr_status r)"
| "allowed _ s \<longleftrightarrow> True"

section \<open>Operations that leave the catalogue alone\<close>

lemma catalogue_simps [simp]:
  "catalogue (s\<lparr>st_participants := p\<rparr>) = catalogue s" "catalogue (s\<lparr>st_samples := sm\<rparr>) = catalogue s"
  "catalogue (s\<lparr>st_verifications := v\<rparr>) = catalogue s" "catalogue (s\<lparr>st_pours := po\<rparr>) = catalogue s"
  "catalogue (s\<lparr>st_results := rs\<rparr>) = catalogue s" "catalogue (s\<lparr>st_checkpoints := cp\<rparr>) = catalogue s"
  "catalogue (s\<lparr>st_adjustments := a\<rparr>) = catalogue s" "catalogue (s\<lparr>st_audit := au\<rparr>) = catalogue s"
  "catalogue (s\<lparr>st_charges := ch\<rparr>) = catalogue s" "catalogue (s\<lparr>st_ledger := l\<rparr>) = catalogue s"
  "catalogue (s\<lparr>st_photos := ph\<rparr>) = catalogue s" "catalogue (s\<lparr>st_anomalies := an\<rparr>) = catalogue s"
  "catalogue (s\<lparr>st_settings := se\<rparr>) = catalogue s" "catalogue (s\<lparr>st_diagnostics := d\<rparr>) = catalogue s"
  "catalogue (s\<lparr>st_next_diagnostic := n\<rparr>) = catalogue s"
  by (simp_all add: catalogue_def)

lemma catalogue_keeps:
  "(\<And>x s'. body s = Inr (x, s') \<Longrightarrow> catalogue s' = catalogue s) \<Longrightarrow> catalogue (snd (transaction body s)) = catalogue s"
  by (rule transaction_keeps) simp_all

lemma set_balance_catalogue: "set_balance p b now s = Inr s' \<Longrightarrow> catalogue s' = catalogue s"
  by (auto simp: set_balance_def elim!: bind_InrE split: if_splits)

lemma add_ledger_catalogue: "add_ledger i p a k po r b now s = Inr s' \<Longrightarrow> catalogue s' = catalogue s"
  by (auto simp: add_ledger_def Let_def insert_row_iff elim!: bind_InrE split: if_splits)

lemma insert_charge_catalogue: "insert_charge po p v r a now s = Inr s' \<Longrightarrow> catalogue s' = catalogue s"
  by (auto simp: insert_charge_def Let_def insert_row_iff elim!: bind_InrE split: if_splits)

lemmas money_catalogue = set_balance_catalogue add_ledger_catalogue insert_charge_catalogue

lemma charge_pour_catalogue: "charge_pour l i p v now s = Inr s' \<Longrightarrow> catalogue s' = catalogue s"
  by (auto simp: charge_pour_def Let_def elim!: bind_InrE dest!: money_catalogue split: if_splits option.splits)

lemma refund_catalogue: "refund_old l now po q a s = Inr s' \<Longrightarrow> catalogue s' = catalogue s"
  by (auto simp: refund_old_def Let_def elim!: bind_InrE dest!: money_catalogue split: if_splits option.splits)

lemma charge_new_catalogue: "charge_new l now po q a s = Inr s' \<Longrightarrow> catalogue s' = catalogue s"
  by (auto simp: charge_new_def Let_def elim!: bind_InrE dest!: money_catalogue split: if_splits option.splits)

lemma insert_pour_catalogue: "insert_pour i row s = Inr s' \<Longrightarrow> catalogue s' = catalogue s"
  by (auto simp: insert_pour_iff)

lemma insert_result_catalogue: "insert_result k row s = Inr s' \<Longrightarrow> catalogue s' = catalogue s"
  by (auto simp: insert_result_def elim!: bind_InrE)

lemma outlier_catalogue: "update_outlier_flags rows s = Inr s' \<Longrightarrow> catalogue s' = catalogue s"
  by (auto simp: update_outlier_flags_def elim!: bind_InrE split: if_splits list.splits)

lemma store_sample_catalogue: "store_sample i now c n x s = Inr s' \<Longrightarrow> catalogue s' = catalogue s"
  by (auto simp: store_sample_def Let_def elim!: bind_InrE dest!: outlier_catalogue)

lemma insert_verification_catalogue:
  "insert_verification i now c k raw m d e th s = Inr (row, s') \<Longrightarrow> catalogue s' = catalogue s"
  by (auto simp: insert_verification_def Let_def elim!: bind_InrE split: prod.splits)

lemmas catalogue_dests = charge_pour_catalogue refund_catalogue charge_new_catalogue insert_pour_catalogue
  insert_result_catalogue outlier_catalogue store_sample_catalogue insert_verification_catalogue money_catalogue

named_theorems catalogue_ops \<open>operations that keep the catalogue\<close>

lemma people_catalogue [catalogue_ops]: "catalogue (snd (people_call u x s)) = catalogue s"
proof (cases x)
  case (CreateParticipant i now n)
  show ?thesis unfolding CreateParticipant people_call.simps create_participant_def call_simps
    by (rule catalogue_keeps) (auto simp: Let_def elim!: bind_InrE split: if_splits)
next
  case (UpdateParticipant now i n a)
  show ?thesis unfolding UpdateParticipant people_call.simps update_participant_def call_simps
    by (rule catalogue_keeps) (auto simp: Let_def elim!: bind_InrE split: if_splits)
next
  case (MarkAvatar now i only)
  show ?thesis unfolding MarkAvatar people_call.simps mark_participant_avatar_def call_simps
    by (rule catalogue_keeps) (auto simp: Let_def elim!: bind_InrE split: if_splits)
next
  case (ClearAvatar now i)
  show ?thesis unfolding ClearAvatar people_call.simps clear_participant_avatar_def call_simps
    by (rule catalogue_keeps) (auto simp: Let_def elim!: bind_InrE split: if_splits)
next
  case (AdjustBalance l now i a r)
  show ?thesis unfolding AdjustBalance people_call.simps adjust_participant_balance_def call_simps
    by (rule catalogue_keeps)
      (auto simp: Let_def elim!: bind_InrE dest!: catalogue_dests split: if_splits pyval.splits)
qed

lemma log_catalogue [catalogue_ops]: "catalogue (snd (log_call u x s)) = catalogue s"
proof (cases x)
  case (AddPhoto i now sid path sz sha)
  show ?thesis unfolding AddPhoto log_call.simps add_pour_photo_def call_simps
    by (rule catalogue_keeps) (auto simp: Let_def elim!: bind_InrE split: if_splits option.splits)
next
  case (PrunePhotos keep)
  show ?thesis unfolding PrunePhotos log_call.simps prune_unattributed_photos_def call_simps
    by (rule catalogue_keeps) (auto simp: Let_def)
next
  case (SetSetting k v)
  show ?thesis unfolding SetSetting log_call.simps set_setting_def call_simps
    by (rule catalogue_keeps) (auto split: if_splits)
next
  case (AddDiagnostic now lv cd ctx)
  show ?thesis unfolding AddDiagnostic log_call.simps add_diagnostic_def call_simps
    by (rule catalogue_keeps) (auto simp: Let_def)
next
  case (RecordAnomaly i now key src ov why ctx dev boot sq)
  show ?thesis unfolding RecordAnomaly log_call.simps record_measurement_anomaly_def call_simps
    by (rule catalogue_keeps) (auto simp: Let_def split: if_splits)
qed

lemma checkpoint_catalogue [catalogue_ops]:
  "catalogue (snd (checkpoint_recovery_pulses u pid now dev boot rec up acc k c cap s)) = catalogue s"
  unfolding checkpoint_recovery_pulses_def
  by (rule catalogue_keeps)
    (auto simp: Let_def elim!: bind_InrE dest!: catalogue_dests split: if_splits prod.splits)

lemma reassign_catalogue [catalogue_ops]:
  "catalogue (snd (reassign_pour aid rid cid now i n r s)) = catalogue s"
  unfolding reassign_pour_def
  by (rule catalogue_keeps)
    (auto simp: Let_def elim!: bind_InrE dest!: catalogue_dests split: if_splits option.splits)

section \<open>Operations that keep the invariant\<close>

lemma catalogue_inv_keeps:
  "(\<And>x s'. body s = Inr (x, s') \<Longrightarrow> catalogue_inv s') \<Longrightarrow> catalogue_inv s \<Longrightarrow> catalogue_inv (snd (transaction body s))"
  by (rule transaction_keeps)

lemma with_kegs: "catalogue_inv s \<Longrightarrow> at_most_one keg_open t \<Longrightarrow> catalogue_inv (s\<lparr>st_kegs := t\<rparr>)"
  by (simp add: catalogue_inv_def)

lemma with_calibrations: "catalogue_inv s \<Longrightarrow> at_most_one cal_active t \<Longrightarrow> catalogue_inv (s\<lparr>st_calibrations := t\<rparr>)"
  by (simp add: catalogue_inv_def)

lemma with_sessions: "catalogue_inv s \<Longrightarrow> at_most_one sess_active t \<Longrightarrow> catalogue_inv (s\<lparr>st_sessions := t\<rparr>)"
  by (simp add: catalogue_inv_def)

lemma catalogue_parts:
  assumes "catalogue_inv s"
  shows "at_most_one keg_open (st_kegs s)" "at_most_one cal_active (st_calibrations s)"
    "at_most_one sess_active (st_sessions s)"
  using assms by (simp_all add: catalogue_inv_def)

lemma insert_open_keg_one:
  "od_wf t \<Longrightarrow> insert_open_keg k row t = Inr t' \<Longrightarrow> at_most_one keg_open t'"
  by (auto simp: insert_open_keg_def insert_row_iff intro: at_most_one_snoc [OF at_most_one_none] split: if_splits)

lemma replace_keg_catalogue:
  assumes inv: "catalogue_inv s"
  shows "catalogue_inv (snd (replace_keg i now l v n t s))"
proof -
  have wf: "od_wf (update_where keg_open f (st_kegs s))" for f
    using catalogue_parts(1) [OF inv] by (simp add: at_most_one_wf)
  show ?thesis
    unfolding replace_keg_def
    by (rule catalogue_inv_keeps [OF _ inv])
      (auto simp: Let_def intro!: with_kegs [OF inv] insert_open_keg_one [OF wf] elim!: bind_InrE split: if_split_asm)
qed

lemma make_active_catalogue:
  assumes "catalogue_inv s"
  shows "catalogue_inv (make_active c f n now s)"
proof -
  let ?t = "update_where cal_active (\<lambda>c. c\<lparr>cb_status := Superseded\<rparr>) (st_calibrations s)"
  have "od_wf (st_calibrations s)" using catalogue_parts(2) [OF assms] by (rule at_most_one_wf)
  moreover from this have "\<not> some_row cal_active ?t" by (rule cleared) (simp add: cal_active_def)
  ultimately show ?thesis
    unfolding make_active_def by (intro with_calibrations [OF assms] at_most_one_set) simp_all
qed

lemma calibration_call_catalogue: "catalogue_inv s \<Longrightarrow> catalogue_inv (snd (calibration_call u x s))"
proof (cases x)
  case (CreateCalibration i now l d n)
  assume inv: "catalogue_inv s"
  show ?thesis unfolding CreateCalibration calibration_call.simps create_calibration_def call_simps
    by (rule catalogue_inv_keeps [OF _ inv])
      (auto simp: Let_def insert_row_iff cal_active_def intro!: with_calibrations [OF inv] at_most_one_snoc
        catalogue_parts(2) [OF inv] elim!: bind_InrE split: if_splits)
next
  case (AddSample i now c n raw m d inc)
  assume inv: "catalogue_inv s"
  show ?thesis unfolding AddSample calibration_call.simps add_calibration_sample_def call_simps
    by (rule catalogue_frame [OF catalogue_keeps inv])
      (auto simp: Let_def elim!: bind_InrE dest!: catalogue_dests split: if_splits pyval.splits)
next
  case (SetIncluded c n inc)
  assume inv: "catalogue_inv s"
  show ?thesis unfolding SetIncluded calibration_call.simps set_sample_included_def call_simps
    by (rule catalogue_frame [OF catalogue_keeps inv])
      (auto simp: Let_def elim!: bind_InrE dest!: catalogue_dests split: if_splits)
next
  case (Activate now c)
  assume inv: "catalogue_inv s"
  show ?thesis unfolding Activate calibration_call.simps activate_calibration_def call_simps
    by (rule catalogue_inv_keeps [OF _ inv])
      (auto simp: Let_def make_active_catalogue inv elim!: bind_InrE split: if_splits)
next
  case (ActivateProvisional now c)
  assume inv: "catalogue_inv s"
  show ?thesis unfolding ActivateProvisional calibration_call.simps activate_provisional_calibration_def call_simps
    by (rule catalogue_inv_keeps [OF _ inv])
      (auto simp: Let_def make_active_catalogue inv elim!: bind_InrE split: if_split_asm)
next
  case (AddVerification i now raw m d th)
  assume inv: "catalogue_inv s"
  show ?thesis unfolding AddVerification calibration_call.simps add_verification_def call_simps
    by (rule catalogue_frame [OF catalogue_keeps inv])
      (auto simp: Let_def elim!: bind_InrE dest!: catalogue_dests split: if_split_asm option.split_asm pyval.split_asm prod.split_asm)
qed

lemma keg_call_catalogue: "catalogue_inv s \<Longrightarrow> catalogue_inv (snd (keg_call u x s))"
proof (cases x)
  case (ReplaceKeg i now l v n t)
  assume "catalogue_inv s"
  then show ?thesis by (simp add: ReplaceKeg replace_keg_catalogue)
next
  case (AdjustInventory i now k a r)
  assume inv: "catalogue_inv s"
  show ?thesis unfolding AdjustInventory keg_call.simps adjust_inventory_def call_simps
    by (rule catalogue_frame [OF catalogue_keeps inv]) (auto simp: Let_def elim!: bind_InrE split: if_splits)
next
  case (SetRemaining i now p r)
  assume inv: "catalogue_inv s"
  show ?thesis unfolding SetRemaining keg_call.simps set_current_keg_remaining_percent_def call_simps
    by (rule catalogue_frame [OF catalogue_keeps inv])
      (auto simp: Let_def elim!: bind_InrE split: if_split_asm option.split_asm prod.split_asm)
qed

lemma session_status_kept:
  assumes "catalogue_inv s" "\<And>v. od_get (st_sessions s) i = Some v \<Longrightarrow> sess_active (f v) \<Longrightarrow> sess_active v"
  shows "catalogue_inv (s\<lparr>st_sessions := update_row i f (st_sessions s)\<rparr>)"
  using assms by (intro with_sessions at_most_one_update catalogue_parts)

lemma terminal_statuses [simp]:
  "''complete'' \<notin> set ACTIVE_STATUSES" "''timed_out'' \<notin> set ACTIVE_STATUSES"
  "''interrupted_uncertain'' \<notin> set ACTIVE_STATUSES" "''consumed'' \<notin> set ACTIVE_STATUSES"
  "''failed'' \<notin> set ACTIVE_STATUSES" "''cancelled'' \<notin> set ACTIVE_STATUSES"
  "is_terminal st \<Longrightarrow> device_state_value st \<notin> set ACTIVE_STATUSES"
  by (simp_all add: ACTIVE_STATUSES_def) (cases st; simp)

lemma set_status_catalogue:
  "catalogue_inv s \<Longrightarrow> st \<notin> set ACTIVE_STATUSES \<or> (case od_get (st_sessions s) i of None \<Rightarrow> True | Some v \<Rightarrow> sess_active v) \<Longrightarrow>
   catalogue_inv (set_status now i st s)"
  unfolding set_status_def by (rule session_status_kept) (auto simp: sess_active_def)

lemma set_captured_catalogue:
  "catalogue_inv s \<Longrightarrow> st \<notin> set ACTIVE_STATUSES \<Longrightarrow> catalogue_inv (set_captured now i st raw s)"
  unfolding set_captured_def by (rule session_status_kept) (auto simp: sess_active_def)

lemma set_consumed_catalogue: "catalogue_inv s \<Longrightarrow> catalogue_inv (set_consumed now i e s)"
  unfolding set_consumed_def by (rule session_status_kept) (auto simp: sess_active_def)

lemma create_provisional_cases:
  assumes "create_provisional i now p key pu c od s = (Inr ((j, v), dup), s')"
  obtains (existing) "dup" "s' = s"
  | (created) "\<not> dup" "j = i" "\<not> session_active s" "\<not> od_mem i (st_sessions s)" "pv_status v = ''arming''"
      "s' = s\<lparr>st_sessions := st_sessions s @ [(i, v)]\<rparr>"
proof -
  have "(dup \<and> s' = s) \<or> (\<not> dup \<and> j = i \<and> \<not> session_active s \<and> \<not> od_mem i (st_sessions s) \<and>
      pv_status v = ''arming'' \<and> s' = s\<lparr>st_sessions := st_sessions s @ [(i, v)]\<rparr>)"
    using assms
    by (auto simp: create_provisional_def transaction_Inr Let_def insert_row_iff guard_eq_Inr
        elim!: bind_InrE split: option.split_asm split del: if_split)
  then show thesis using that by blast
qed

lemma create_provisional_catalogue:
  assumes inv: "catalogue_inv s"
  shows "catalogue_inv (snd (create_provisional i now p key pu c od s))"
proof (rule kept [where P = catalogue_inv, OF _ _ inv])
  fix x s'
  assume run: "create_provisional i now p key pu c od s = (Inr x, s')"
  obtain j v dup where "x = ((j, v), dup)" by (metis prod.collapse)
  with run have "create_provisional i now p key pu c od s = (Inr ((j, v), dup), s')" by simp
  then show "catalogue_inv s'"
  proof (cases rule: create_provisional_cases)
    case existing
    then show ?thesis using inv by simp
  next
    case created
    then show ?thesis
      using with_sessions [OF inv] at_most_one_snoc [OF catalogue_parts(3) [OF inv]] by (simp add: session_active_iff)
  qed
qed (simp add: create_provisional_def transaction_rollback)

lemma session_call_catalogue:
  assumes inv: "catalogue_inv s" and ok: "allowed (Sessions x) s"
  shows "catalogue_inv (snd (session_call u x s))"
proof (cases x)
  case (CreateProvisional i now p key pu c n)
  then show ?thesis by (simp add: create_provisional_catalogue inv)
next
  case (BindProvisional now i dev boot sq life)
  have "catalogue_inv (snd (bind_provisional now i dev boot sq life s))"
    unfolding bind_provisional_def
    by (rule catalogue_inv_keeps [OF _ inv])
      (use ok in \<open>auto simp: Let_def BindProvisional intro!: session_status_kept [OF inv] split: if_split_asm\<close>)
  then show ?thesis by (simp add: BindProvisional)
next
  case (UpdateStatus now i st)
  have "catalogue_inv (snd (update_provisional_status now i st s))"
    unfolding update_provisional_status_def
    by (rule catalogue_inv_keeps [OF _ inv])
      (use ok in \<open>auto simp: UpdateStatus intro!: set_status_catalogue [OF inv] split: if_split_asm\<close>)
  then show ?thesis by (simp add: UpdateStatus)
next
  case (ConsumeCalibration x' now i m d inc)
  have "catalogue_inv (snd (consume_calibration_capture x' now i m d inc s))"
    unfolding consume_calibration_capture_def
    by (rule catalogue_inv_keeps [OF _ inv])
      (auto simp: Let_def inv intro!: set_consumed_catalogue elim!: bind_InrE
        dest!: store_sample_catalogue [THEN catalogue_frame, OF _ inv] split: if_split_asm option.split_asm)
  then show ?thesis by (simp add: ConsumeCalibration)
next
  case (ConsumeVerification x' now i m d th)
  have "catalogue_inv (snd (consume_verification_capture x' now i m d th s))"
    unfolding consume_verification_capture_def
    by (rule catalogue_inv_keeps [OF _ inv])
      (auto simp: Let_def inv intro!: set_consumed_catalogue elim!: bind_InrE
        dest!: insert_verification_catalogue [THEN catalogue_frame, OF _ inv]
        split: if_split_asm option.split_asm prod.split_asm)
  then show ?thesis by (simp add: ConsumeVerification)
qed

lemma commit_pour_catalogue:
  assumes "commit_pour pid l sid pv r k c cap t0 t1 s = Inr (y, s')" "catalogue_inv s"
  shows "catalogue_inv s'"
proof -
  have "catalogue s' = catalogue s \<or> (\<exists>s3. catalogue s3 = catalogue s \<and> s' = set_status t1 sid ''complete'' s3)"
    using assms(1)
    by (auto simp: commit_pour_def Let_def elim!: bind_InrE dest!: catalogue_dests
        split: prod.split_asm if_split_asm option.split_asm) blast+
  then show ?thesis
  proof
    assume "catalogue s' = catalogue s"
    then show ?thesis using assms(2) by (rule catalogue_frame)
  next
    assume "\<exists>s3. catalogue s3 = catalogue s \<and> s' = set_status t1 sid ''complete'' s3"
    then obtain s3 where "catalogue s3 = catalogue s" "s' = set_status t1 sid ''complete'' s3" by blast
    then show ?thesis using catalogue_frame [OF _ assms(2)] set_status_catalogue by simp
  qed
qed

lemma measure_call_catalogue:
  assumes inv: "catalogue_inv s" and ok: "allowed (Measures x) s"
  shows "catalogue_inv (snd (measure_call u x s))"
proof (cases x)
  case (Recover pid now i dev boot a b up)
  have "catalogue_inv (snd (recover_same_boot_delta u pid now i dev boot a b up s))"
    unfolding recover_same_boot_delta_def
    by (rule catalogue_inv_keeps [OF _ inv])
      (auto simp: Let_def inv intro!: set_captured_catalogue set_status_catalogue elim!: bind_InrE
        dest!: insert_pour_catalogue [THEN catalogue_frame, OF _ inv] split: if_split_asm option.split_asm)
  then show ?thesis by (simp add: Recover)
next
  case (Finalize pid l now r k c cap)
  have fin: "is_terminal (dr_status r)" using ok by (simp add: Finalize)
  have res: "insert_result key d s = Inr s1 \<Longrightarrow> catalogue_inv s1" for key d s1
    using insert_result_catalogue [THEN catalogue_frame, OF _ inv] .
  have "catalogue_inv (snd (finalize_device_result u pid l now r k c cap s))"
    unfolding finalize_device_result_def
    by (rule catalogue_inv_keeps [OF _ inv])
      (auto simp: Let_def inv replay_result_def commit_capture_def commit_timeout_def fin
        intro!: set_captured_catalogue set_status_catalogue elim!: bind_InrE
        dest!: res commit_pour_catalogue [OF _ inv] split: if_split_asm option.split_asm)
  then show ?thesis by (simp add: Finalize)
next
  case (Checkpoint pid now dev boot rec up acc k c cap)
  then show ?thesis using catalogue_frame [OF checkpoint_catalogue inv] by simp
next
  case (Reassign aid rid cid now i n r)
  then show ?thesis using catalogue_frame [OF reassign_catalogue inv] by simp
qed

lemma store_step_catalogue: "catalogue_inv s \<Longrightarrow> allowed op s \<Longrightarrow> catalogue_inv (store_step u op s)"
  by (cases op)
    (simp_all add: store_step_def keg_call_catalogue calibration_call_catalogue session_call_catalogue
      measure_call_catalogue catalogue_ops [THEN catalogue_frame])

lemma run_catalogue:
  "catalogue_inv s \<Longrightarrow> run_all (store_step u) allowed ops s \<Longrightarrow> catalogue_inv (run_ops (store_step u) ops s)"
  by (induction ops arbitrary: s) (simp_all add: store_step_catalogue)

lemma empty_catalogue: "catalogue_inv empty_store"
  by (simp add: catalogue_inv_def empty_store_def)

end
