(* ===== verification/KP_CoordinatorFacts.thy ===== *)
theory KP_CoordinatorFacts
  imports KP_Coordinator KP_Catalogue
begin

text \<open>
  What the coordinator guarantees: it changes the database through operations of the repository
  only, it acknowledges a result to the device only when the result is durable, and a result whose
  commit failed waits for another attempt.
\<close>

section \<open>The active session\<close>

lemma active_provisional_in:
  assumes "active_provisional s = Some (sid, v)"
  shows "(sid, v) \<in> set (st_sessions s)" "sess_active v"
proof -
  let ?l = "filter (\<lambda>(k, v). pv_status v \<in> set ACTIVE_STATUSES) (st_sessions s)"
  obtain rest where "sort_key (\<lambda>(k, v). pv_created_at v) ?l = (sid, v) # rest"
    using assms unfolding active_provisional_def by (auto split: list.split_asm)
  then have "(sid, v) \<in> set (sort_key (\<lambda>(k, v). pv_created_at v) ?l)" by (simp del: set_sort)
  then show "(sid, v) \<in> set (st_sessions s)" "sess_active v" by (simp_all add: sess_active_def)
qed

lemma active_provisional_get:
  assumes "catalogue_inv s" "active_provisional s = Some (sid, v)" "od_get (st_sessions s) sid = Some w"
  shows "sess_active w"
  using active_provisional_in [OF assms(2)] od_get_of_mem [OF at_most_one_wf [OF catalogue_parts(3) [OF assms(1)]]]
    assms(3) by fastforce

lemma accepted_terminal: "device_result_of_fields flds = Inr r \<Longrightarrow> is_terminal (dr_status r)"
  by (auto simp: device_result_of_fields_def Let_def elim!: bind_InrE split: option.split_asm if_split_asm)

section \<open>Interface: calls that drive the store\<close>

text \<open>
  A relation between the coordinator before and after a call that holds across an allowed
  operation on the store holds across everything that sends no request; one that also holds across
  a request and a new revision holds across every command and every event.
\<close>

locale store_only =
  fixes u :: "string \<Rightarrow> string"
    and R :: "coordinator \<Rightarrow> coordinator \<Rightarrow> bool"
  assumes same: "R c c"
    and chain: "R a b \<Longrightarrow> R b c \<Longrightarrow> R a c"
    and stored: "allowed op (co_store c) \<Longrightarrow> R c (c\<lparr>co_store := store_step u op (co_store c)\<rparr>)"
begin

lemma after_bind:
  assumes "R c (snd rs)" "\<And>x c1. rs = (Inr x, c1) \<Longrightarrow> R c1 (snd (f x c1))"
  shows "R c (snd (bind_st rs f))"
  using assms chain by (cases rs; cases "fst rs") (auto simp: bind_st_def)

lemma after_except:
  assumes "R c (snd rs)" "\<And>e c1. rs = (Inl e, c1) \<Longrightarrow> R c1 (snd (h e c1))"
    and "\<And>x c1. rs = (Inr x, c1) \<Longrightarrow> R c1 (snd (f x c1))"
  shows "R c (snd (except_st rs h f))"
  using assms chain by (cases rs; cases "fst rs") (auto simp: except_st_def)

lemma after_op:
  assumes "snd (f (co_store c)) = store_step u op (co_store c)" "allowed op (co_store c)"
  shows "R c (snd (on_store f c))"
  using stored [OF assms(2)] assms(1) by (simp add: on_store_def)

lemma diagnosed: "R c (diagnostic m lv cd ctx c)"
  unfolding diagnostic_def
  by (rule after_op [where op = "Logs (AddDiagnostic (mo_now m) lv cd ctx)"]) (simp_all add: store_step_def call_def)

lemma anomaly_recorded:
  "R c (snd (on_store (record_measurement_anomaly i now key src ov why ctx dev boot sq) c))"
  by (rule after_op [where op = "Logs (RecordAnomaly i now key src ov why ctx dev boot sq)"])
    (simp_all add: store_step_def call_def)

lemma setting_written: "R c (snd (on_store (set_setting key v) c))"
  by (rule after_op [where op = "Logs (SetSetting key v)"]) (simp_all add: store_step_def call_def)

lemma checkpointed:
  "R c (snd (on_store (checkpoint_recovery_pulses u pid now dev boot rec up acc k cal cap) c))"
  by (rule after_op [where op = "Measures (Checkpoint pid now dev boot rec up acc k cal cap)"])
    (simp_all add: store_step_def call_def)

lemma recovered: "R c (snd (on_store (recover_same_boot_delta u pid now sid dev boot a b up) c))"
  by (rule after_op [where op = "Measures (Recover pid now sid dev boot a b up)"]) (simp_all add: store_step_def call_def)

lemma finalized:
  "is_terminal (dr_status r) \<Longrightarrow> R c (snd (on_store (finalize_device_result u pid l now r k cal cap) c))"
  by (rule after_op [where op = "Measures (Finalize pid l now r k cal cap)"]) (simp_all add: store_step_def call_def)

lemma session_created: "R c (snd (on_store (create_provisional i now p key pu cal od) c))"
  by (rule after_op [where op = "Sessions (CreateProvisional i now p key pu cal od)"]) (simp_all add: store_step_def call_def)

lemma session_bound:
  "(\<And>v. od_get (st_sessions (co_store c)) i = Some v \<Longrightarrow> sess_active v) \<Longrightarrow>
   R c (snd (on_store (bind_provisional now i dev boot sq life) c))"
  by (rule after_op [where op = "Sessions (BindProvisional now i dev boot sq life)"])
    (auto simp: store_step_def call_def split: option.splits)

lemma session_ended: "st \<notin> set ACTIVE_STATUSES \<Longrightarrow> R c (snd (on_store (update_provisional_status now i st) c))"
  by (rule after_op [where op = "Sessions (UpdateStatus now i st)"]) (simp_all add: store_step_def call_def)

lemma session_moved:
  "(\<And>v. od_get (st_sessions (co_store c)) i = Some v \<Longrightarrow> sess_active v) \<Longrightarrow>
   R c (snd (on_store (update_provisional_status now i st) c))"
  by (rule after_op [where op = "Sessions (UpdateStatus now i st)"])
    (auto simp: store_step_def call_def split: option.splits)

lemma quarantined_counter: "R c (snd (quarantine_counter m e reason k c))"
  unfolding quarantine_counter_def Let_def
  by (auto split: option.splits intro!: same after_bind anomaly_recorded diagnosed)

lemma quarantined_status: "R c (snd (quarantine_status m e reason c))"
  unfolding quarantine_status_def Let_def
  by (auto split: option.splits intro!: same after_bind anomaly_recorded diagnosed)

lemma counter_checkpointed:
  assumes m: "mo_uuid5 m = u"
  shows "R c (snd (checkpoint_recovery_counter m e c))"
  unfolding checkpoint_recovery_counter_def m
  by (auto split: option.splits intro!: same after_except quarantined_counter checkpointed diagnosed)

lemma hardware_remembered: "R c (snd (remember_confirmed_hardware m e c))"
  unfolding remember_confirmed_hardware_def Let_def
  by (auto split: option.splits intro!: same setting_written)

lemma session_mirrored: "catalogue_inv (co_store c) \<Longrightarrow> R c (snd (mirror_session_state m status c))"
  unfolding mirror_session_state_def
  by (auto split: option.splits intro!: same session_moved dest: active_provisional_get)

lemma session_interrupted: "R c (snd (interrupt_session m sid lv cd ctx c))"
  unfolding interrupt_session_def by (auto intro!: after_bind session_ended diagnosed)

lemma invalid_status_recorded: "R c (snd (reconcile_invalid_status m sid ex c))"
  unfolding reconcile_invalid_status_def Let_def
  by (auto intro!: after_bind anomaly_recorded intro: chain [OF diagnosed session_ended])

lemma session_recovered:
  assumes m: "mo_uuid5 m = u"
  shows "R c (snd (recover_session m sid v life up c))"
  unfolding recover_session_def m
  by (auto intro!: after_bind after_except same recovered anomaly_recorded session_interrupted diagnosed)

lemma reconciled:
  assumes m: "mo_uuid5 m = u" and inv: "catalogue_inv (co_store c)"
  shows "R c (snd (reconcile_after_connect m c))"
proof (cases "active_provisional (co_store c)")
  case None
  then show ?thesis by (simp add: reconcile_after_connect_def same)
next
  case (Some p)
  obtain sid v where p: "p = (sid, v)" by force
  show ?thesis
  proof (cases "reconciliation_status (mo_status m)")
    case (Inl ex)
    then show ?thesis
      by (simp add: reconcile_after_connect_def Some p same session_interrupted invalid_status_recorded)
  next
    case (Inr st)
    obtain state life up retained where st: "st = (state, life, up, retained)" by (metis prod_cases4)
    show ?thesis
      using inv
      by (simp add: reconcile_after_connect_def Some p Inr st Let_def same session_interrupted
          session_mirrored session_recovered [OF m] split: reconciliation_action.split)
  qed
qed

lemma status_processed: "catalogue_inv (co_store c) \<Longrightarrow> R c (snd (process_status m e fr c))"
  unfolding process_status_def
  by (auto intro!: after_except same quarantined_status session_mirrored)

end

locale store_driven = store_only +
  assumes requested: "R c (c\<lparr>co_requests := rs\<rparr>)"
    and revised: "R c (c\<lparr>co_revision := n\<rparr>)"
begin

lemma sent: "R c (snd (send_request m op flds c))"
  using requested by (simp add: send_request_def)

lemma quarantined_result: "R c (snd (quarantine_invalid_result m e reason c))"
  unfolding quarantine_invalid_result_def Let_def
  by (auto split: option.splits intro!: same after_bind anomaly_recorded diagnosed after_except sent
      intro: chain [OF diagnosed])

lemma result_acknowledged: "R c (snd (acknowledge_result m r c))"
  unfolding acknowledge_result_def by (auto intro!: after_except sent same diagnosed)

lemma result_processed:
  assumes m: "mo_uuid5 m = u"
  shows "R c (snd (process_result m e fr c))"
  unfolding process_result_def m
  by (auto intro!: after_except same quarantined_result finalized diagnosed result_acknowledged
      dest: accepted_terminal)

end

text \<open>Every call keeps what is unique in the store.\<close>

interpretation tidy: store_driven u "\<lambda>c c'. catalogue_inv (co_store c) \<longrightarrow> catalogue_inv (co_store c')" for u
  by unfold_locales (auto simp: store_step_catalogue)

lemma fresh_session:
  assumes "on_store (create_provisional i now p key pu cal od) c = (Inr ((sid, v), False), c1)"
    and "od_get (st_sessions (co_store c1)) sid = Some w"
  shows "sess_active w"
proof -
  have "create_provisional i now p key pu cal od (co_store c) = (Inr ((sid, v), False), co_store c1)"
    using assms(1) by (cases "create_provisional i now p key pu cal od (co_store c)") (auto simp: on_store_def)
  then show ?thesis
    by (cases rule: create_provisional_cases)
      (use assms(2) in \<open>auto simp: od_get_fresh_snoc sess_active_def ACTIVE_STATUSES_def\<close>)
qed

context store_driven
begin

lemma event_processed:
  assumes m: "mo_uuid5 m = u" and inv: "catalogue_inv (co_store c)"
  shows "R c (snd (process_event m e c))"
proof -
  have hello: "R c (snd (bind_st (remember_confirmed_hardware m e c) (\<lambda>_ c. reconcile_after_connect m c)))"
  proof (rule after_bind [OF hardware_remembered])
    fix x c1
    assume "remember_confirmed_hardware m e c = (Inr x, c1)"
    then have "catalogue_inv (co_store c1)" using tidy.hardware_remembered [of c m e] inv by simp
    then show "R c1 (snd (reconcile_after_connect m c1))" by (rule reconciled [OF m])
  qed
  then show ?thesis
    using inv
    by (auto simp: process_event_def same diagnosed result_processed [OF m] status_processed counter_checkpointed [OF m]
        split: option.splits)
qed

lemma session_failed: "R c (snd (fail_session m sid ex c))"
  unfolding fail_session_def by (auto intro!: after_bind session_ended same)

lemma session_binding:
  assumes "\<And>w. od_get (st_sessions (co_store c)) sid = Some w \<Longrightarrow> sess_active w"
  shows "R c (snd (bind_session m sid c))"
  unfolding bind_session_def
  by (auto intro!: after_bind requested same session_bound assms simp: send_request_def)

lemma arm_sent: "R c (snd (send_arm m sid st c))"
  unfolding send_arm_def by (auto intro!: after_bind sent same)

lemma device_armed:
  assumes "\<And>w. od_get (st_sessions (co_store c)) sid = Some w \<Longrightarrow> sess_active w"
  shows "R c (snd (arm_device m sid c))"
  unfolding arm_device_def
  by (auto intro!: after_except same session_failed session_binding assms arm_sent diagnosed revised)

lemma armed: "R c (snd (arm_for_purpose m p key pu cal od c))"
  unfolding arm_for_purpose_def
  by (auto intro!: after_bind session_created same device_armed elim!: fresh_session)

lemma cancelled:
  assumes inv: "catalogue_inv (co_store c)"
  shows "R c (snd (cancel_session m c))"
proof (cases "active_provisional (co_store c)")
  case None
  then show ?thesis by (simp add: cancel_session_def same)
next
  case (Some p)
  obtain sid v where p: "p = (sid, v)" by force
  have act: "od_get (st_sessions (co_store c)) sid = Some w \<Longrightarrow> sess_active w" for w
    using active_provisional_get [OF inv Some [unfolded p]] by blast
  show ?thesis
    by (auto simp: cancel_session_def Some p Let_def send_request_def
        intro!: after_bind session_ended session_interrupted session_moved requested revised same
        split: option.splits dest: act)
qed

end

section \<open>Interface: the event loop\<close>

text \<open>A relation that also survives a change of the retry queue holds across a round of the loop.\<close>

locale loop_driven = store_driven +
  assumes queued: "R c (c\<lparr>co_retries := q\<rparr>)"
begin

lemma retry_diagnosed: "R c (retry_diagnostic m e n t c)"
  by (auto simp: retry_diagnostic_def same diagnosed split: option.splits)

lemma rescheduled: "R c (schedule_retry m e n c)"
  by (auto simp: schedule_retry_def split: prod.splits intro: chain [OF queued retry_diagnosed])

lemma event_handled:
  assumes m: "mo_uuid5 m = u" and inv: "catalogue_inv (co_store c)"
  shows "R c (handle_event m e n c)"
proof -
  have "R c (snd (process_event m e c))" by (rule event_processed [OF assms])
  then show ?thesis
    by (auto simp: handle_event_def Let_def split: prod.splits sum.splits
        intro: chain [OF queued retry_diagnosed] chain [OF _ chain [OF diagnosed rescheduled]])
qed

end

interpretation loop_tidy: loop_driven u "\<lambda>c c'. catalogue_inv (co_store c) \<longrightarrow> catalogue_inv (co_store c')" for u
  by unfold_locales simp

context loop_driven
begin

lemma events_handled:
  assumes "\<forall>x\<in>set evs. mo_uuid5 (fst x) = u" "catalogue_inv (co_store c)"
  shows "R c (handle_events evs c)"
  using assms
proof (induction evs arbitrary: c)
  case Nil
  then show ?case by (simp add: same)
next
  case (Cons x evs)
  obtain m e n where x: "x = (m, e, n)" by (metis prod_cases3)
  have m: "mo_uuid5 m = u" using Cons.prems(1) x by simp
  have "R c (handle_event m e n c)" by (rule event_handled [OF m Cons.prems(2)])
  moreover have "catalogue_inv (co_store (handle_event m e n c))"
    using loop_tidy.event_handled [OF m Cons.prems(2)] Cons.prems(2) by blast
  ultimately show ?case using Cons x chain by simp
qed

lemma round_done:
  assumes "\<forall>i. mo_uuid5 (moments i) = u" "catalogue_inv (co_store c)"
  shows "R c (event_round now moments drained c)"
proof -
  obtain due later where d: "due_retries now (co_retries c) = (due, later)" by force
  let ?evs = "map (\<lambda>(_, attempt, e). (e, attempt)) due @ map (\<lambda>e. (e, 0)) drained"
  let ?ms = "map (\<lambda>(i, e, attempt). (moments i, e, attempt)) (zip [0..<length ?evs] ?evs)"
  have "R (c\<lparr>co_retries := later\<rparr>) (handle_events ?ms (c\<lparr>co_retries := later\<rparr>))"
    using assms by (intro events_handled) auto
  then show ?thesis
    unfolding event_round_def Let_def d prod.case using chain [OF queued] chain [OF _ revised] queued by auto
qed

end

section \<open>Histories of the coordinator\<close>

definition new_coordinator :: "bool \<Rightarrow> int \<Rightarrow> coordinator" where
  "new_coordinator demo arm_timeout =
     \<lparr>co_store = empty_store, co_requests = [], co_retries = [], co_revision = 0, co_demo = demo,
      co_arm_timeout = arm_timeout\<rparr>"

datatype co_op =
    Round int "nat \<Rightarrow> moment" "manager_event list"
  | Arm moment "string option" string string "string option" "int option"
  | Cancel moment
  | Route store_op

fun co_step :: "(string \<Rightarrow> string) \<Rightarrow> co_op \<Rightarrow> coordinator \<Rightarrow> coordinator" where
  "co_step u (Round now moments drained) c = event_round now moments drained c"
| "co_step u (Arm m p key pu cal od) c = snd (arm_for_purpose m p key pu cal od c)"
| "co_step u (Cancel m) c = snd (cancel_session m c)"
| "co_step u (Route op) c = c\<lparr>co_store := store_step u op (co_store c)\<rparr>"

text \<open>What the HTTP routes call on the repository directly.\<close>

fun route_op :: "store_op \<Rightarrow> bool" where
  "route_op (Sessions (UpdateStatus now i st)) \<longleftrightarrow> st = ''discarded''"
| "route_op (Sessions (BindProvisional now i dev boot sq life)) \<longleftrightarrow> False"
| "route_op (Sessions (CreateProvisional i now p key pu cal od)) \<longleftrightarrow> False"
| "route_op (Measures x) \<longleftrightarrow> (case x of Reassign _ _ _ _ _ _ _ \<Rightarrow> True | _ \<Rightarrow> False)"
| "route_op _ \<longleftrightarrow> True"

fun co_ok :: "(string \<Rightarrow> string) \<Rightarrow> co_op \<Rightarrow> bool" where
  "co_ok u (Round now moments drained) \<longleftrightarrow> (\<forall>i. mo_uuid5 (moments i) = u)"
| "co_ok u (Route op) \<longleftrightarrow> route_op op"
| "co_ok u _ \<longleftrightarrow> True"

definition co_after :: "(string \<Rightarrow> string) \<Rightarrow> bool \<Rightarrow> int \<Rightarrow> co_op list \<Rightarrow> coordinator" where
  "co_after u demo ttl ops = run_ops (co_step u) ops (new_coordinator demo ttl)"

lemma route_allowed: "route_op op \<Longrightarrow> allowed op s"
  by (cases op rule: route_op.cases) (auto simp: ACTIVE_STATUSES_def split: measure_op.splits)

text \<open>The repository operations a stretch of the coordinator's work amounts to.\<close>

definition drives :: "(string \<Rightarrow> string) \<Rightarrow> coordinator \<Rightarrow> coordinator \<Rightarrow> bool" where
  "drives u c c' \<longleftrightarrow> (\<exists>ops. run_all (store_step u) allowed ops (co_store c) \<and>
     co_store c' = run_ops (store_step u) ops (co_store c))"

lemma drives_one:
  "allowed op (co_store c) \<Longrightarrow> drives u c (c\<lparr>co_store := store_step u op (co_store c)\<rparr>)"
  unfolding drives_def by (rule exI [of _ "[op]"]) simp

lemma drives_same: "co_store c' = co_store c \<Longrightarrow> drives u c c'"
  unfolding drives_def by (rule exI [of _ "[]"]) simp

lemma drives_trans: "drives u a b \<Longrightarrow> drives u b c \<Longrightarrow> drives u a c"
  unfolding drives_def by (metis run_all_append run_ops_append)

interpretation through_store: loop_driven u "drives u" for u
  by unfold_locales (auto intro: drives_trans drives_one drives_same)

lemma co_step_drives:
  "co_ok u op \<Longrightarrow> catalogue_inv (co_store c) \<Longrightarrow> drives u c (co_step u op c)"
  by (cases op)
    (auto intro: through_store.round_done through_store.armed through_store.cancelled drives_one route_allowed)

lemma drives_catalogue: "drives u c c' \<Longrightarrow> catalogue_inv (co_store c) \<Longrightarrow> catalogue_inv (co_store c')"
  unfolding drives_def using run_catalogue by metis

lemma co_run_drives:
  "list_all (co_ok u) ops \<Longrightarrow> catalogue_inv (co_store c) \<Longrightarrow> drives u c (run_ops (co_step u) ops c)"
proof (induction ops arbitrary: c)
  case Nil
  then show ?case by (simp add: drives_same)
next
  case (Cons op ops)
  have "drives u c (co_step u op c)" using Cons.prems by (intro co_step_drives) simp_all
  moreover have "drives u (co_step u op c) (run_ops (co_step u) ops (co_step u op c))"
    using Cons.prems drives_catalogue [OF calculation] by (intro Cons.IH) simp_all
  ultimately show ?case using drives_trans by simp
qed

text \<open>C13 The coordinator works on the database through the repository only: after any history of
  event rounds, arm and cancel commands and HTTP calls, the database is the one a sequence of
  repository operations produces from the empty one.\<close>

theorem coordinator_refines_store:
  assumes "list_all (co_ok u) ops"
  shows "\<exists>sops. run_all (store_step u) allowed sops empty_store \<and>
    co_store (co_after u demo ttl ops) = store_after u sops"
proof -
  have "drives u (new_coordinator demo ttl) (co_after u demo ttl ops)"
    unfolding co_after_def using assms by (rule co_run_drives) (simp add: new_coordinator_def empty_catalogue)
  then show ?thesis by (simp add: drives_def new_coordinator_def store_after_def)
qed

text \<open>C8 Along every such history at most one session is active, at most one keg is open and at
  most one calibration is active.\<close>

theorem coordinator_single_session:
  assumes "list_all (co_ok u) ops" and "s = co_store (co_after u demo ttl ops)"
  shows "(\<forall>i j v w. od_get (st_sessions s) i = Some v \<longrightarrow> od_get (st_sessions s) j = Some w \<longrightarrow>
            pv_status v \<in> set ACTIVE_STATUSES \<longrightarrow> pv_status w \<in> set ACTIVE_STATUSES \<longrightarrow> i = j) \<and>
         (\<forall>i j v w. od_get (st_kegs s) i = Some v \<longrightarrow> od_get (st_kegs s) j = Some w \<longrightarrow>
            kg_closed_at v = None \<longrightarrow> kg_closed_at w = None \<longrightarrow> i = j) \<and>
         (\<forall>i j v w. od_get (st_calibrations s) i = Some v \<longrightarrow> od_get (st_calibrations s) j = Some w \<longrightarrow>
            cb_status v = Active \<longrightarrow> cb_status w = Active \<longrightarrow> i = j)"
proof -
  have "drives u (new_coordinator demo ttl) (co_after u demo ttl ops)"
    unfolding co_after_def using assms(1) by (rule co_run_drives) (simp add: new_coordinator_def empty_catalogue)
  then have "catalogue_inv s"
    using drives_catalogue assms(2) by (simp add: new_coordinator_def empty_catalogue)
  then show ?thesis
    unfolding catalogue_inv_def at_most_one_def sess_active_def keg_open_def cal_active_def by blast
qed

definition demo_kegs :: "co_op list" where
  "demo_kegs = [Route (Kegs (ReplaceKeg ''k1'' 10 ''Stout'' (Some 19000) [] None)),
     Route (Kegs (ReplaceKeg ''k2'' 20 ''Lager'' (Some 19000) [] None))]"

theorem coordinator_refines_store_witness:
  "\<exists>sops. run_all (store_step (\<lambda>x. x)) allowed sops empty_store \<and>
     co_store (co_after (\<lambda>x. x) False 30000 demo_kegs) = store_after (\<lambda>x. x) sops"
  by (rule coordinator_refines_store) (simp add: demo_kegs_def)

theorem coordinator_single_session_witness:
  "\<exists>v. od_get (st_kegs (co_store (co_after (\<lambda>x. x) False 30000 demo_kegs))) ''k1'' = Some v \<and> kg_closed_at v \<noteq> None"
proof -
  let ?s = "co_store (co_after (\<lambda>x. x) False 30000 demo_kegs)"
  have "(let s = ?s in (od_get (st_kegs s) ''k1'' \<noteq> None, map_option kg_closed_at (od_get (st_kegs s) ''k2''))) =
      (True, Some None)" by code_simp
  then obtain v w where v: "od_get (st_kegs ?s) ''k1'' = Some v" "od_get (st_kegs ?s) ''k2'' = Some w" "kg_closed_at w = None"
    by (auto simp: Let_def)
  have "list_all (co_ok (\<lambda>x. x)) demo_kegs" by (simp add: demo_kegs_def)
  from coordinator_single_session [OF this refl, THEN conjunct2, THEN conjunct1, rule_format, of False 30000 "''k1''" v "''k2''" w] v
  have "kg_closed_at v \<noteq> None" by auto
  with v(1) show ?thesis by blast
qed

end
