(* ===== verification/KP_Durable.thy ===== *)
theory KP_Durable
  imports KP_CoordinatorFacts
begin

text \<open>
  Results are durable before they are acknowledged, and none is dropped: the outcome of a RESULT
  event in the coordinator, down to the rows of the database and the retry queue.
\<close>

section \<open>Evidence that is kept\<close>

lemma insort_key_snoc: "f x \<le> f y \<Longrightarrow> insort_key f x (zs @ [y]) = insort_key f x zs @ [y]"
  by (induction zs) auto

lemma sort_key_snoc: "\<forall>x\<in>set xs. f x \<le> f y \<Longrightarrow> sort_key f (xs @ [y]) = sort_key f xs @ [y]"
  by (induction xs) (simp_all add: insort_key_snoc)

lemma keep_newest_all: "length t \<le> n \<Longrightarrow> keep_newest n created t = t"
  by (auto simp: keep_newest_def filter_id_conv image_iff) force

lemma keep_newest_last:
  assumes "\<forall>(j, w)\<in>set t. created w \<le> created v" "0 < n"
  shows "(k, v) \<in> set (keep_newest n created (t @ [(k, v)]))"
proof -
  let ?l = "sort_key (\<lambda>(k, v). created v) (t @ [(k, v)])"
  have "?l = sort_key (\<lambda>(k, v). created v) t @ [(k, v)]"
    by (rule sort_key_snoc) (use assms(1) in auto)
  then have "(k, v) \<in> set (drop (length (t @ [(k, v)]) - n) ?l)" using assms(2) by simp
  then show ?thesis by (force simp: keep_newest_def Let_def)
qed

text \<open>The anomaly table in the state the program keeps it in, and a clock that did not go back.\<close>

definition anomalies_ok :: "moment \<Rightarrow> coordinator \<Rightarrow> bool" where
  "anomalies_ok m c \<longleftrightarrow> length (st_anomalies (co_store c)) \<le> LOG_LIMIT \<and>
     \<not> od_mem (mo_anomaly_id m) (st_anomalies (co_store c)) \<and>
     (\<forall>(k, a)\<in>set (st_anomalies (co_store c)). an_created_at a \<le> mo_now m)"

definition quarantined_as :: "string \<Rightarrow> coordinator \<Rightarrow> bool" where
  "quarantined_as key c \<longleftrightarrow> some_row (\<lambda>a. an_identity_key a = strip key) (st_anomalies (co_store c))"

lemma anomaly_kept:
  assumes "anomalies_ok m c"
    and "on_store (record_measurement_anomaly (mo_anomaly_id m) (mo_now m) key src ov why ctx dev boot sq) c = (Inr ins, c1)"
  shows "quarantined_as key c1" "co_requests c1 = co_requests c" "co_retries c1 = co_retries c"
proof -
  let ?t = "st_anomalies (co_store c)"
  let ?row = "\<lparr>an_identity_key = strip key, an_source = strip src, an_device_id = dev, an_boot_id = boot,
     an_event_seq = sq, an_observed_value = take 200 ov, an_reason = strip why, an_context_json = anomaly_context ctx,
     an_created_at = mo_now m\<rparr>"
  let ?seen = "some_row (\<lambda>a. an_identity_key a = strip key) ?t"
  have t: "st_anomalies (co_store c1) =
      keep_newest LOG_LIMIT an_created_at (if ?seen then ?t else ?t @ [(mo_anomaly_id m, ?row)])"
    using assms
    by (auto simp: on_store_def record_measurement_anomaly_def transaction_def Let_def anomalies_ok_def split: if_split_asm)
  show "quarantined_as key c1"
  proof (cases ?seen)
    case True
    then show ?thesis using assms(1) by (simp add: quarantined_as_def t keep_newest_all anomalies_ok_def)
  next
    case False
    have "(mo_anomaly_id m, ?row) \<in> set (st_anomalies (co_store c1))"
      unfolding t using False assms(1) keep_newest_last [of ?t an_created_at ?row LOG_LIMIT "mo_anomaly_id m"]
      by (auto simp: anomalies_ok_def LOG_LIMIT_def)
    then show ?thesis by (force simp: quarantined_as_def some_row_def list_ex_iff)
  qed
  show "co_requests c1 = co_requests c" "co_retries c1 = co_retries c"
    using assms(2) by (auto simp: on_store_def)
qed

lemma diagnostic_frame [simp]:
  "st_anomalies (co_store (diagnostic m lv cd ctx c)) = st_anomalies (co_store c)"
  "st_results (co_store (diagnostic m lv cd ctx c)) = st_results (co_store c)"
  "co_requests (diagnostic m lv cd ctx c) = co_requests c"
  "co_retries (diagnostic m lv cd ctx c) = co_retries c"
  by (simp_all add: diagnostic_def on_store_def add_diagnostic_def transaction_def Let_def)

lemma quarantined_frame [simp]:
  "quarantined_as key (diagnostic m lv cd ctx c) = quarantined_as key c"
  "quarantined_as key (c\<lparr>co_requests := rs\<rparr>) = quarantined_as key c"
  by (simp_all add: quarantined_as_def)

section \<open>The outcome of a RESULT event\<close>

definition ack_sent :: "moment \<Rightarrow> string \<Rightarrow> string \<Rightarrow> int \<Rightarrow> coordinator \<Rightarrow> coordinator \<Rightarrow> bool" where
  "ack_sent m dev boot sq c c' \<longleftrightarrow>
     same_identity (mo_identity m) dev boot \<and> co_requests c' = co_requests c @ [(''ACK'', ack_fields dev boot sq)]"

lemma quarantine_outcome:
  assumes "anomalies_ok m c" "me_frame e = Some fr" "quarantine_invalid_result m e reason c = (Inr x, c')"
  shows "quarantined_as (result_identity m e (fr_fields fr)) c' \<and>
    (co_requests c' = co_requests c \<or>
     (\<exists>sq. usable_sequence (fr_fields fr) = Some sq \<and> ack_sent m (me_device_id e) (me_boot_id e) sq c c'))"
proof -
  obtain ins c1 where rec: "on_store (record_measurement_anomaly (mo_anomaly_id m) (mo_now m)
        (result_identity m e (fr_fields fr)) ''result'' (get_or (fr_fields fr) ''pulses'' ''unavailable'') reason
        [(''fields'', fields_json (fr_fields fr))] (or_none (me_device_id e)) (or_none (me_boot_id e))
        (map_option show_int (usable_sequence (fr_fields fr)))) c = (Inr ins, c1)"
    using assms(2,3) by (auto simp: quarantine_invalid_result_def Let_def bind_st_eq_Inr)
  note kept = anomaly_kept [OF assms(1) rec]
  show ?thesis
    using assms(2,3) kept
    by (auto simp: quarantine_invalid_result_def Let_def rec ack_sent_def send_request_def except_st_def
        split: option.split_asm if_split_asm sum.split_asm)
qed

lemma result_outcome:
  assumes "anomalies_ok m c" "me_frame e = Some fr" "process_result m e fr c = (Inr x, c')"
  obtains (committed) r where "device_result_of_fields (fr_fields fr) = Inr r"
      "od_mem (event_key r) (st_results (co_store c'))"
      "co_requests c' = co_requests c \<or> ack_sent m (dr_device_id r) (dr_boot_id r) (dr_event_seq r) c c'"
  | (quarantined) "quarantined_as (result_identity m e (fr_fields fr)) c'"
      "co_requests c' = co_requests c \<or>
       (\<exists>sq. usable_sequence (fr_fields fr) = Some sq \<and> ack_sent m (me_device_id e) (me_boot_id e) sq c c')"
proof (cases "device_result_of_fields (fr_fields fr)")
  case (Inl ex)
  then have "quarantine_invalid_result m e (exc_message ex) c = (Inr x, c')"
    using assms(3) by (simp add: process_result_def except_st_def split: if_split_asm)
  then show thesis using quarantine_outcome [OF assms(1,2)] quarantined by blast
next
  case (Inr r)
  let ?run = "on_store (finalize_device_result (mo_uuid5 m) (mo_pour_id m) (mo_ledger_id m) (mo_now m) r
      (me_keg_id e) (me_calibration_id e) (me_context_captured e)) c"
  show thesis
  proof (cases "captured_mismatch e r")
    case True
    then show thesis using assms(3) Inr by (simp add: process_result_def except_st_def)
  next
    case ok: False
    show thesis
    proof (cases "fst ?run")
      case failure: (Inl ex)
      have "snd ?run = c" using failure rollbacks(2) by (simp add: on_store_def)
      then have "quarantine_invalid_result m e (exc_message ex) c = (Inr x, c')"
        using assms(3) Inr failure ok by (simp add: process_result_def except_st_def split: if_split_asm)
      then show thesis using quarantine_outcome [OF assms(1,2)] quarantined by blast
    next
      case commit: (Inr y)
      obtain c1 where run: "?run = (Inr y, c1)" using commit by (cases ?run) simp
      obtain out dup where y: "y = (out, dup)" by force
      have fin: "finalize_device_result (mo_uuid5 m) (mo_pour_id m) (mo_ledger_id m) (mo_now m) r
          (me_keg_id e) (me_calibration_id e) (me_context_captured e) (co_store c) = (Inr (out, dup), co_store c1)"
        using run unfolding y on_store_def by (auto intro: prod_eqI)
      have mem: "od_mem (event_key r) (st_results (co_store c1))"
        by (rule finalize_stores [OF fin]) (simp add: od_mem_iff)
      have req: "co_requests c1 = co_requests c" using run by (auto simp: on_store_def)
      have "acknowledge_result m r c1 = (Inr x, c')"
        using assms(3) Inr ok run by (simp add: process_result_def except_st_def)
      then have "st_results (co_store c') = st_results (co_store c1) \<and>
          (co_requests c' = co_requests c \<or> ack_sent m (dr_device_id r) (dr_boot_id r) (dr_event_seq r) c c')"
        using req by (auto simp: acknowledge_result_def except_st_def send_request_def ack_sent_def
            split: if_split_asm sum.split_asm)
      then show thesis using committed [OF Inr] mem by simp
    qed
  qed
qed

text \<open>Without a value returned no acknowledgement was sent, and the retry queue is untouched.\<close>

lemma failed_unsent: "process_result m e fr c = (Inl ex, c') \<Longrightarrow> co_requests c' = co_requests c"
  by (auto simp: process_result_def quarantine_invalid_result_def acknowledge_result_def except_st_def bind_st_def
      on_store_def send_request_def Let_def split: if_split_asm sum.split_asm option.split_asm)

interpretation unsent: store_only u "\<lambda>c c'. co_requests c' = co_requests c" for u
  by unfold_locales simp_all

interpretation unqueued: store_driven u "\<lambda>c c'. co_retries c' = co_retries c" for u
  by unfold_locales simp_all

lemma other_events_unsent:
  assumes inv: "catalogue_inv (co_store c)" and kind: "me_kind e \<noteq> ''result''"
  shows "co_requests (snd (process_event m e c)) = co_requests c"
proof -
  have "co_requests (snd (bind_st (remember_confirmed_hardware m e c) (\<lambda>_ c. reconcile_after_connect m c))) = co_requests c"
  proof (rule unsent.after_bind [OF unsent.hardware_remembered])
    fix x c1
    assume "remember_confirmed_hardware m e c = (Inr x, c1)"
    then have "catalogue_inv (co_store c1)" using tidy.hardware_remembered [of c m e] inv by simp
    then show "co_requests (snd (reconcile_after_connect m c1)) = co_requests c1"
      by (rule unsent.reconciled [OF refl])
  qed
  then show ?thesis
    using kind inv unsent.status_processed unsent.counter_checkpointed [OF refl]
    by (simp add: process_event_def split: option.split)
qed

section \<open>Properties\<close>

text \<open>C3 The device may forget a result only when the host has it: processing an event sends a request
  to the device only for a RESULT frame, the request is one ACK for the connected device and boot,
  and by then the result is in the database or, if it was rejected, its evidence is in the anomaly
  table.\<close>

theorem ack_only_when_durable:
  assumes "catalogue_inv (co_store c)" "anomalies_ok m c"
    and "process_event m e c = (res, c')" "co_requests c' \<noteq> co_requests c"
  shows "me_kind e = ''result'' \<and>
    (\<exists>dev boot sq. same_identity (mo_identity m) dev boot \<and>
       co_requests c' = co_requests c @ [(''ACK'', ack_fields dev boot sq)] \<and>
       (od_mem (dev, boot, sq) (st_results (co_store c')) \<or>
        dev = me_device_id e \<and> boot = me_boot_id e \<and>
        quarantined_as (anomaly_identity ''result'' e (show_int sq)) c'))"
proof -
  have kind: "me_kind e = ''result''" using other_events_unsent [OF assms(1)] assms(3,4) by (metis snd_conv)
  obtain fr where fr: "me_frame e = Some fr"
    using assms(3,4) kind by (cases "me_frame e") (auto simp: process_event_def)
  have run: "process_result m e fr c = (res, c')" using assms(3) kind fr by (simp add: process_event_def)
  obtain x where "res = Inr x" using run failed_unsent assms(4) by (cases res) auto
  with run have "process_result m e fr c = (Inr x, c')" by simp
  then show ?thesis
  proof (cases rule: result_outcome [OF assms(2) fr, consumes 1, case_names committed quarantined])
    case (committed r)
    then show ?thesis using kind assms(4) unfolding ack_sent_def event_key_def by blast
  next
    case quarantined
    then obtain sq where sq: "usable_sequence (fr_fields fr) = Some sq"
      "ack_sent m (me_device_id e) (me_boot_id e) sq c c'" using assms(4) by blast
    then have "quarantined_as (anomaly_identity ''result'' e (show_int sq)) c'"
      using quarantined(1) by (simp add: result_identity_def)
    then show ?thesis using kind sq(2) unfolding ack_sent_def by blast
  qed
qed

lemma waits_update:
  "list_ex same q \<Longrightarrow> (\<And>r. same r \<Longrightarrow> same (f r)) \<Longrightarrow> list_ex same (update_first same f q)"
  by (induction q) auto

text \<open>A result that is queued waits, unless the queue holds 128 measurements of other identities.\<close>

definition queue_full :: "manager_event \<Rightarrow> retry list \<Rightarrow> bool" where
  "queue_full e q \<longleftrightarrow> MAX_RETRIES \<le> length q \<and> (\<forall>r\<in>set q. measurement (retry_event r)) \<and>
     (\<forall>r\<in>set q. retry_identity (retry_event r) \<noteq> retry_identity e)"

lemma scheduled_waits:
  assumes "me_kind e = ''result''" "schedule_event_retry now e n q = (q', t)"
  shows "(\<exists>r\<in>set q'. retry_identity (retry_event r) = retry_identity e) \<or>
    queue_full e q \<and> t = Some ''coordinator_retry_queue_full''"
proof (cases "list_ex (\<lambda>r. retry_identity (retry_event r) = retry_identity e) q")
  case True
  then have "list_ex (\<lambda>r. retry_identity (retry_event r) = retry_identity e) q'"
    using assms
    by (auto simp: schedule_event_retry_def measurement_def intro!: waits_update)
  then show ?thesis by (simp add: list_ex_iff)
next
  case False
  then show ?thesis
    using assms
    by (auto simp: schedule_event_retry_def measurement_def queue_full_def list_all_iff list_ex_iff Let_def split: if_split_asm)
qed

lemma retry_diagnostic_frame [simp]:
  "co_retries (retry_diagnostic m e n t c) = co_retries c"
  "co_requests (retry_diagnostic m e n t c) = co_requests c"
  by (simp_all add: retry_diagnostic_def split: option.split)

definition held_back :: "moment \<Rightarrow> manager_event \<Rightarrow> nat \<Rightarrow> coordinator \<Rightarrow> bool" where
  "held_back m e n c \<longleftrightarrow> co_requests (handle_event m e n c) = co_requests c \<and>
     ((\<exists>q\<in>set (co_retries (handle_event m e n c)). retry_identity (retry_event q) = retry_identity e) \<or>
      queue_full e (co_retries c) \<and>
      (\<exists>c1. handle_event m e n c = diagnostic m ''error'' ''coordinator_retry_queue_full'' [(''kind'', JStr ''result'')] c1))"

lemma queued_held:
  assumes "me_kind e = ''result''" "schedule_event_retry now e k (co_retries c) = (q, t)"
    and "handle_event m e n c = retry_diagnostic m e k t c1" "co_retries c1 = q" "co_requests c1 = co_requests c"
  shows "held_back m e n c"
proof -
  have same: "co_retries (handle_event m e n c) = q" "co_requests (handle_event m e n c) = co_requests c"
    using assms(3-5) by simp_all
  from scheduled_waits [OF assms(1,2)] show ?thesis
  proof
    assume "\<exists>r\<in>set q. retry_identity (retry_event r) = retry_identity e"
    then show ?thesis by (simp add: held_back_def same)
  next
    assume full: "queue_full e (co_retries c) \<and> t = Some ''coordinator_retry_queue_full''"
    then have "handle_event m e n c = diagnostic m ''error'' ''coordinator_retry_queue_full'' [(''kind'', JStr ''result'')] c1"
      using assms(1,3) by (simp add: retry_diagnostic_def)
    then have "\<exists>c1. handle_event m e n c =
        diagnostic m ''error'' ''coordinator_retry_queue_full'' [(''kind'', JStr ''result'')] c1" ..
    then show ?thesis using full by (simp add: held_back_def same)
  qed
qed

text \<open>C9 No result is lost unreported: after the event loop handled a RESULT frame, whatever the repository
  raised, the result is in the database, or its evidence is in the anomaly table, or nothing was
  acknowledged, so that the device keeps it, and the event waits in the retry queue, unless that
  queue is full: it then holds 128 measurements of other identities, and the loss of the event is
  written to the diagnostics.\<close>

theorem result_not_lost:
  assumes "me_kind e = ''result''" "me_frame e = Some fr" "anomalies_ok m c"
  shows "(\<exists>r. device_result_of_fields (fr_fields fr) = Inr r \<and>
            od_mem (event_key r) (st_results (co_store (handle_event m e n c)))) \<or>
         quarantined_as (result_identity m e (fr_fields fr)) (handle_event m e n c) \<or>
         co_requests (handle_event m e n c) = co_requests c \<and>
         ((\<exists>q\<in>set (co_retries (handle_event m e n c)). retry_identity (retry_event q) = retry_identity e) \<or>
          128 \<le> length (co_retries c) \<and>
          (\<forall>q\<in>set (co_retries c). me_kind (retry_event q) \<in> {''result'', ''counters''} \<and>
             retry_identity (retry_event q) \<noteq> retry_identity e) \<and>
          (\<exists>c1. handle_event m e n c =
             diagnostic m ''error'' ''coordinator_retry_queue_full'' [(''kind'', JStr ''result'')] c1))"
proof -
  have "(\<exists>r. device_result_of_fields (fr_fields fr) = Inr r \<and>
            od_mem (event_key r) (st_results (co_store (handle_event m e n c)))) \<or>
         quarantined_as (result_identity m e (fr_fields fr)) (handle_event m e n c) \<or> held_back m e n c"
  proof (cases "fst (defer_behind_pending (mo_loop_time m) e n (co_retries c))")
    case True
    obtain q t where s: "schedule_event_retry (mo_loop_time m) e n (co_retries c) = (q, t)" by force
    have "defer_behind_pending (mo_loop_time m) e n (co_retries c) = (True, q, t)"
      using assms(1) True s by (auto simp: defer_behind_pending_def split: if_split_asm)
    then have "handle_event m e n c = retry_diagnostic m e n t (c\<lparr>co_retries := q\<rparr>)" by (simp add: handle_event_def)
    from queued_held [OF assms(1) s this] show ?thesis by simp
  next
    case False
    then obtain q t where d: "defer_behind_pending (mo_loop_time m) e n (co_retries c) = (False, q, t)"
      by (cases "defer_behind_pending (mo_loop_time m) e n (co_retries c)") auto
    obtain res c1 where run: "process_result m e fr c = (res, c1)" by force
    have ev: "process_event m e c = (res, c1)" using run assms(1,2) by (simp add: process_event_def)
    have retries: "co_retries c1 = co_retries c" using unqueued.result_processed [OF refl, of m e fr c] run by simp
    show ?thesis
    proof (cases res)
      case (Inl ex)
      obtain q t where s: "schedule_event_retry (mo_loop_time m) e (n + 1) (co_retries c) = (q, t)" by force
      have "co_requests c1 = co_requests c" using run failed_unsent Inl by simp
      moreover obtain c2 where "handle_event m e n c = retry_diagnostic m e (n + 1) t (c2\<lparr>co_retries := q\<rparr>)"
        "co_requests c2 = co_requests c1"
        using d ev retries s Inl by (simp add: handle_event_def schedule_retry_def)
      ultimately show ?thesis using queued_held [OF assms(1) s] by simp
    next
      case (Inr x)
      then have h: "handle_event m e n c = c1" using d ev by (simp add: handle_event_def)
      from run Inr have "process_result m e fr c = (Inr x, c1)" by simp
      then show ?thesis unfolding h by (cases rule: result_outcome [OF assms(3,2)]) blast+
    qed
  qed
  then show ?thesis by (auto simp: held_back_def queue_full_def measurement_def MAX_RETRIES_def)
qed

section \<open>Demonstration\<close>

definition demo_moment :: moment where
  "demo_moment = \<lparr>mo_now = 9000, mo_loop_time = 0, mo_identity_before = [],
     mo_identity = [(''device'', ''0123456789ABCDEF''), (''boot'', ''FEDCBA9876543210'')], mo_status = [],
     mo_state = CONNECTED, mo_answer = (\<lambda>op flds. Inl (TimeoutError ''no answer'')),
     mo_pour_id = ''p'', mo_ledger_id = ''l'', mo_anomaly_id = ''a'', mo_session_id = ''s'',
     mo_uuid5 = (\<lambda>x. x), mo_sha256 = (\<lambda>x. x)\<rparr>"

definition demo_fields :: field_dict where
  "demo_fields = [(''dev'', ''0123456789ABCDEF''), (''boot'', ''FEDCBA9876543210''), (''seq'', ''7''), (''sid'', ''none''),
     (''attr'', ''0''), (''st'', ''complete''), (''pulses'', ''12''), (''life'', ''12''), (''start'', ''0''),
     (''end'', ''900''), (''fault'', ''none'')]"

definition demo_event :: manager_event where
  "demo_event = (manager_event_of ''result''
     (Some \<lparr>fr_kind = ''EVT'', fr_request_id = ''00000000'', fr_operation = ''RESULT'', fr_fields = demo_fields\<rparr>) [])
     \<lparr>me_device_id := ''0123456789ABCDEF'', me_boot_id := ''FEDCBA9876543210'', me_context_captured := True\<rparr>"

lemma demo_anomalies: "anomalies_ok demo_moment (new_coordinator False 30000)"
  by (simp add: anomalies_ok_def demo_moment_def new_coordinator_def empty_store_def od_mem_iff LOG_LIMIT_def)

theorem ack_only_when_durable_witness:
  "co_requests (snd (process_event demo_moment demo_event (new_coordinator False 30000))) \<noteq> [] \<and>
   (\<exists>dev boot sq. same_identity (mo_identity demo_moment) dev boot \<and>
      co_requests (snd (process_event demo_moment demo_event (new_coordinator False 30000))) =
        [(''ACK'', ack_fields dev boot sq)])"
proof -
  let ?c = "new_coordinator False 30000"
  have sent: "co_requests (snd (process_event demo_moment demo_event ?c)) \<noteq> []" by code_simp
  have empty: "co_requests ?c = []" "catalogue_inv (co_store ?c)"
    by (simp_all add: new_coordinator_def empty_catalogue)
  from ack_only_when_durable [OF empty(2) demo_anomalies prod.collapse [symmetric]] sent empty(1)
  show ?thesis by fastforce
qed

theorem result_not_lost_witness:
  "od_mem (''0123456789ABCDEF'', ''FEDCBA9876543210'', 7)
     (st_results (co_store (handle_event demo_moment demo_event 0 (new_coordinator False 30000)))) \<and>
   ((\<exists>r. device_result_of_fields demo_fields = Inr r \<and>
        od_mem (event_key r) (st_results (co_store (handle_event demo_moment demo_event 0 (new_coordinator False 30000))))) \<or>
    quarantined_as (result_identity demo_moment demo_event demo_fields)
      (handle_event demo_moment demo_event 0 (new_coordinator False 30000)) \<or>
    co_requests (handle_event demo_moment demo_event 0 (new_coordinator False 30000)) = [])"
proof
  show "od_mem (''0123456789ABCDEF'', ''FEDCBA9876543210'', 7)
     (st_results (co_store (handle_event demo_moment demo_event 0 (new_coordinator False 30000))))" by code_simp
  let ?frame = "\<lparr>fr_kind = ''EVT'', fr_request_id = ''00000000'', fr_operation = ''RESULT'', fr_fields = demo_fields\<rparr>"
  have e: "me_kind demo_event = ''result''" "me_frame demo_event = Some ?frame"
    by (simp_all add: demo_event_def manager_event_of_def)
  have "co_requests (new_coordinator False 30000) = []" by (simp add: new_coordinator_def)
  then show "(\<exists>r. device_result_of_fields demo_fields = Inr r \<and>
        od_mem (event_key r) (st_results (co_store (handle_event demo_moment demo_event 0 (new_coordinator False 30000))))) \<or>
    quarantined_as (result_identity demo_moment demo_event demo_fields)
      (handle_event demo_moment demo_event 0 (new_coordinator False 30000)) \<or>
    co_requests (handle_event demo_moment demo_event 0 (new_coordinator False 30000)) = []"
    using result_not_lost [OF e demo_anomalies, of 0] by (simp only: frame.select_convs) metis
qed

end
