(* ===== verification/KP_Security.thy ===== *)
theory KP_Security
  imports KP_Results
begin

text \<open>
  The security manager, \<open>src/kegpulse/security.py\<close>: the administrator PIN, browser sessions with
  their expiry, the throttle of failed logins, the access rules, and the host and origin checks;
  with the routes of \<open>app.py\<close> that apply them and the checks of \<open>api/middleware.py\<close>.

  \<open>time.monotonic()\<close> is a number of milliseconds given to each call, the random tokens and the salt
  are arguments, and \<open>hashlib.scrypt\<close> with the fixed cost parameters is the argument \<open>scrypt\<close> from
  the PIN and the salt to the digest.  Header texts hold the code points below 256, and \<open>lower\<close>
  changes the ASCII letters.
\<close>

section \<open>Base 64\<close>

definition b64_alphabet :: string where
  "b64_alphabet = ''ABCDEFGHIJKLMNOPQRSTUVWXYZabcdefghijklmnopqrstuvwxyz0123456789+/''"

definition b64_char :: "nat \<Rightarrow> char" where
  "b64_char n = b64_alphabet ! n"

definition b64_value :: "char \<Rightarrow> nat option" where
  "b64_value c = map_of (zip b64_alphabet [0..<64]) c"

fun b64encode :: "string \<Rightarrow> string" where
  "b64encode [] = []"
| "b64encode [a] = [b64_char (code a div 4), b64_char (code a mod 4 * 16), CHR ''='', CHR ''='']"
| "b64encode [a, b] =
     [b64_char (code a div 4), b64_char (code a mod 4 * 16 + code b div 16), b64_char (code b mod 16 * 4), CHR ''='']"
| "b64encode (a # b # c # s) =
     b64_char (code a div 4) # b64_char (code a mod 4 * 16 + code b div 16) #
     b64_char (code b mod 16 * 4 + code c div 64) # b64_char (code c mod 64) # b64encode s"

text \<open>\<open>base64.b64decode(text, validate=True)\<close>; \<open>None\<close> is the \<open>binascii.Error\<close>.\<close>

fun b64decode :: "string \<Rightarrow> string option" where
  "b64decode [] = Some []"
| "b64decode (p # q # r # t # s) =
     (case (b64_value p, b64_value q) of
        (Some x, Some y) \<Rightarrow>
          (if t = CHR ''='' \<and> s = [] then
             (if r = CHR ''='' then Some [char_of (x * 4 + y div 16)]
              else (case b64_value r of
                      None \<Rightarrow> None
                    | Some z \<Rightarrow> Some [char_of (x * 4 + y div 16), char_of (y mod 16 * 16 + z div 4)]))
           else
             (case (b64_value r, b64_value t, b64decode s) of
                (Some z, Some w, Some rest) \<Rightarrow>
                  Some (char_of (x * 4 + y div 16) # char_of (y mod 16 * 16 + z div 4) # char_of (z mod 4 * 64 + w) # rest)
              | _ \<Rightarrow> None))
      | _ \<Rightarrow> None)"
| "b64decode _ = None"

section \<open>State\<close>

record sec_session =
  sn_token :: string
  sn_csrf :: string
  sn_created :: int
  sn_last_seen :: int
  sn_admin :: bool

record security =
  se_store :: store
  se_sessions :: "(string, sec_session) odict"
  se_attempts :: "(string, int list) odict"
  se_global_attempts :: "int list"
  se_lan_mode :: bool
  se_lan_display :: bool

record request =
  rq_cookie :: "string option"
  rq_csrf :: "string option"
  rq_client :: "string option"

definition idle_ms :: int where "idle_ms = 30 * 60 * 1000"
definition absolute_ms :: int where "absolute_ms = 12 * 60 * 60 * 1000"
definition max_sessions :: nat where "max_sessions = 128"
definition window_ms :: int where "window_ms = 60 * 1000"

text \<open>An \<open>HTTPException\<close>, or another exception that leaves the handler.\<close>

datatype web_error = Http int string | Raised py_exc

type_synonym 'a web = "(web_error + 'a) \<times> security"

section \<open>The PIN\<close>

definition SCRYPT_LENGTH :: nat where "SCRYPT_LENGTH = 32"

definition pin_setting :: "security \<Rightarrow> json option" where
  "pin_setting s = od_get (st_settings (se_store s)) ''admin_pin_verifier''"

text \<open>\<open>get_setting\<close> answers \<open>None\<close> for an absent row and for a stored \<open>null\<close>.\<close>

definition pin_configured :: "security \<Rightarrow> bool" where
  "pin_configured s \<longleftrightarrow> pin_setting s \<noteq> None \<and> pin_setting s \<noteq> Some JNull"

definition pin_verifier :: "string \<Rightarrow> string \<Rightarrow> json" where
  "pin_verifier salt digest =
     JObj [(''version'', JInt 1), (''algorithm'', JStr ''scrypt''), (''n'', JInt 16384), (''r'', JInt 8), (''p'', JInt 1),
           (''salt'', JStr (b64encode salt)), (''digest'', JStr (b64encode digest))]"

definition store_pin_setting :: "json \<Rightarrow> security \<Rightarrow> unit web" where
  "store_pin_setting v s =
     (case set_setting ''admin_pin_verifier'' v (se_store s) of
        (Inl e, st) \<Rightarrow> (Inl (Raised e), s\<lparr>se_store := st\<rparr>)
      | (Inr _, st) \<Rightarrow> (Inr (), s\<lparr>se_store := st, se_sessions := []\<rparr>))"

definition set_pin :: "(string \<Rightarrow> string \<Rightarrow> string) \<Rightarrow> string \<Rightarrow> string \<Rightarrow> security \<Rightarrow> unit web" where
  "set_pin scrypt salt pin s =
     (if \<not> is_ascii_decimal pin \<or> \<not> text_between 4 20 pin then
        (Inl (Raised (ValueError ''admin PIN must contain 4 to 20 ASCII digits'')), s)
      else store_pin_setting (pin_verifier salt (scrypt pin salt)) s)"

definition remove_pin :: "security \<Rightarrow> unit web" where
  "remove_pin s = store_pin_setting JNull s"

text \<open>\<open>value == 1\<close> holds of \<open>True\<close> as well; a text field is \<open>None\<close> when absent or of another type.\<close>

definition equals_one :: "json option \<Rightarrow> bool" where
  "equals_one v \<longleftrightarrow> v = Some (JInt 1) \<or> v = Some (JBool True)"

definition text_field :: "(string \<times> json) list \<Rightarrow> string \<Rightarrow> string option" where
  "text_field kvs k = (case od_get kvs k of Some (JStr t) \<Rightarrow> Some t | _ \<Rightarrow> None)"

definition b64_field :: "(string \<times> json) list \<Rightarrow> string \<Rightarrow> nat \<Rightarrow> string option" where
  "b64_field kvs k n =
     (case text_field kvs k of
        None \<Rightarrow> None
      | Some t \<Rightarrow> (case b64decode t of Some b \<Rightarrow> (if length b = n then Some b else None) | None \<Rightarrow> None))"

definition verify_pin :: "(string \<Rightarrow> string \<Rightarrow> string) \<Rightarrow> string \<Rightarrow> security \<Rightarrow> bool" where
  "verify_pin scrypt pin s =
     (case pin_setting s of
        Some (JObj kvs) \<Rightarrow>
          equals_one (od_get kvs ''version'') \<and> od_get kvs ''algorithm'' = Some (JStr ''scrypt'') \<and>
          od_get kvs ''n'' = Some (JInt 16384) \<and> od_get kvs ''r'' = Some (JInt 8) \<and> equals_one (od_get kvs ''p'') \<and>
          (case (b64_field kvs ''salt'' 16, b64_field kvs ''digest'' SCRYPT_LENGTH) of
             (Some salt, Some expected) \<Rightarrow> scrypt pin salt = expected
           | _ \<Rightarrow> False)
      | _ \<Rightarrow> False)"

section \<open>Sessions\<close>

definition session_expired :: "int \<Rightarrow> sec_session \<Rightarrow> bool" where
  "session_expired now x \<longleftrightarrow> now - sn_last_seen x > idle_ms \<or> now - sn_created x > absolute_ms"

definition prune_sessions :: "int \<Rightarrow> security \<Rightarrow> security" where
  "prune_sessions now s =
     (let live = filter (\<lambda>(k, x). \<not> session_expired now x) (se_sessions s);
          oldest = take (length live - max_sessions) (sort_key sn_last_seen (od_values live))
      in s\<lparr>se_sessions := foldl od_pop live (map sn_token oldest)\<rparr>)"

definition get_session :: "int \<Rightarrow> string option \<Rightarrow> bool \<Rightarrow> security \<Rightarrow> sec_session option \<times> security" where
  "get_session now token touch s =
     (if \<not> truthy token then (None, s)
      else
        let s1 = prune_sessions now s
        in case od_get (se_sessions s1) (the token) of
             None \<Rightarrow> (None, s1)
           | Some x \<Rightarrow>
               if touch then
                 (Some (x\<lparr>sn_last_seen := now\<rparr>),
                  s1\<lparr>se_sessions := od_set (se_sessions s1) (the token) (x\<lparr>sn_last_seen := now\<rparr>)\<rparr>)
               else (Some x, s1))"

definition new_session :: "int \<Rightarrow> string \<Rightarrow> string \<Rightarrow> bool \<Rightarrow> security \<Rightarrow> sec_session \<times> security" where
  "new_session now token csrf admin s =
     (let x = \<lparr>sn_token = token, sn_csrf = csrf, sn_created = now, sn_last_seen = now, sn_admin = admin\<rparr>;
          s1 = prune_sessions now s
      in (x, s1\<lparr>se_sessions := od_set (se_sessions s1) token x\<rparr>))"

definition drop_session :: "string option \<Rightarrow> security \<Rightarrow> security" where
  "drop_session token s =
     (if truthy token then s\<lparr>se_sessions := od_pop (se_sessions s) (the token)\<rparr> else s)"

definition is_local_client :: "request \<Rightarrow> bool" where
  "is_local_client r \<longleftrightarrow> rq_client r = Some ''127.0.0.1'' \<or> rq_client r = Some ''::1''"

text \<open>The session of a request: the one of its cookie, or a new one, an administrator's while no
  PIN is configured.\<close>

definition security_context :: "int \<Rightarrow> string \<Rightarrow> string \<Rightarrow> request \<Rightarrow> security \<Rightarrow> sec_session \<times> security" where
  "security_context now token csrf r s =
     (case get_session now (rq_cookie r) True s of
        (Some x, s1) \<Rightarrow> (x, s1)
      | (None, s1) \<Rightarrow> new_session now token csrf (\<not> pin_configured s1) s1)"

section \<open>Login\<close>

definition attempts_of :: "string \<Rightarrow> security \<Rightarrow> int list" where
  "attempts_of client s = (case od_get (se_attempts s) client of None \<Rightarrow> [] | Some xs \<Rightarrow> xs)"

definition throttle :: "int \<Rightarrow> string \<Rightarrow> security \<Rightarrow> unit web" where
  "throttle now client s =
     (let cutoff = now - window_ms;
          own = dropWhile (\<lambda>t. t < cutoff) (attempts_of client s);
          all = dropWhile (\<lambda>t. t < cutoff) (se_global_attempts s);
          s1 = s\<lparr>se_attempts := od_set (se_attempts s) client own, se_global_attempts := all\<rparr>
      in if length own \<ge> 5 \<or> length all \<ge> 30 then
           (Inl (Http 429 ''too many PIN attempts; try again shortly''), s1)
         else (Inr (), s1))"

definition record_failed_attempt :: "int \<Rightarrow> string \<Rightarrow> security \<Rightarrow> security" where
  "record_failed_attempt now client s =
     s\<lparr>se_attempts := od_set (se_attempts s) client (attempts_of client s @ [now]),
       se_global_attempts := se_global_attempts s @ [now]\<rparr>"

definition login ::
    "(string \<Rightarrow> string \<Rightarrow> string) \<Rightarrow> int \<Rightarrow> string \<Rightarrow> string \<Rightarrow> request \<Rightarrow> string \<Rightarrow> security \<Rightarrow> sec_session web" where
  "login scrypt now token csrf r pin s =
     (let client = (case rq_client r of None \<Rightarrow> ''unknown'' | Some h \<Rightarrow> h)
      in bind_st (throttle now client s) (\<lambda>_ s.
           if \<not> verify_pin scrypt pin s then (Inl (Http 401 ''invalid PIN''), record_failed_attempt now client s)
           else
             let s1 = drop_session (rq_cookie r) (s\<lparr>se_attempts := od_pop (se_attempts s) client\<rparr>);
                 (x, s2) = new_session now token csrf True s1
             in (Inr x, s2)))"

definition logout :: "request \<Rightarrow> security \<Rightarrow> security" where
  "logout r s = drop_session (rq_cookie r) s"

section \<open>Access rules\<close>

text \<open>\<open>hmac.compare_digest\<close> of two texts raises a \<open>TypeError\<close> unless both are ASCII.\<close>

definition require_csrf :: "int \<Rightarrow> request \<Rightarrow> security \<Rightarrow> sec_session web" where
  "require_csrf now r s =
     (case get_session now (rq_cookie r) True s of
        (None, s1) \<Rightarrow> (Inl (Http 403 ''valid CSRF token required''), s1)
      | (Some x, s1) \<Rightarrow>
          if \<not> truthy (rq_csrf r) then (Inl (Http 403 ''valid CSRF token required''), s1)
          else if \<not> (is_ascii (sn_csrf x) \<and> is_ascii (the (rq_csrf r))) then
            (Inl (Raised (TypeError ''comparing strings with non-ASCII characters is not supported'')), s1)
          else if sn_csrf x \<noteq> the (rq_csrf r) then (Inl (Http 403 ''valid CSRF token required''), s1)
          else (Inr x, s1))"

definition no_admin :: "sec_session option \<Rightarrow> bool" where
  "no_admin x \<longleftrightarrow> (case x of None \<Rightarrow> True | Some v \<Rightarrow> \<not> sn_admin v)"

definition require_access :: "int \<Rightarrow> request \<Rightarrow> security \<Rightarrow> sec_session option web" where
  "require_access now r s =
     (case get_session now (rq_cookie r) True s of
        (x, s1) \<Rightarrow>
          (if se_lan_mode s \<and> \<not> is_local_client r \<and> no_admin x then
             (Inl (Http 401 ''administrator login required in LAN mode''), s1)
           else (Inr x, s1)))"

definition require_display_access :: "int \<Rightarrow> request \<Rightarrow> security \<Rightarrow> sec_session option web" where
  "require_display_access now r s =
     (case get_session now (rq_cookie r) True s of
        (x, s1) \<Rightarrow>
          (if \<not> se_lan_mode s \<or> se_lan_display s then (Inr x, s1)
           else if is_local_client r then (Inr x, s1)
           else if no_admin x then (Inl (Http 401 ''administrator login required in LAN mode''), s1)
           else (Inr x, s1)))"

definition require_operational :: "int \<Rightarrow> request \<Rightarrow> security \<Rightarrow> sec_session web" where
  "require_operational now r s =
     bind_st (require_csrf now r s) (\<lambda>x s1.
       if se_lan_mode s1 \<and> \<not> sn_admin x \<and> \<not> is_local_client r then
         (Inl (Http 401 ''administrator login required in LAN mode''), s1)
       else (Inr x, s1))"

definition require_admin :: "int \<Rightarrow> request \<Rightarrow> security \<Rightarrow> sec_session web" where
  "require_admin now r s =
     bind_st (require_csrf now r s) (\<lambda>x s1.
       if pin_configured s1 \<and> \<not> sn_admin x then (Inl (Http 401 ''administrator login required''), s1)
       else (Inr x, s1))"

definition websocket_allowed :: "int \<Rightarrow> request \<Rightarrow> security \<Rightarrow> bool \<times> security" where
  "websocket_allowed now r s =
     (if \<not> se_lan_mode s \<or> se_lan_display s then (True, s)
      else if is_local_client r then (True, s)
      else (case get_session now (rq_cookie r) True s of (x, s1) \<Rightarrow> (\<not> no_admin x, s1)))"

section \<open>The routes\<close>

definition admin_access :: "int \<Rightarrow> request \<Rightarrow> security \<Rightarrow> unit web" where
  "admin_access now r s =
     bind_st (require_access now r s) (\<lambda>x s1.
       if pin_configured s1 \<and> no_admin x then (Inl (Http 401 ''administrator login required''), s1)
       else (Inr (), s1))"

definition management_admin :: "int \<Rightarrow> request \<Rightarrow> bool \<Rightarrow> security \<Rightarrow> unit web" where
  "management_admin now r mutation s =
     (if \<not> pin_configured s then
        (Inl (Http 409 ''configure an administrator PIN before using management''), s)
      else if mutation then bind_st (require_admin now r s) (\<lambda>_ s1. (Inr (), s1))
      else admin_access now r s)"

definition route_login ::
    "(string \<Rightarrow> string \<Rightarrow> string) \<Rightarrow> int \<Rightarrow> string \<Rightarrow> string \<Rightarrow> request \<Rightarrow> string \<Rightarrow> security \<Rightarrow> sec_session web" where
  "route_login scrypt now token csrf r pin s =
     bind_st (require_csrf now r s) (\<lambda>_ s1. login scrypt now token csrf r pin s1)"

definition route_logout :: "int \<Rightarrow> request \<Rightarrow> security \<Rightarrow> unit web" where
  "route_logout now r s = bind_st (require_operational now r s) (\<lambda>_ s1. (Inr (), logout r s1))"

definition route_set_pin ::
    "(string \<Rightarrow> string \<Rightarrow> string) \<Rightarrow> int \<Rightarrow> string \<Rightarrow> request \<Rightarrow> string \<Rightarrow> security \<Rightarrow> unit web" where
  "route_set_pin scrypt now salt r pin s =
     bind_st (if pin_configured s then require_admin now r s else require_operational now r s)
       (\<lambda>_ s1. set_pin scrypt salt pin s1)"

definition route_remove_pin :: "int \<Rightarrow> request \<Rightarrow> security \<Rightarrow> unit web" where
  "route_remove_pin now r s =
     bind_st (require_admin now r s) (\<lambda>_ s1.
       if se_lan_mode s1 then (Inl (Http 409 ''LAN mode requires an admin PIN''), s1) else remove_pin s1)"

section \<open>Hosts and origins\<close>

text \<open>\<open>str.isdigit\<close> below code point 256 also accepts the superscripts one, two and three.\<close>

definition py_isdigit :: "string \<Rightarrow> bool" where
  "py_isdigit s \<longleftrightarrow> s \<noteq> [] \<and> list_all (\<lambda>c. is_digit c \<or> code c \<in> {178, 179, 185}) s"

definition host_without_port :: "string \<Rightarrow> string" where
  "host_without_port raw =
     (let v = lower (strip raw)
      in if starts_with ''['' v then
           (if CHR '']'' \<in> set v then takeWhile (\<lambda>c. c \<noteq> CHR '']'') v @ '']'' else v)
         else if CHR '':'' \<in> set v \<and> py_isdigit (snd (rsplit_last CHR '':'' v)) then fst (rsplit_last CHR '':'' v)
         else v)"

definition allowed_host :: "string list \<Rightarrow> bool \<Rightarrow> string \<Rightarrow> bool" where
  "allowed_host hosts testing header \<longleftrightarrow>
     host_without_port header \<in> set ([''127.0.0.1'', ''localhost'', ''[::1]''] @ map lower hosts) \<or>
     (testing \<and> host_without_port header = ''testserver'')"

definition rstrip_slash :: "string \<Rightarrow> string" where
  "rstrip_slash s = rev (dropWhile (\<lambda>c. c = CHR ''/'') (rev s))"

definition allowed_origin :: "string list \<Rightarrow> string option \<Rightarrow> string \<Rightarrow> bool" where
  "allowed_origin origins origin header =
     (case origin of
        None \<Rightarrow> False
      | Some u \<Rightarrow>
          if u = [] \<or> u = ''null'' then False
          else rstrip_slash (lower u) \<in>
                 set ([''http://'' @ lower header, ''https://'' @ lower header] @ map (\<lambda>x. rstrip_slash (lower x)) origins))"

text \<open>The policy of \<open>RequestPolicyMiddleware\<close>: the status it answers itself, or none.\<close>

definition request_policy :: "string list \<Rightarrow> string list \<Rightarrow> bool \<Rightarrow> string \<Rightarrow> string \<Rightarrow> string option \<Rightarrow> int option" where
  "request_policy hosts origins testing method header origin =
     (if \<not> allowed_host hosts testing header then Some 400
      else if method \<in> {''POST'', ''PUT'', ''PATCH'', ''DELETE''} \<and> \<not> allowed_origin origins origin header then Some 403
      else None)"

section \<open>The size of a request body\<close>

text \<open>The limit of a path: the first override whose pattern matches it, or the default.\<close>

fun limit_for :: "((string \<Rightarrow> bool) \<times> int) list \<Rightarrow> int \<Rightarrow> string \<Rightarrow> int" where
  "limit_for [] maximum path = maximum"
| "limit_for ((pattern, limit) # rest) maximum path = (if pattern path then limit else limit_for rest maximum path)"

text \<open>The answer to a declared \<open>Content-Length\<close>, if the middleware answers at all.\<close>

definition declared_length :: "int \<Rightarrow> string option \<Rightarrow> int option" where
  "declared_length maximum header =
     (if \<not> truthy header then None
      else
        (case py_int (the header) of
           None \<Rightarrow> Some 400
         | Some n \<Rightarrow> (if n < 0 then Some 400 else if n > maximum then Some 413 else None)))"

record body_state =
  bs_total :: int
  bs_exceeded :: bool
  bs_timed_out :: bool

text \<open>What the server has for the application: a part of the body, another message, or nothing before
  the deadline.\<close>

datatype asgi_message = RequestBody string | OtherMessage | Disconnect

definition limited_receive ::
    "int \<Rightarrow> int \<Rightarrow> asgi_message option \<Rightarrow> body_state \<Rightarrow> asgi_message \<times> body_state" where
  "limited_receive maximum remaining arrived b =
     (if remaining \<le> 0 then (Disconnect, b\<lparr>bs_timed_out := True\<rparr>)
      else
        (case arrived of
           None \<Rightarrow> (Disconnect, b\<lparr>bs_timed_out := True\<rparr>)
         | Some (RequestBody body) \<Rightarrow>
             (let b1 = b\<lparr>bs_total := bs_total b + int (length body)\<rparr>
              in if bs_total b1 > maximum then (Disconnect, b1\<lparr>bs_exceeded := True\<rparr>) else (RequestBody body, b1))
         | Some msg \<Rightarrow> (msg, b)))"

text \<open>The status the middleware sends in place of the application's response, once.\<close>

definition replaced_status :: "body_state \<Rightarrow> int option" where
  "replaced_status b =
     (if bs_exceeded b \<or> bs_timed_out b then Some (if bs_timed_out b then 408 else 413) else None)"

end
