(* ===== verification/KP_SecurityFacts.thy ===== *)
theory KP_SecurityFacts
  imports KP_Security
begin

text \<open>
  The PIN is checked against the digest that was stored, failed logins are limited, and without
  the PIN nobody becomes an administrator.
\<close>

section \<open>Base 64 round trip\<close>

lemma b64_value_char: "n < 64 \<Longrightarrow> b64_value (b64_char n) = Some n"
proof -
  assume n: "n < 64"
  have d: "distinct b64_alphabet" "length b64_alphabet = 64" by code_simp+
  show ?thesis
    unfolding b64_value_def b64_char_def using d n map_of_zip_nth [of b64_alphabet "[0..<64]" n] by simp
qed

lemma b64_char_pad: "n < 64 \<Longrightarrow> b64_char n \<noteq> CHR ''=''"
proof -
  assume n: "n < 64"
  have "length b64_alphabet = 64" "CHR ''='' \<notin> set b64_alphabet" by code_simp+
  then show ?thesis using n unfolding b64_char_def by (metis nth_mem)
qed

lemma code_lt [simp]: "code c < (256 :: nat)"
  using range_nat_of_char by auto

lemma code_bounds:
  "code a div 4 < (64 :: nat)" "code b div 16 < (16 :: nat)" "code c div 64 < (4 :: nat)"
  by (simp_all add: less_mult_imp_div_less)

lemma sextet_bounds:
  fixes a :: nat
  shows "k < 16 \<Longrightarrow> a mod 4 * 16 + k < 64" "k < 4 \<Longrightarrow> a mod 16 * 4 + k < 64" "a mod 4 * 16 < 64"
    "a mod 16 * 4 < 64" "a mod 64 < 64"
  using mod_less_divisor [of 4 a] mod_less_divisor [of 16 a] by simp_all

lemma packed:
  fixes m k :: nat
  shows "k < 4 \<Longrightarrow> (m * 4 + k) div 4 = m" "k < 4 \<Longrightarrow> (m * 4 + k) mod 4 = k"
    "k < 16 \<Longrightarrow> (m * 16 + k) div 16 = m" "k < 16 \<Longrightarrow> (m * 16 + k) mod 16 = k"
  by simp_all

lemmas base64_facts = b64_value_char b64_char_pad code_bounds sextet_bounds packed

lemma base64_roundtrip: "b64decode (b64encode s) = Some s"
  by (induction s rule: b64encode.induct) (simp_all add: base64_facts)

section \<open>The PIN\<close>

lemma set_setting_store:
  "set_setting key v st = (Inr x, st') \<Longrightarrow> st_settings st' = od_set (st_settings st) key v"
  by (auto simp: set_setting_def transaction_def split: if_split_asm)

lemma set_pin_done:
  assumes "set_pin scrypt salt pin s = (Inr x, s')"
  shows "pin_setting s' = Some (pin_verifier salt (scrypt pin salt))" "se_sessions s' = []"
  using assms
  by (auto simp: set_pin_def store_pin_setting_def pin_setting_def od_get_set
      dest!: set_setting_store split: if_split_asm prod.split_asm sum.split_asm)

lemma pin_verifier_not_null: "pin_verifier salt d \<noteq> JNull"
  by (simp add: pin_verifier_def)

lemma verify_stored:
  assumes "pin_setting s = Some (pin_verifier salt d)" "length salt = 16" "length d = SCRYPT_LENGTH"
  shows "verify_pin scrypt p s \<longleftrightarrow> scrypt p salt = d"
  using assms
  by (simp add: verify_pin_def pin_verifier_def equals_one_def b64_field_def text_field_def base64_roundtrip)

section \<open>Histories\<close>

datatype web_op =
    Context int string string request
  | Login int string string request string
  | Logout int request
  | SetPin int string request string
  | RemovePin int request
  | Visit int request

fun web_step :: "(string \<Rightarrow> string \<Rightarrow> string) \<Rightarrow> web_op \<Rightarrow> security \<Rightarrow> security" where
  "web_step scrypt (Context now token csrf r) s = snd (security_context now token csrf r s)"
| "web_step scrypt (Login now token csrf r pin) s = snd (route_login scrypt now token csrf r pin s)"
| "web_step scrypt (Logout now r) s = snd (route_logout now r s)"
| "web_step scrypt (SetPin now salt r pin) s = snd (route_set_pin scrypt now salt r pin s)"
| "web_step scrypt (RemovePin now r) s = snd (route_remove_pin now r s)"
| "web_step scrypt (Visit now r) s = snd (require_access now r s)"

fun op_time :: "web_op \<Rightarrow> int" where
  "op_time (Context now token csrf r) = now"
| "op_time (Login now token csrf r pin) = now"
| "op_time (Logout now r) = now"
| "op_time (SetPin now salt r pin) = now"
| "op_time (RemovePin now r) = now"
| "op_time (Visit now r) = now"

section \<open>Nobody becomes an administrator without the PIN\<close>

definition plain_sessions :: "security \<Rightarrow> bool" where
  "plain_sessions s \<longleftrightarrow> list_all (\<lambda>(k, x). \<not> sn_admin x) (se_sessions s)"

lemma plain_pop: "list_all P t \<Longrightarrow> list_all P (od_pop t k)"
  by (simp add: od_pop_def list_all_iff)

lemma plain_pops: "list_all P t \<Longrightarrow> list_all P (foldl od_pop t ks)"
  by (induction ks arbitrary: t) (simp_all add: plain_pop)

lemma plain_set: "list_all (\<lambda>(k, x). P x) t \<Longrightarrow> P v \<Longrightarrow> list_all (\<lambda>(k, x). P x) (od_set t k v)"
  by (induction t k v rule: od_set.induct) auto

lemma plain_get: "list_all (\<lambda>(k, x). P x) t \<Longrightarrow> od_get t k = Some v \<Longrightarrow> P v"
  using od_get_in by (fastforce simp: list_all_iff)

lemma prune_plain: "plain_sessions s \<Longrightarrow> plain_sessions (prune_sessions now s)"
  unfolding plain_sessions_def prune_sessions_def Let_def by (simp, rule plain_pops) (auto simp: list_all_iff)

lemma prune_frame [simp]: "se_store (prune_sessions now s) = se_store s" "se_lan_mode (prune_sessions now s) = se_lan_mode s"
  "se_global_attempts (prune_sessions now s) = se_global_attempts s" "se_attempts (prune_sessions now s) = se_attempts s"
  by (simp_all add: prune_sessions_def Let_def)

lemma get_session_frame [simp]:
  "se_store (snd (get_session now tk touch s)) = se_store s" "se_lan_mode (snd (get_session now tk touch s)) = se_lan_mode s"
  "se_global_attempts (snd (get_session now tk touch s)) = se_global_attempts s"
  by (simp_all add: get_session_def Let_def split: option.split)

lemma get_session_plain:
  assumes "plain_sessions s"
  shows "plain_sessions (snd (get_session now tk touch s))" "no_admin (fst (get_session now tk touch s))"
proof -
  have p: "list_all (\<lambda>(k, x). \<not> sn_admin x) (se_sessions (prune_sessions now s))"
    using prune_plain [OF assms] by (simp add: plain_sessions_def)
  show "no_admin (fst (get_session now tk touch s))"
    using plain_get [OF p] by (auto simp: get_session_def Let_def no_admin_def split: option.split)
  show "plain_sessions (snd (get_session now tk touch s))"
    using assms p plain_get [OF p] plain_set [OF p]
    by (auto simp: get_session_def Let_def plain_sessions_def split: option.split)
qed

text \<open>The state after a PIN was stored, as long as nobody logs in.\<close>

definition sealed :: "json \<Rightarrow> security \<Rightarrow> bool" where
  "sealed v s \<longleftrightarrow> pin_setting s = Some v \<and> v \<noteq> JNull \<and> plain_sessions s"

lemma sealed_configured: "sealed v s \<Longrightarrow> pin_configured s"
  by (simp add: sealed_def pin_configured_def)

lemma sealed_get_session: "sealed v s \<Longrightarrow> sealed v (snd (get_session now tk touch s))"
  by (simp add: sealed_def pin_setting_def get_session_plain)

lemma sealed_csrf: "sealed v s \<Longrightarrow> sealed v (snd (require_csrf now r s))"
  using sealed_get_session [of v s now "rq_cookie r" True]
  by (auto simp: require_csrf_def split: prod.split option.split)

lemma csrf_no_admin:
  assumes "sealed v s" "require_csrf now r s = (Inr x, s1)"
  shows "\<not> sn_admin x" "sealed v s1"
proof -
  obtain s2 where "get_session now (rq_cookie r) True s = (Some x, s2)"
    using assms(2) by (auto simp: require_csrf_def split: prod.split_asm option.split_asm if_split_asm)
  then show "\<not> sn_admin x"
    using get_session_plain(2) [of s now "rq_cookie r" True] assms(1) by (simp add: sealed_def no_admin_def)
  show "sealed v s1" using sealed_csrf [OF assms(1), of now r] assms(2) by simp
qed

lemma sealed_admin: "sealed v s \<Longrightarrow> \<not> is_ok (fst (require_admin now r s))"
proof
  assume s: "sealed v s" and "is_ok (fst (require_admin now r s))"
  then obtain x s1 where "require_csrf now r s = (Inr x, s1)" "\<not> (pin_configured s1 \<and> \<not> sn_admin x)"
    by (cases "require_csrf now r s"; cases "fst (require_csrf now r s)")
      (auto simp: require_admin_def split: if_split_asm)
  then show False using csrf_no_admin [OF s] sealed_configured by blast
qed

lemma sealed_require_admin: "sealed v s \<Longrightarrow> sealed v (snd (require_admin now r s))"
  using sealed_csrf [of v s now r]
  by (auto simp: require_admin_def bind_st_def split: sum.split prod.split)

lemma sealed_require_operational: "sealed v s \<Longrightarrow> sealed v (snd (require_operational now r s))"
  using sealed_csrf [of v s now r]
  by (auto simp: require_operational_def bind_st_def split: sum.split prod.split)

lemma sealed_new_session: "sealed v s \<Longrightarrow> sealed v (snd (new_session now tk csrf False s))"
proof -
  assume s: "sealed v s"
  then have "plain_sessions (prune_sessions now s)" by (simp add: sealed_def prune_plain)
  then show ?thesis
    using s by (simp add: sealed_def new_session_def Let_def plain_sessions_def pin_setting_def plain_set)
qed

lemma sealed_throttle: "sealed v s \<Longrightarrow> sealed v (snd (throttle now c s))"
  by (simp add: sealed_def throttle_def Let_def plain_sessions_def pin_setting_def)

lemma sealed_verify: "sealed v s \<Longrightarrow> sealed v t \<Longrightarrow> verify_pin scrypt p s = verify_pin scrypt p t"
  by (simp add: sealed_def verify_pin_def)

lemma sealed_login:
  assumes "sealed v s" "\<not> verify_pin scrypt pin s"
  shows "sealed v (snd (route_login scrypt now tk csrf r pin s))"
proof (cases "require_csrf now r s")
  case (Pair res s1)
  show ?thesis
  proof (cases res)
    case (Inl e)
    then show ?thesis using Pair sealed_csrf [OF assms(1), of now r] by (simp add: route_login_def)
  next
    case (Inr x)
    let ?c = "case rq_client r of None \<Rightarrow> ''unknown'' | Some h \<Rightarrow> h"
    have s1: "sealed v s1" using csrf_no_admin [OF assms(1)] Pair Inr by blast
    have t: "sealed v (snd (throttle now ?c s1))" by (rule sealed_throttle [OF s1])
    then have "\<not> verify_pin scrypt pin (snd (throttle now ?c s1))"
      using sealed_verify [OF t assms(1)] assms(2) by blast
    then show ?thesis
      using t Pair Inr
      by (auto simp: route_login_def login_def Let_def bind_st_def record_failed_attempt_def sealed_def plain_sessions_def
          pin_setting_def split: sum.split)
  qed
qed

lemma sealed_step:
  assumes "sealed v s" "\<And>now tk csrf r p. op = Login now tk csrf r p \<Longrightarrow> \<not> verify_pin scrypt p s"
  shows "sealed v (web_step scrypt op s)"
proof (cases op)
  case (Context now tk csrf r)
  note g = sealed_get_session [OF assms(1), of now "rq_cookie r" True]
  have "security_context now tk csrf r s =
      (case get_session now (rq_cookie r) True s of (Some x, s1) \<Rightarrow> (x, s1)
       | (None, s1) \<Rightarrow> new_session now tk csrf False s1)"
    using sealed_configured [OF g] by (auto simp: security_context_def split: prod.split option.split)
  then show ?thesis
    using g sealed_new_session by (auto simp: Context split: prod.split option.split)
next
  case (Login now tk csrf r p)
  then show ?thesis using sealed_login assms by simp
next
  case (Logout now r)
  have "sealed v (snd (require_operational now r s))" by (rule sealed_require_operational [OF assms(1)])
  then show ?thesis
    by (auto simp: Logout route_logout_def bind_st_def logout_def drop_session_def sealed_def plain_sessions_def
        pin_setting_def plain_pop split: sum.split)
next
  case (SetPin now salt r p)
  have "\<not> is_ok (fst (require_admin now r s))" by (rule sealed_admin [OF assms(1)])
  then show ?thesis
    using sealed_require_admin [OF assms(1), of now r] sealed_configured [OF assms(1)]
    by (auto simp: SetPin route_set_pin_def bind_st_def split: sum.split)
next
  case (RemovePin now r)
  have "\<not> is_ok (fst (require_admin now r s))" by (rule sealed_admin [OF assms(1)])
  then show ?thesis
    using sealed_require_admin [OF assms(1), of now r]
    by (auto simp: RemovePin route_remove_pin_def bind_st_def split: sum.split)
next
  case (Visit now r)
  then show ?thesis
    using sealed_get_session [OF assms(1), of now "rq_cookie r" True]
    by (auto simp: require_access_def split: prod.split)
qed

text \<open>C6 Once an administrator PIN is set, nobody becomes an administrator without it: after any
  history of requests in which no login presents a PIN with the stored digest, the stored PIN is
  unchanged, no session is an administrator's, and every request that needs one is refused, in LAN
  mode also every remote request to a protected page.\<close>

theorem admin_needs_pin:
  assumes "set_pin scrypt salt pin s0 = (Inr (), s)"
    and "length salt = 16" "length (scrypt pin salt) = SCRYPT_LENGTH"
    and "\<forall>op\<in>set ops. \<forall>now tk csrf r p. op = Login now tk csrf r p \<longrightarrow> scrypt p salt \<noteq> scrypt pin salt"
    and "s' = run_ops (web_step scrypt) ops s"
  shows "pin_setting s' = pin_setting s \<and> (\<forall>(k, x)\<in>set (se_sessions s'). \<not> sn_admin x) \<and>
    (\<forall>now r. \<not> is_ok (fst (require_admin now r s'))) \<and>
    (\<forall>now r m. \<not> is_ok (fst (management_admin now r m s'))) \<and>
    (\<forall>now r. se_lan_mode s' \<longrightarrow> \<not> is_local_client r \<longrightarrow> \<not> is_ok (fst (require_access now r s')))"
proof -
  let ?v = "pin_verifier salt (scrypt pin salt)"
  have start: "sealed ?v s"
    using set_pin_done [OF assms(1)] by (simp add: sealed_def pin_verifier_not_null plain_sessions_def)
  have end_state: "sealed ?v s'"
    using start assms(4) unfolding assms(5)
  proof (induction ops arbitrary: s)
    case (Cons op ops)
    have "\<not> verify_pin scrypt p s" if "op = Login now tk csrf r p" for now tk csrf r p
      using Cons.prems that verify_stored [OF _ assms(2,3), of s] by (auto simp: sealed_def)
    then have "sealed ?v (web_step scrypt op s)" using Cons.prems(1) by (intro sealed_step) auto
    then show ?case using Cons by simp
  qed simp
  have access: "no_admin (fst (get_session now tk True s'))" for now tk
    using end_state by (simp add: sealed_def get_session_plain)
  have management: "\<not> is_ok (fst (management_admin now r m s'))" for now r m
    using sealed_admin [OF end_state, of now r] access [of now "rq_cookie r"]
      sealed_configured [OF sealed_get_session [OF end_state, of now "rq_cookie r" True]]
    by (auto simp: management_admin_def admin_access_def require_access_def bind_st_def
        split: sum.split_asm prod.split_asm if_split_asm)
  have remote: "\<not> is_ok (fst (require_access now r s'))" if "se_lan_mode s'" "\<not> is_local_client r" for now r
    using that access [of now "rq_cookie r"] by (auto simp: require_access_def split: prod.split)
  show ?thesis
    using end_state start sealed_admin [OF end_state] management remote
    by (auto simp: sealed_def plain_sessions_def list_all_iff)
qed

text \<open>A concrete digest of the right length, and a machine with a PIN set.\<close>

definition demo_scrypt :: "string \<Rightarrow> string \<Rightarrow> string" where
  "demo_scrypt pin salt = take 32 (pin @ replicate 32 CHR ''x'')"

definition demo_salt :: string where "demo_salt = replicate 16 CHR ''s''"

definition demo_security :: security where
  "demo_security = \<lparr>se_store = empty_store, se_sessions = [], se_attempts = [], se_global_attempts = [],
     se_lan_mode = True, se_lan_display = False\<rparr>"

definition demo_request :: request where
  "demo_request = \<lparr>rq_cookie = Some ''t1'', rq_csrf = Some ''c1'', rq_client = Some ''10.0.0.9''\<rparr>"

definition demo_pin_set :: security where
  "demo_pin_set = snd (set_pin demo_scrypt demo_salt ''4711'' demo_security)"

definition demo_web :: "web_op list" where
  "demo_web = [Context 1000 ''t1'' ''c1'' demo_request, Login 2000 ''t2'' ''c2'' demo_request ''0000'',
     Login 3000 ''t3'' ''c3'' demo_request ''1111'']"

lemma demo_pin: "set_pin demo_scrypt demo_salt ''4711'' demo_security = (Inr (), demo_pin_set)"
proof -
  have "fst (set_pin demo_scrypt demo_salt ''4711'' demo_security) = Inr ()" by code_simp
  then show ?thesis unfolding demo_pin_set_def by (metis prod.collapse)
qed

theorem admin_needs_pin_witness:
  "\<not> is_ok (fst (require_admin 4000 demo_request (run_ops (web_step demo_scrypt) demo_web demo_pin_set)))"
proof -
  have digest: "length demo_salt = 16" "length (demo_scrypt ''4711'' demo_salt) = SCRYPT_LENGTH"
    by (simp_all add: demo_salt_def demo_scrypt_def SCRYPT_LENGTH_def)
  have other: "demo_scrypt ''0000'' demo_salt \<noteq> demo_scrypt ''4711'' demo_salt"
    "demo_scrypt ''1111'' demo_salt \<noteq> demo_scrypt ''4711'' demo_salt" by code_simp+
  have "\<forall>op\<in>set demo_web. \<forall>now tk csrf r p. op = Login now tk csrf r p \<longrightarrow>
      demo_scrypt p demo_salt \<noteq> demo_scrypt ''4711'' demo_salt"
    using other by (auto simp: demo_web_def)
  from admin_needs_pin [OF demo_pin digest this refl] show ?thesis by blast
qed

section \<open>Failed logins\<close>

definition login_failed :: "(string \<Rightarrow> string \<Rightarrow> string) \<Rightarrow> web_op \<Rightarrow> security \<Rightarrow> bool" where
  "login_failed scrypt op s \<longleftrightarrow>
     (case op of
        Login now tk csrf r pin \<Rightarrow> fst (route_login scrypt now tk csrf r pin s) = Inl (Http 401 ''invalid PIN'')
      | _ \<Rightarrow> False)"

fun failures :: "(string \<Rightarrow> string \<Rightarrow> string) \<Rightarrow> web_op list \<Rightarrow> security \<Rightarrow> int list" where
  "failures scrypt [] s = []"
| "failures scrypt (op # ops) s =
     (if login_failed scrypt op s then [op_time op] else []) @ failures scrypt ops (web_step scrypt op s)"

definition in_window :: "int \<Rightarrow> int list \<Rightarrow> nat" where
  "in_window t xs = length (filter (\<lambda>x. t - window_ms \<le> x \<and> x \<le> t) xs)"

text \<open>The deque of all clients holds the failures of the last minute.\<close>

definition throttled :: "int list \<Rightarrow> int \<Rightarrow> security \<Rightarrow> bool" where
  "throttled past now s \<longleftrightarrow> sorted (se_global_attempts s) \<and> (\<forall>x\<in>set past \<union> set (se_global_attempts s). x \<le> now) \<and>
     (\<forall>c\<ge>now - window_ms. length (filter ((\<le>) c) past) = length (filter ((\<le>) c) (se_global_attempts s))) \<and>
     (\<forall>t. in_window t past \<le> 30)"

lemma dropWhile_sorted: "sorted xs \<Longrightarrow> dropWhile (\<lambda>t. t < c) xs = filter ((\<le>) (c :: int)) xs"
  by (induction xs) (auto intro!: filter_True [symmetric])

lemma length_filter_mono: "(\<And>x. P x \<Longrightarrow> Q x) \<Longrightarrow> length (filter P xs) \<le> length (filter Q xs)"
  by (induction xs) (auto simp: le_SucI)

lemma throttled_later:
  assumes "throttled past now s" "now \<le> later" "se_global_attempts s' = se_global_attempts s"
  shows "throttled past later s'"
proof -
  have "x \<le> later" if "x \<in> set past \<union> set (se_global_attempts s)" for x
    using assms(1,2) that unfolding throttled_def by (meson order_trans)
  moreover have "length (filter ((\<le>) c) past) = length (filter ((\<le>) c) (se_global_attempts s))" if "later - window_ms \<le> c" for c
    using assms(1,2) that unfolding throttled_def by simp
  ultimately show ?thesis using assms(1) unfolding throttled_def assms(3) by blast
qed

lemma throttled_dropped:
  assumes "throttled past now s" "now \<le> later"
    "se_global_attempts s' = dropWhile (\<lambda>t. t < later - window_ms) (se_global_attempts s)"
  shows "throttled past later s'"
proof -
  have t: "throttled past later s" by (rule throttled_later [OF assms(1,2) refl])
  have g: "se_global_attempts s' = filter ((\<le>) (later - window_ms)) (se_global_attempts s)"
    using assms(1,3) by (simp add: throttled_def dropWhile_sorted)
  have "filter ((\<le>) c) (filter ((\<le>) d) xs) = filter ((\<le>) c) xs" if "d \<le> c" for c d :: int and xs
    using that by (induction xs) auto
  then have "length (filter ((\<le>) c) past) = length (filter ((\<le>) c) (se_global_attempts s'))" if "later - window_ms \<le> c" for c
    using t that unfolding g throttled_def by metis
  moreover have "sorted (se_global_attempts s')" using t unfolding g throttled_def by (simp add: sorted_filter [where f = id, simplified])
  moreover have "set (se_global_attempts s') \<subseteq> set (se_global_attempts s)" unfolding g by auto
  ultimately show ?thesis using t unfolding throttled_def by blast
qed

lemma throttled_failure:
  assumes "throttled past now s" "length (se_global_attempts s) < 30"
    "\<forall>x\<in>set (se_global_attempts s). now - window_ms \<le> x" "se_global_attempts s' = se_global_attempts s @ [now]"
  shows "throttled (past @ [now]) now s'"
proof -
  have recent: "length (filter ((\<le>) (now - window_ms)) past) < 30"
    using assms(1-3) unfolding throttled_def by (metis filter_True order_refl)
  have "in_window t (past @ [now]) \<le> 30" for t
  proof (cases "t < now")
    case True
    then show ?thesis using assms(1) by (simp add: in_window_def throttled_def)
  next
    case False
    have "length (filter (\<lambda>x. t - window_ms \<le> x \<and> x \<le> t) past) \<le> length (filter ((\<le>) (now - window_ms)) past)"
      using False by (intro length_filter_mono) auto
    then show ?thesis using recent by (simp add: in_window_def)
  qed
  then show ?thesis
    using assms unfolding throttled_def by (auto simp: sorted_append)
qed

lemma global_frames [simp]:
  "se_global_attempts (snd (new_session now tk csrf a s)) = se_global_attempts s"
  "se_global_attempts (drop_session tk' s) = se_global_attempts s"
  "se_global_attempts (snd (require_csrf now r s)) = se_global_attempts s"
  "se_global_attempts (snd (store_pin_setting v s)) = se_global_attempts s"
  "se_global_attempts (snd (security_context now tk csrf r s)) = se_global_attempts s"
  "se_global_attempts (snd (require_access now r s)) = se_global_attempts s"
  using get_session_frame(3) [of now "rq_cookie r" True s]
  by (auto simp: new_session_def Let_def drop_session_def require_csrf_def store_pin_setting_def security_context_def
      require_access_def split: prod.split option.split sum.split) (simp_all add: prod_eq_iff new_session_def Let_def)

lemma bound_frame:
  "(\<And>x t. se_global_attempts (snd (f x t)) = se_global_attempts t) \<Longrightarrow> se_global_attempts (snd rs) = g \<Longrightarrow>
   se_global_attempts (snd (bind_st rs f)) = g"
  by (simp add: bind_st_def split: sum.split)

lemma other_steps_global:
  assumes "\<And>now tk csrf r p. op \<noteq> Login now tk csrf r p"
  shows "se_global_attempts (web_step scrypt op s) = se_global_attempts s"
proof (cases op)
  case (Logout now r)
  then show ?thesis
    by (simp add: route_logout_def require_operational_def logout_def bound_frame)
next
  case (SetPin now salt r p)
  then show ?thesis
    by (simp add: route_set_pin_def require_operational_def require_admin_def set_pin_def bound_frame)
next
  case (RemovePin now r)
  then show ?thesis
    by (simp add: route_remove_pin_def require_admin_def remove_pin_def bound_frame)
qed (use assms in simp_all)

text \<open>What a login does to the deque: nothing, drop the old entries, or drop them and add a failure.\<close>

lemma login_global:
  fixes now :: int
  defines "old s \<equiv> dropWhile (\<lambda>t. t < now - window_ms) (se_global_attempts s)"
  obtains (kept) "se_global_attempts (snd (route_login scrypt now tk csrf r pin s)) = se_global_attempts s"
      "fst (route_login scrypt now tk csrf r pin s) \<noteq> Inl (Http 401 ''invalid PIN'')"
  | (dropped) "se_global_attempts (snd (route_login scrypt now tk csrf r pin s)) = old s"
      "fst (route_login scrypt now tk csrf r pin s) \<noteq> Inl (Http 401 ''invalid PIN'')"
  | (failed) "se_global_attempts (snd (route_login scrypt now tk csrf r pin s)) = old s @ [now]" "length (old s) < 30"
      "fst (route_login scrypt now tk csrf r pin s) = Inl (Http 401 ''invalid PIN'')"
proof (cases "require_csrf now r s")
  case (Pair res s1)
  have g: "se_global_attempts s1 = se_global_attempts s" using global_frames(3) [of now r s] Pair by simp
  show thesis
  proof (cases res)
    case (Inl e)
    have "e \<noteq> Http 401 ''invalid PIN''"
      using Pair Inl by (auto simp: require_csrf_def split: prod.split_asm option.split_asm if_split_asm)
    then show thesis using kept Pair Inl g by (simp add: route_login_def)
  next
    case (Inr x)
    let ?c = "case rq_client r of None \<Rightarrow> ''unknown'' | Some h \<Rightarrow> h"
    obtain res2 s2 where t: "throttle now ?c s1 = (res2, s2)" by force
    have g2: "se_global_attempts s2 = old s" using t g by (auto simp: throttle_def Let_def old_def split: if_split_asm)
    have run: "route_login scrypt now tk csrf r pin s = login scrypt now tk csrf r pin s1"
      using Pair Inr by (simp add: route_login_def)
    show thesis
    proof (cases res2)
      case (Inl e)
      then have "e \<noteq> Http 401 ''invalid PIN''" using t by (auto simp: throttle_def Let_def split: if_split_asm)
      then show thesis using dropped run t Inl g2 by (simp add: login_def Let_def)
    next
      case ok: (Inr y)
      have len: "length (old s) < 30" using t ok g by (auto simp: throttle_def Let_def old_def split: if_split_asm)
      show thesis
      proof (cases "verify_pin scrypt pin s2")
        case True
        let ?s3 = "drop_session (rq_cookie r) (s2\<lparr>se_attempts := od_pop (se_attempts s2) ?c\<rparr>)"
        have "se_global_attempts (snd (new_session now tk csrf True ?s3)) = old s" by (simp add: g2)
        moreover have "route_login scrypt now tk csrf r pin s =
            (Inr (fst (new_session now tk csrf True ?s3)), snd (new_session now tk csrf True ?s3))"
          using run t ok True by (simp add: login_def Let_def split: prod.split)
        ultimately show thesis using dropped by simp
      next
        case False
        then have "route_login scrypt now tk csrf r pin s = (Inl (Http 401 ''invalid PIN''), record_failed_attempt now ?c s2)"
          using run t ok by (simp add: login_def Let_def)
        then show thesis using failed len g2 by (simp add: record_failed_attempt_def)
      qed
    qed
  qed
qed

lemma throttled_step:
  assumes "throttled past now s" "now \<le> op_time op"
  shows "throttled (past @ (if login_failed scrypt op s then [op_time op] else [])) (op_time op) (web_step scrypt op s)"
proof (cases "\<exists>t tk csrf r p. op = Login t tk csrf r p")
  case False
  then have "\<not> login_failed scrypt op s" by (cases op) (auto simp: login_failed_def)
  then show ?thesis using throttled_later [OF assms] other_steps_global False by simp
next
  case True
  then obtain t tk csrf r p where op: "op = Login t tk csrf r p" by blast
  let ?old = "s\<lparr>se_global_attempts := dropWhile (\<lambda>x. x < t - window_ms) (se_global_attempts s)\<rparr>"
  have old: "throttled past t ?old" using throttled_dropped [OF assms] op by simp
  show ?thesis
  proof (cases rule: login_global [of scrypt t tk csrf r p s])
    case kept
    then show ?thesis using throttled_later [OF assms] op by (simp add: login_failed_def)
  next
    case dropped
    then show ?thesis using throttled_later [OF old order_refl] op by (simp add: login_failed_def)
  next
    case failed
    have recent: "\<forall>x\<in>set (se_global_attempts ?old). t - window_ms \<le> x"
      using assms(1) by (simp add: throttled_def dropWhile_sorted)
    have yes: "throttled (past @ [t]) t (web_step scrypt op s)"
      by (rule throttled_failure [OF old _ recent]) (use failed op in simp_all)
    have "login_failed scrypt op s" using failed(3) op by (simp add: login_failed_def)
    then show ?thesis using yes op by simp
  qed
qed

lemma throttled_run:
  "throttled past now s \<Longrightarrow> sorted (now # map op_time ops) \<Longrightarrow> in_window t (past @ failures scrypt ops s) \<le> 30"
proof (induction ops arbitrary: past now s)
  case Nil
  then show ?case by (simp add: throttled_def)
next
  case (Cons op ops)
  have "throttled (past @ (if login_failed scrypt op s then [op_time op] else [])) (op_time op) (web_step scrypt op s)"
    using Cons.prems by (intro throttled_step) auto
  from Cons.IH [OF this] Cons.prems(2) show ?case by simp
qed

text \<open>C40 Guessing is bounded: over any history of requests at non-decreasing times, no minute holds more
  than thirty logins refused for a wrong PIN, whatever the client addresses.\<close>

theorem failed_logins_limited:
  assumes "sorted (map op_time ops)" "se_global_attempts s = []"
  shows "in_window t (failures scrypt ops s) \<le> 30"
proof (cases ops)
  case Nil
  then show ?thesis by (simp add: in_window_def)
next
  case (Cons op rest)
  have "throttled [] (op_time op) s" using assms(2) by (simp add: throttled_def in_window_def)
  from throttled_run [OF this, of ops] assms(1) Cons show ?thesis by simp
qed

definition demo_met :: security where
  "demo_met = snd (security_context 1000 ''t1'' ''c1'' demo_request demo_security)"

definition demo_guess :: web_op where
  "demo_guess = Login 2000 ''t2'' ''c2'' demo_request ''0000''"

theorem failed_logins_limited_witness:
  "login_failed demo_scrypt demo_guess demo_met \<and> in_window 2000 (failures demo_scrypt [demo_guess] demo_met) \<le> 30"
proof -
  have "login_failed demo_scrypt demo_guess demo_met" by code_simp
  moreover have "in_window 2000 (failures demo_scrypt [demo_guess] demo_met) \<le> 30"
    by (rule failed_logins_limited) (simp, code_simp)
  ultimately show ?thesis by blast
qed

text \<open>A CSRF header that is not ASCII, \<open>CHR 0xE9\<close>, raises from \<open>compare_digest\<close>; the other wrong headers
  get the 403.\<close>

theorem csrf_non_ascii_raises:
  "fst (require_csrf 1500 (demo_request\<lparr>rq_csrf := Some [CHR 0xE9]\<rparr>)
     demo_met) =
   Inl (Raised (TypeError ''comparing strings with non-ASCII characters is not supported''))"
  "fst (require_csrf 1500 (demo_request\<lparr>rq_csrf := Some ''c2''\<rparr>)
     demo_met) =
   Inl (Http 403 ''valid CSRF token required'')"
  by code_simp+

end
