(* ===== verification/KP_Export.thy ===== *)
theory KP_Export
  imports KP_Json
begin

text \<open>
  The exports of \<open>persistence/export.py\<close>: the CSV file, whole and in chunks, with the cells a
  spreadsheet would read as formulas disarmed, and the JSON array in chunks.  A row is the
  dictionary of a query; its values are texts, integers and \<open>None\<close>.  The CSV writer is
  \<open>csv.DictWriter\<close> with the \<open>excel\<close> dialect and \<open>QUOTE_MINIMAL\<close>.
\<close>

datatype cell = TextCell string | IntCell int | NoneCell

type_synonym row = "(string, cell) odict"

section \<open>Formulas\<close>

definition blank :: "char \<Rightarrow> bool" where
  "blank c \<longleftrightarrow> code c \<in> {9, 10, 13, 32}"

definition formula_start :: "char \<Rightarrow> bool" where
  "formula_start c \<longleftrightarrow> c \<in> set ''=+-@''"

definition needs_guard :: "string \<Rightarrow> bool" where
  "needs_guard t \<longleftrightarrow>
     (t \<noteq> [] \<and> code (hd t) \<in> {9, 13}) \<or>
     (dropWhile blank t \<noteq> [] \<and> formula_start (hd (dropWhile blank t)))"

definition quote_mark :: char where "quote_mark = CHR 0x27"

fun safe_spreadsheet_cell :: "cell \<Rightarrow> cell" where
  "safe_spreadsheet_cell (TextCell t) = TextCell (if needs_guard t then quote_mark # t else t)"
| "safe_spreadsheet_cell v = v"

section \<open>CSV\<close>

fun cell_text :: "cell \<Rightarrow> string" where
  "cell_text (TextCell t) = t"
| "cell_text (IntCell n) = show_int n"
| "cell_text NoneCell = []"

definition quotechar :: char where "quotechar = CHR 0x22"

definition special :: "char \<Rightarrow> bool" where
  "special c \<longleftrightarrow> c = CHR '','' \<or> c = quotechar \<or> c = CHR 0x0A \<or> c = CHR 0x0D"

definition csv_field :: "string \<Rightarrow> string" where
  "csv_field t =
     (if list_ex special t then quotechar # concat (map (\<lambda>c. if c = quotechar then [c, c] else [c]) t) @ [quotechar]
      else t)"

definition CRLF :: string where "CRLF = [CHR 0x0D, CHR 0x0A]"

text \<open>A record that would be empty although it has a field gets an empty quoted field.\<close>

definition csv_record :: "string list \<Rightarrow> string" where
  "csv_record ts =
     (if ts = [[]] then [quotechar, quotechar] else join '','' (map csv_field ts)) @ CRLF"

definition row_cells :: "string list \<Rightarrow> row \<Rightarrow> string list" where
  "row_cells names r =
     map (\<lambda>k. case od_get r k of None \<Rightarrow> [] | Some v \<Rightarrow> cell_text (safe_spreadsheet_cell v)) names"

definition rows_to_csv :: "row list \<Rightarrow> string" where
  "rows_to_csv rows =
     (case rows of
        [] \<Rightarrow> []
      | first # _ \<Rightarrow> csv_record (od_keys first) @ concat (map (\<lambda>r. csv_record (row_cells (od_keys first) r)) rows))"

text \<open>The generator: the header goes out before the first row, then one chunk for each row.\<close>

fun csv_chunks_from :: "string list option \<Rightarrow> row list \<Rightarrow> string list" where
  "csv_chunks_from names [] = []"
| "csv_chunks_from None (r # rows) =
     csv_record (od_keys r) # csv_record (row_cells (od_keys r) r) # csv_chunks_from (Some (od_keys r)) rows"
| "csv_chunks_from (Some names) (r # rows) = csv_record (row_cells names r) # csv_chunks_from (Some names) rows"

definition rows_to_csv_chunks :: "row list \<Rightarrow> string list" where
  "rows_to_csv_chunks rows = csv_chunks_from None rows"

section \<open>JSON\<close>

text \<open>\<open>json.dumps(..., ensure_ascii=False)\<close>: only quotes, backslashes and control characters are escaped.\<close>

definition plain_char :: "char \<Rightarrow> string" where
  "plain_char c = (if 127 \<le> code c then [c] else json_char c)"

definition plain_string :: "string \<Rightarrow> string" where
  "plain_string s = CHR 0x22 # concat (map plain_char s) @ [CHR 0x22]"

fun json_cell :: "cell \<Rightarrow> string" where
  "json_cell (TextCell t) = plain_string t"
| "json_cell (IntCell n) = show_int n"
| "json_cell NoneCell = ''null''"

definition json_row :: "row \<Rightarrow> string" where
  "json_row r = CHR 0x7B # join '', '' (map (\<lambda>(k, v). plain_string k @ '': '' @ json_cell v) r) @ [CHR 0x7D]"

fun json_chunks_from :: "string \<Rightarrow> row list \<Rightarrow> string list" where
  "json_chunks_from separator [] = ['']'']"
| "json_chunks_from separator (r # rows) = (separator @ json_row r) # json_chunks_from '','' rows"

definition rows_to_json_chunks :: "row list \<Rightarrow> string list" where
  "rows_to_json_chunks rows = ''['' # json_chunks_from [] rows"

section \<open>A reader of CSV files\<close>

text \<open>
  The reader of RFC 4180, as a machine over the characters: \<open>done_rows\<close> are the records read, \<open>fs\<close> the fields of
  the current record, \<open>f\<close> the current field.
\<close>

datatype reading = FieldStart | Unquoted | Quoted | QuoteSeen

fun csv_read :: "reading \<Rightarrow> string list list \<Rightarrow> string list \<Rightarrow> string \<Rightarrow> string \<Rightarrow> string list list option" where
  "csv_read q rs fs f [] = (if q = FieldStart \<and> fs = [] \<and> f = [] then Some rs else None)"
| "csv_read Quoted rs fs f (c # s) =
     (if c = quotechar then csv_read QuoteSeen rs fs f s else csv_read Quoted rs fs (f @ [c]) s)"
| "csv_read q rs fs f (c # s) =
     (if c = quotechar \<and> q = FieldStart then csv_read Quoted rs fs f s
      else if c = quotechar \<and> q = QuoteSeen then csv_read Quoted rs fs (f @ [c]) s
      else if c = CHR '','' then csv_read FieldStart rs (fs @ [f]) [] s
      else if c = CHR 0x0D then
        (case s of
           d # s' \<Rightarrow> (if d = CHR 0x0A then csv_read FieldStart (rs @ [fs @ [f]]) [] [] s' else None)
         | [] \<Rightarrow> None)
      else if q = QuoteSeen \<or> c = quotechar \<or> c = CHR 0x0A then None
      else csv_read Unquoted rs fs (f @ [c]) s)"

section \<open>The export reads back\<close>

lemma special_chars [simp]:
  "CHR '','' \<noteq> quotechar" "quotechar \<noteq> CHR '',''" "CHR 0x0D \<noteq> quotechar"
  "CHR 0x0D \<noteq> CHR '',''" "CHR 0x0A \<noteq> CHR '',''"
  by (simp_all add: quotechar_def)

lemma not_special: "\<not> special c \<longleftrightarrow> c \<noteq> CHR '','' \<and> c \<noteq> quotechar \<and> c \<noteq> CHR 0x0A \<and> c \<noteq> CHR 0x0D"
  by (auto simp: special_def)

lemma read_plain:
  "list_all (\<lambda>c. \<not> special c) t \<Longrightarrow> t \<noteq> [] \<Longrightarrow> q \<in> {FieldStart, Unquoted} \<Longrightarrow>
   csv_read q rs fs f (t @ s) = csv_read Unquoted rs fs (f @ t) s"
proof (induction t arbitrary: q f)
  case (Cons c t)
  then have step: "csv_read q rs fs f ((c # t) @ s) = csv_read Unquoted rs fs (f @ [c]) (t @ s)"
    by (auto simp: not_special)
  show ?case
  proof (cases "t = []")
    case False
    then show ?thesis using Cons.IH [of Unquoted "f @ [c]"] Cons.prems(1) step by simp
  qed (use step in simp)
qed simp

lemma read_quoted:
  "csv_read Quoted rs fs f (concat (map (\<lambda>c. if c = quotechar then [c, c] else [c]) t) @ quotechar # s) =
   csv_read QuoteSeen rs fs (f @ t) s"
  by (induction t arbitrary: f) auto

lemma read_separator:
  "csv_read q rs fs f (CHR '','' # s) = csv_read FieldStart rs (fs @ [f]) [] s" if "q \<noteq> Quoted"
  using that by (cases q) simp_all

lemma read_end: "csv_read q rs fs f (CRLF @ s) = csv_read FieldStart (rs @ [fs @ [f]]) [] [] s" if "q \<noteq> Quoted"
  using that by (cases q) (simp_all add: CRLF_def)

lemma read_field: "\<exists>q. q \<noteq> Quoted \<and> csv_read FieldStart rs fs [] (csv_field t @ s) = csv_read q rs fs t s"
proof (cases "list_ex special t")
  case True
  then have "csv_read FieldStart rs fs [] (csv_field t @ s) = csv_read QuoteSeen rs fs t s"
    using read_quoted [of rs fs "[]" t s] by (simp add: csv_field_def)
  then show ?thesis by blast
next
  case False
  then have "csv_field t = t" "list_all (\<lambda>c. \<not> special c) t" by (simp_all add: csv_field_def list_ex_iff list_all_iff)
  then have "csv_read FieldStart rs fs [] (csv_field t @ s) = csv_read (if t = [] then FieldStart else Unquoted) rs fs t s"
    using read_plain [of t FieldStart rs fs "[]" s] by simp
  then show ?thesis by (metis reading.distinct(3,5,7))
qed

lemma read_fields:
  "ts \<noteq> [] \<Longrightarrow> csv_read FieldStart rs fs [] (join '','' (map csv_field ts) @ CRLF @ s) = csv_read FieldStart (rs @ [fs @ ts]) [] [] s"
proof (induction ts arbitrary: fs)
  case (Cons t ts)
  show ?case
  proof (cases ts)
    case Nil
    then show ?thesis using read_field [of rs fs t "CRLF @ s"] read_end by force
  next
    case (Cons u us)
    then have "csv_read FieldStart rs fs [] (join '','' (map csv_field (t # ts)) @ CRLF @ s) =
        csv_read FieldStart rs (fs @ [t]) [] (join '','' (map csv_field ts) @ CRLF @ s)"
      using read_field [of rs fs t "CHR '','' # join '','' (map csv_field ts) @ CRLF @ s"] read_separator by force
    then show ?thesis using Cons.IH Cons by simp
  qed
qed simp

lemma read_record:
  "ts \<noteq> [] \<Longrightarrow> csv_read FieldStart rs [] [] (csv_record ts @ s) = csv_read FieldStart (rs @ [ts]) [] [] s"
  using read_fields [of ts rs "[]" s] read_end [of QuoteSeen rs "[]" "[]" s] by (simp add: csv_record_def)

lemma read_rows:
  "names \<noteq> [] \<Longrightarrow> csv_read FieldStart rs [] [] (concat (map (\<lambda>r. csv_record (row_cells names r)) rows)) =
   Some (rs @ map (row_cells names) rows)"
  by (induction rows arbitrary: rs) (simp_all add: read_record row_cells_def)

lemma chunks_rest: "concat (csv_chunks_from (Some names) rows) = concat (map (\<lambda>r. csv_record (row_cells names r)) rows)"
  by (induction rows) simp_all

text \<open>
  What a spreadsheet evaluates, as the documentation says it: a text that starts with a tab or a
  carriage return, or whose first character that is not white space is one of four.
\<close>

definition starts_formula :: "string \<Rightarrow> bool" where
  "starts_formula t \<longleftrightarrow>
     (\<exists>rest. t = CHR 0x09 # rest \<or> t = CHR 0x0D # rest) \<or>
     (\<exists>blanks c rest. t = blanks @ c # rest \<and> set blanks \<subseteq> {CHR '' '', CHR 0x09, CHR 0x0A, CHR 0x0D} \<and>
        c \<in> {CHR ''='', CHR ''+'', CHR ''-'', CHR ''@''})"

lemma blank_iff: "blank c \<longleftrightarrow> c \<in> {CHR '' '', CHR 0x09, CHR 0x0A, CHR 0x0D}"
proof -
  have "c = CHR '' '' \<longleftrightarrow> code c = 32" "c = CHR 0x09 \<longleftrightarrow> code c = 9" "c = CHR 0x0A \<longleftrightarrow> code c = 10" "c = CHR 0x0D \<longleftrightarrow> code c = 13"
    unfolding code_eq_iff [symmetric] by simp_all
  then show ?thesis unfolding blank_def by blast
qed

lemma first_visible:
  "dropWhile blank t = c # rest \<longleftrightarrow> (\<exists>blanks. t = blanks @ c # rest \<and> list_all blank blanks \<and> \<not> blank c)"
proof
  assume "dropWhile blank t = c # rest"
  then have "t = takeWhile blank t @ c # rest" "\<not> blank c" by (simp_all add: dropWhile_eq_Cons_conv)
  moreover have "list_all blank (takeWhile blank t)" by (auto simp: list_all_iff dest: set_takeWhileD)
  ultimately show "\<exists>blanks. t = blanks @ c # rest \<and> list_all blank blanks \<and> \<not> blank c" by blast
next
  assume "\<exists>blanks. t = blanks @ c # rest \<and> list_all blank blanks \<and> \<not> blank c"
  then show "dropWhile blank t = c # rest" by (auto simp: dropWhile_append2 list_all_iff)
qed

lemma starts_formula_guard: "starts_formula t \<longleftrightarrow> needs_guard t"
proof -
  have "t \<noteq> [] \<and> code (hd t) \<in> {9, 13} \<longleftrightarrow> (\<exists>rest. t = CHR 0x09 # rest \<or> t = CHR 0x0D # rest)"
  proof -
    have "c = CHR 0x09 \<longleftrightarrow> code c = 9" "c = CHR 0x0D \<longleftrightarrow> code c = 13" for c
      unfolding code_eq_iff [symmetric] by simp_all
    then show ?thesis by (cases t) auto
  qed
  moreover have "dropWhile blank t \<noteq> [] \<and> formula_start (hd (dropWhile blank t)) \<longleftrightarrow>
      (\<exists>blanks c rest. t = blanks @ c # rest \<and> list_all blank blanks \<and> c \<in> {CHR ''='', CHR ''+'', CHR ''-'', CHR ''@''})"
  proof
    assume "dropWhile blank t \<noteq> [] \<and> formula_start (hd (dropWhile blank t))"
    then obtain c rest where "dropWhile blank t = c # rest" "formula_start c" by (cases "dropWhile blank t") auto
    then show "\<exists>blanks c rest. t = blanks @ c # rest \<and> list_all blank blanks \<and> c \<in> {CHR ''='', CHR ''+'', CHR ''-'', CHR ''@''}"
      unfolding first_visible formula_start_def by fastforce
  next
    assume "\<exists>blanks c rest. t = blanks @ c # rest \<and> list_all blank blanks \<and> c \<in> {CHR ''='', CHR ''+'', CHR ''-'', CHR ''@''}"
    then obtain blanks c rest where c: "t = blanks @ c # rest" "list_all blank blanks" "c \<in> {CHR ''='', CHR ''+'', CHR ''-'', CHR ''@''}"
      by blast
    then have "\<not> blank c" "formula_start c" by (auto simp: blank_iff formula_start_def)
    moreover from this c have "dropWhile blank t = c # rest" unfolding first_visible by blast
    ultimately show "dropWhile blank t \<noteq> [] \<and> formula_start (hd (dropWhile blank t))" by simp
  qed
  moreover have "set bs \<subseteq> {CHR '' '', CHR 0x09, CHR 0x0A, CHR 0x0D} \<longleftrightarrow> list_all blank bs" for bs
    by (simp only: list_all_iff blank_iff subset_iff Ball_def)
  ultimately show ?thesis by (simp only: needs_guard_def starts_formula_def)
qed

lemma guarded: "\<not> starts_formula (quote_mark # t)"
  by (auto simp: starts_formula_def quote_mark_def Cons_eq_append_conv)

text \<open>What the file has for a value of a row.\<close>

definition written_as :: "cell option \<Rightarrow> string \<Rightarrow> bool" where
  "written_as v text \<longleftrightarrow>
     (case v of
        Some (TextCell t) \<Rightarrow> \<not> starts_formula text \<and> text = (if starts_formula t then CHR 0x27 # t else t)
      | Some (IntCell n) \<Rightarrow> text = show_int n
      | Some NoneCell \<Rightarrow> text = []
      | None \<Rightarrow> text = [])"

lemma row_written: "list_all2 (\<lambda>k. written_as (od_get row k)) names (row_cells names row)"
proof -
  have "written_as v (case v of None \<Rightarrow> [] | Some x \<Rightarrow> cell_text (safe_spreadsheet_cell x))" for v
    using guarded by (cases v rule: option.exhaust; cases "the v")
      (auto simp: written_as_def starts_formula_guard quote_mark_def)
  then show ?thesis by (simp add: row_cells_def list_all2_map2 list_all2_same)
qed

text \<open>C29 The CSV export is readable and safe: its chunks are together the whole file, and a reader of RFC
  4180 gets back the header and one record for each row, with one text for each value.  A text cell
  never starts a formula; it is the stored text, with one apostrophe in front exactly when that text
  would have started one.  A number is written as its digits, and a missing value as nothing.\<close>

theorem csv_export_reads_back:
  assumes "od_keys r \<noteq> []"
  shows "concat (rows_to_csv_chunks (r # rows)) = rows_to_csv (r # rows) \<and>
    (\<exists>records. csv_read FieldStart [] [] [] (concat (rows_to_csv_chunks (r # rows))) = Some (od_keys r # records) \<and>
      list_all2 (\<lambda>row. list_all2 (\<lambda>k. written_as (od_get row k)) (od_keys r)) (r # rows) records)"
proof -
  have whole: "concat (rows_to_csv_chunks (r # rows)) = rows_to_csv (r # rows)"
    by (simp add: rows_to_csv_chunks_def rows_to_csv_def chunks_rest)
  have "csv_read FieldStart [] [] [] (rows_to_csv (r # rows)) = Some (od_keys r # map (row_cells (od_keys r)) (r # rows))"
    using read_record [OF assms, of "[]"] read_rows [OF assms, of "[od_keys r]" "r # rows"] by (simp add: rows_to_csv_def)
  moreover have "list_all2 (\<lambda>row. list_all2 (\<lambda>k. written_as (od_get row k)) (od_keys r)) (r # rows)
      (map (row_cells (od_keys r)) (r # rows))"
    unfolding list_all2_map2 list_all2_same using row_written by blast
  ultimately show ?thesis unfolding whole by blast
qed

definition demo_row :: row where
  "demo_row = [(''id'', TextCell ''p1''), (''label'', TextCell '' @1,2''), (''pulses'', IntCell (- 3)), (''keg'', NoneCell)]"

theorem csv_export_reads_back_witness:
  "csv_read FieldStart [] [] [] (concat (rows_to_csv_chunks [demo_row])) =
     Some [[''id'', ''label'', ''pulses'', ''keg''], [''p1'', CHR 0x27 # '' @1,2'', ''-3'', []]]"
proof -
  have keys: "od_keys demo_row = [''id'', ''label'', ''pulses'', ''keg'']" by code_simp
  then have "od_keys demo_row \<noteq> []" by simp
  from csv_export_reads_back [OF this, of "[]"] obtain line where
    read: "csv_read FieldStart [] [] [] (concat (rows_to_csv_chunks [demo_row])) = Some [od_keys demo_row, line]"
    and cells: "list_all2 (\<lambda>k. written_as (od_get demo_row k)) (od_keys demo_row) line"
    by (auto simp: list_all2_Cons1)
  have "starts_formula '' @1,2''" "\<not> starts_formula ''p1''" unfolding starts_formula_guard by code_simp+
  moreover have "show_int (- 3) = ''-3''" by code_simp
  ultimately have "line = [''p1'', CHR 0x27 # '' @1,2'', ''-3'', []]"
    using cells unfolding keys
    by (auto simp: list_all2_Cons1 demo_row_def od_get_def written_as_def)
  then show ?thesis using read keys by simp
qed

text \<open>The JSON export is an array.\<close>

lemma json_chunks_rest: "concat (json_chunks_from '','' rows) = concat (map (\<lambda>r. '','' @ json_row r) rows) @ '']''"
  by (induction rows) simp_all

lemma json_export_array: "concat (rows_to_json_chunks rows) = ''['' @ join '','' (map json_row rows) @ '']''"
proof -
  have "join '','' (map json_row (r # rows)) = json_row r @ concat (map (\<lambda>r. '','' @ json_row r) rows)" for r rows
    by (induction rows arbitrary: r) auto
  then show ?thesis by (cases rows) (simp_all add: rows_to_json_chunks_def json_chunks_rest)
qed

end
