(* ===== verification/KP_Restore.thy ===== *)
theory KP_Restore
  imports KP_Prelude
begin

text \<open>
  Opening, checking and restoring the database file: \<open>Database._connect\<close> and \<open>Database._migrate\<close>,
  \<open>Database.validate_backup\<close> of \<open>persistence/database.py\<close>, and \<open>restore_database\<close> of
  \<open>__main__.py\<close>.

  A database file is what these functions look at, with its rows as an opaque text.  What the
  migration script of a version does to a file is the argument \<open>script\<close> (the scripts are SQL files);
  \<open>None\<close> is a script that raised and was rolled back.  Every call of the operating system that can
  fail is a field of the record \<open>os_calls\<close>, so that a failure at any point is covered.
\<close>

section \<open>Database files\<close>

text \<open>An \<open>OSError\<close> or \<open>sqlite3.Error\<close> is a \<open>Fault\<close>.\<close>

datatype file_exc = BadValue string | Fatal string | Fault string

record db_file =
  df_bytes :: int
  df_application_id :: int
  df_version :: int
  df_integrity :: string
  df_foreign_keys_ok :: bool
  df_tables :: "string list"
  df_session_columns :: "string list"
  df_sample_columns :: "string list"
  df_checkpoint_columns :: "string list"
  df_rows :: string

definition APPLICATION_ID :: int where "APPLICATION_ID = 0x4B50554C"
definition CURRENT_SCHEMA :: int where "CURRENT_SCHEMA = 6"

definition REQUIRED_TABLES :: "string list" where
  "REQUIRED_TABLES =
     [''participants'', ''kegs'', ''calibrations'', ''calibration_samples'', ''verification_checks'',
      ''provisional_sessions'', ''pour_events'', ''device_results'', ''device_recovery_checkpoints'',
      ''inventory_adjustments'', ''attribution_audit'', ''settings'', ''device_diagnostics'', ''account_ledger'',
      ''pour_charges'', ''pour_photos'', ''measurement_anomalies'']"

fun migrate :: "(int \<Rightarrow> db_file \<Rightarrow> db_file option) \<Rightarrow> int list \<Rightarrow> db_file \<Rightarrow> (file_exc + unit) \<times> db_file" where
  "migrate script [] d = (Inr (), d)"
| "migrate script (v # vs) d =
     (case script v d of
        None \<Rightarrow> (Inl (Fault ''migration failed''), d)
      | Some d' \<Rightarrow> migrate script vs (d'\<lparr>df_version := v\<rparr>))"

definition open_database :: "(int \<Rightarrow> db_file \<Rightarrow> db_file option) \<Rightarrow> db_file \<Rightarrow> (file_exc + unit) \<times> db_file" where
  "open_database script d =
     (let d0 = d\<lparr>df_application_id := APPLICATION_ID\<rparr>
      in if df_version d0 > CURRENT_SCHEMA then (Inl (Fatal ''database schema is newer than supported''), d0)
         else migrate script [df_version d0 + 1..CURRENT_SCHEMA] d0)"

definition required_tables :: "int \<Rightarrow> string list" where
  "required_tables version =
     (if version = 1 then
        filter (\<lambda>t. t \<notin> {''device_recovery_checkpoints'', ''account_ledger'', ''pour_charges'', ''pour_photos'',
          ''measurement_anomalies''}) REQUIRED_TABLES
      else if version = 2 then
        filter (\<lambda>t. t \<notin> {''account_ledger'', ''pour_charges'', ''pour_photos'', ''measurement_anomalies''}) REQUIRED_TABLES
      else if version = 3 then filter (\<lambda>t. t \<noteq> ''measurement_anomalies'') REQUIRED_TABLES
      else REQUIRED_TABLES)"

definition validate_backup :: "db_file option \<Rightarrow> file_exc + unit" where
  "validate_backup file =
     (case file of
        None \<Rightarrow> Inl (BadValue ''backup is missing or too small'')
      | Some d \<Rightarrow>
          if df_bytes d < 100 then Inl (BadValue ''backup is missing or too small'')
          else if df_application_id d \<noteq> APPLICATION_ID then Inl (BadValue ''file is not a KegPulse database'')
          else if df_version d > CURRENT_SCHEMA then Inl (BadValue ''backup schema is newer than this application'')
          else if df_version d < 1 then Inl (BadValue ''backup schema is older than the first supported schema'')
          else if df_integrity d \<noteq> ''ok'' then Inl (BadValue ''backup failed SQLite integrity checking'')
          else if \<not> df_foreign_keys_ok d then Inl (BadValue ''backup contains foreign-key violations'')
          else if \<not> set (required_tables (df_version d)) \<subseteq> set (df_tables d) then
            Inl (BadValue ''backup is missing required KegPulse tables'')
          else if df_version d \<ge> 2 \<and>
                  (''consumed_entity_id'' \<notin> set (df_session_columns d) \<or> ''superseded_at'' \<notin> set (df_sample_columns d)) then
            Inl (BadValue ''backup is missing required KegPulse schema columns'')
          else if df_version d \<ge> 4 \<and>
                  \<not> (''accepted_pulses'' \<in> set (df_checkpoint_columns d) \<and> ''device_uptime_ms'' \<in> set (df_checkpoint_columns d)) then
            Inl (BadValue ''backup is missing recovery checkpoint integrity columns'')
          else Inr ())"

section \<open>The disk\<close>

record disk =
  dk_live :: "db_file option"
  dk_candidate :: "db_file option"
  dk_rollback :: "db_file option"
  dk_backups :: "(string \<times> db_file) list"

text \<open>Which calls succeed.  A copy that fails may leave a partial file behind.\<close>

record os_calls =
  os_source_is_symlink :: bool
  os_source :: "db_file option"
  os_source_is_regular :: bool
  os_source_is_live :: bool
  os_ensure :: bool
  os_copy :: bool
  os_partial :: "db_file option"
  os_backup :: bool
  os_move_live :: bool
  os_move_candidate :: bool
  os_archive :: bool
  os_move_back :: bool
  os_unlink_live :: bool
  os_unlink_candidate :: bool
  os_unlink_rollback :: bool

section \<open>Restoring\<close>

definition keep_prior :: "(int \<Rightarrow> db_file \<Rightarrow> db_file option) \<Rightarrow> os_calls \<Rightarrow> disk \<Rightarrow> (file_exc + unit) \<times> disk" where
  "keep_prior script os k =
     (case dk_live k of
        None \<Rightarrow> (Inr (), k)
      | Some d \<Rightarrow>
          (case open_database script d of
             (Inl e, d') \<Rightarrow> (Inl e, k\<lparr>dk_live := Some d'\<rparr>)
           | (Inr _, d') \<Rightarrow>
               if os_backup os then
                 (Inr (), k\<lparr>dk_live := Some d', dk_backups := dk_backups k @ [(''pre-restore'', d')]\<rparr>)
               else (Inl (Fault ''backup failed''), k\<lparr>dk_live := Some d'\<rparr>)))"

text \<open>The body of the \<open>try\<close>: its result, whether \<open>replaced\<close> was set, and the disk.\<close>

definition put_in_place ::
    "(int \<Rightarrow> db_file \<Rightarrow> db_file option) \<Rightarrow> os_calls \<Rightarrow> disk \<Rightarrow> (file_exc + unit) \<times> bool \<times> disk" where
  "put_in_place script os k =
     (if dk_live k \<noteq> None \<and> \<not> os_move_live os then (Inl (Fault ''replace failed''), False, k)
      else
        let k1 = (if dk_live k \<noteq> None then k\<lparr>dk_rollback := dk_live k, dk_live := None\<rparr> else k)
        in case dk_candidate k1 of
             None \<Rightarrow> (Inl (Fault ''replace failed''), False, k1)
           | Some c \<Rightarrow>
               if \<not> os_move_candidate os then (Inl (Fault ''replace failed''), False, k1)
               else
                 (case open_database script c of
                    (Inl e, c') \<Rightarrow> (Inl e, True, k1\<lparr>dk_live := Some c', dk_candidate := None\<rparr>)
                  | (Inr _, c') \<Rightarrow>
                      (validate_backup (Some c'), True, k1\<lparr>dk_live := Some c', dk_candidate := None\<rparr>)))"

text \<open>The handler: it archives what was put in place, moves the prior database back, and raises.\<close>

definition roll_back ::
    "(int \<Rightarrow> db_file \<Rightarrow> db_file option) \<Rightarrow> os_calls \<Rightarrow> bool \<Rightarrow> file_exc \<Rightarrow> disk \<Rightarrow> (file_exc + unit) \<times> disk" where
  "roll_back script os replaced e k =
     (let failed = replaced \<and> dk_live k \<noteq> None;
          k1 = (if failed \<and> os_archive os then
                  k\<lparr>dk_backups := dk_backups k @ [(''failed-restore'', the (dk_live k))], dk_live := None\<rparr>
                else k)
      in case dk_rollback k1 of
           Some d \<Rightarrow>
             if \<not> os_move_back os then (Inl (Fatal ''restore failed and the prior database could not be restored''), k1)
             else
               (case open_database script d of
                  (Inl _, d') \<Rightarrow> (Inl (Fatal ''restore failed and the prior database could not be restored''),
                    k1\<lparr>dk_rollback := None, dk_live := Some d'\<rparr>)
                | (Inr _, d') \<Rightarrow> (Inl e, k1\<lparr>dk_rollback := None, dk_live := Some d'\<rparr>))
         | None \<Rightarrow>
             if failed \<and> \<not> os_archive os then
               (if os_unlink_live os then (Inl e, k1\<lparr>dk_live := None\<rparr>)
                else (Inl (Fatal ''restore failed and the prior database could not be restored''), k1))
             else (Inl e, k1))"

definition drop_candidate :: "os_calls \<Rightarrow> (file_exc + unit) \<times> disk \<Rightarrow> (file_exc + unit) \<times> disk" where
  "drop_candidate os rk =
     (if dk_candidate (snd rk) = None then rk
      else if os_unlink_candidate os then (fst rk, (snd rk)\<lparr>dk_candidate := None\<rparr>)
      else (Inl (Fault ''unlink failed''), snd rk))"

definition drop_rollback :: "os_calls \<Rightarrow> disk \<Rightarrow> (file_exc + unit) \<times> disk" where
  "drop_rollback os k =
     (if dk_rollback k = None then (Inr (), k)
      else if os_unlink_rollback os then (Inr (), k\<lparr>dk_rollback := None\<rparr>)
      else (Inl (Fault ''unlink failed''), k))"

definition swap_database :: "(int \<Rightarrow> db_file \<Rightarrow> db_file option) \<Rightarrow> os_calls \<Rightarrow> disk \<Rightarrow> (file_exc + unit) \<times> disk" where
  "swap_database script os k =
     bind_st
       (drop_candidate os
         (case put_in_place script os k of
            (Inl e, replaced, k1) \<Rightarrow> roll_back script os replaced e k1
          | (Inr _, _, k1) \<Rightarrow> (Inr (), k1)))
       (\<lambda>_ k2. drop_rollback os k2)"

definition check_source :: "os_calls \<Rightarrow> disk \<Rightarrow> file_exc + db_file" where
  "check_source os k =
     (if os_source_is_symlink os then Inl (BadValue ''restore source must be a regular file, not a symlink'')
      else
        (case os_source os of
           None \<Rightarrow> Inl (Fault ''no such file'')
         | Some d \<Rightarrow>
             if \<not> os_source_is_regular os then Inl (BadValue ''restore source must be a regular file'')
             else if df_bytes d > 256 * 1024 * 1024 then Inl (BadValue ''restore source exceeds the 256 MiB limit'')
             else if dk_live k \<noteq> None \<and> os_source_is_live os then
               Inl (BadValue ''restore source must not be the live database'')
             else bind_res (validate_backup (Some d)) (\<lambda>_. Inr d)))"

definition restore_database :: "(int \<Rightarrow> db_file \<Rightarrow> db_file option) \<Rightarrow> os_calls \<Rightarrow> disk \<Rightarrow> (file_exc + unit) \<times> disk" where
  "restore_database script os k =
     (case check_source os k of
        Inl e \<Rightarrow> (Inl e, k)
      | Inr d \<Rightarrow>
          if \<not> os_ensure os then (Inl (Fault ''mkdir failed''), k)
          else if \<not> os_copy os then (Inl (Fault ''copy failed''), k\<lparr>dk_candidate := os_partial os\<rparr>)
          else
            let k1 = k\<lparr>dk_candidate := Some d\<rparr>
            in case validate_backup (dk_candidate k1) of
                 Inl e \<Rightarrow> (Inl e, k1)
               | Inr _ \<Rightarrow> bind_st (keep_prior script os k1) (\<lambda>_ k2. swap_database script os k2))"

section \<open>Migration\<close>

lemma migrate_version:
  "migrate script [v + 1..n] d = (Inr (), d') \<Longrightarrow> df_version d = v \<Longrightarrow> v \<le> n \<Longrightarrow> df_version d' = n"
proof (induction "nat (n - v)" arbitrary: v d)
  case 0
  then show ?case by simp
next
  case (Suc m)
  then have split: "[v + 1..n] = (v + 1) # [v + 1 + 1..n]" by (simp add: upto_rec1)
  from Suc.prems(1) obtain d1 where "migrate script [v + 1 + 1..n] (d1\<lparr>df_version := v + 1\<rparr>) = (Inr (), d')"
    unfolding split by (auto split: option.split_asm)
  then show ?case using Suc.hyps(1) [of "v + 1"] Suc.hyps(2) by simp
qed

abbreviation opened :: "(int \<Rightarrow> db_file \<Rightarrow> db_file option) \<Rightarrow> db_file \<Rightarrow> db_file" where
  "opened script d \<equiv> snd (open_database script d)"

lemma opened_version: "open_database script d = (Inr (), d') \<Longrightarrow> df_version d' = CURRENT_SCHEMA"
  using migrate_version [of script "df_version d" CURRENT_SCHEMA "d\<lparr>df_application_id := APPLICATION_ID\<rparr>" d']
  by (auto simp: open_database_def Let_def split: if_split_asm)

section \<open>All or nothing\<close>

text \<open>The prior database file, as it was or after the program opened it (which migrates it).\<close>

definition prior :: "(int \<Rightarrow> db_file \<Rightarrow> db_file option) \<Rightarrow> db_file \<Rightarrow> db_file \<Rightarrow> bool" where
  "prior script d f \<longleftrightarrow> f = d \<or> f = opened script d \<or> f = opened script (opened script d)"

lemma prior_simps [simp]: "prior script d d" "prior script d (opened script d)"
  "prior script d (opened script (opened script d))"
  by (simp_all add: prior_def)

lemma keep_prior_cases:
  assumes "keep_prior script os k = (res, k2)" "dk_live k = Some d"
  obtains (failed) e where "res = Inl e" "k2 = k\<lparr>dk_live := Some (opened script d)\<rparr>"
  | (kept) "res = Inr ()" "k2 = k\<lparr>dk_live := Some (opened script d), dk_backups := dk_backups k @ [(''pre-restore'', opened script d)]\<rparr>"
  using assms by (auto simp: keep_prior_def split: prod.split_asm sum.split_asm if_split_asm)

text \<open>The outcome of the swap from a disk with the candidate in place and the prior database live.\<close>

lemma swap_outcome:
  assumes "swap_database script os k = (res, k')" "dk_live k = Some p" "dk_candidate k = Some c" "dk_rollback k = None"
  obtains (restored) "res = Inr ()" "dk_live k' = Some (opened script c)" "fst (open_database script c) = Inr ()"
      "validate_backup (Some (opened script c)) = Inr ()" "dk_rollback k' = None" "dk_candidate k' = None"
      "dk_backups k' = dk_backups k"
  | (uncleaned) e where "res = Inl e" "dk_live k' = Some (opened script c)" "fst (open_database script c) = Inr ()"
      "validate_backup (Some (opened script c)) = Inr ()" "\<not> os_unlink_rollback os" "dk_rollback k' = Some p"
      "dk_backups k' = dk_backups k"
  | (returned) e where "res = Inl e" "dk_live k' = Some p \<or> dk_live k' = Some (opened script p)"
      "set (dk_backups k) \<subseteq> set (dk_backups k')"
  | (stuck) e where "res = Inl e" "\<not> os_move_back os" "dk_rollback k' = Some p" "set (dk_backups k) \<subseteq> set (dk_backups k')"
proof -
  obtain r replaced k1 where body: "put_in_place script os k = (r, replaced, k1)" by (metis prod.collapse)
  show thesis
  proof (cases r)
    case (Inr u)
    then have k1: "k1 = k\<lparr>dk_rollback := Some p, dk_live := Some (opened script c), dk_candidate := None\<rparr>"
      and ok: "fst (open_database script c) = Inr ()" "validate_backup (Some (opened script c)) = Inr ()"
      using body assms(2,3)
      by (auto simp: put_in_place_def Let_def split: if_split_asm prod.split_asm sum.split_asm)
    have "(res, k') = drop_rollback os k1"
      using assms(1) body Inr k1 by (simp add: swap_database_def drop_candidate_def)
    then show thesis using restored uncleaned ok k1 by (auto simp: drop_rollback_def split: if_split_asm)
  next
    case (Inl e)
    obtain r2 k2 where rolled: "roll_back script os replaced e k1 = (r2, k2)" by force
    have stays: "k1 = k \<and> \<not> replaced \<or> dk_rollback k1 = Some p \<and> dk_backups k1 = dk_backups k"
      using body Inl assms(2,3)
      by (auto simp: put_in_place_def Let_def split: if_split_asm prod.split_asm sum.split_asm)
    have fails: "\<exists>e2. r2 = Inl e2"
      using rolled by (auto simp: roll_back_def Let_def split: if_split_asm prod.split_asm sum.split_asm option.split_asm)
    have k': "\<exists>e3. res = Inl e3" "dk_live k' = dk_live k2" "dk_rollback k' = dk_rollback k2" "dk_backups k' = dk_backups k2"
      using assms(1) body Inl rolled fails
      by (auto simp: swap_database_def drop_candidate_def split: if_split_asm)
    have "dk_live k2 = Some p \<or> dk_live k2 = Some (opened script p) \<or> \<not> os_move_back os \<and> dk_rollback k2 = Some p"
      using rolled stays assms(2,4)
      by (auto simp: roll_back_def Let_def split: if_split_asm prod.split_asm sum.split_asm option.split_asm)
    moreover have "set (dk_backups k) \<subseteq> set (dk_backups k2)"
      using rolled stays
      by (auto simp: roll_back_def Let_def split: if_split_asm prod.split_asm sum.split_asm option.split_asm)
    ultimately show thesis using returned stuck k' by metis
  qed
qed

text \<open>C11 A restore is all or nothing, wherever it fails: if it succeeds, the live database is the opened source,
  at the current schema and valid, and the prior one is in the backups; if it raises, the live
  database is the prior one, unless moving it back failed too - then it is in the rollback file - or
  only the clean-up of the rollback file failed after the restore was done.  In every case the prior
  data are in one of the files.\<close>

theorem restore_all_or_nothing:
  assumes "dk_live k = Some d" "dk_rollback k = None" "restore_database script os k = (res, k')"
  shows "(\<exists>f. prior script d f \<and>
            (dk_live k' = Some f \<or> dk_rollback k' = Some f \<or> (''pre-restore'', f) \<in> set (dk_backups k'))) \<and>
         (res = Inr () \<longrightarrow>
            (\<exists>c. os_source os = Some c \<and> dk_live k' = Some (opened script c) \<and>
              df_version (opened script c) = CURRENT_SCHEMA \<and> validate_backup (dk_live k') = Inr () \<and>
              dk_candidate k' = None \<and> dk_rollback k' = None \<and> (''pre-restore'', opened script d) \<in> set (dk_backups k'))) \<and>
         (res \<noteq> Inr () \<longrightarrow>
            (\<exists>f. prior script d f \<and> dk_live k' = Some f) \<or>
            \<not> os_move_back os \<and> dk_rollback k' = Some (opened script d) \<or>
            \<not> os_unlink_rollback os \<and> dk_rollback k' = Some (opened script d) \<and> validate_backup (dk_live k') = Inr ())"
proof (cases "\<exists>c. check_source os k = Inr c \<and> os_ensure os \<and> os_copy os")
  case False
  then have "dk_live k' = Some d" "res \<noteq> Inr ()"
    using assms by (auto simp: restore_database_def split: sum.split_asm if_split_asm)
  then show ?thesis using prior_simps(1) by metis
next
  case True
  then obtain c where c: "check_source os k = Inr c" "os_ensure os" "os_copy os" by blast
  then have valid: "validate_backup (Some c) = Inr ()" "os_source os = Some c"
    by (auto simp: check_source_def res_simps split: if_split_asm option.split_asm)
  let ?k1 = "k\<lparr>dk_candidate := Some c\<rparr>"
  obtain r k2 where kept: "keep_prior script os ?k1 = (r, k2)" by force
  have run: "bind_st (r, k2) (\<lambda>_ k2. swap_database script os k2) = (res, k')"
    using assms(3) c valid kept by (simp add: restore_database_def)
  have live: "dk_live ?k1 = Some d" using assms(1) by simp
  show ?thesis
  proof (cases rule: keep_prior_cases [OF kept live])
    case (1 e)
    then have "dk_live k' = Some (opened script d)" "res \<noteq> Inr ()" using run by auto
    then show ?thesis using prior_simps(2) by metis
  next
    case 2
    then have swap: "swap_database script os k2 = (res, k')" "dk_live k2 = Some (opened script d)"
      "dk_candidate k2 = Some c" "dk_rollback k2 = None" "(''pre-restore'', opened script d) \<in> set (dk_backups k2)"
      using run assms(2) by auto
    show ?thesis
    proof (cases rule: swap_outcome [OF swap(1-4)])
      case 1
      then have "df_version (opened script c) = CURRENT_SCHEMA" by (metis opened_version prod.collapse)
      then show ?thesis using 1 swap(5) valid(2) prior_simps(2) by metis
    next
      case (2 e)
      then show ?thesis using prior_simps(2) by (metis sum.distinct(1))
    next
      case (3 e)
      then show ?thesis using prior_simps(2,3) by (metis sum.distinct(1))
    next
      case (4 e)
      then show ?thesis using prior_simps(2) by (metis sum.distinct(1))
    qed
  qed
qed

definition demo_file :: "string \<Rightarrow> db_file" where
  "demo_file rows = \<lparr>df_bytes = 4096, df_application_id = APPLICATION_ID, df_version = 6, df_integrity = ''ok'',
     df_foreign_keys_ok = True, df_tables = REQUIRED_TABLES, df_session_columns = [''consumed_entity_id''],
     df_sample_columns = [''superseded_at''], df_checkpoint_columns = [''accepted_pulses'', ''device_uptime_ms''],
     df_rows = rows\<rparr>"

definition demo_disk :: disk where
  "demo_disk = \<lparr>dk_live = Some (demo_file ''old''), dk_candidate = None, dk_rollback = None, dk_backups = []\<rparr>"

definition all_calls :: os_calls where
  "all_calls = \<lparr>os_source_is_symlink = False, os_source = Some (demo_file ''new''), os_source_is_regular = True,
     os_source_is_live = False, os_ensure = True, os_copy = True, os_partial = None, os_backup = True,
     os_move_live = True, os_move_candidate = True, os_archive = True, os_move_back = True, os_unlink_live = True,
     os_unlink_candidate = True, os_unlink_rollback = True\<rparr>"

lemma demo_valid: "validate_backup (Some (demo_file rows)) = Inr ()"
  by (simp add: validate_backup_def demo_file_def required_tables_def CURRENT_SCHEMA_def)

lemma demo_opened: "open_database script (demo_file rows) = (Inr (), demo_file rows)"
  by (simp add: open_database_def demo_file_def CURRENT_SCHEMA_def)

lemmas demo_runs = restore_database_def check_source_def keep_prior_def swap_database_def put_in_place_def roll_back_def
  drop_candidate_def drop_rollback_def demo_disk_def all_calls_def demo_valid demo_opened

lemma demo_bytes [simp]: "df_bytes (demo_file rows) = 4096"
  by (simp add: demo_file_def)

lemma demo_restored: "fst (restore_database (\<lambda>v. Some) all_calls demo_disk) = Inr ()"
  by (simp add: demo_runs)

lemma demo_failed: "\<not> is_ok (fst (restore_database (\<lambda>v. Some) (all_calls\<lparr>os_move_candidate := False\<rparr>) demo_disk))"
  by (simp add: demo_runs)

text \<open>One run that succeeds, and one in which the last move fails.\<close>

theorem restore_all_or_nothing_witness:
  "(\<exists>c. os_source all_calls = Some c \<and>
      dk_live (snd (restore_database (\<lambda>v. Some) all_calls demo_disk)) = Some (opened (\<lambda>v. Some) c)) \<and>
   (\<exists>f. prior (\<lambda>v. Some) (demo_file ''old'') f \<and>
      dk_live (snd (restore_database (\<lambda>v. Some) (all_calls\<lparr>os_move_candidate := False\<rparr>) demo_disk)) = Some f)"
proof -
  have disk: "dk_live demo_disk = Some (demo_file ''old'')" "dk_rollback demo_disk = None"
    by (simp_all add: demo_disk_def)
  have calls: "os_move_back (all_calls\<lparr>os_move_candidate := False\<rparr>)" "os_unlink_rollback (all_calls\<lparr>os_move_candidate := False\<rparr>)"
    by (simp_all add: all_calls_def)
  have fails: "fst (restore_database (\<lambda>v. Some) (all_calls\<lparr>os_move_candidate := False\<rparr>) demo_disk) \<noteq> Inr ()"
    using demo_failed by (metis is_ok.simps(2))
  from restore_all_or_nothing [OF disk prod.collapse [symmetric], THEN conjunct2, THEN conjunct1, rule_format, OF demo_restored]
  obtain c where "os_source all_calls = Some c"
    "dk_live (snd (restore_database (\<lambda>v. Some) all_calls demo_disk)) = Some (opened (\<lambda>v. Some) c)" by blast
  moreover from restore_all_or_nothing [OF disk prod.collapse [symmetric], THEN conjunct2, THEN conjunct2, rule_format, OF fails]
  obtain f where "prior (\<lambda>v. Some) (demo_file ''old'') f"
    "dk_live (snd (restore_database (\<lambda>v. Some) (all_calls\<lparr>os_move_candidate := False\<rparr>) demo_disk)) = Some f"
    using calls by blast
  ultimately show ?thesis by blast
qed

text \<open>When the backup of the prior database fails, the copied candidate stays behind: the \<open>finally\<close> that
  removes it is only entered later.\<close>

theorem restore_leaves_candidate:
  "dk_candidate (snd (restore_database (\<lambda>v. Some) (all_calls\<lparr>os_backup := False\<rparr>) demo_disk)) \<noteq> None \<and>
   dk_candidate (snd (restore_database (\<lambda>v. Some) (all_calls\<lparr>os_move_live := False\<rparr>) demo_disk)) = None"
  by (simp add: demo_runs)

end
