(* ===== verification/KP_Requests.thy ===== *)
theory KP_Requests
  imports KP_Results
begin

text \<open>
  The request models of \<open>api/models.py\<close>: what each admits, and the value the route gets.  A decimal is
  \<open>None\<close> when the text is no finite number; \<open>trim\<close> is pydantic's stripping of white space.  A route
  whose model refuses its payload is answered before the handler runs.
\<close>

definition bounded_text :: "(string \<Rightarrow> string) \<Rightarrow> nat \<Rightarrow> nat \<Rightarrow> string \<Rightarrow> string option" where
  "bounded_text trim lo hi t = (if text_between lo hi (trim t) then Some (trim t) else None)"

definition optional :: "('a \<Rightarrow> 'b option) \<Rightarrow> 'a option \<Rightarrow> 'b option option" where
  "optional f v = (case v of None \<Rightarrow> Some None | Some x \<Rightarrow> map_option Some (f x))"

definition decimal_within :: "rat \<Rightarrow> rat \<Rightarrow> rat option \<Rightarrow> rat option" where
  "decimal_within lo hi v = (case v of None \<Rightarrow> None | Some x \<Rightarrow> (if lo \<le> x \<and> x \<le> hi then Some x else None))"

definition int_within :: "int \<Rightarrow> int \<Rightarrow> int \<Rightarrow> int option" where
  "int_within lo hi n = (if lo \<le> n \<and> n \<le> hi then Some n else None)"

text \<open>At most two decimal places, trailing zeros aside.\<close>

definition two_places :: "rat \<Rightarrow> rat option" where
  "two_places x = (if of_int \<lfloor>x * 100\<rfloor> = x * 100 then Some x else None)"

definition SIGNED_MAX :: int where "SIGNED_MAX = 2 ^ 63 - 1"

definition ParticipantCreate :: "(string \<Rightarrow> string) \<Rightarrow> string \<Rightarrow> string option" where
  "ParticipantCreate trim name = bounded_text trim 1 80 name"

definition ParticipantUpdate :: "(string \<Rightarrow> string) \<Rightarrow> string option \<Rightarrow> bool option \<Rightarrow> (string option \<times> bool option) option" where
  "ParticipantUpdate trim name active =
     Option.bind (optional (bounded_text trim 1 80) name) (\<lambda>n. Some (n, active))"

definition ArmRequest :: "(string \<Rightarrow> string) \<Rightarrow> string option \<Rightarrow> string \<Rightarrow> (string option \<times> string) option" where
  "ArmRequest trim participant_id key =
     Option.bind (optional (bounded_text trim 0 36) participant_id) (\<lambda>p.
     Option.bind (bounded_text trim 8 80 key) (\<lambda>k. Some (p, k)))"

definition KegRequest ::
    "(string \<Rightarrow> string) \<Rightarrow> string \<Rightarrow> rat option \<Rightarrow> string \<Rightarrow> timestamp option \<Rightarrow>
     (string \<times> rat \<times> string \<times> timestamp option) option" where
  "KegRequest trim label volume notes installed_at =
     Option.bind (bounded_text trim 1 120 label) (\<lambda>l.
     Option.bind (decimal_within 0 200000 volume) (\<lambda>v.
     Option.bind (bounded_text trim 0 1000 notes) (\<lambda>n.
       if v = 0 \<or> installed_at = Some Naive \<or> installed_at = Some Unparsable then None
       else Some (l, v, n, installed_at))))"

definition AdjustmentRequest :: "(string \<Rightarrow> string) \<Rightarrow> rat option \<Rightarrow> string \<Rightarrow> (rat \<times> string) option" where
  "AdjustmentRequest trim amount reason =
     Option.bind (decimal_within (- 200000) 200000 amount) (\<lambda>a.
     Option.bind (bounded_text trim 1 500 reason) (\<lambda>r. if a = 0 then None else Some (a, r)))"

definition CalibrationCreate :: "(string \<Rightarrow> string) \<Rightarrow> string \<Rightarrow> rat option \<Rightarrow> string \<Rightarrow> (string \<times> rat \<times> string) option" where
  "CalibrationCreate trim liquid density notes =
     Option.bind (bounded_text trim 1 80 liquid) (\<lambda>l.
     Option.bind (decimal_within (1 / 2) 2 density) (\<lambda>d.
     Option.bind (bounded_text trim 0 1000 notes) (\<lambda>n. Some (l, d, n))))"

definition weighed :: "rat option \<Rightarrow> rat option \<Rightarrow> (rat \<times> rat) option" where
  "weighed mass density =
     Option.bind (decimal_within (1 / 10) 10000 mass) (\<lambda>m.
     Option.bind (decimal_within (1 / 2) 2 density) (\<lambda>d. Some (m, d)))"

definition CalibrationSampleRequest ::
    "int \<Rightarrow> int \<Rightarrow> rat option \<Rightarrow> rat option \<Rightarrow> (int \<times> int \<times> rat \<times> rat) option" where
  "CalibrationSampleRequest ordinal raw mass density =
     Option.bind (int_within 1 10 ordinal) (\<lambda>n.
     Option.bind (int_within 1 SIGNED_MAX raw) (\<lambda>r.
     Option.bind (weighed mass density) (\<lambda>(m, d). Some (n, r, m, d))))"

definition CaptureArmRequest :: "(string \<Rightarrow> string) \<Rightarrow> string \<Rightarrow> int option \<Rightarrow> (string \<times> int option) option" where
  "CaptureArmRequest trim key ordinal =
     Option.bind (bounded_text trim 8 80 key) (\<lambda>k.
     Option.bind (optional (int_within 1 10) ordinal) (\<lambda>n. Some (k, n)))"

definition CapturedMeasurementRequest ::
    "(string \<Rightarrow> string) \<Rightarrow> string \<Rightarrow> rat option \<Rightarrow> rat option \<Rightarrow> (string \<times> rat \<times> rat) option" where
  "CapturedMeasurementRequest trim session_id mass density =
     Option.bind (bounded_text trim 36 36 session_id) (\<lambda>i.
     Option.bind (weighed mass density) (\<lambda>(m, d). Some (i, m, d)))"

definition VerificationRequest :: "int \<Rightarrow> rat option \<Rightarrow> rat option \<Rightarrow> (int \<times> rat \<times> rat) option" where
  "VerificationRequest raw mass density =
     Option.bind (int_within 1 SIGNED_MAX raw) (\<lambda>r.
     Option.bind (weighed mass density) (\<lambda>(m, d). Some (r, m, d)))"

definition ReassignmentRequest :: "(string \<Rightarrow> string) \<Rightarrow> string \<Rightarrow> string \<Rightarrow> (string \<times> string) option" where
  "ReassignmentRequest trim participant_id reason =
     Option.bind (bounded_text trim 36 36 participant_id) (\<lambda>p.
     Option.bind (bounded_text trim 1 500 reason) (\<lambda>r. Some (p, r)))"

text \<open>The settings of a change; the outer \<open>None\<close> of \<open>up_serial_port\<close> is a field that was not sent.\<close>

record settings_update =
  up_display_units :: "string option"
  up_completion_seconds :: "int option"
  up_warning_pct :: "rat option"
  up_serial_port :: "string option option"
  up_arm_timeout_ms :: "int option"

definition decimal_setting :: "rat \<Rightarrow> rat \<Rightarrow> rat \<Rightarrow> rat option" where
  "decimal_setting lo hi x = decimal_within lo hi (Some x)"

definition SettingsUpdate :: "(string \<Rightarrow> string) \<Rightarrow> settings_update \<Rightarrow> settings_update option" where
  "SettingsUpdate trim u =
     Option.bind (optional (\<lambda>t. if t \<in> {''ml'', ''l'', ''us_fl_oz''} then Some t else None) (up_display_units u)) (\<lambda>units.
     Option.bind (optional (int_within 0 60) (up_completion_seconds u)) (\<lambda>seconds.
     Option.bind (optional (decimal_setting (1 / 10) 100) (up_warning_pct u)) (\<lambda>pct.
     Option.bind (optional (optional (bounded_text trim 1 260)) (up_serial_port u)) (\<lambda>port.
     Option.bind (optional (int_within 1000 120000) (up_arm_timeout_ms u)) (\<lambda>arm.
       Some \<lparr>up_display_units = units, up_completion_seconds = seconds, up_warning_pct = pct,
             up_serial_port = port, up_arm_timeout_ms = arm\<rparr>)))))"

definition SerialPreferenceRequest :: "(string \<Rightarrow> string) \<Rightarrow> string option \<Rightarrow> string option option" where
  "SerialPreferenceRequest trim port = optional (bounded_text trim 1 260) port"

definition PinRequest :: "(string \<Rightarrow> string) \<Rightarrow> string \<Rightarrow> string option" where
  "PinRequest trim pin =
     Option.bind (bounded_text trim 4 20 pin) (\<lambda>p. if list_all is_digit p then Some p else None)"

definition ManagementSettingsUpdate ::
    "int option \<Rightarrow> rat option \<Rightarrow> bool option \<Rightarrow> (int option \<times> rat option \<times> bool option) option" where
  "ManagementSettingsUpdate keep price webcam =
     Option.bind (optional (int_within 5 500) keep) (\<lambda>k.
     Option.bind (optional (\<lambda>x. Option.bind (decimal_setting 0 1000 x) two_places) price) (\<lambda>p. Some (k, p, webcam)))"

definition FundAdjustmentRequest :: "(string \<Rightarrow> string) \<Rightarrow> rat option \<Rightarrow> string \<Rightarrow> (rat \<times> string) option" where
  "FundAdjustmentRequest trim amount reason =
     Option.bind (Option.bind (decimal_within (- 100000) 100000 amount) two_places) (\<lambda>a.
     Option.bind (bounded_text trim 1 500 reason) (\<lambda>r. if a = 0 then None else Some (a, r)))"

definition KegRemainingUpdate :: "(string \<Rightarrow> string) \<Rightarrow> rat option \<Rightarrow> string \<Rightarrow> (rat \<times> string) option" where
  "KegRemainingUpdate trim percent reason =
     Option.bind (Option.bind (decimal_within 0 100 percent) two_places) (\<lambda>p.
     Option.bind (bounded_text trim 1 500 reason) (\<lambda>r. Some (p, r)))"

definition CameraRecordRequest :: "int \<Rightarrow> int option" where
  "CameraRecordRequest seconds = int_within 3 30 seconds"

definition CameraFailureRequest :: "(string \<Rightarrow> string) \<Rightarrow> string \<Rightarrow> string \<Rightarrow> (string \<times> string) option" where
  "CameraFailureRequest trim request_id detail =
     Option.bind (bounded_text trim 32 32 request_id) (\<lambda>i.
     Option.bind (bounded_text trim 1 200 detail) (\<lambda>d. Some (i, d)))"

end
