(* ===== verification/KP_Reads.thy ===== *)
theory KP_Reads
  imports KP_Results "HOL-Library.Product_Lexorder" "HOL-Library.List_Lexorder" "HOL-Library.Char_ord"
begin

text \<open>
  The queries of \<open>persistence/repository.py\<close>: the listings, the rows a review shows beside a pour,
  and the paged export of all pours.  A query answers rows together with their primary keys.  Where
  an \<open>ORDER BY\<close> leaves rows tied, they keep their insertion order here; \<open>COLLATE NOCASE\<close> compares
  the ASCII lower case.  Every limit is the bounded one of the source.
\<close>

section \<open>Settings\<close>

definition get_setting :: "store \<Rightarrow> string \<Rightarrow> json \<Rightarrow> json" where
  "get_setting s key fallback = (case od_get (st_settings s) key of None \<Rightarrow> fallback | Some v \<Rightarrow> v)"

text \<open>\<open>int(value)\<close> of a stored setting; \<open>None\<close> is a \<open>TypeError\<close> or a \<open>ValueError\<close>.\<close>

fun int_of_json :: "json \<Rightarrow> int option" where
  "int_of_json (JInt n) = Some n"
| "int_of_json (JBool b) = Some (if b then 1 else 0)"
| "int_of_json (JStr s) = py_int s"
| "int_of_json _ = None"

definition video_keep :: "store \<Rightarrow> int" where
  "video_keep s =
     (let v = (case int_of_json (get_setting s ''video_keep'' (JInt 40)) of None \<Rightarrow> 40 | Some n \<Rightarrow> n)
      in max 5 (min v 500))"

section \<open>Listings\<close>

definition bounded_limit :: "int \<Rightarrow> int \<Rightarrow> nat" where
  "bounded_limit most limit = nat (max 1 (min limit most))"

definition list_participants :: "bool \<Rightarrow> store \<Rightarrow> (string \<times> participant) list" where
  "list_participants active_only s =
     sort_key (\<lambda>(i, p). (lower (pt_display_name p), pt_created_at p))
       (filter (\<lambda>(i, p). active_only \<longrightarrow> pt_active p) (st_participants s))"

definition list_kegs :: "store \<Rightarrow> (string \<times> keg) list" where
  "list_kegs s = sort_key (\<lambda>(i, k). - kg_opened_at k) (st_kegs s)"

definition list_calibrations :: "store \<Rightarrow> (string \<times> calibration) list" where
  "list_calibrations s = sort_key (\<lambda>(i, c). - cb_created_at c) (st_calibrations s)"

definition list_verifications :: "int \<Rightarrow> store \<Rightarrow> (string \<times> verification_row) list" where
  "list_verifications limit s =
     take (bounded_limit 100 limit) (sort_key (\<lambda>(i, v). - vr_created_at v) (st_verifications s))"

text \<open>Newest first, and of equal times the row inserted last.\<close>

definition list_measurement_anomalies :: "int \<Rightarrow> store \<Rightarrow> (string \<times> anomaly) list" where
  "list_measurement_anomalies limit s =
     take (bounded_limit 500 limit) (rev (sort_key (\<lambda>(i, a). an_created_at a) (st_anomalies s)))"

definition get_provisional :: "string \<Rightarrow> store \<Rightarrow> provisional option" where
  "get_provisional session_id s = od_get (st_sessions s) session_id"

definition stored_session :: "string \<Rightarrow> store \<Rightarrow> provisional result" where
  "stored_session session_id s = fetch (st_sessions s) session_id (NotFoundError ''session not found'')"

definition get_pour_photo :: "string \<Rightarrow> store \<Rightarrow> photo result" where
  "get_pour_photo photo_id s = fetch (st_photos s) photo_id (NotFoundError ''pour photo not found'')"

definition first_row :: "'a list \<Rightarrow> 'a option" where
  "first_row xs = (case xs of [] \<Rightarrow> None | x # _ \<Rightarrow> Some x)"

definition latest_pending_capture :: "store \<Rightarrow> (string \<times> provisional) option" where
  "latest_pending_capture s =
     first_row (sort_key (\<lambda>(i, v). - pv_created_at v)
       (filter (\<lambda>(i, v). pv_purpose v \<in> {''calibration'', ''verification''} \<and>
          pv_status v \<in> set (ACTIVE_STATUSES @ [''complete''])) (st_sessions s)))"

text \<open>A session that ended without a pour a moment ago, unless a pour ended after it.\<close>

definition recent_terminal_provisional :: "int \<Rightarrow> int \<Rightarrow> store \<Rightarrow> (string \<times> provisional) option" where
  "recent_terminal_provisional now within_seconds s =
     (let cutoff = now - max 1 (min within_seconds 3600) * 1000
      in first_row (rev (sort_key (\<lambda>(i, v). (pv_updated_at v, i))
           (filter (\<lambda>(i, v). pv_status v \<in> {''timed_out'', ''interrupted_uncertain''} \<and> cutoff \<le> pv_updated_at v \<and>
              list_all (\<lambda>(j, p). pe_ended_at p < pv_updated_at v) (st_pours s)) (st_sessions s)))))"

section \<open>Pours with the rows they refer to\<close>

record pour_row =
  pr_id :: string
  pr_pour :: pour
  pr_participant_name :: "string option"
  pr_keg_label :: "string option"
  pr_density :: "rat option"

text \<open>The three \<open>LEFT JOIN\<close>s.\<close>

definition joined :: "store \<Rightarrow> string \<times> pour \<Rightarrow> pour_row" where
  "joined s r =
     \<lparr>pr_id = fst r, pr_pour = snd r,
      pr_participant_name =
        (case pe_participant_id (snd r) of None \<Rightarrow> None | Some i \<Rightarrow> map_option pt_display_name (od_get (st_participants s) i)),
      pr_keg_label =
        (case pe_keg_id (snd r) of None \<Rightarrow> None | Some i \<Rightarrow> map_option kg_label (od_get (st_kegs s) i)),
      pr_density =
        (case pe_calibration_id (snd r) of None \<Rightarrow> None
         | Some i \<Rightarrow> map_option cb_default_density (od_get (st_calibrations s) i))\<rparr>"

text \<open>\<open>CAST(volume_ml AS REAL)\<close> is the argument \<open>cast\<close>; the floor is the value of the double.\<close>

definition pour_selected :: "(rat \<Rightarrow> rat) \<Rightarrow> string option \<Rightarrow> bool \<Rightarrow> rat option \<Rightarrow> pour \<Rightarrow> bool" where
  "pour_selected cast participant_id unattributed_only min_ml p \<longleftrightarrow>
     (truthy participant_id \<longrightarrow> pe_participant_id p = participant_id) \<and>
     (unattributed_only \<longrightarrow> pe_participant_id p = None) \<and>
     (case min_ml of
        None \<Rightarrow> True
      | Some m \<Rightarrow> 0 < m \<longrightarrow> (case pe_volume_ml p of None \<Rightarrow> False | Some v \<Rightarrow> m \<le> cast v))"

definition list_pours ::
    "(rat \<Rightarrow> rat) \<Rightarrow> int \<Rightarrow> string option \<Rightarrow> bool \<Rightarrow> rat option \<Rightarrow> store \<Rightarrow> pour_row list" where
  "list_pours cast limit participant_id unattributed_only min_ml s =
     map (joined s) (take (bounded_limit 500 limit)
       (sort_key (\<lambda>(i, p). - pe_ended_at p)
         (filter (\<lambda>(i, p). pour_selected cast participant_id unattributed_only min_ml p) (st_pours s))))"

text \<open>The photos of a pour: those of its session, or else the sessionless ones of its time window.\<close>

definition session_photos :: "string \<Rightarrow> store \<Rightarrow> (string \<times> photo) list" where
  "session_photos session_id s =
     (if session_id = [] then []
      else sort_key (\<lambda>(i, h). ph_captured_at h) (filter (\<lambda>(i, h). ph_session_id h = Some session_id) (st_photos s)))"

definition window_photos :: "pour \<Rightarrow> store \<Rightarrow> (string \<times> photo) list" where
  "window_photos p s =
     sort_key (\<lambda>(i, h). ph_captured_at h)
       (filter (\<lambda>(i, h). ph_session_id h = None \<and> pe_started_at p \<le> ph_captured_at h \<and> ph_captured_at h \<le> pe_created_at p)
         (st_photos s))"

definition evidence :: "pour \<Rightarrow> store \<Rightarrow> (string \<times> photo) list" where
  "evidence p s = (let own = session_photos (pe_session_id p) s in if own = [] then window_photos p s else own)"

definition pours_with_evidence ::
    "(rat \<Rightarrow> rat) \<Rightarrow> int \<Rightarrow> string option \<Rightarrow> bool \<Rightarrow> rat option \<Rightarrow> store \<Rightarrow> (pour_row \<times> string option \<times> nat) list" where
  "pours_with_evidence cast limit participant_id unattributed_only min_ml s =
     map (\<lambda>r. let photos = evidence (pr_pour r) s
              in (r, if photos = [] then None else Some (fst (photos ! (length photos div 2))), length photos))
       (list_pours cast limit participant_id unattributed_only min_ml s)"

definition recent_unattributed_pours :: "nat \<Rightarrow> store \<Rightarrow> (string \<times> pour \<times> rat option \<times> string option) list" where
  "recent_unattributed_pours limit s =
     map (\<lambda>(i, p). (i, p, pr_density (joined s (i, p)), map_option fst (first_row (evidence p s))))
       (take limit (sort_key (\<lambda>(i, p). - pe_ended_at p)
         (filter (\<lambda>(i, p). pe_participant_id p = None \<and> 150 \<le> pe_raw_pulses p) (st_pours s))))"

section \<open>The summary for the management page\<close>

record summary =
  su_price :: json
  su_webcam_enabled :: bool
  su_video_keep :: int
  su_participants :: "(string \<times> participant) list"
  su_ledger :: "(string \<times> ledger_row \<times> string) list"
  su_photos :: "(string \<times> photo \<times> string option \<times> string option) list"

text \<open>\<open>bool(value)\<close> of a stored value.\<close>

fun json_truth :: "json \<Rightarrow> bool" where
  "json_truth JNull = False"
| "json_truth (JBool b) = b"
| "json_truth (JInt n) = (n \<noteq> 0)"
| "json_truth (JStr s) = (s \<noteq> [])"
| "json_truth (JList xs) = (xs \<noteq> [])"
| "json_truth (JObj kvs) = (kvs \<noteq> [])"

definition photo_pours :: "string \<times> photo \<Rightarrow> store \<Rightarrow> (string \<times> photo \<times> string option \<times> string option) list" where
  "photo_pours r s =
     (let hits = filter (\<lambda>(j, p). Some (pe_session_id p) = ph_session_id (snd r)) (st_pours s)
      in if hits = [] then [(fst r, snd r, None, None)]
         else map (\<lambda>h. (fst r, snd r, Some (fst h), pr_participant_name (joined s h))) hits)"

definition management_summary :: "store \<Rightarrow> summary" where
  "management_summary s =
     \<lparr>su_price = get_setting s ''beer_price_cents_per_fl_oz'' (JStr ''0''),
      su_webcam_enabled = json_truth (get_setting s ''webcam_enabled'' (JBool False)),
      su_video_keep = video_keep s,
      su_participants = list_participants False s,
      su_ledger =
        take 100 (rev (sort_key (\<lambda>(i, l, n). (lg_created_at l, i))
          (List.map_filter (\<lambda>(i, l). map_option (\<lambda>p. (i, l, pt_display_name p))
             (od_get (st_participants s) (lg_participant_id l))) (st_ledger s)))),
      su_photos =
        take 100 (sort_key (\<lambda>(i, h, j, n). - ph_captured_at h) (concat (map (\<lambda>r. photo_pours r s) (st_photos s))))\<rparr>"

section \<open>The export\<close>

type_synonym cursor = "int \<times> string"

definition pour_key :: "string \<times> pour \<Rightarrow> cursor" where
  "pour_key r = (pe_ended_at (snd r), fst r)"

definition before :: "cursor option \<Rightarrow> string \<times> pour \<Rightarrow> bool" where
  "before after r \<longleftrightarrow>
     (case after of
        None \<Rightarrow> True
      | Some (last_ended, last_id) \<Rightarrow>
          pe_ended_at (snd r) < last_ended \<or> pe_ended_at (snd r) = last_ended \<and> fst r < last_id)"

definition export_page :: "nat \<Rightarrow> cursor option \<Rightarrow> store \<Rightarrow> (string \<times> pour) list" where
  "export_page rows_max after s = take rows_max (rev (sort_key pour_key (filter (before after) (st_pours s))))"

text \<open>
  The generator \<open>iter_pours\<close>.  It reads a page, yields its rows, and reads the next one later, when
  other requests may have changed the database: the page number \<open>n\<close> is read from the store \<open>db n\<close>.
  A result \<open>Some rows\<close> is the sequence of all rows it yields before it returns; a generator that
  never returned would have none.
\<close>

partial_function (option) pages_from :: "nat \<Rightarrow> (nat \<Rightarrow> store) \<Rightarrow> nat \<Rightarrow> cursor option \<Rightarrow> pour_row list option" where
  "pages_from rows_max db n after =
     (let rows = export_page rows_max after (db n)
      in if rows = [] then Some []
         else Option.bind (pages_from rows_max db (Suc n) (Some (pour_key (last rows))))
                (\<lambda>rest. Some (map (joined (db n)) rows @ rest)))"

declare pages_from.simps [code]

definition iter_pours :: "int \<Rightarrow> (nat \<Rightarrow> store) \<Rightarrow> pour_row list option" where
  "iter_pours page_size db = pages_from (bounded_limit 500 page_size) db 0 None"

section \<open>The export is complete\<close>

definition row_key :: "pour_row \<Rightarrow> cursor" where
  "row_key r = (pe_ended_at (pr_pour r), pr_id r)"

definition pour_keys :: "store \<Rightarrow> cursor set" where
  "pour_keys s = pour_key ` set (st_pours s)"

definition key_before :: "cursor option \<Rightarrow> cursor \<Rightarrow> bool" where
  "key_before after k \<longleftrightarrow> (case after of None \<Rightarrow> True | Some c \<Rightarrow> k < c)"

lemma before_key: "before after r \<longleftrightarrow> key_before after (pour_key r)"
  by (auto simp: before_def key_before_def pour_key_def less_prod_def' split: option.split)

lemma row_key_joined [simp]: "row_key (joined s r) = pour_key r"
  by (simp add: row_key_def joined_def pour_key_def)

lemma take_above: "sorted_wrt (\<lambda>a b. key b < (key a :: 'k :: linorder)) xs \<Longrightarrow> x \<in> set xs \<Longrightarrow> x \<notin> set (take n xs) \<Longrightarrow>
  take n xs \<noteq> [] \<Longrightarrow> key x < key (last (take n xs))"
  by (metis append_take_drop_id in_set_conv_decomp last_in_set set_append Un_iff sorted_wrt_append)

lemma last_lowest: "sorted_wrt (\<lambda>a b. key b < (key a :: 'k :: linorder)) xs \<Longrightarrow> x \<in> set xs \<Longrightarrow> key (last xs) \<le> key x"
  by (induction xs) (auto intro: less_imp_le)

lemma page_facts:
  assumes "od_wf (st_pours s)"
  shows "sorted_wrt (\<lambda>a b. pour_key b < pour_key a) (export_page rows_max after s)"
    and "set (export_page rows_max after s) \<subseteq> {r \<in> set (st_pours s). key_before after (pour_key r)}"
    and "r \<in> set (st_pours s) \<Longrightarrow> key_before after (pour_key r) \<Longrightarrow> r \<notin> set (export_page rows_max after s) \<Longrightarrow> 0 < rows_max \<Longrightarrow>
      export_page rows_max after s \<noteq> [] \<and> pour_key r < pour_key (last (export_page rows_max after s))"
proof -
  let ?t = "filter (before after) (st_pours s)" and ?l = "rev (sort_key pour_key (filter (before after) (st_pours s)))"
  have "distinct (map fst ?t)" using assms by (simp add: od_wf_def od_keys_def distinct_map_filter)
  then have "distinct (map pour_key ?t)"
    by (auto simp: distinct_map inj_on_def pour_key_def)
  then have "distinct (map pour_key (sort_key pour_key ?t))" by (simp add: distinct_map)
  then have "sorted_wrt (<) (map pour_key (sort_key pour_key ?t))" by (simp add: strict_sorted_iff)
  then have desc: "sorted_wrt (\<lambda>a b. pour_key b < pour_key a) ?l" by (simp add: sorted_wrt_rev sorted_wrt_map)
  then show "sorted_wrt (\<lambda>a b. pour_key b < pour_key a) (export_page rows_max after s)"
    unfolding export_page_def by (metis append_take_drop_id sorted_wrt_append)
  show "set (export_page rows_max after s) \<subseteq> {r \<in> set (st_pours s). key_before after (pour_key r)}"
    by (auto simp: export_page_def before_key dest!: in_set_takeD)
  assume r: "r \<in> set (st_pours s)" "key_before after (pour_key r)" "r \<notin> set (export_page rows_max after s)" "0 < rows_max"
  then have "r \<in> set ?l" by (simp add: before_key)
  moreover from this r(4) have "export_page rows_max after s \<noteq> []"
    unfolding export_page_def by (metis empty_iff list.set(1) not_gr_zero take_eq_Nil)
  ultimately show "export_page rows_max after s \<noteq> [] \<and> pour_key r < pour_key (last (export_page rows_max after s))"
    using take_above [OF desc] r(3) unfolding export_page_def by blast
qed

lemma pages_complete:
  assumes "\<And>n. od_wf (st_pours (db n))" "\<And>n. pour_keys (db n) \<subseteq> K" "finite K" "0 < rows_max"
  shows "\<exists>rows. pages_from rows_max db n after = Some rows \<and>
    sorted_wrt (\<lambda>a b. row_key b < row_key a) rows \<and>
    (\<forall>r\<in>set rows. key_before after (row_key r) \<and> (\<exists>m\<ge>n. r \<in> joined (db m) ` set (st_pours (db m)))) \<and>
    (\<forall>k. key_before after k \<longrightarrow> (\<forall>m\<ge>n. k \<in> pour_keys (db m)) \<longrightarrow> k \<in> row_key ` set rows)"
proof (induction "card {k \<in> K. key_before after k}" arbitrary: n after rule: less_induct)
  case less
  let ?p = "export_page rows_max after (db n)"
  note page = page_facts [OF assms(1) [of n], where rows_max = rows_max and after = after]
  show ?case
  proof (cases "?p = []")
    case True
    have "\<not> (\<forall>m\<ge>n. k \<in> pour_keys (db m))" if "key_before after k" for k
      using page(3) that True assms(4) unfolding pour_keys_def by (metis (no_types, lifting) empty_iff imageE list.set(1) order_refl)
    then show ?thesis using True by (subst pages_from.simps) auto
  next
    case False
    let ?c = "pour_key (last ?p)"
    have last: "last ?p \<in> set (st_pours (db n))" "key_before after ?c"
      using page(2) last_in_set [OF False] by auto
    have down: "key_before after k" if "k < ?c" for k
      using that last(2) by (auto simp: key_before_def split: option.splits)
    have "?c \<in> K" using last(1) assms(2) unfolding pour_keys_def by blast
    then have "{k \<in> K. key_before (Some ?c) k} \<subset> {k \<in> K. key_before after k}"
      using last(2) down by (auto simp: key_before_def)
    then have "card {k \<in> K. key_before (Some ?c) k} < card {k \<in> K. key_before after k}"
      using assms(3) by (intro psubset_card_mono) auto
    from less [OF this, of "Suc n"] obtain rest where rest:
      "pages_from rows_max db (Suc n) (Some ?c) = Some rest" "sorted_wrt (\<lambda>a b. row_key b < row_key a) rest"
      "\<forall>r\<in>set rest. row_key r < ?c \<and> (\<exists>m\<ge>Suc n. r \<in> joined (db m) ` set (st_pours (db m)))"
      "\<forall>k<?c. (\<forall>m\<ge>Suc n. k \<in> pour_keys (db m)) \<longrightarrow> k \<in> row_key ` set rest"
      by (auto simp: key_before_def)
    let ?rows = "map (joined (db n)) ?p @ rest"
    have run: "pages_from rows_max db n after = Some ?rows"
      using False rest(1) by (subst pages_from.simps) simp
    have above: "?c \<le> pour_key r" if "r \<in> set ?p" for r
      by (rule last_lowest [OF page(1) that])
    have sorted: "sorted_wrt (\<lambda>a b. row_key b < row_key a) ?rows"
      using page(1) rest(2,3) above by (auto simp: sorted_wrt_append sorted_wrt_map) (meson order_less_le_trans)
    have sound: "key_before after (row_key r) \<and> (\<exists>m\<ge>n. r \<in> joined (db m) ` set (st_pours (db m)))" if "r \<in> set ?rows" for r
    proof (cases "r \<in> set rest")
      case True
      with rest(3) obtain m where "row_key r < ?c" "Suc n \<le> m" "r \<in> joined (db m) ` set (st_pours (db m))" by blast
      then show ?thesis using down Suc_leD by blast
    next
      case False
      then show ?thesis using that page(2) by auto
    qed
    have complete: "k \<in> row_key ` set ?rows" if "key_before after k" "\<forall>m\<ge>n. k \<in> pour_keys (db m)" for k
    proof -
      have "k \<in> pour_keys (db n)" using that(2) by blast
      then obtain r where r: "r \<in> set (st_pours (db n))" "k = pour_key r" unfolding pour_keys_def by blast
      show ?thesis
      proof (cases "r \<in> set ?p")
        case True
        then show ?thesis using r(2) by (auto simp: image_Un image_image)
      next
        case False
        then have "k < ?c" using page(3) r that(1) assms(4) by blast
        moreover have "\<forall>m\<ge>Suc n. k \<in> pour_keys (db m)" using that(2) by simp
        ultimately have "k \<in> row_key ` set rest" using rest(4) by blast
        then show ?thesis by (simp add: image_Un)
      qed
    qed
    show ?thesis using run sorted sound complete by blast
  qed
qed

text \<open>C23 The export ends and is complete: whatever other requests do to the database between its pages,
  as long as only finitely many pours are ever recorded, the generator returns; what it yielded is
  in strictly falling order of end time and identifier, so no pour comes twice; every row was a pour
  of the database at the time of a page; and a pour that was there all the time is among them.\<close>

theorem export_ends_complete:
  assumes "\<And>n. od_wf (st_pours (db n))" and "finite (\<Union>n. pour_keys (db n))"
  shows "\<exists>rows. iter_pours page_size db = Some rows \<and> sorted_wrt (\<lambda>a b. row_key b < row_key a) rows \<and>
    (\<forall>r\<in>set rows. \<exists>m. r \<in> joined (db m) ` set (st_pours (db m))) \<and>
    (\<forall>k. (\<forall>m. k \<in> pour_keys (db m)) \<longrightarrow> k \<in> row_key ` set rows)"
proof -
  have "0 < bounded_limit 500 page_size" by (simp add: bounded_limit_def)
  from pages_complete [where db = db and n = 0 and after = None, OF assms(1) _ assms(2) this]
  show ?thesis unfolding iter_pours_def key_before_def option.case by (meson UN_upper UNIV_I le0)
qed

definition demo_pour_at :: "int \<Rightarrow> pour" where
  "demo_pour_at t = \<lparr>pe_session_id = ''s'', pe_participant_id = None, pe_keg_id = None, pe_calibration_id = None,
     pe_device_id = ''D'', pe_boot_id = ''B'', pe_event_seq = None, pe_raw_pulses = 200, pe_volume_ml = None,
     pe_attributed = False, pe_quality = ''recovered_unattributed'', pe_started_at = t, pe_ended_at = t,
     pe_device_started_ms = 0, pe_device_ended_ms = 0, pe_fault = ''none'', pe_created_at = t\<rparr>"

text \<open>Pages of one pour; a pour arrives while the first page is being written.\<close>

definition demo_export :: "nat \<Rightarrow> store" where
  "demo_export n = empty_store\<lparr>st_pours := [(''a'', demo_pour_at 100), (''b'', demo_pour_at 300), (''c'', demo_pour_at 300)] @
     (if n = 0 then [] else [(''d'', demo_pour_at 200)])\<rparr>"

theorem export_ends_complete_witness:
  "\<exists>rows. iter_pours 1 demo_export = Some rows \<and> (300, ''b'') \<in> row_key ` set rows \<and>
     sorted_wrt (\<lambda>a b. row_key b < row_key a) rows"
proof -
  have keys: "pour_keys (demo_export n) =
      {(100, ''a''), (300, ''b''), (300, ''c'')} \<union> (if n = 0 then {} else {(200, ''d'')})" for n
    by (simp add: demo_export_def pour_keys_def pour_key_def demo_pour_at_def insert_commute)
  have "od_wf (st_pours (demo_export n))" for n by (simp add: demo_export_def od_wf_def od_keys_def)
  moreover have "finite (\<Union>n. pour_keys (demo_export n))"
    by (rule finite_subset [where B = "{(100, ''a''), (300, ''b''), (300, ''c''), (200, ''d'')}"]) (auto simp: keys)
  moreover have "(300, ''b'') \<in> pour_keys (demo_export m)" for m by (simp add: keys)
  ultimately show ?thesis using export_ends_complete [of demo_export 1] by blast
qed

end
