(* ===== verification/KP_Config.thy ===== *)
theory KP_Config
  imports KP_Results
begin

text \<open>
  The configuration, \<open>config.py\<close> and \<open>_config_overrides\<close> of \<open>__main__.py\<close>: the settings of the file
  merged with those of the command line, and the validation of \<open>AppConfig\<close>; and the choice of the
  serial port, \<open>_preferred_serial_port\<close> of \<open>app.py\<close> and \<open>PortCandidateProvider\<close> of
  \<open>serialio/real.py\<close>.

  The conversions pydantic makes of a value to the type of a field are the record \<open>coercions\<close>; the
  bounds and the validators are the source's.
\<close>

section \<open>Settings\<close>

datatype setting = SNull | SBool bool | SInt int | SReal rat | SText string | STexts "string list"

record coercions =
  as_bool :: "setting \<Rightarrow> bool option"
  as_int :: "setting \<Rightarrow> int option"
  as_real :: "setting \<Rightarrow> rat option"
  as_text :: "setting \<Rightarrow> string option"
  as_texts :: "setting \<Rightarrow> string list option"

record app_config =
  ac_host :: string
  ac_port :: int
  ac_demo :: bool
  ac_no_browser :: bool
  ac_serial_port :: "string option"
  ac_arm_timeout_ms :: int
  ac_flow_gap_ms :: int
  ac_settling_ms :: int
  ac_completion_seconds :: int
  ac_display_units :: string
  ac_verification_warning_pct :: rat
  ac_lan_mode :: bool
  ac_lan_display :: bool
  ac_allow_test_shutdown :: bool
  ac_allowed_hosts :: "string list"
  ac_allowed_origins :: "string list"

definition FIELDS :: "string list" where
  "FIELDS = [''host'', ''port'', ''demo'', ''no_browser'', ''serial_port'', ''arm_timeout_ms'', ''flow_gap_ms'',
     ''settling_ms'', ''completion_seconds'', ''display_units'', ''verification_warning_pct'', ''lan_mode'',
     ''lan_display'', ''allow_test_shutdown'', ''allowed_hosts'', ''allowed_origins'']"

text \<open>A field of the payload: the default when the key is absent, or the converted value if it is admitted.\<close>

definition config_field :: "(string, setting) odict \<Rightarrow> string \<Rightarrow> (setting \<Rightarrow> 'a option) \<Rightarrow> ('a \<Rightarrow> bool) \<Rightarrow> 'a \<Rightarrow> 'a option" where
  "config_field payload key convert admitted fallback =
     (case od_get payload key of
        None \<Rightarrow> Some fallback
      | Some v \<Rightarrow> (case convert v of Some x \<Rightarrow> (if admitted x then Some x else None) | None \<Rightarrow> None))"

definition as_serial :: "coercions \<Rightarrow> setting \<Rightarrow> string option option" where
  "as_serial co v = (if v = SNull then Some None else map_option Some (as_text co v))"

text \<open>\<open>validate_network_mode\<close>.\<close>

definition network_mode_ok :: "app_config \<Rightarrow> bool" where
  "network_mode_ok c \<longleftrightarrow>
     (ac_lan_mode c \<or> ac_host c = ''127.0.0.1'') \<and>
     \<not> (ac_demo c \<and> ac_lan_mode c) \<and>
     (ac_lan_mode c \<longrightarrow> ac_allowed_hosts c \<noteq> [] \<and> ac_allowed_origins c \<noteq> []) \<and>
     (ac_lan_display c \<longrightarrow> ac_lan_mode c)"

definition model_validate :: "coercions \<Rightarrow> (string, setting) odict \<Rightarrow> app_config option" where
  "model_validate co payload =
     (if \<not> set (od_keys payload) \<subseteq> set FIELDS then None
      else
        Option.bind (config_field payload ''host'' (as_text co) (\<lambda>h. CHR '':'' \<notin> set h) ''127.0.0.1'') (\<lambda>host.
        Option.bind (config_field payload ''port'' (as_int co) (\<lambda>n. 1024 \<le> n \<and> n \<le> 65535) 8765) (\<lambda>port.
        Option.bind (config_field payload ''demo'' (as_bool co) (\<lambda>_. True) False) (\<lambda>demo.
        Option.bind (config_field payload ''no_browser'' (as_bool co) (\<lambda>_. True) False) (\<lambda>no_browser.
        Option.bind (config_field payload ''serial_port'' (as_serial co) (\<lambda>p. case p of None \<Rightarrow> True | Some t \<Rightarrow> length t \<le> 260) None) (\<lambda>serial.
        Option.bind (config_field payload ''arm_timeout_ms'' (as_int co) (\<lambda>n. 1000 \<le> n \<and> n \<le> 120000) 15000) (\<lambda>arm.
        Option.bind (config_field payload ''flow_gap_ms'' (as_int co) (\<lambda>n. 50 \<le> n \<and> n \<le> 10000) 750) (\<lambda>gap.
        Option.bind (config_field payload ''settling_ms'' (as_int co) (\<lambda>n. 100 \<le> n \<and> n \<le> 30000) 1500) (\<lambda>settling.
        Option.bind (config_field payload ''completion_seconds'' (as_int co) (\<lambda>n. 0 \<le> n \<and> n \<le> 60) 9) (\<lambda>completion.
        Option.bind (config_field payload ''display_units'' (as_text co) (\<lambda>u. u \<in> {''ml'', ''l'', ''us_fl_oz''}) ''us_fl_oz'') (\<lambda>units.
        Option.bind (config_field payload ''verification_warning_pct'' (as_real co) (\<lambda>x. 1 / 10 \<le> x \<and> x \<le> 100) 5) (\<lambda>pct.
        Option.bind (config_field payload ''lan_mode'' (as_bool co) (\<lambda>_. True) False) (\<lambda>lan.
        Option.bind (config_field payload ''lan_display'' (as_bool co) (\<lambda>_. True) False) (\<lambda>display.
        Option.bind (config_field payload ''allow_test_shutdown'' (as_bool co) (\<lambda>_. True) False) (\<lambda>shutdown.
        Option.bind (config_field payload ''allowed_hosts'' (as_texts co) (\<lambda>xs. length xs \<le> 16) []) (\<lambda>hosts.
        Option.bind (config_field payload ''allowed_origins'' (as_texts co) (\<lambda>xs. length xs \<le> 16) []) (\<lambda>origins.
          let c = \<lparr>ac_host = host, ac_port = port, ac_demo = demo, ac_no_browser = no_browser, ac_serial_port = serial,
                   ac_arm_timeout_ms = arm, ac_flow_gap_ms = gap, ac_settling_ms = settling,
                   ac_completion_seconds = completion, ac_display_units = units, ac_verification_warning_pct = pct,
                   ac_lan_mode = lan, ac_lan_display = display, ac_allow_test_shutdown = shutdown,
                   ac_allowed_hosts = hosts, ac_allowed_origins = origins\<rparr>
          in if network_mode_ok c then Some c else None)))))))))))))))))"

section \<open>The command line\<close>

record arguments =
  ar_demo :: "bool option"
  ar_no_browser :: "bool option"
  ar_host :: "string option"
  ar_port :: "int option"
  ar_serial_port :: "string option"
  ar_lan :: "bool option"
  ar_lan_display :: bool
  ar_allowed_host :: "string list"
  ar_allowed_origin :: "string list"
  ar_allow_test_shutdown :: "bool option"

definition opt_setting :: "('a \<Rightarrow> setting) \<Rightarrow> 'a option \<Rightarrow> setting" where
  "opt_setting f v = (case v of None \<Rightarrow> SNull | Some x \<Rightarrow> f x)"

definition config_overrides :: "arguments \<Rightarrow> (string, setting) odict" where
  "config_overrides a =
     [(''demo'', opt_setting SBool (ar_demo a)), (''no_browser'', opt_setting SBool (ar_no_browser a)),
      (''serial_port'', opt_setting SText (ar_serial_port a)), (''lan_mode'', opt_setting SBool (ar_lan a)),
      (''lan_display'', SBool (ar_lan_display a)),
      (''allow_test_shutdown'', opt_setting SBool (ar_allow_test_shutdown a))] @
     (if truthy (ar_host a) then [(''host'', SText (the (ar_host a)))]
      else if ar_lan a = Some True then [(''host'', SText ''0.0.0.0'')] else []) @
     (case ar_port a of None \<Rightarrow> [] | Some n \<Rightarrow> (if n = 0 then [] else [(''port'', SInt n)])) @
     (if ar_allowed_host a = [] then [] else [(''allowed_hosts'', STexts (ar_allowed_host a))]) @
     (if ar_allowed_origin a = [] then [] else [(''allowed_origins'', STexts (ar_allowed_origin a))])"

text \<open>\<open>payload.update(...)\<close> with the overrides that are not \<open>None\<close>.\<close>

definition merged :: "(string, setting) odict \<Rightarrow> (string, setting) odict \<Rightarrow> (string, setting) odict" where
  "merged payload overrides =
     foldl (\<lambda>d (k, v). od_set d k v) payload (filter (\<lambda>(k, v). v \<noteq> SNull) overrides)"

text \<open>A file of the configuration: absent, too large, not an object, or an object.\<close>

datatype config_file = NoFile | TooLarge | NotAnObject | Object "(string, setting) odict"

definition load_config :: "coercions \<Rightarrow> config_file \<Rightarrow> (string, setting) odict \<Rightarrow> app_config option" where
  "load_config co file overrides =
     (case file of
        TooLarge \<Rightarrow> None
      | NotAnObject \<Rightarrow> None
      | NoFile \<Rightarrow> model_validate co (merged [] overrides)
      | Object payload \<Rightarrow> model_validate co (merged payload overrides))"

section \<open>The serial port\<close>

definition port_text :: "setting \<Rightarrow> string option" where
  "port_text v = (case v of SText t \<Rightarrow> (if text_between 1 260 t then Some t else None) | _ \<Rightarrow> None)"

definition first_some :: "'a option list \<Rightarrow> 'a option" where
  "first_some xs = (case filter (\<lambda>x. x \<noteq> None) xs of [] \<Rightarrow> None | x # _ \<Rightarrow> x)"

text \<open>The command line, the stored setting, the configuration, the device confirmed last.\<close>

definition preferred_serial_port :: "setting \<Rightarrow> setting \<Rightarrow> setting \<Rightarrow> setting \<Rightarrow> string option" where
  "preferred_serial_port override stored configured confirmed =
     first_some (map port_text [override, stored, configured, confirmed])"

record port_provider =
  pp_preferred :: "string option"
  pp_index :: nat

definition new_provider :: port_provider where
  "new_provider = \<lparr>pp_preferred = None, pp_index = 0\<rparr>"

definition prefer_port :: "string option \<Rightarrow> port_provider \<Rightarrow> unit result \<times> port_provider" where
  "prefer_port port p =
     (case port of
        Some t \<Rightarrow>
          (if \<not> text_between 1 260 t then
             (Inl (ValueError ''serial port preference must be 1 to 260 characters or None''), p)
           else (Inr (), p\<lparr>pp_preferred := port, pp_index := 0\<rparr>))
      | None \<Rightarrow> (Inr (), p\<lparr>pp_preferred := port, pp_index := 0\<rparr>))"

text \<open>\<open>extend\<close> appends while the generator it reads looks at the list, so repeated ports are dropped.\<close>

fun extend_new :: "string list \<Rightarrow> string list \<Rightarrow> string list" where
  "extend_new ordered [] = ordered"
| "extend_new ordered (c # cs) = extend_new (if c \<in> set ordered then ordered else ordered @ [c]) cs"

definition ordered_ports :: "string list \<Rightarrow> port_provider \<Rightarrow> string list" where
  "ordered_ports devices p =
     extend_new (if truthy (pp_preferred p) then [the (pp_preferred p)] else []) (filter (\<lambda>d. d \<noteq> []) devices)"

definition next_port :: "string list \<Rightarrow> port_provider \<Rightarrow> string result \<times> port_provider" where
  "next_port devices p =
     (let ordered = ordered_ports devices p
      in if ordered = [] then
           (Inl (TransportUnavailable ''no serial ports found; connect the Nano or select demo mode''), p)
         else (Inr (ordered ! (pp_index p mod length ordered)), p\<lparr>pp_index := pp_index p + 1\<rparr>))"

definition confirm_port :: "string \<Rightarrow> port_provider \<Rightarrow> unit result \<times> port_provider" where
  "confirm_port port p = prefer_port (Some port) p"

section \<open>What a loaded configuration guarantees\<close>

lemma field_admitted:
  "config_field payload key convert admitted fallback = Some x \<Longrightarrow> admitted fallback \<Longrightarrow> admitted x"
  by (auto simp: config_field_def split: option.split_asm if_split_asm)

lemma validated_network: "model_validate co payload = Some c \<Longrightarrow> network_mode_ok c"
  by (auto simp: model_validate_def Let_def split: if_split_asm Option.bind_split_asm)

lemma od_get_fold_other:
  "k \<notin> fst ` set kvs \<Longrightarrow> od_get (foldl (\<lambda>d (k, v). od_set d k v) d kvs) k = od_get d k"
  by (induction kvs arbitrary: d) (auto simp: od_get_set)

lemma override_display:
  "od_get (merged payload (config_overrides a)) ''lan_display'' = Some (SBool (ar_lan_display a))"
proof -
  define rest where "rest = [(''allow_test_shutdown'', opt_setting SBool (ar_allow_test_shutdown a))] @
     (if truthy (ar_host a) then [(''host'', SText (the (ar_host a)))]
      else if ar_lan a = Some True then [(''host'', SText ''0.0.0.0'')] else []) @
     (case ar_port a of None \<Rightarrow> [] | Some n \<Rightarrow> (if n = 0 then [] else [(''port'', SInt n)])) @
     (if ar_allowed_host a = [] then [] else [(''allowed_hosts'', STexts (ar_allowed_host a))]) @
     (if ar_allowed_origin a = [] then [] else [(''allowed_origins'', STexts (ar_allowed_origin a))])"
  have split: "config_overrides a =
      [(''demo'', opt_setting SBool (ar_demo a)), (''no_browser'', opt_setting SBool (ar_no_browser a)),
       (''serial_port'', opt_setting SText (ar_serial_port a)), (''lan_mode'', opt_setting SBool (ar_lan a))] @
      (''lan_display'', SBool (ar_lan_display a)) # rest"
    by (simp add: config_overrides_def rest_def)
  have "''lan_display'' \<notin> fst ` set (filter (\<lambda>(k, v). v \<noteq> SNull) rest)"
    by (auto simp: rest_def split: if_split_asm option.split_asm)
  then show ?thesis unfolding merged_def split by (simp add: od_get_fold_other od_get_set)
qed

text \<open>
  The switch \<open>--lan-display\<close> has no \<open>default=None\<close>, so its absence overrides the file: a display mode
  set in the configuration file never takes effect, while the other switches leave the file alone.
\<close>

theorem lan_display_of_file_ignored:
  assumes "load_config co file (config_overrides a) = Some c" "\<not> ar_lan_display a"
    and "\<And>b. as_bool co (SBool b) = Some b"
  shows "\<not> ac_lan_display c"
proof -
  obtain payload where v: "model_validate co (merged payload (config_overrides a)) = Some c"
    using assms(1) by (auto simp: load_config_def split: config_file.split_asm)
  have "config_field (merged payload (config_overrides a)) ''lan_display'' (as_bool co) (\<lambda>_. True) False = Some False"
    by (simp add: config_field_def override_display assms(2,3))
  then show ?thesis
    using v by (auto simp: model_validate_def Let_def split: if_split_asm Option.bind_split_asm)
qed

end
