(* ===== verification/KP_Kiosk.thy ===== *)
theory KP_Kiosk
  imports KP_Coordinator KP_Reads KP_Config
begin

text \<open>
  The coordinator's face to the browsers, \<open>application/coordinator.py\<close>: the request for a camera
  clip, the snapshot of the whole state, and its broadcast to the subscribers' queues.
\<close>

section \<open>The camera request\<close>

datatype clip_status = Pending | ClipDone | ClipFailed | Expired

record camera_request =
  cm_id :: string
  cm_seconds :: int
  cm_status :: clip_status
  cm_requested_at :: int
  cm_expires :: int
  cm_file :: "string option"
  cm_detail :: "string option"

definition CAMERA_GRACE_SECONDS :: int where "CAMERA_GRACE_SECONDS = 30"

text \<open>Subscribers have a number; a queue holds its snapshots oldest first.\<close>

record 's kiosk =
  ki_camera :: "camera_request option"
  ki_subscribers :: "(nat, 's list) odict"

definition camera_request_now :: "int \<Rightarrow> 's kiosk \<Rightarrow> camera_request option \<times> 's kiosk" where
  "camera_request_now now k =
     (case ki_camera k of
        None \<Rightarrow> (None, k)
      | Some r \<Rightarrow>
          let r1 = (if cm_status r = Pending \<and> now > cm_expires r then r\<lparr>cm_status := Expired\<rparr> else r)
          in (Some r1, k\<lparr>ki_camera := Some r1\<rparr>))"

definition request_recording :: "int \<Rightarrow> string \<Rightarrow> int \<Rightarrow> 's kiosk \<Rightarrow> 's kiosk" where
  "request_recording now clip_id seconds k =
     k\<lparr>ki_camera := Some
        \<lparr>cm_id = clip_id, cm_seconds = seconds, cm_status = Pending, cm_requested_at = now,
         cm_expires = now + (seconds + CAMERA_GRACE_SECONDS) * 1000, cm_file = None, cm_detail = None\<rparr>\<rparr>"

definition resolve_recording ::
    "int \<Rightarrow> string \<Rightarrow> string option \<Rightarrow> string option \<Rightarrow> 's kiosk \<Rightarrow> unit result \<times> 's kiosk" where
  "resolve_recording now clip_id file detail k =
     (case camera_request_now now k of
        (None, k1) \<Rightarrow> (Inl (ConflictError ''no matching camera request''), k1)
      | (Some r, k1) \<Rightarrow>
          if cm_id r \<noteq> clip_id then (Inl (ConflictError ''no matching camera request''), k1)
          else if cm_status r \<noteq> Pending then (Inl (ConflictError ''camera request already settled''), k1)
          else (Inr (), k1\<lparr>ki_camera := Some
                 (r\<lparr>cm_status := (if truthy file then ClipDone else ClipFailed), cm_file := file, cm_detail := detail\<rparr>)\<rparr>))"

section \<open>Subscribers\<close>

definition QUEUE_SIZE :: nat where "QUEUE_SIZE = 2"

text \<open>A full queue loses its oldest snapshot; a queue that is full even then is dropped.\<close>

definition broadcast :: "'s \<Rightarrow> 's kiosk \<Rightarrow> 's kiosk" where
  "broadcast snap k =
     (let made_room = map (\<lambda>(i, q). (i, if QUEUE_SIZE \<le> length q then tl q else q)) (ki_subscribers k)
      in k\<lparr>ki_subscribers :=
           map (\<lambda>(i, q). (i, q @ [snap])) (filter (\<lambda>(i, q). length q < QUEUE_SIZE) made_room)\<rparr>)"

definition subscribe :: "nat \<Rightarrow> 's \<Rightarrow> 's kiosk \<Rightarrow> 's kiosk" where
  "subscribe i snap k = k\<lparr>ki_subscribers := od_set (ki_subscribers k) i [snap]\<rparr>"

definition unsubscribe :: "nat \<Rightarrow> 's kiosk \<Rightarrow> 's kiosk" where
  "unsubscribe i k = k\<lparr>ki_subscribers := od_pop (ki_subscribers k) i\<rparr>"

section \<open>The snapshot\<close>

record snapshot_settings =
  ns_display_units :: json
  ns_completion_seconds :: json
  ns_verification_warning_pct :: "json option"
  ns_arm_timeout_ms :: int
  ns_flow_gap_ms :: int
  ns_settling_ms :: int
  ns_serial_port :: json
  ns_lan_mode :: bool
  ns_ui_build :: "string option"
  ns_webcam_enabled :: bool

record snapshot =
  np_revision :: int
  np_generated_at :: int
  np_demo :: bool
  np_connection :: "connection_state \<times> string \<times> nat"
  np_identity :: field_dict
  np_status :: "(string, string option) odict"
  np_counters :: "(string, string option) odict"
  np_session :: "(string \<times> provisional) option"
  np_terminal_notice :: "(string \<times> provisional) option"
  np_pending_capture :: "(string \<times> provisional) option"
  np_live_volume_ml :: "rat option"
  np_participants :: "(string \<times> participant) list"
  np_keg :: "(string \<times> keg) option"
  np_inventory :: "inventory_state option"
  np_calibration :: "(string \<times> calibration) option"
  np_last_verification :: "(string \<times> verification_row) option"
  np_last_pour :: "pour_row option"
  np_unattributed :: "(string \<times> pour \<times> rat option \<times> string option) list"
  np_camera :: "camera_request option"
  np_needs :: "bool \<times> bool \<times> bool"
  np_settings :: snapshot_settings

definition shown :: "string list \<Rightarrow> field_dict \<Rightarrow> (string, string option) odict" where
  "shown hidden flds = foldl (\<lambda>d k. od_set d k None) (map (\<lambda>(k, v). (k, Some v)) flds) hidden"

text \<open>The device status as shown: counters that do not parse are withheld.\<close>

definition status_shown :: "field_dict \<Rightarrow> status_pulse_snapshot option \<times> (string, string option) odict" where
  "status_shown flds =
     (if flds = [] then (None, [])
      else
        (case parse_status_pulse_snapshot flds of
           Inr p \<Rightarrow> (Some p, shown [] flds)
         | Inl _ \<Rightarrow> (None, shown [''pulses'', ''lifetime''] flds)))"

definition live_volume :: "status_pulse_snapshot option \<Rightarrow> (string \<times> calibration) option \<Rightarrow> rat option" where
  "live_volume pulses cal =
     (case (pulses, cal) of
        (Some p, Some (i, c)) \<Rightarrow> map_option (dec_div DEFAULT_PREC (of_int (ss_session_pulses p))) (cb_pulses_per_ml c)
      | _ \<Rightarrow> None)"

definition counters_shown :: "field_dict \<Rightarrow> field_dict \<Rightarrow> (string, string option) odict" where
  "counters_shown status counters =
     (if status = [] \<or> counters = [] then shown [] counters
      else
        (case bind_res (to_int (field status ''uptime'')) (\<lambda>n. parse_counter_snapshot counters (VInt n)) of
           Inr _ \<Rightarrow> shown [] counters
         | Inl _ \<Rightarrow> shown [''accepted'', ''recovery'', ''rejected''] counters))"

text \<open>A setting as shown: the stored value, or the configured one.\<close>

definition settings_shown :: "app_config \<Rightarrow> string option \<Rightarrow> coordinator \<Rightarrow> snapshot_settings" where
  "settings_shown config ui_build c =
     (let s = co_store c in
      \<lparr>ns_display_units = get_setting s ''display_units'' (JStr (ac_display_units config)),
       ns_completion_seconds = get_setting s ''completion_seconds'' (JInt (ac_completion_seconds config)),
       ns_verification_warning_pct = od_get (st_settings s) ''verification_warning_pct'',
       ns_arm_timeout_ms = arm_timeout_ms c,
       ns_flow_gap_ms = ac_flow_gap_ms config,
       ns_settling_ms = ac_settling_ms config,
       ns_serial_port = get_setting s ''serial_port'' (case ac_serial_port config of None \<Rightarrow> JNull | Some t \<Rightarrow> JStr t),
       ns_lan_mode = ac_lan_mode config,
       ns_ui_build = ui_build,
       ns_webcam_enabled = json_truth (get_setting s ''webcam_enabled'' (JBool False))\<rparr>)"

text \<open>\<open>ns_verification_warning_pct\<close> is \<open>None\<close> where the configured number is shown.\<close>

definition snapshot_of ::
    "app_config \<Rightarrow> string option \<Rightarrow> (rat \<Rightarrow> rat) \<Rightarrow> int \<Rightarrow> manager \<Rightarrow> coordinator \<Rightarrow> snapshot kiosk \<Rightarrow>
     snapshot result \<times> snapshot kiosk" where
  "snapshot_of config ui_build cast now mg c k =
     (let s = co_store c;
          participants = list_participants True s;
          (pulses, status) = status_shown (mg_status mg)
      in case inventory None s of
           Inl e \<Rightarrow> (Inl e, k)
         | Inr stock \<Rightarrow>
             let (camera, k1) = camera_request_now now k
             in (Inr
                  \<lparr>np_revision = co_revision c, np_generated_at = now, np_demo = ac_demo config,
                   np_connection = (mg_state mg, mg_detail mg, mg_overflow_count mg),
                   np_identity = mg_identity mg, np_status = status,
                   np_counters = counters_shown (mg_status mg) (mg_counters mg),
                   np_session = active_provisional s,
                   np_terminal_notice = recent_terminal_provisional now 300 s,
                   np_pending_capture = latest_pending_capture s,
                   np_live_volume_ml = live_volume pulses (active_calibration s),
                   np_participants = participants, np_keg = current_keg s, np_inventory = stock,
                   np_calibration = active_calibration s,
                   np_last_verification = first_row (list_verifications 1 s),
                   np_last_pour = first_row (list_pours cast 1 None False None s),
                   np_unattributed = recent_unattributed_pours 4 s,
                   np_camera = camera,
                   np_needs = (current_keg s = None, active_calibration s = None, participants = []),
                   np_settings = settings_shown config ui_build c\<rparr>, k1))"

text \<open>\<open>publish\<close>: a new revision, and its snapshot to every subscriber.  Without subscribers none is made.\<close>

definition publish ::
    "app_config \<Rightarrow> string option \<Rightarrow> (rat \<Rightarrow> rat) \<Rightarrow> int \<Rightarrow> manager \<Rightarrow> coordinator \<Rightarrow> snapshot kiosk \<Rightarrow>
     unit result \<times> coordinator \<times> snapshot kiosk" where
  "publish config ui_build cast now mg c k =
     (let c1 = c\<lparr>co_revision := co_revision c + 1\<rparr>
      in if ki_subscribers k = [] then (Inr (), c1, k)
         else
           (case snapshot_of config ui_build cast now mg c1 k of
              (Inl e, k1) \<Rightarrow> (Inl e, c1, k1)
            | (Inr snap, k1) \<Rightarrow> (Inr (), c1, broadcast snap k1)))"

section \<open>Facts about subscribers\<close>

definition queues_ok :: "'s kiosk \<Rightarrow> bool" where
  "queues_ok k \<longleftrightarrow> (\<forall>(i, q)\<in>set (ki_subscribers k). q \<noteq> [] \<and> length q \<le> QUEUE_SIZE)"

text \<open>No subscriber is dropped, no queue grows beyond its size, and the newest snapshot is last in each.\<close>

lemma broadcast_queues:
  assumes "queues_ok k"
  shows "queues_ok (broadcast snap k)" "od_keys (ki_subscribers (broadcast snap k)) = od_keys (ki_subscribers k)"
    "(i, q) \<in> set (ki_subscribers (broadcast snap k)) \<Longrightarrow> last q = snap"
proof -
  let ?room = "map (\<lambda>(i, q). (i, if QUEUE_SIZE \<le> length q then tl q else q)) (ki_subscribers k)"
  have "filter (\<lambda>(i, q). length q < QUEUE_SIZE) ?room = ?room"
    using assms by (auto simp: filter_id_conv queues_ok_def QUEUE_SIZE_def)
  then have b: "ki_subscribers (broadcast snap k) = map (\<lambda>(i, q). (i, q @ [snap])) ?room"
    by (simp add: broadcast_def)
  show "od_keys (ki_subscribers (broadcast snap k)) = od_keys (ki_subscribers k)"
    by (simp add: b od_keys_def case_prod_unfold)
  show "queues_ok (broadcast snap k)"
    using assms by (auto simp: queues_ok_def b QUEUE_SIZE_def)
  show "(i, q) \<in> set (ki_subscribers (broadcast snap k)) \<Longrightarrow> last q = snap" by (auto simp: b)
qed

section \<open>The life of a camera request\<close>

inductive clip_step :: "camera_request \<Rightarrow> camera_request \<Rightarrow> bool" where
  expire: "cm_status r = Pending \<Longrightarrow> clip_step r (r\<lparr>cm_status := Expired\<rparr>)"
| finish: "cm_status r = Pending \<Longrightarrow> truthy f \<Longrightarrow> clip_step r (r\<lparr>cm_status := ClipDone, cm_file := f, cm_detail := d\<rparr>)"
| fail: "cm_status r = Pending \<Longrightarrow> \<not> truthy f \<Longrightarrow> clip_step r (r\<lparr>cm_status := ClipFailed, cm_file := f, cm_detail := d\<rparr>)"

inductive_cases clip_stepE: "clip_step r r'"

lemma settled_stays: "clip_step\<^sup>*\<^sup>* r r' \<Longrightarrow> cm_status r \<noteq> Pending \<Longrightarrow> r' = r"
  by (induction rule: converse_rtranclp_induct) (auto elim: clip_stepE)

datatype clip_op = Look int | Record int string int | Resolve int string "string option" "string option"

fun clip_run :: "clip_op \<Rightarrow> 's kiosk \<Rightarrow> 's kiosk" where
  "clip_run (Look now) k = snd (camera_request_now now k)"
| "clip_run (Record now i n) k = request_recording now i n k"
| "clip_run (Resolve now i f d) k = snd (resolve_recording now i f d k)"

lemma look_steps:
  "ki_camera k = Some r \<Longrightarrow> \<exists>r'. camera_request_now now k = (Some r', k\<lparr>ki_camera := Some r'\<rparr>) \<and> clip_step\<^sup>*\<^sup>* r r'"
  by (auto simp: camera_request_now_def Let_def intro: clip_step.expire)

lemma clip_run_steps:
  assumes "ki_camera k = Some r" "\<And>now i n. op \<noteq> Record now i n"
  shows "\<exists>r'. ki_camera (clip_run op k) = Some r' \<and> clip_step\<^sup>*\<^sup>* r r'"
proof (cases op)
  case (Look now)
  then show ?thesis using look_steps [OF assms(1), of now] by auto
next
  case (Resolve now i f d)
  obtain r1 where r1: "camera_request_now now k = (Some r1, k\<lparr>ki_camera := Some r1\<rparr>)" "clip_step\<^sup>*\<^sup>* r r1"
    using look_steps [OF assms(1)] by blast
  show ?thesis
  proof (cases "cm_id r1 = i \<and> cm_status r1 = Pending")
    case True
    let ?r2 = "r1\<lparr>cm_status := (if truthy f then ClipDone else ClipFailed), cm_file := f, cm_detail := d\<rparr>"
    have "clip_step r1 ?r2" using True clip_step.finish [of r1 f d] clip_step.fail [of r1 f d] by auto
    then have "clip_step\<^sup>*\<^sup>* r ?r2" using r1(2) by simp
    then show ?thesis using r1(1) True by (simp add: Resolve resolve_recording_def)
  next
    case False
    then show ?thesis using r1 by (auto simp: Resolve resolve_recording_def)
  qed
qed (use assms(2) in simp)

lemma clip_history_steps:
  "\<forall>op\<in>set ops. \<forall>now i n. op \<noteq> Record now i n \<Longrightarrow> ki_camera k = Some r \<Longrightarrow>
   \<exists>r'. ki_camera (run_ops clip_run ops k) = Some r' \<and> clip_step\<^sup>*\<^sup>* r r'"
proof (induction ops arbitrary: k r)
  case (Cons op ops)
  obtain r1 where r1: "ki_camera (clip_run op k) = Some r1" "clip_step\<^sup>*\<^sup>* r r1"
    using clip_run_steps [OF Cons.prems(2), of op] Cons.prems(1) by auto
  obtain r2 where "ki_camera (run_ops clip_run ops (clip_run op k)) = Some r2" "clip_step\<^sup>*\<^sup>* r1 r2"
    using Cons.IH [OF _ r1(1)] Cons.prems(1) by auto
  then show ?case using r1(2) by (auto intro: rtranclp_trans)
qed simp

text \<open>A camera request is settled once: along any history of looks and answers, as long as no new clip
  is requested, the request moves by the steps \<open>expire\<close>, \<open>finish\<close> and \<open>fail\<close> only, each of which
  leaves the pending state, so the first outcome is the one that stays.\<close>

theorem camera_request_settles_once:
  assumes "ki_camera k = Some r" "\<forall>op\<in>set (ops1 @ ops2). \<forall>now i n. op \<noteq> Record now i n"
    and "ki_camera (run_ops clip_run ops1 k) = Some r1"
  shows "clip_step\<^sup>*\<^sup>* r r1 \<and>
    (cm_status r1 \<noteq> Pending \<longrightarrow> ki_camera (run_ops clip_run ops2 (run_ops clip_run ops1 k)) = Some r1)"
proof -
  have "clip_step\<^sup>*\<^sup>* r r1" using clip_history_steps [of ops1 k r] assms by auto
  moreover obtain r2 where "ki_camera (run_ops clip_run ops2 (run_ops clip_run ops1 k)) = Some r2" "clip_step\<^sup>*\<^sup>* r1 r2"
    using clip_history_steps [OF _ assms(3), of ops2] assms(2) by auto
  ultimately show ?thesis using settled_stays by auto
qed

definition demo_kiosk :: "nat kiosk" where
  "demo_kiosk = request_recording 1000 ''c1'' 8 \<lparr>ki_camera = None, ki_subscribers = []\<rparr>"

theorem camera_request_settles_once_witness:
  "\<exists>r. cm_status r = Expired \<and>
     ki_camera (run_ops clip_run [Resolve 40000 ''c1'' (Some ''f.webm'') None] (run_ops clip_run [Look 39001] demo_kiosk)) = Some r"
proof -
  let ?r0 = "the (ki_camera demo_kiosk)" and ?r1 = "the (ki_camera (run_ops clip_run [Look 39001] demo_kiosk))"
  have first: "ki_camera demo_kiosk = Some ?r0" "ki_camera (run_ops clip_run [Look 39001] demo_kiosk) = Some ?r1"
    "cm_status ?r1 = Expired"
    by (simp_all add: demo_kiosk_def request_recording_def camera_request_now_def CAMERA_GRACE_SECONDS_def Let_def)
  have "\<forall>op\<in>set ([Look 39001] @ [Resolve 40000 ''c1'' (Some ''f.webm'') None]). \<forall>now i n. op \<noteq> Record now i n" by simp
  from camera_request_settles_once [OF first(1) this first(2)] first(3) show ?thesis by (metis clip_status.distinct(5))
qed

end
