(* ===== verification/KP_Api.thy ===== *)
theory KP_Api
  imports KP_Requests KP_Kiosk KP_Security
begin

text \<open>
  The HTTP routes of \<open>src/kegpulse/app.py\<close> that change the state: the guard each one calls, the
  checks it makes, the repository and coordinator calls in their order, and the publication of the
  new state.  The answer is the value the route returns or the response of the exception handlers.
  The photos and clips, which also write files, are in the theory of the evidence.
\<close>

section \<open>State\<close>

text \<open>The application; the database is the one of the coordinator.\<close>

record server =
  sv_co :: coordinator
  sv_security :: security
  sv_kiosk :: "snapshot kiosk"
  sv_provider :: port_provider
  sv_reconnect :: bool

text \<open>What is fixed when the application is created, with pydantic's \<open>trim\<close>, the digest \<open>scrypt\<close>, the
  cast of a decimal text to a double, and \<open>str\<close> of a decimal, which shows its exponent.\<close>

record env =
  ev_config :: app_config
  ev_ui_build :: "string option"
  ev_cast :: "rat \<Rightarrow> rat"
  ev_decimal_text :: "rat \<Rightarrow> string"
  ev_trim :: "string \<Rightarrow> string"
  ev_scrypt :: "string \<Rightarrow> string \<Rightarrow> string"

text \<open>What a request brings, and what its handler gets from outside: the clocks, random identifiers, the manager.\<close>

record hit =
  hi_request :: request
  hi_clock :: int
  hi_moment :: moment
  hi_manager :: manager
  hi_id1 :: string
  hi_id2 :: string
  hi_id3 :: string

type_synonym 'a answer = "(web_error + 'a) \<times> server"

definition http_error :: "py_exc \<Rightarrow> web_error" where
  "http_error e =
     (case e of
        NotFoundError m \<Rightarrow> Http 404 m
      | ConflictError m \<Rightarrow> Http 409 m
      | AuthorizationError m \<Rightarrow> Http 403 m
      | DomainError m \<Rightarrow> Http 422 m
      | MeasurementRejectedError m \<Rightarrow> Http 422 m
      | _ \<Rightarrow> Raised e)"

definition on_security :: "(security \<Rightarrow> 'a web) \<Rightarrow> server \<Rightarrow> 'a answer" where
  "on_security f s =
     (let (r, x) = f ((sv_security s)\<lparr>se_store := co_store (sv_co s)\<rparr>)
      in (r, s\<lparr>sv_security := x, sv_co := (sv_co s)\<lparr>co_store := se_store x\<rparr>\<rparr>))"

definition on_coordinator :: "(coordinator \<Rightarrow> 'a result \<times> coordinator) \<Rightarrow> server \<Rightarrow> 'a answer" where
  "on_coordinator f s =
     (case f (sv_co s) of
        (Inl e, c) \<Rightarrow> (Inl (http_error e), s\<lparr>sv_co := c\<rparr>)
      | (Inr x, c) \<Rightarrow> (Inr x, s\<lparr>sv_co := c\<rparr>))"

definition on_database :: "(store \<Rightarrow> 'a result \<times> store) \<Rightarrow> server \<Rightarrow> 'a answer" where
  "on_database f = on_coordinator (on_store f)"

definition database :: "server \<Rightarrow> store" where
  "database s = co_store (sv_co s)"

definition publish_state :: "env \<Rightarrow> hit \<Rightarrow> server \<Rightarrow> unit answer" where
  "publish_state env h s =
     (case publish (ev_config env) (ev_ui_build env) (ev_cast env) (mo_now (hi_moment h)) (hi_manager h) (sv_co s) (sv_kiosk s) of
        (Inl e, c, k) \<Rightarrow> (Inl (http_error e), s\<lparr>sv_co := c, sv_kiosk := k\<rparr>)
      | (Inr _, c, k) \<Rightarrow> (Inr (), s\<lparr>sv_co := c, sv_kiosk := k\<rparr>))"

definition validated :: "'a option \<Rightarrow> ('a \<Rightarrow> server \<Rightarrow> 'b answer) \<Rightarrow> server \<Rightarrow> 'b answer" where
  "validated v f s = (case v of None \<Rightarrow> (Inl (Http 422 ''request validation failed''), s) | Some x \<Rightarrow> f x s)"

definition respond :: "int \<Rightarrow> string \<Rightarrow> server \<Rightarrow> 'a answer" where
  "respond status detail s = (Inl (Http status detail), s)"

text \<open>A repository call whose row is returned after the publication.\<close>

definition commit_and_publish :: "env \<Rightarrow> hit \<Rightarrow> (store \<Rightarrow> 'a result \<times> store) \<Rightarrow> server \<Rightarrow> 'a answer" where
  "commit_and_publish env h op s =
     bind_st (on_database op s) (\<lambda>row s. bind_st (publish_state env h s) (\<lambda>_ s. (Inr row, s)))"

section \<open>Guards\<close>

definition operational :: "hit \<Rightarrow> server \<Rightarrow> sec_session answer" where
  "operational h = on_security (require_operational (hi_clock h) (hi_request h))"

definition admin :: "hit \<Rightarrow> server \<Rightarrow> sec_session answer" where
  "admin h = on_security (require_admin (hi_clock h) (hi_request h))"

definition manager_admin :: "hit \<Rightarrow> server \<Rightarrow> unit answer" where
  "manager_admin h = on_security (management_admin (hi_clock h) (hi_request h) True)"

definition now_of :: "hit \<Rightarrow> int" where
  "now_of h = mo_now (hi_moment h)"

section \<open>People\<close>

definition api_create_participant :: "env \<Rightarrow> hit \<Rightarrow> string \<Rightarrow> server \<Rightarrow> participant answer" where
  "api_create_participant env h name =
     validated (ParticipantCreate (ev_trim env) name) (\<lambda>n s.
       bind_st (admin h s) (\<lambda>_ s. commit_and_publish env h (create_participant (hi_id1 h) (now_of h) n) s))"

definition api_update_participant :: "env \<Rightarrow> hit \<Rightarrow> string \<Rightarrow> string option \<Rightarrow> bool option \<Rightarrow> server \<Rightarrow> participant answer" where
  "api_update_participant env h participant_id name active =
     validated (ParticipantUpdate (ev_trim env) name active) (\<lambda>(n, a) s.
       bind_st (admin h s) (\<lambda>_ s. commit_and_publish env h (update_participant (now_of h) participant_id n a) s))"

definition api_adjust_funds :: "env \<Rightarrow> hit \<Rightarrow> string \<Rightarrow> rat option \<Rightarrow> string \<Rightarrow> server \<Rightarrow> participant option answer" where
  "api_adjust_funds env h participant_id amount reason =
     validated (FundAdjustmentRequest (ev_trim env) amount reason) (\<lambda>(a, r) s.
       bind_st (manager_admin h s) (\<lambda>_ s.
         commit_and_publish env h
           (adjust_participant_balance (hi_id1 h) (now_of h) participant_id (VInt \<lfloor>a * 100\<rfloor>) r) s))"

section \<open>Sessions\<close>

definition api_arm_session :: "env \<Rightarrow> hit \<Rightarrow> string option \<Rightarrow> string \<Rightarrow> server \<Rightarrow> provisional option answer" where
  "api_arm_session env h participant_id key =
     validated (ArmRequest (ev_trim env) participant_id key) (\<lambda>(p, k) s.
       bind_st (operational h s) (\<lambda>_ s. on_coordinator (arm_pour (hi_moment h) p k) s))"

definition api_cancel_session :: "hit \<Rightarrow> server \<Rightarrow> provisional answer" where
  "api_cancel_session h s =
     bind_st (operational h s) (\<lambda>_ s. on_coordinator (cancel_session (hi_moment h)) s)"

section \<open>Kegs\<close>

definition api_replace_keg ::
    "env \<Rightarrow> hit \<Rightarrow> string \<Rightarrow> rat option \<Rightarrow> string \<Rightarrow> timestamp option \<Rightarrow> server \<Rightarrow> keg answer" where
  "api_replace_keg env h label volume notes installed_at =
     validated (KegRequest (ev_trim env) label volume notes installed_at) (\<lambda>(l, v, n, t) s.
       bind_st (admin h s) (\<lambda>_ s. commit_and_publish env h (replace_keg (hi_id1 h) (now_of h) l (Some v) n t) s))"

definition api_adjust_keg :: "env \<Rightarrow> hit \<Rightarrow> string \<Rightarrow> rat option \<Rightarrow> string \<Rightarrow> server \<Rightarrow> adjustment answer" where
  "api_adjust_keg env h keg_id amount reason =
     validated (AdjustmentRequest (ev_trim env) amount reason) (\<lambda>(a, r) s.
       bind_st (admin h s) (\<lambda>_ s. commit_and_publish env h (adjust_inventory (hi_id1 h) (now_of h) keg_id (Some a) r) s))"

definition api_set_keg_remaining :: "env \<Rightarrow> hit \<Rightarrow> rat option \<Rightarrow> string \<Rightarrow> server \<Rightarrow> adjustment answer" where
  "api_set_keg_remaining env h percent reason =
     validated (KegRemainingUpdate (ev_trim env) percent reason) (\<lambda>(p, r) s.
       bind_st (manager_admin h s) (\<lambda>_ s.
         commit_and_publish env h (set_current_keg_remaining_percent (hi_id1 h) (now_of h) (Some p) r) s))"

section \<open>Calibrations\<close>

definition api_create_calibration :: "env \<Rightarrow> hit \<Rightarrow> string \<Rightarrow> rat option \<Rightarrow> string \<Rightarrow> server \<Rightarrow> calibration answer" where
  "api_create_calibration env h liquid density notes =
     validated (CalibrationCreate (ev_trim env) liquid density notes) (\<lambda>(l, d, n) s.
       bind_st (admin h s) (\<lambda>_ s. commit_and_publish env h (create_calibration (hi_id1 h) (now_of h) l (Some d) n) s))"

definition api_add_calibration_sample ::
    "env \<Rightarrow> hit \<Rightarrow> string \<Rightarrow> int \<Rightarrow> int \<Rightarrow> rat option \<Rightarrow> rat option \<Rightarrow> bool \<Rightarrow> server \<Rightarrow> sample_row option answer" where
  "api_add_calibration_sample env h calibration_id ordinal raw mass density included =
     validated (CalibrationSampleRequest ordinal raw mass density) (\<lambda>(n, r, m, d) s.
       bind_st (admin h s) (\<lambda>_ s.
         commit_and_publish env h
           (add_calibration_sample (hi_id1 h) (now_of h) calibration_id (VInt n) (VInt r) (Some m) (Some d) included) s))"

definition api_arm_calibration_capture ::
    "env \<Rightarrow> hit \<Rightarrow> string \<Rightarrow> string \<Rightarrow> int option \<Rightarrow> server \<Rightarrow> provisional option answer" where
  "api_arm_calibration_capture env h calibration_id key ordinal =
     validated (CaptureArmRequest (ev_trim env) key ordinal) (\<lambda>(k, n) s.
       bind_st (admin h s) (\<lambda>_ s.
         case n of
           None \<Rightarrow> respond 422 ''sample ordinal is required'' s
         | Some i \<Rightarrow>
             on_coordinator (arm_for_purpose (hi_moment h) None k ''calibration'' (Some calibration_id) (Some i)) s))"

definition api_commit_calibration_capture ::
    "env \<Rightarrow> hit \<Rightarrow> string \<Rightarrow> string \<Rightarrow> rat option \<Rightarrow> rat option \<Rightarrow> bool \<Rightarrow> server \<Rightarrow> sample_row option answer" where
  "api_commit_calibration_capture env h calibration_id session_id mass density included =
     validated (CapturedMeasurementRequest (ev_trim env) session_id mass density) (\<lambda>(i, m, d) s.
       bind_st (admin h s) (\<lambda>_ s.
         case stored_session i (database s) of
           Inl e \<Rightarrow> (Inl (http_error e), s)
         | Inr v \<Rightarrow>
             if pv_calibration_id v \<noteq> Some calibration_id then respond 409 ''capture belongs to another calibration'' s
             else commit_and_publish env h
                    (consume_calibration_capture (hi_id1 h) (now_of h) i (Some m) (Some d) included) s))"

definition api_include_calibration_sample ::
    "env \<Rightarrow> hit \<Rightarrow> string \<Rightarrow> int \<Rightarrow> bool \<Rightarrow> server \<Rightarrow> sample_row option answer" where
  "api_include_calibration_sample env h calibration_id ordinal included s =
     bind_st (admin h s) (\<lambda>_ s. commit_and_publish env h (set_sample_included calibration_id ordinal included) s)"

definition api_activate_calibration :: "env \<Rightarrow> hit \<Rightarrow> string \<Rightarrow> server \<Rightarrow> calibration option answer" where
  "api_activate_calibration env h calibration_id s =
     bind_st (admin h s) (\<lambda>_ s. commit_and_publish env h (activate_calibration (now_of h) calibration_id) s)"

definition api_activate_provisional :: "env \<Rightarrow> hit \<Rightarrow> string \<Rightarrow> server \<Rightarrow> calibration option answer" where
  "api_activate_provisional env h calibration_id s =
     bind_st (admin h s) (\<lambda>_ s. commit_and_publish env h (activate_provisional_calibration (now_of h) calibration_id) s)"

section \<open>Verification\<close>

text \<open>The stored threshold, or the configured one.\<close>

definition warning_threshold :: "env \<Rightarrow> server \<Rightarrow> rat option" where
  "warning_threshold env s =
     (case od_get (st_settings (database s)) ''verification_warning_pct'' of
        None \<Rightarrow> Some (ac_verification_warning_pct (ev_config env))
      | Some v \<Rightarrow> (case decimal_of_json v of Some (Finite x) \<Rightarrow> Some x | _ \<Rightarrow> None))"

definition api_verification ::
    "env \<Rightarrow> hit \<Rightarrow> int \<Rightarrow> rat option \<Rightarrow> rat option \<Rightarrow> server \<Rightarrow> verification_row answer" where
  "api_verification env h raw mass density =
     validated (VerificationRequest raw mass density) (\<lambda>(r, m, d) s.
       bind_st (admin h s) (\<lambda>_ s.
         on_database (add_verification (hi_id1 h) (now_of h) (VInt r) (Some m) (Some d) (warning_threshold env s)) s))"

definition api_arm_verification_capture ::
    "env \<Rightarrow> hit \<Rightarrow> string \<Rightarrow> int option \<Rightarrow> server \<Rightarrow> provisional option answer" where
  "api_arm_verification_capture env h key ordinal =
     validated (CaptureArmRequest (ev_trim env) key ordinal) (\<lambda>(k, n) s.
       bind_st (admin h s) (\<lambda>_ s.
         case active_calibration (database s) of
           None \<Rightarrow> respond 409 ''active calibration required'' s
         | Some (i, c) \<Rightarrow> on_coordinator (arm_for_purpose (hi_moment h) None k ''verification'' (Some i) None) s))"

definition api_discard_capture :: "env \<Rightarrow> hit \<Rightarrow> server \<Rightarrow> unit answer" where
  "api_discard_capture env h s =
     bind_st (operational h s) (\<lambda>_ s.
       case latest_pending_capture (database s) of
         None \<Rightarrow> respond 409 ''no completed sample is waiting for a scale mass'' s
       | Some (i, v) \<Rightarrow>
           if pv_status v \<noteq> ''complete'' then respond 409 ''no completed sample is waiting for a scale mass'' s
           else commit_and_publish env h (update_provisional_status (now_of h) i ''discarded'') s)"

definition api_commit_verification_capture ::
    "env \<Rightarrow> hit \<Rightarrow> string \<Rightarrow> rat option \<Rightarrow> rat option \<Rightarrow> server \<Rightarrow> verification_row answer" where
  "api_commit_verification_capture env h session_id mass density =
     validated (CapturedMeasurementRequest (ev_trim env) session_id mass density) (\<lambda>(i, m, d) s.
       bind_st (admin h s) (\<lambda>_ s.
         commit_and_publish env h
           (consume_verification_capture (hi_id1 h) (now_of h) i (Some m) (Some d) (warning_threshold env s)) s))"

section \<open>History\<close>

definition api_reassign :: "env \<Rightarrow> hit \<Rightarrow> string \<Rightarrow> string \<Rightarrow> string \<Rightarrow> server \<Rightarrow> pour option answer" where
  "api_reassign env h pour_id participant_id reason =
     validated (ReassignmentRequest (ev_trim env) participant_id reason) (\<lambda>(p, r) s.
       bind_st (admin h s) (\<lambda>_ s.
         commit_and_publish env h (reassign_pour (hi_id1 h) (hi_id2 h) (hi_id3 h) (now_of h) pour_id p r) s))"

section \<open>Settings\<close>

text \<open>Each setting is stored in a transaction of its own, in this order.\<close>

fun store_settings :: "(string \<times> json) list \<Rightarrow> server \<Rightarrow> unit answer" where
  "store_settings [] s = (Inr (), s)"
| "store_settings ((k, v) # kvs) s = bind_st (on_database (set_setting k v) s) (\<lambda>_ s. store_settings kvs s)"

definition setting_of :: "string \<Rightarrow> ('a \<Rightarrow> json) \<Rightarrow> 'a option \<Rightarrow> (string \<times> json) list" where
  "setting_of k f v = (case v of None \<Rightarrow> [] | Some x \<Rightarrow> [(k, f x)])"

definition management_settings :: "env \<Rightarrow> int option \<times> rat option \<times> bool option \<Rightarrow> (string \<times> json) list" where
  "management_settings env = (\<lambda>(keep, price, webcam).
     setting_of ''beer_price_cents_per_fl_oz'' (\<lambda>x. JStr (ev_decimal_text env (x * 100))) price @
     setting_of ''webcam_enabled'' JBool webcam @ setting_of ''video_keep'' JInt keep)"

definition api_update_management_settings ::
    "env \<Rightarrow> hit \<Rightarrow> int option \<Rightarrow> rat option \<Rightarrow> bool option \<Rightarrow> server \<Rightarrow> summary answer" where
  "api_update_management_settings env h keep price webcam =
     validated (ManagementSettingsUpdate keep price webcam) (\<lambda>u s.
       bind_st (manager_admin h s) (\<lambda>_ s.
       bind_st (store_settings (management_settings env u) s) (\<lambda>_ s. (Inr (management_summary (database s)), s))))"

text \<open>The changes in the order of the fields; a port that was sent as \<open>null\<close> is stored as \<open>null\<close>.\<close>

definition setting_changes :: "env \<Rightarrow> settings_update \<Rightarrow> (string \<times> json) list" where
  "setting_changes env u =
     setting_of ''display_units'' JStr (up_display_units u) @
     setting_of ''completion_seconds'' JInt (up_completion_seconds u) @
     setting_of ''verification_warning_pct'' (\<lambda>x. JStr (ev_decimal_text env x)) (up_warning_pct u) @
     (case up_serial_port u of Some (Some t) \<Rightarrow> [(''serial_port'', JStr t)] | _ \<Rightarrow> []) @
     setting_of ''arm_timeout_ms'' JInt (up_arm_timeout_ms u) @
     (case up_serial_port u of Some None \<Rightarrow> [(''serial_port'', JNull)] | _ \<Rightarrow> [])"

definition on_provider :: "(port_provider \<Rightarrow> unit result \<times> port_provider) \<Rightarrow> server \<Rightarrow> unit answer" where
  "on_provider f s =
     (case f (sv_provider s) of
        (Inl e, p) \<Rightarrow> (Inl (http_error e), s\<lparr>sv_provider := p\<rparr>)
      | (Inr _, p) \<Rightarrow> (Inr (), s\<lparr>sv_provider := p\<rparr>))"

definition set_arm_timeout :: "int option \<Rightarrow> server \<Rightarrow> server" where
  "set_arm_timeout v s =
     (case v of None \<Rightarrow> s | Some n \<Rightarrow> s\<lparr>sv_co := (sv_co s)\<lparr>co_arm_timeout := n\<rparr>\<rparr>)"

definition api_update_settings :: "env \<Rightarrow> hit \<Rightarrow> settings_update \<Rightarrow> server \<Rightarrow> unit answer" where
  "api_update_settings env h update =
     validated (SettingsUpdate (ev_trim env) update) (\<lambda>u s.
       bind_st (admin h s) (\<lambda>_ s.
       bind_st (store_settings (setting_changes env u) s) (\<lambda>_ s.
       bind_st (case up_serial_port u of
                  None \<Rightarrow> (Inr (), set_arm_timeout (up_arm_timeout_ms u) s)
                | Some port \<Rightarrow>
                    (if ac_demo (ev_config env) then (Inr (), set_arm_timeout (up_arm_timeout_ms u) s)
                     else on_provider (prefer_port port) (set_arm_timeout (up_arm_timeout_ms u) s))) (\<lambda>_ s.
       bind_st (publish_state env h s) (\<lambda>_ s.
       bind_st (on_security (require_access (hi_clock h) (hi_request h)) s) (\<lambda>_ s. (Inr (), s)))))))"

definition api_serial_preference :: "env \<Rightarrow> hit \<Rightarrow> string option \<Rightarrow> server \<Rightarrow> unit answer" where
  "api_serial_preference env h port =
     validated (SerialPreferenceRequest (ev_trim env) port) (\<lambda>p s.
       bind_st (admin h s) (\<lambda>_ s.
         if ac_demo (ev_config env) then respond 409 ''serial controls are unavailable in demo mode'' s
         else
           bind_st (on_database (set_setting ''serial_port'' (case p of None \<Rightarrow> JNull | Some t \<Rightarrow> JStr t)) s) (\<lambda>_ s.
           bind_st (on_provider (prefer_port p) s) (\<lambda>_ s. publish_state env h s))))"

definition api_reconnect_serial :: "env \<Rightarrow> hit \<Rightarrow> server \<Rightarrow> unit answer" where
  "api_reconnect_serial env h s =
     bind_st (admin h s) (\<lambda>_ s.
       if ac_demo (ev_config env) then respond 409 ''serial controls are unavailable in demo mode'' s
       else publish_state env h (s\<lparr>sv_reconnect := True\<rparr>))"

section \<open>Camera requests\<close>

definition webcam_enabled :: "server \<Rightarrow> bool" where
  "webcam_enabled s = json_truth (get_setting (database s) ''webcam_enabled'' (JBool False))"

definition look_camera :: "hit \<Rightarrow> server \<Rightarrow> camera_request option \<times> server" where
  "look_camera h s =
     (let (r, k) = camera_request_now (now_of h) (sv_kiosk s) in (r, s\<lparr>sv_kiosk := k\<rparr>))"

definition api_request_camera_clip :: "env \<Rightarrow> hit \<Rightarrow> int \<Rightarrow> server \<Rightarrow> camera_request option answer" where
  "api_request_camera_clip env h seconds =
     validated (CameraRecordRequest seconds) (\<lambda>n s.
       bind_st (manager_admin h s) (\<lambda>_ s.
         if \<not> webcam_enabled s then respond 409 ''pour camera is disabled'' s
         else
           let (current, s1) = look_camera h s
           in if (case current of None \<Rightarrow> False | Some r \<Rightarrow> cm_status r = Pending) then
                respond 409 ''a clip is already being recorded'' s1
              else
                bind_st (publish_state env h (s1\<lparr>sv_kiosk := request_recording (now_of h) (hi_id1 h) n (sv_kiosk s1)\<rparr>)) (\<lambda>_ s2.
                  let (r, s3) = look_camera h s2 in (Inr r, s3))))"

definition resolve_and_publish :: "env \<Rightarrow> hit \<Rightarrow> string \<Rightarrow> string option \<Rightarrow> string option \<Rightarrow> server \<Rightarrow> camera_request option answer" where
  "resolve_and_publish env h i file detail s =
     (case resolve_recording (now_of h) i file detail (sv_kiosk s) of
        (Inl e, k) \<Rightarrow> (Inl (http_error e), s\<lparr>sv_kiosk := k\<rparr>)
      | (Inr _, k) \<Rightarrow>
          bind_st (publish_state env h (s\<lparr>sv_kiosk := k\<rparr>)) (\<lambda>_ s2.
            let (r, s3) = look_camera h s2 in (Inr r, s3)))"

definition api_fail_requested_video :: "env \<Rightarrow> hit \<Rightarrow> string \<Rightarrow> string \<Rightarrow> server \<Rightarrow> camera_request option answer" where
  "api_fail_requested_video env h request_id detail =
     validated (CameraFailureRequest (ev_trim env) request_id detail) (\<lambda>(i, d) s.
       bind_st (operational h s) (\<lambda>_ s. resolve_and_publish env h i None (Some d) s))"

section \<open>Logging in and out\<close>

definition api_login :: "env \<Rightarrow> hit \<Rightarrow> string \<Rightarrow> server \<Rightarrow> sec_session answer" where
  "api_login env h pin =
     validated (PinRequest (ev_trim env) pin) (\<lambda>p.
       on_security (route_login (ev_scrypt env) (hi_clock h) (hi_id1 h) (hi_id2 h) (hi_request h) p))"

definition api_set_pin :: "env \<Rightarrow> hit \<Rightarrow> string \<Rightarrow> server \<Rightarrow> unit answer" where
  "api_set_pin env h pin =
     validated (PinRequest (ev_trim env) pin) (\<lambda>p.
       on_security (route_set_pin (ev_scrypt env) (hi_clock h) (hi_id1 h) (hi_request h) p))"

definition api_remove_pin :: "hit \<Rightarrow> server \<Rightarrow> unit answer" where
  "api_remove_pin h = on_security (route_remove_pin (hi_clock h) (hi_request h))"

definition api_logout :: "hit \<Rightarrow> server \<Rightarrow> unit answer" where
  "api_logout h = on_security (route_logout (hi_clock h) (hi_request h))"

definition api_context :: "hit \<Rightarrow> server \<Rightarrow> sec_session answer" where
  "api_context h =
     on_security (\<lambda>x. let (c, x1) = security_context (hi_clock h) (hi_id1 h) (hi_id2 h) (hi_request h) x in (Inr c, x1))"

end
