(* ===== verification/KP_Evidence.thy ===== *)
theory KP_Evidence
  imports KP_Api
begin

text \<open>
  Photos, avatars and clips: the routes of \<open>app.py\<close> that store a picture or a video file beside the
  rows of the database.  The files are dictionaries from their name to the body; a write of a file
  replaces it in one step and does not fail here.  A clip is kept by its name, its modification time
  and its size.
\<close>

section \<open>State\<close>

record clip =
  cl_name :: string
  cl_mtime :: int
  cl_size :: int

record site =
  si_server :: server
  si_avatars :: "(string, string) odict"
  si_photos :: "(string, string) odict"
  si_clips :: "clip list"
  si_mirror :: "(string, string) odict"

type_synonym 'a served = "(web_error + 'a) \<times> site"

text \<open>What an upload brings beside the request: the content type and the body, and the time stamp and the
  random part of the names it is stored under.\<close>

record upload =
  ul_content_type :: string
  ul_body :: string
  ul_digest :: string
  ul_stamp :: string
  ul_token :: string

definition on_server :: "(server \<Rightarrow> 'a answer) \<Rightarrow> site \<Rightarrow> 'a served" where
  "on_server f s = (fst (f (si_server s)), s\<lparr>si_server := snd (f (si_server s))\<rparr>)"

definition refuse :: "int \<Rightarrow> string \<Rightarrow> site \<Rightarrow> 'a served" where
  "refuse status detail s = (Inl (Http status detail), s)"

definition has_type :: "string \<Rightarrow> upload \<Rightarrow> bool" where
  "has_type t u \<longleftrightarrow> starts_with t (lower (ul_content_type u))"

definition is_jpeg :: "string \<Rightarrow> bool" where
  "is_jpeg b \<longleftrightarrow> 4 \<le> length b \<and> length b \<le> 61440 \<and> take 2 b = [CHR 0xFF, CHR 0xD8] \<and>
     drop (length b - 2) b = [CHR 0xFF, CHR 0xD9]"

definition is_webm :: "string \<Rightarrow> bool" where
  "is_webm b \<longleftrightarrow> 4 \<le> length b \<and> length b \<le> 33554432 \<and> take 4 b = [CHR 0x1A, CHR 0x45, CHR 0xDF, CHR 0xA3]"

section \<open>Photos\<close>

definition UNATTRIBUTED_PHOTO_KEEP :: nat where "UNATTRIBUTED_PHOTO_KEEP = 400"

text \<open>The file is written first and removed again when the row is refused.\<close>

definition store_photo :: "hit \<Rightarrow> upload \<Rightarrow> string option \<Rightarrow> string \<Rightarrow> site \<Rightarrow> photo served" where
  "store_photo h u session_id relative s =
     (let s1 = s\<lparr>si_photos := od_set (si_photos s) relative (ul_body u)\<rparr>
      in case on_server (on_database (add_pour_photo (hi_id1 h) (now_of h) session_id relative
                (int (length (ul_body u))) (ul_digest u))) s1 of
           (Inl e, s2) \<Rightarrow> (Inl e, s2\<lparr>si_photos := od_pop (si_photos s2) relative\<rparr>)
         | (Inr row, s2) \<Rightarrow> (Inr row, s2))"

definition route_pour_photo :: "hit \<Rightarrow> upload \<Rightarrow> string \<Rightarrow> site \<Rightarrow> photo served" where
  "route_pour_photo h u session_id s =
     bind_st (on_server (operational h) s) (\<lambda>_ s.
       if \<not> webcam_enabled (si_server s) then refuse 409 ''pour camera is disabled'' s
       else if \<not> has_type ''image/jpeg'' u then refuse 415 ''pour photos must be JPEG images'' s
       else
         (case canonical_session session_id of
            Inl _ \<Rightarrow> refuse 404 ''pour session not found'' s
          | Inr i \<Rightarrow>
              if \<not> is_jpeg (ul_body u) then refuse 422 ''invalid or oversized JPEG photo'' s
              else store_photo h u (Some i) (i @ ''/'' @ ul_token u @ ''.jpg'') s))"

definition prune_photos :: "site \<Rightarrow> unit served" where
  "prune_photos s =
     bind_st (on_server (on_database (prune_unattributed_photos UNATTRIBUTED_PHOTO_KEEP)) s) (\<lambda>paths s.
       (Inr (), s\<lparr>si_photos := foldl od_pop (si_photos s) paths\<rparr>))"

definition route_unattributed_photo :: "hit \<Rightarrow> upload \<Rightarrow> site \<Rightarrow> photo served" where
  "route_unattributed_photo h u s =
     bind_st (on_server (operational h) s) (\<lambda>_ s.
       if \<not> webcam_enabled (si_server s) then refuse 409 ''pour camera is disabled'' s
       else if \<not> has_type ''image/jpeg'' u then refuse 415 ''pour photos must be JPEG images'' s
       else if \<not> is_jpeg (ul_body u) then refuse 422 ''invalid or oversized JPEG photo'' s
       else
         bind_st (store_photo h u None (''unattributed/'' @ ul_token u @ ''.jpg'') s) (\<lambda>row s.
         bind_st (prune_photos s) (\<lambda>_ s.
           (Inr row, s\<lparr>si_mirror :=
              od_set (si_mirror s) (''unattributed_'' @ ul_stamp u @ ''_'' @ take 8 (ul_token u) @ ''.jpg'') (ul_body u)\<rparr>))))"

section \<open>Avatars\<close>

definition validated_avatar :: "upload \<Rightarrow> site \<Rightarrow> string served" where
  "validated_avatar u s =
     (if \<not> has_type ''image/jpeg'' u then refuse 415 ''avatars must be JPEG images'' s
      else if \<not> is_jpeg (ul_body u) then refuse 422 ''invalid or oversized JPEG avatar'' s
      else (Inr (ul_body u), s))"

definition write_avatar :: "string \<Rightarrow> string \<Rightarrow> site \<Rightarrow> site" where
  "write_avatar participant_id body s = s\<lparr>si_avatars := od_set (si_avatars s) participant_id body\<rparr>"

definition canonical_participant :: "string \<Rightarrow> site \<Rightarrow> string served" where
  "canonical_participant participant_id s =
     (case canonical_session participant_id of Inl _ \<Rightarrow> refuse 404 ''participant not found'' s | Inr i \<Rightarrow> (Inr i, s))"

definition route_avatar_if_missing :: "env \<Rightarrow> hit \<Rightarrow> upload \<Rightarrow> string \<Rightarrow> site \<Rightarrow> participant served" where
  "route_avatar_if_missing env h u participant_id s =
     bind_st (on_server (operational h) s) (\<lambda>_ s.
     bind_st (canonical_participant participant_id s) (\<lambda>i s.
       if (case active_provisional (database (si_server s)) of
             None \<Rightarrow> True
           | Some (sid, v) \<Rightarrow> pv_participant_id v \<noteq> Some i) then
         refuse 409 ''automatic avatars are captured only for the participant pouring now'' s
       else
         bind_st (validated_avatar u s) (\<lambda>body s.
         bind_st (on_server (on_database (mark_participant_avatar (now_of h) i True)) (write_avatar i body s)) (\<lambda>marked s.
           case marked of
             None \<Rightarrow> refuse 409 ''participant already has an avatar'' s
           | Some row \<Rightarrow> bind_st (on_server (publish_state env h) s) (\<lambda>_ s. (Inr row, s))))))"

definition route_replace_avatar :: "env \<Rightarrow> hit \<Rightarrow> upload \<Rightarrow> string \<Rightarrow> site \<Rightarrow> participant option served" where
  "route_replace_avatar env h u participant_id s =
     bind_st (on_server (admin h) s) (\<lambda>_ s.
     bind_st (canonical_participant participant_id s) (\<lambda>i s.
     bind_st (validated_avatar u s) (\<lambda>body s.
     bind_st (on_server (on_database (mark_participant_avatar (now_of h) i False)) (write_avatar i body s)) (\<lambda>marked s.
     bind_st (on_server (publish_state env h) s) (\<lambda>_ s. (Inr marked, s))))))"

definition route_delete_avatar :: "env \<Rightarrow> hit \<Rightarrow> string \<Rightarrow> site \<Rightarrow> participant served" where
  "route_delete_avatar env h participant_id s =
     bind_st (on_server (admin h) s) (\<lambda>_ s.
     bind_st (canonical_participant participant_id s) (\<lambda>i s.
     bind_st (on_server (on_database (clear_participant_avatar (now_of h) i)) s) (\<lambda>row s.
     bind_st (on_server (publish_state env h) (s\<lparr>si_avatars := od_pop (si_avatars s) i\<rparr>)) (\<lambda>_ s. (Inr row, s)))))"

section \<open>Clips\<close>

definition pour_pool :: "clip \<Rightarrow> bool" where
  "pour_pool c \<longleftrightarrow> starts_with ''pour_'' (cl_name c) \<or> starts_with ''unattributed_'' (cl_name c) \<or> starts_with ''manual_'' (cl_name c)"

definition test_pool :: "clip \<Rightarrow> bool" where
  "test_pool c \<longleftrightarrow> starts_with ''cameratest_'' (cl_name c)"

text \<open>The clips of a pool beyond its newest \<open>keep\<close>.\<close>

definition stale_clips :: "(clip \<Rightarrow> bool) \<Rightarrow> nat \<Rightarrow> clip list \<Rightarrow> clip list" where
  "stale_clips pool keep clips = drop keep (sort_key (\<lambda>c. - cl_mtime c) (filter pool clips))"

definition store_clip :: "hit \<Rightarrow> upload \<Rightarrow> string \<Rightarrow> site \<Rightarrow> (string \<times> int \<times> nat) served" where
  "store_clip h u label s =
     (if \<not> is_webm (ul_body u) then refuse 422 ''invalid or oversized WebM video'' s
      else
        let name = label @ ''_'' @ ul_stamp u @ ''_'' @ take 6 (ul_token u) @ ''.webm'';
            clips = \<lparr>cl_name = name, cl_mtime = now_of h, cl_size = int (length (ul_body u))\<rparr> #
              filter (\<lambda>c. cl_name c \<noteq> name) (si_clips s);
            stale = stale_clips pour_pool (nat (video_keep (database (si_server s)))) clips @ stale_clips test_pool 2 clips
        in (Inr (name, int (length (ul_body u)), length stale),
            s\<lparr>si_clips := filter (\<lambda>c. c \<notin> set stale) clips\<rparr>))"

definition route_pour_video :: "hit \<Rightarrow> upload \<Rightarrow> string \<Rightarrow> site \<Rightarrow> (string \<times> int \<times> nat) served" where
  "route_pour_video h u session_id s =
     bind_st (on_server (operational h) s) (\<lambda>_ s.
       if \<not> webcam_enabled (si_server s) then refuse 409 ''pour camera is disabled'' s
       else if \<not> has_type ''video/webm'' u then refuse 415 ''pour videos must be WebM'' s
       else
         (case canonical_session session_id of
            Inl _ \<Rightarrow> refuse 404 ''pour session not found'' s
          | Inr i \<Rightarrow>
              if get_provisional i (database (si_server s)) = None then refuse 404 ''pour session not found'' s
              else store_clip h u (''pour_'' @ take 8 i) s))"

definition route_test_video :: "hit \<Rightarrow> upload \<Rightarrow> site \<Rightarrow> (string \<times> int \<times> nat) served" where
  "route_test_video h u s =
     bind_st (on_server (admin h) s) (\<lambda>_ s.
       if \<not> has_type ''video/webm'' u then refuse 415 ''pour videos must be WebM'' s
       else store_clip h u ''cameratest'' s)"

definition route_unattributed_video :: "hit \<Rightarrow> upload \<Rightarrow> site \<Rightarrow> (string \<times> int \<times> nat) served" where
  "route_unattributed_video h u s =
     bind_st (on_server (operational h) s) (\<lambda>_ s.
       if \<not> webcam_enabled (si_server s) then refuse 409 ''pour camera is disabled'' s
       else if \<not> has_type ''video/webm'' u then refuse 415 ''pour videos must be WebM'' s
       else store_clip h u ''unattributed'' s)"

definition look_site :: "hit \<Rightarrow> site \<Rightarrow> camera_request option \<times> site" where
  "look_site h s = (let (r, v) = look_camera h (si_server s) in (r, s\<lparr>si_server := v\<rparr>))"

definition route_requested_video :: "env \<Rightarrow> hit \<Rightarrow> upload \<Rightarrow> string \<Rightarrow> site \<Rightarrow> (string \<times> int \<times> nat) served" where
  "route_requested_video env h u request_id s =
     (if length request_id \<noteq> 32 then refuse 422 ''request validation failed'' s
      else
        bind_st (on_server (operational h) s) (\<lambda>_ s.
          if \<not> has_type ''video/webm'' u then refuse 415 ''pour videos must be WebM'' s
          else
            let (current, s1) = look_site h s
            in if (case current of None \<Rightarrow> True | Some r \<Rightarrow> cm_id r \<noteq> request_id \<or> cm_status r \<noteq> Pending) then
                 refuse 409 ''no pending camera request with that id'' s1
               else
                 bind_st (store_clip h u ''manual'' s1) (\<lambda>stored s.
                 bind_st (on_server (resolve_and_publish env h request_id (Some (fst stored)) None) s) (\<lambda>_ s.
                   (Inr stored, s)))))"

section \<open>A refused avatar\<close>

text \<open>The route that adds a missing avatar writes the file before the row tells it that there is one: the
  request is refused, and yet the picture is replaced.\<close>

theorem automatic_avatar_overwrites:
  assumes "operational h (si_server s) = (Inr x, v)" "canonical_session participant_id = Inr i"
    and "active_provisional (database v) = Some (sid, pv)" "pv_participant_id pv = Some i"
    and "has_type ''image/jpeg'' u" "is_jpeg (ul_body u)"
    and "od_get (st_participants (database v)) i = Some p" "pt_avatar_updated_at p \<noteq> None"
  shows "fst (route_avatar_if_missing env h u participant_id s) = Inl (Http 409 ''participant already has an avatar'') \<and>
    od_get (si_avatars (snd (route_avatar_if_missing env h u participant_id s))) i = Some (ul_body u)"
proof -
  have "mark_participant_avatar (now_of h) i True (database v) = (Inr None, database v)"
    using assms(7,8) by (simp add: mark_participant_avatar_def transaction_def fetch_def)
  then show ?thesis
    using assms
    by (simp add: route_avatar_if_missing_def on_server_def canonical_participant_def validated_avatar_def write_avatar_def
        on_database_def on_coordinator_def on_store_def refuse_def database_def od_get_set)
qed

section \<open>Pruning\<close>

text \<open>The newest clips of a pool stay, and a pool within its budget loses nothing.\<close>

lemma stale_in_pool: "c \<in> set (stale_clips pool keep clips) \<Longrightarrow> c \<in> set clips \<and> pool c"
  by (auto simp: stale_clips_def dest!: in_set_dropD)

lemma within_budget: "length (filter pool clips) \<le> keep \<Longrightarrow> stale_clips pool keep clips = []"
  by (simp add: stale_clips_def)

lemma stale_are_older:
  assumes "c \<in> set (stale_clips pool keep clips)"
  shows "keep \<le> length (filter (\<lambda>d. pool d \<and> cl_mtime c \<le> cl_mtime d) clips)"
proof -
  let ?l = "sort_key (\<lambda>c. - cl_mtime c) (filter pool clips)"
  have "sorted (map (\<lambda>c. - cl_mtime c) (take keep ?l @ drop keep ?l))" by simp
  then have newer: "\<forall>d\<in>set (take keep ?l). cl_mtime c \<le> cl_mtime d"
    using assms unfolding stale_clips_def map_append sorted_append by auto
  have "\<not> length ?l \<le> keep" using assms by (metis drop_all empty_iff list.set(1) stale_clips_def)
  then have "keep = length (take keep ?l)" by simp
  also have "\<dots> = length (filter (\<lambda>d. cl_mtime c \<le> cl_mtime d) (take keep ?l))" using newer by (simp add: filter_id_conv)
  also have "\<dots> \<le> length (filter (\<lambda>d. cl_mtime c \<le> cl_mtime d) ?l)"
    by (metis append_take_drop_id filter_append le_add1 length_append)
  also have "\<dots> = length (filter (\<lambda>d. pool d \<and> cl_mtime c \<le> cl_mtime d) clips)"
    by (simp only: filter_sort length_sort filter_filter)
  finally show ?thesis .
qed

end
