(* ===== verification/KP_Views.thy ===== *)
theory KP_Views
  imports KP_Evidence
begin

text \<open>
  The routes of \<open>app.py\<close> that only read: the guard each one calls and what it shows; and the library
  of clips with the choice of the clip that shows a pour.  Clip times are milliseconds.
\<close>

section \<open>The library of clips\<close>

definition VIDEO_KINDS :: "string list" where
  "VIDEO_KINDS = [''pour'', ''unattributed'', ''manual'', ''cameratest'']"

definition video_char :: "char \<Rightarrow> bool" where
  "video_char c \<longleftrightarrow> is_digit c \<or> is_upper c \<or> is_lower c \<or> c = CHR ''_'' \<or> c = CHR ''-''"

text \<open>\<open>VIDEO_NAME.match\<close>: its \<open>$\<close> also matches before a final newline.\<close>

definition video_kind :: "string \<Rightarrow> string option" where
  "video_kind name =
     (let n = (if ends_with [LF] name then butlast name else name);
          (knd, rest) = split_first (CHR ''_'') n
      in if knd \<in> set VIDEO_KINDS \<and> ends_with ''.webm'' rest \<and> fullmatch video_char 1 80 (take (length rest - 5) rest)
         then Some knd else None)"

definition stamp_here :: "string \<Rightarrow> bool" where
  "stamp_here s \<longleftrightarrow> 17 \<le> length s \<and> s ! 0 = CHR ''_'' \<and> list_all is_digit (take 8 (drop 1 s)) \<and> s ! 9 = CHR ''_'' \<and>
     list_all is_digit (take 6 (drop 10 s)) \<and> s ! 16 = CHR ''_''"

fun video_stamp :: "string \<Rightarrow> string option" where
  "video_stamp [] = None"
| "video_stamp (c # s) = (if stamp_here (c # s) then Some (take 15 s) else video_stamp s)"

text \<open>\<open>strptime\<close> with the format \<open>%Y%m%d_%H%M%S\<close> of fifteen characters, in UTC; \<open>None\<close> is the \<open>ValueError\<close>.\<close>

definition is_leap :: "int \<Rightarrow> bool" where
  "is_leap y \<longleftrightarrow> y mod 4 = 0 \<and> (y mod 100 \<noteq> 0 \<or> y mod 400 = 0)"

definition month_lengths :: "int \<Rightarrow> int list" where
  "month_lengths y = [31, if is_leap y then 29 else 28, 31, 30, 31, 30, 31, 31, 30, 31, 30, 31]"

definition epoch_day :: "int \<Rightarrow> nat \<Rightarrow> int \<Rightarrow> int" where
  "epoch_day y m d =
     365 * (y - 1) + (y - 1) div 4 - (y - 1) div 100 + (y - 1) div 400 + sum_list (take (m - 1) (month_lengths y)) + d - 719163"

definition stamp_time :: "string \<Rightarrow> int option" where
  "stamp_time t =
     (let part = (\<lambda>i n. digits_val 10 (take n (drop i t)));
          y = part 0 4; m = nat (part 4 2); d = part 6 2; hh = part 9 2; mm = part 11 2; ss = part 13 2
      in if 1 \<le> y \<and> 1 \<le> m \<and> m \<le> 12 \<and> 1 \<le> d \<and> d \<le> month_lengths y ! (m - 1) \<and> hh \<le> 23 \<and> mm \<le> 59 \<and> ss \<le> 59
         then Some ((((epoch_day y m d * 24 + hh) * 60 + mm) * 60 + ss) * 1000)
         else None)"

record video =
  ve_file :: string
  ve_kind :: string
  ve_size :: int
  ve_recorded :: int
  ve_prefix :: "string option"

text \<open>The time in the name, or else the modification time.\<close>

definition video_entry :: "clip \<Rightarrow> video option" where
  "video_entry c =
     map_option (\<lambda>knd.
       \<lparr>ve_file = cl_name c, ve_kind = knd, ve_size = cl_size c,
        ve_recorded = (case Option.bind (video_stamp (cl_name c)) stamp_time of Some t \<Rightarrow> t | None \<Rightarrow> cl_mtime c),
        ve_prefix =
          (let parts = split_on (CHR ''_'') (cl_name c)
           in if knd = ''pour'' \<and> 2 < length parts \<and> fullmatch is_hex_lower 8 8 (parts ! 1) then Some (parts ! 1) else None)\<rparr>)
       (video_kind (cl_name c))"

definition list_videos :: "clip list \<Rightarrow> video list" where
  "list_videos clips =
     sort_key (\<lambda>v. - ve_recorded v) (List.map_filter video_entry (filter (\<lambda>c. ends_with ''.webm'' (cl_name c)) clips))"

text \<open>A clip of the session, or else one of nobody's clips near the time of the pour; the nearest in time.\<close>

definition match_video :: "pour \<Rightarrow> video list \<Rightarrow> video option" where
  "match_video p videos =
     (let own = filter (\<lambda>v. ve_kind v = ''pour'' \<and> pe_session_id p \<noteq> [] \<and> ve_prefix v = Some (take 8 (pe_session_id p))) videos;
          near = filter (\<lambda>v. ve_kind v \<in> {''unattributed'', ''manual''} \<and> pe_started_at p - 5000 \<le> ve_recorded v \<and>
            ve_recorded v \<le> pe_ended_at p + 180000) videos
      in first_row (sort_key (\<lambda>v. \<bar>ve_recorded v - pe_ended_at p\<bar>) (if own = [] then near else own)))"

section \<open>Guards for reading\<close>

definition access :: "hit \<Rightarrow> server \<Rightarrow> sec_session option answer" where
  "access h = on_security (require_access (hi_clock h) (hi_request h))"

definition display_access :: "hit \<Rightarrow> server \<Rightarrow> sec_session option answer" where
  "display_access h = on_security (require_display_access (hi_clock h) (hi_request h))"

definition admin_reader :: "hit \<Rightarrow> server \<Rightarrow> unit answer" where
  "admin_reader h = on_security (admin_access (hi_clock h) (hi_request h))"

definition manager_reader :: "hit \<Rightarrow> server \<Rightarrow> unit answer" where
  "manager_reader h = on_security (management_admin (hi_clock h) (hi_request h) False)"

definition show_result :: "'a result \<Rightarrow> server \<Rightarrow> 'a answer" where
  "show_result r s = (case r of Inl e \<Rightarrow> (Inl (http_error e), s) | Inr x \<Rightarrow> (Inr x, s))"

definition show_rows :: "'a \<Rightarrow> server \<Rightarrow> 'a answer" where
  "show_rows x s = (Inr x, s)"

section \<open>Pages\<close>

definition current_snapshot :: "env \<Rightarrow> hit \<Rightarrow> server \<Rightarrow> snapshot answer" where
  "current_snapshot env h s =
     (case snapshot_of (ev_config env) (ev_ui_build env) (ev_cast env) (now_of h) (hi_manager h) (sv_co s) (sv_kiosk s) of
        (Inl e, k) \<Rightarrow> (Inl (http_error e), s\<lparr>sv_kiosk := k\<rparr>)
      | (Inr x, k) \<Rightarrow> (Inr x, s\<lparr>sv_kiosk := k\<rparr>))"

definition view_status :: "env \<Rightarrow> hit \<Rightarrow> server \<Rightarrow> snapshot answer" where
  "view_status env h s = bind_st (display_access h s) (\<lambda>_ s. current_snapshot env h s)"

definition view_participants :: "hit \<Rightarrow> bool \<Rightarrow> server \<Rightarrow> (string \<times> participant) list answer" where
  "view_participants h include_inactive s =
     bind_st (display_access h s) (\<lambda>_ s. show_rows (list_participants (\<not> include_inactive) (database s)) s)"

definition view_current_session :: "hit \<Rightarrow> server \<Rightarrow> (string \<times> provisional) option answer" where
  "view_current_session h s = bind_st (access h s) (\<lambda>_ s. show_rows (active_provisional (database s)) s)"

definition view_session :: "hit \<Rightarrow> string \<Rightarrow> server \<Rightarrow> provisional answer" where
  "view_session h i s = bind_st (access h s) (\<lambda>_ s. show_result (stored_session i (database s)) s)"

definition view_kegs :: "hit \<Rightarrow> server \<Rightarrow> (string \<times> keg) list answer" where
  "view_kegs h s = bind_st (access h s) (\<lambda>_ s. show_rows (list_kegs (database s)) s)"

definition view_calibrations :: "hit \<Rightarrow> server \<Rightarrow> (string \<times> calibration) list answer" where
  "view_calibrations h s = bind_st (access h s) (\<lambda>_ s. show_rows (list_calibrations (database s)) s)"

definition view_calibration ::
    "hit \<Rightarrow> string \<Rightarrow> server \<Rightarrow> (calibration \<times> (string \<times> sample_row) list \<times> calibration_analysis option) answer" where
  "view_calibration h i s = bind_st (access h s) (\<lambda>_ s. show_result (calibration_detail i (database s)) s)"

definition view_verifications :: "hit \<Rightarrow> server \<Rightarrow> (string \<times> verification_row) list answer" where
  "view_verifications h s = bind_st (access h s) (\<lambda>_ s. show_rows (list_verifications 20 (database s)) s)"

definition view_history :: "env \<Rightarrow> hit \<Rightarrow> int \<Rightarrow> string option \<Rightarrow> bool \<Rightarrow> server \<Rightarrow> pour_row list answer" where
  "view_history env h limit participant_id unattributed_only =
     validated (int_within 1 500 limit) (\<lambda>n s.
       bind_st (display_access h s) (\<lambda>_ s.
         show_rows (list_pours (ev_cast env) n participant_id unattributed_only None (database s)) s))"

definition view_management :: "hit \<Rightarrow> server \<Rightarrow> summary answer" where
  "view_management h s = bind_st (manager_reader h s) (\<lambda>_ s. show_rows (management_summary (database s)) s)"

text \<open>The floor is the product of two doubles.\<close>

definition view_review ::
    "env \<Rightarrow> hit \<Rightarrow> int \<Rightarrow> string option \<Rightarrow> bool \<Rightarrow> rat \<Rightarrow> clip list \<Rightarrow> server \<Rightarrow>
     (pour_row \<times> string option \<times> nat \<times> video option) list answer" where
  "view_review env h limit participant_id unattributed_only min_oz clips =
     validated (case int_within 1 500 limit of
         None \<Rightarrow> None
       | Some n \<Rightarrow> (if (case participant_id of None \<Rightarrow> True | Some t \<Rightarrow> length t \<le> 36) \<and> 0 \<le> min_oz \<and> min_oz \<le> 1000 then Some n else None))
       (\<lambda>n s. bind_st (manager_reader h s) (\<lambda>_ s.
          let min_ml = (if 0 < min_oz then Some (ev_cast env (ev_cast env ML_PER_US_FL_OZ * min_oz)) else None)
          in show_rows
               (map (\<lambda>(r, photo, n). (r, photo, n, match_video (pr_pour r) (list_videos clips)))
                 (pours_with_evidence (ev_cast env) n participant_id unattributed_only min_ml (database s))) s))"

definition view_videos :: "hit \<Rightarrow> clip list \<Rightarrow> server \<Rightarrow> (int \<times> int \<times> video list) answer" where
  "view_videos h clips s =
     bind_st (manager_reader h s) (\<lambda>_ s.
       show_rows (video_keep (database s), sum_list (map ve_size (list_videos clips)), list_videos clips) s)"

definition view_video :: "hit \<Rightarrow> string \<Rightarrow> clip list \<Rightarrow> server \<Rightarrow> string answer" where
  "view_video h name clips s =
     bind_st (manager_reader h s) (\<lambda>_ s.
       if video_kind name = None then respond 404 ''clip not found'' s
       else if name \<notin> cl_name ` set clips then respond 404 ''clip not found'' s
       else show_rows name s)"

text \<open>The path of a photo row is inside the folder of photos exactly when a stored file has it.\<close>

definition photo_file :: "string \<Rightarrow> (string, string) odict \<Rightarrow> server \<Rightarrow> string answer" where
  "photo_file i files s =
     (case get_pour_photo i (database s) of
        Inl e \<Rightarrow> (Inl (http_error e), s)
      | Inr row \<Rightarrow>
          (case od_get files (ph_relative_path row) of
             None \<Rightarrow> respond 404 ''pour photo file not found'' s
           | Some body \<Rightarrow> show_rows body s))"

definition view_photo :: "hit \<Rightarrow> string \<Rightarrow> (string, string) odict \<Rightarrow> server \<Rightarrow> string answer" where
  "view_photo h i files s = bind_st (manager_reader h s) (\<lambda>_ s. photo_file i files s)"

definition view_evidence_photo :: "hit \<Rightarrow> string \<Rightarrow> (string, string) odict \<Rightarrow> server \<Rightarrow> string answer" where
  "view_evidence_photo h i files s = bind_st (display_access h s) (\<lambda>_ s. photo_file i files s)"

definition view_avatar :: "hit \<Rightarrow> string \<Rightarrow> (string, string) odict \<Rightarrow> server \<Rightarrow> string answer" where
  "view_avatar h i files s =
     bind_st (display_access h s) (\<lambda>_ s.
       case canonical_session i of
         Inl _ \<Rightarrow> respond 404 ''participant not found'' s
       | Inr p \<Rightarrow>
           (case od_get files p of None \<Rightarrow> respond 404 ''participant has no avatar'' s | Some body \<Rightarrow> show_rows body s))"

text \<open>The whole export; the pages are read from the stores \<open>db\<close> while it is sent.\<close>

definition view_export :: "hit \<Rightarrow> string \<Rightarrow> (nat \<Rightarrow> store) \<Rightarrow> server \<Rightarrow> pour_row list option answer" where
  "view_export h format db s =
     bind_st (access h s) (\<lambda>_ s.
       if format = ''csv'' \<or> format = ''json'' then show_rows (iter_pours 200 db) s
       else respond 404 ''export format must be csv or json'' s)"

definition backup_name :: "string \<Rightarrow> bool" where
  "backup_name name \<longleftrightarrow> starts_with ''kegpulse-'' name \<and> ends_with ''.db'' name \<and> 13 \<le> length name \<and>
     list_all (\<lambda>c. is_digit c \<or> c = CHR ''T'' \<or> c = CHR ''Z'') (take (length name - 12) (drop 9 name))"

definition view_backup :: "hit \<Rightarrow> string \<Rightarrow> (string, 'f) odict \<Rightarrow> server \<Rightarrow> 'f answer" where
  "view_backup h name backups s =
     bind_st (admin_reader h s) (\<lambda>_ s.
       if \<not> backup_name name then respond 404 ''backup not found'' s
       else (case od_get backups name of None \<Rightarrow> respond 404 ''backup not found'' s | Some body \<Rightarrow> show_rows body s))"

definition api_backup :: "hit \<Rightarrow> string \<Rightarrow> server \<Rightarrow> (string \<times> store) answer" where
  "api_backup h stamp s =
     bind_st (admin h s) (\<lambda>_ s. show_rows (''kegpulse-'' @ stamp @ ''.db'', database s) s)"

record settings_view =
  sw_snapshot :: snapshot_settings
  sw_serial_port :: "string option"
  sw_lan_mode :: bool
  sw_bind_host :: string
  sw_pin_configured :: bool

definition json_setting :: "json \<Rightarrow> setting" where
  "json_setting v = (case v of JStr t \<Rightarrow> SText t | _ \<Rightarrow> SNull)"

definition confirmed_port :: "store \<Rightarrow> setting" where
  "confirmed_port s =
     (case get_setting s ''confirmed_device'' (JObj []) of
        JObj kvs \<Rightarrow> (case od_get kvs ''serial_port'' of Some v \<Rightarrow> json_setting v | None \<Rightarrow> SNull)
      | _ \<Rightarrow> SNull)"

definition configured_port :: "app_config \<Rightarrow> string option \<Rightarrow> store \<Rightarrow> string option" where
  "configured_port c override s =
     preferred_serial_port (opt_setting SText override) (json_setting (get_setting s ''serial_port'' JNull))
       (opt_setting SText (ac_serial_port c)) (confirmed_port s)"

definition chosen_port :: "env \<Rightarrow> string option \<Rightarrow> server \<Rightarrow> string option" where
  "chosen_port env override s = configured_port (ev_config env) override (database s)"

definition view_settings :: "env \<Rightarrow> hit \<Rightarrow> string option \<Rightarrow> server \<Rightarrow> settings_view answer" where
  "view_settings env h override s =
     bind_st (access h s) (\<lambda>_ s.
     bind_st (current_snapshot env h s) (\<lambda>x s.
       show_rows
         \<lparr>sw_snapshot = np_settings x, sw_serial_port = chosen_port env override s,
          sw_lan_mode = ac_lan_mode (ev_config env), sw_bind_host = ac_host (ev_config env),
          sw_pin_configured = pin_configured ((sv_security s)\<lparr>se_store := database s\<rparr>)\<rparr> s))"

definition view_ports :: "hit \<Rightarrow> 'p list \<Rightarrow> server \<Rightarrow> 'p list answer" where
  "view_ports h ports s = bind_st (access h s) (\<lambda>_ s. show_rows ports s)"

definition view_diagnostics :: "hit \<Rightarrow> int \<Rightarrow> server \<Rightarrow> (int \<times> diagnostic) list answer" where
  "view_diagnostics h limit =
     validated (int_within 1 500 limit) (\<lambda>n s.
       bind_st (admin_reader h s) (\<lambda>_ s.
         show_rows (take (nat n) (rev (sort_key fst (st_diagnostics (database s))))) s))"

end
