(* ===== verification/KP_Sockets.thy ===== *)
theory KP_Sockets
  imports KP_Views
begin

text \<open>
  The status sockets, \<open>websocket_status\<close> of \<open>app.py\<close>: admission, the frames a socket is sent, their
  revocation, and the end of a socket, with the subscriber's queue of the coordinator.  Between two
  frames of a socket anything else may happen.
\<close>

section \<open>State\<close>

record hub =
  hb_server :: server
  hb_live :: "(nat, request) odict"
  hb_count :: int
  hb_next :: nat

definition MAX_SOCKETS :: int where "MAX_SOCKETS = 16"

text \<open>What the server does to a socket: it closes it with a code, or sends it a snapshot.\<close>

datatype socket_action = CloseCode int | Sent snapshot | Dropped py_exc | Gone

text \<open>What wakes a socket: its client left, or sent something, the queue has a snapshot, or 20 seconds passed.\<close>

datatype wake = ClientLeft | ClientSpoke | QueueReady | Silence

definition on_hub :: "(server \<Rightarrow> 'a \<times> server) \<Rightarrow> hub \<Rightarrow> 'a \<times> hub" where
  "on_hub f b = (fst (f (hb_server b)), b\<lparr>hb_server := snd (f (hb_server b))\<rparr>)"

definition allow_socket :: "hit \<Rightarrow> server \<Rightarrow> bool \<times> server" where
  "allow_socket h s =
     (let (ok, s1) = on_security (\<lambda>x. let (r, x1) = websocket_allowed (hi_clock h) (hi_request h) x in (Inr r, x1)) s
      in (ok = Inr True, s1))"

text \<open>The end of a socket: the \<open>finally\<close> block.\<close>

definition end_socket :: "nat \<Rightarrow> hub \<Rightarrow> hub" where
  "end_socket i b =
     b\<lparr>hb_server := (hb_server b)\<lparr>sv_kiosk := unsubscribe i (sv_kiosk (hb_server b))\<rparr>,
       hb_live := od_pop (hb_live b) i, hb_count := hb_count b - 1\<rparr>"

text \<open>A subscriber whose first snapshot cannot be made is not registered with the hub; its queue stays
  with the coordinator, which it joined before.\<close>

definition open_socket :: "env \<Rightarrow> hit \<Rightarrow> bool \<Rightarrow> string \<Rightarrow> string option \<Rightarrow> hub \<Rightarrow> socket_action option \<times> hub" where
  "open_socket env h testing host origin b =
     (if \<not> allowed_host (ac_allowed_hosts (ev_config env)) testing host \<or>
         \<not> allowed_origin (ac_allowed_origins (ev_config env)) origin host then (Some (CloseCode 1008), b)
      else
        let (ok, b1) = on_hub (allow_socket h) b
        in if \<not> ok then (Some (CloseCode 1008), b1)
           else if MAX_SOCKETS \<le> hb_count b1 then (Some (CloseCode 1013), b1)
           else
             (case on_hub (current_snapshot env h) (b1\<lparr>hb_next := hb_next b1 + 1\<rparr>) of
                (Inl e, b2) \<Rightarrow>
                  (Some (Dropped (case e of Raised ex \<Rightarrow> ex | Http n t \<Rightarrow> RuntimeError t)),
                   b2\<lparr>hb_server := (hb_server b2)\<lparr>sv_kiosk :=
                        (sv_kiosk (hb_server b2))\<lparr>ki_subscribers := od_set (ki_subscribers (sv_kiosk (hb_server b2))) (hb_next b1) []\<rparr>\<rparr>\<rparr>)
              | (Inr snap, b2) \<Rightarrow>
                  (None,
                   b2\<lparr>hb_server := (hb_server b2)\<lparr>sv_kiosk := subscribe (hb_next b1) snap (sv_kiosk (hb_server b2))\<rparr>,
                      hb_live := hb_live b2 @ [(hb_next b1, hi_request h)], hb_count := hb_count b2 + 1\<rparr>)))"

text \<open>The revocation before each frame.\<close>

definition revoked :: "env \<Rightarrow> hit \<Rightarrow> request \<Rightarrow> server \<Rightarrow> bool \<times> server" where
  "revoked env h r s =
     (if ac_lan_mode (ev_config env) \<and> \<not> ac_lan_display (ev_config env) \<and> \<not> is_local_client r then
        let (ok, s1) = on_security (\<lambda>x. let (y, x1) = get_session (hi_clock h) (rq_cookie r) False x in (Inr (no_admin y), x1)) s
        in (ok = Inr True, s1)
      else (False, s))"

text \<open>The snapshot of a wake: the oldest of the queue, or a fresh one.\<close>

definition next_snapshot :: "env \<Rightarrow> hit \<Rightarrow> nat \<Rightarrow> wake \<Rightarrow> server \<Rightarrow> snapshot option answer" where
  "next_snapshot env h i w s =
     (if w = QueueReady then
        (case od_get (ki_subscribers (sv_kiosk s)) i of
           Some (x # rest) \<Rightarrow>
             (Inr (Some x), s\<lparr>sv_kiosk := (sv_kiosk s)\<lparr>ki_subscribers := od_set (ki_subscribers (sv_kiosk s)) i rest\<rparr>\<rparr>)
         | _ \<Rightarrow> (Inr None, s))
      else bind_st (current_snapshot env h s) (\<lambda>x s. (Inr (Some x), s)))"

definition wake_socket :: "env \<Rightarrow> hit \<Rightarrow> nat \<Rightarrow> wake \<Rightarrow> hub \<Rightarrow> socket_action option \<times> hub" where
  "wake_socket env h i w b =
     (case od_get (hb_live b) i of
        None \<Rightarrow> (None, b)
      | Some r \<Rightarrow>
          if w = ClientLeft then (Some Gone, end_socket i b)
          else if w = ClientSpoke then (Some (CloseCode 1008), end_socket i b)
          else
            (case on_hub (next_snapshot env h i w) b of
               (Inl e, b1) \<Rightarrow> (Some (Dropped (case e of Raised ex \<Rightarrow> ex | Http n t \<Rightarrow> RuntimeError t)), end_socket i b1)
             | (Inr None, b1) \<Rightarrow> (None, b1)
             | (Inr (Some x), b1) \<Rightarrow>
                 let (gone, b2) = on_hub (revoked env h r) b1
                 in if gone then (Some (CloseCode 1008), end_socket i b2) else (Some (Sent x), b2)))"

section \<open>Histories\<close>

datatype hub_op = OpenSocket hit bool string "string option" | WakeSocket hit nat wake | Meanwhile "server \<Rightarrow> server"

fun hub_step :: "env \<Rightarrow> hub_op \<Rightarrow> hub \<Rightarrow> hub" where
  "hub_step env (OpenSocket h testing host origin) b = snd (open_socket env h testing host origin b)"
| "hub_step env (WakeSocket h i w) b = snd (wake_socket env h i w b)"
| "hub_step env (Meanwhile f) b = b\<lparr>hb_server := f (hb_server b)\<rparr>"

definition new_hub :: "server \<Rightarrow> hub" where
  "new_hub s = \<lparr>hb_server = s, hb_live = [], hb_count = 0, hb_next = 0\<rparr>"

definition hub_ok :: "hub \<Rightarrow> bool" where
  "hub_ok b \<longleftrightarrow> od_wf (hb_live b) \<and> (\<forall>i\<in>set (od_keys (hb_live b)). i < hb_next b) \<and>
     hb_count b = int (length (hb_live b)) \<and> hb_count b \<le> MAX_SOCKETS"

definition admission :: "hub \<Rightarrow> _" where
  "admission b = (hb_live b, hb_count b, hb_next b)"

lemma hub_ok_admission: "admission b' = admission b \<Longrightarrow> hub_ok b' = hub_ok b"
  by (simp add: admission_def hub_ok_def)

lemma on_hub_admission [simp]: "admission (snd (on_hub f b)) = admission b"
  by (simp add: on_hub_def admission_def)

lemma new_hub_ok: "hub_ok (new_hub s)"
  by (simp add: hub_ok_def new_hub_def od_wf_def od_keys_def MAX_SOCKETS_def)

lemma od_pop_one:
  assumes "od_wf d" "od_get d k = Some v"
  shows "length d = length (od_pop d k) + 1"
  using assms
proof (induction d)
  case (Cons p d)
  obtain j x where p: "p = (j, x)" by force
  show ?case
  proof (cases "j = k")
    case True
    then have "od_get d k = None" using Cons.prems(1) p by (auto simp: od_wf_def od_keys_def od_get_def map_of_eq_None_iff)
    then show ?thesis using od_pop_absent [of d k] p True by (simp add: od_pop_def)
  next
    case False
    then show ?thesis using Cons p by (auto simp: od_pop_def od_wf_def od_keys_def od_get_def)
  qed
qed (simp add: od_get_def)

lemma end_socket_ok:
  assumes "hub_ok b" "od_get (hb_live b) i = Some r"
  shows "hub_ok (end_socket i b)"
  using assms od_pop_one [of "hb_live b" i r] od_wf_pop [of "hb_live b" i]
  by (auto simp: hub_ok_def end_socket_def od_keys_def od_pop_mem)

lemma open_socket_ok:
  assumes "hub_ok b"
  shows "hub_ok (snd (open_socket env h testing host origin b))"
proof -
  obtain ok b1 where b1: "on_hub (allow_socket h) b = (ok, b1)" by force
  obtain r b2 where b2: "on_hub (current_snapshot env h) (b1\<lparr>hb_next := hb_next b1 + 1\<rparr>) = (r, b2)" by force
  have a1: "admission b1 = admission b" using on_hub_admission [of "allow_socket h" b] b1 by simp
  have a2: "hb_live b2 = hb_live b" "hb_count b2 = hb_count b" "hb_next b2 = hb_next b + 1"
    using on_hub_admission [of "current_snapshot env h" "b1\<lparr>hb_next := hb_next b1 + 1\<rparr>"] b2 a1
    by (simp_all add: admission_def)
  have fresh: "hb_next b \<notin> set (od_keys (hb_live b))" using assms by (auto simp: hub_ok_def)
  have "hub_ok b1" using assms hub_ok_admission [OF a1] by simp
  moreover have "hub_ok (b2\<lparr>hb_server := t\<rparr>)" for t
    using assms a2 by (auto simp: hub_ok_def)
  moreover have "hub_ok (b2\<lparr>hb_server := t, hb_live := hb_live b2 @ [(hb_next b1, q)], hb_count := hb_count b2 + 1\<rparr>)"
    if "hb_count b1 < MAX_SOCKETS" for t q
    using assms a1 a2 fresh that by (auto simp: hub_ok_def admission_def od_wf_def od_keys_def)
  ultimately show ?thesis
    using assms b1 b2 by (auto simp: open_socket_def Let_def split: sum.split)
qed

lemma wake_socket_ok:
  assumes "hub_ok b"
  shows "hub_ok (snd (wake_socket env h i w b))"
proof (cases "od_get (hb_live b) i")
  case (Some r)
  obtain x b1 where b1: "on_hub (next_snapshot env h i w) b = (x, b1)" by force
  obtain gone b2 where b2: "on_hub (revoked env h r) b1 = (gone, b2)" by force
  have a: "admission b1 = admission b" "admission b2 = admission b"
    using on_hub_admission [of "next_snapshot env h i w" b] on_hub_admission [of "revoked env h r" b1] b1 b2 by simp_all
  then have "hub_ok b1" "hub_ok b2" "od_get (hb_live b1) i = Some r" "od_get (hb_live b2) i = Some r"
    using assms Some hub_ok_admission [of b1 b] hub_ok_admission [of b2 b] by (simp_all add: admission_def)
  then show ?thesis
    using assms Some b1 b2 end_socket_ok by (auto simp: wake_socket_def Let_def split: sum.split option.split)
qed (simp add: wake_socket_def assms)

lemma hub_step_ok: "hub_ok b \<Longrightarrow> hub_ok (hub_step env op b)"
  using open_socket_ok wake_socket_ok by (cases op) (simp, simp, simp add: hub_ok_def)

lemma hub_run_ok: "hub_ok b \<Longrightarrow> hub_ok (run_ops (hub_step env) ops b)"
  by (induction ops arbitrary: b) (simp_all add: hub_step_ok)

text \<open>The session of a request is an administrator's now.\<close>

definition admin_now :: "hit \<Rightarrow> request \<Rightarrow> server \<Rightarrow> bool" where
  "admin_now h r s \<longleftrightarrow>
     \<not> no_admin (fst (get_session (hi_clock h) (rq_cookie r) False ((sv_security s)\<lparr>se_store := co_store (sv_co s)\<rparr>)))"

lemma not_revoked_admin:
  assumes "fst (revoked env h r s) = False" "ac_lan_mode (ev_config env)" "\<not> ac_lan_display (ev_config env)"
    "\<not> is_local_client r"
  shows "admin_now h r s"
  using assms by (auto simp: revoked_def on_security_def admin_now_def split_def Let_def)

lemma snapshot_security: "sv_security (snd (next_snapshot env h i w s)) = sv_security s \<and> sv_co (snd (next_snapshot env h i w s)) = sv_co s"
  by (auto simp: next_snapshot_def current_snapshot_def bind_st_def split: option.split list.split sum.split prod.split)

text \<open>C36 The status sockets: whatever happens between their frames, at most 16 are open, the counter of
  the server equals their number, and their ends are all counted; and while the network is trusted
  only with a login, a remote socket is sent a frame only if its session is an administrator's at
  that moment.\<close>

theorem sockets_bounded:
  assumes "b = run_ops (hub_step env) ops (new_hub s)"
  shows "hb_count b = int (length (hb_live b)) \<and> hb_count b \<le> 16 \<and> distinct (od_keys (hb_live b)) \<and>
    (\<forall>h i w x r. ac_lan_mode (ev_config env) \<longrightarrow> \<not> ac_lan_display (ev_config env) \<longrightarrow>
       od_get (hb_live b) i = Some r \<longrightarrow> \<not> is_local_client r \<longrightarrow>
       fst (wake_socket env h i w b) = Some (Sent x) \<longrightarrow> admin_now h r (hb_server b))"
proof -
  have ok: "hub_ok b" unfolding assms by (rule hub_run_ok [OF new_hub_ok])
  have "admin_now h r (hb_server b)"
    if strict: "ac_lan_mode (ev_config env)" "\<not> ac_lan_display (ev_config env)" "\<not> is_local_client r"
      and r: "od_get (hb_live b) i = Some r" and sent: "fst (wake_socket env h i w b) = Some (Sent x)" for h i w x r
  proof -
    let ?s = "snd (next_snapshot env h i w (hb_server b))"
    have "fst (revoked env h r ?s) = False"
      using sent r by (auto simp: wake_socket_def on_hub_def Let_def split_def split: if_split_asm sum.split_asm option.split_asm)
    then have "admin_now h r ?s" using not_revoked_admin strict by blast
    then show ?thesis using snapshot_security [of env h i w "hb_server b"] by (simp add: admin_now_def)
  qed
  then show ?thesis using ok by (auto simp: hub_ok_def od_wf_def MAX_SOCKETS_def)
qed

end
