(* ===== verification/KP_ApiFacts.thy ===== *)
theory KP_ApiFacts
  imports KP_Evidence KP_SecurityFacts
begin

text \<open>
  What the routes guarantee together: once an administrator PIN is set, a client without it cannot
  change what is counted, billed or configured, whatever requests it sends in whatever order.
\<close>

section \<open>Every request that can change something\<close>

datatype call =
    CallCreateParticipant string
  | CallUpdateParticipant string "string option" "bool option"
  | CallAdjustFunds string "rat option" string
  | CallArmSession "string option" string
  | CallCancelSession
  | CallReplaceKeg string "rat option" string "timestamp option"
  | CallAdjustKeg string "rat option" string
  | CallSetKegRemaining "rat option" string
  | CallCreateCalibration string "rat option" string
  | CallAddSample string int int "rat option" "rat option" bool
  | CallArmCalibrationCapture string string "int option"
  | CallCommitCalibrationCapture string string "rat option" "rat option" bool
  | CallIncludeSample string int bool
  | CallActivateCalibration string
  | CallActivateProvisional string
  | CallVerification int "rat option" "rat option"
  | CallArmVerificationCapture string "int option"
  | CallDiscardCapture
  | CallCommitVerificationCapture string "rat option" "rat option"
  | CallReassign string string string
  | CallManagementSettings "int option" "rat option" "bool option"
  | CallSettings settings_update
  | CallSerialPreference "string option"
  | CallReconnectSerial
  | CallRecordClip int
  | CallFailClip string string
  | CallLogin string
  | CallSetPin string
  | CallRemovePin
  | CallLogout
  | CallContext
  | CallPourPhoto upload string
  | CallUnattributedPhoto upload
  | CallAvatarIfMissing upload string
  | CallReplaceAvatar upload string
  | CallDeleteAvatar string
  | CallPourVideo upload string
  | CallTestVideo upload
  | CallUnattributedVideo upload
  | CallRequestedVideo upload string

primrec serve :: "env \<Rightarrow> hit \<Rightarrow> call \<Rightarrow> site \<Rightarrow> site" where
  "serve env h (CallCreateParticipant n) s = snd (on_server (api_create_participant env h n) s)"
| "serve env h (CallUpdateParticipant i n a) s = snd (on_server (api_update_participant env h i n a) s)"
| "serve env h (CallAdjustFunds i a r) s = snd (on_server (api_adjust_funds env h i a r) s)"
| "serve env h (CallArmSession p k) s = snd (on_server (api_arm_session env h p k) s)"
| "serve env h CallCancelSession s = snd (on_server (api_cancel_session h) s)"
| "serve env h (CallReplaceKeg l v n t) s = snd (on_server (api_replace_keg env h l v n t) s)"
| "serve env h (CallAdjustKeg k a r) s = snd (on_server (api_adjust_keg env h k a r) s)"
| "serve env h (CallSetKegRemaining p r) s = snd (on_server (api_set_keg_remaining env h p r) s)"
| "serve env h (CallCreateCalibration l d n) s = snd (on_server (api_create_calibration env h l d n) s)"
| "serve env h (CallAddSample c n raw m d inc) s = snd (on_server (api_add_calibration_sample env h c n raw m d inc) s)"
| "serve env h (CallArmCalibrationCapture c k n) s = snd (on_server (api_arm_calibration_capture env h c k n) s)"
| "serve env h (CallCommitCalibrationCapture c i m d inc) s = snd (on_server (api_commit_calibration_capture env h c i m d inc) s)"
| "serve env h (CallIncludeSample c n inc) s = snd (on_server (api_include_calibration_sample env h c n inc) s)"
| "serve env h (CallActivateCalibration c) s = snd (on_server (api_activate_calibration env h c) s)"
| "serve env h (CallActivateProvisional c) s = snd (on_server (api_activate_provisional env h c) s)"
| "serve env h (CallVerification raw m d) s = snd (on_server (api_verification env h raw m d) s)"
| "serve env h (CallArmVerificationCapture k n) s = snd (on_server (api_arm_verification_capture env h k n) s)"
| "serve env h CallDiscardCapture s = snd (on_server (api_discard_capture env h) s)"
| "serve env h (CallCommitVerificationCapture i m d) s = snd (on_server (api_commit_verification_capture env h i m d) s)"
| "serve env h (CallReassign po p r) s = snd (on_server (api_reassign env h po p r) s)"
| "serve env h (CallManagementSettings keep price webcam) s = snd (on_server (api_update_management_settings env h keep price webcam) s)"
| "serve env h (CallSettings u) s = snd (on_server (api_update_settings env h u) s)"
| "serve env h (CallSerialPreference p) s = snd (on_server (api_serial_preference env h p) s)"
| "serve env h CallReconnectSerial s = snd (on_server (api_reconnect_serial env h) s)"
| "serve env h (CallRecordClip n) s = snd (on_server (api_request_camera_clip env h n) s)"
| "serve env h (CallFailClip i d) s = snd (on_server (api_fail_requested_video env h i d) s)"
| "serve env h (CallLogin p) s = snd (on_server (api_login env h p) s)"
| "serve env h (CallSetPin p) s = snd (on_server (api_set_pin env h p) s)"
| "serve env h CallRemovePin s = snd (on_server (api_remove_pin h) s)"
| "serve env h CallLogout s = snd (on_server (api_logout h) s)"
| "serve env h CallContext s = snd (on_server (api_context h) s)"
| "serve env h (CallPourPhoto u i) s = snd (route_pour_photo h u i s)"
| "serve env h (CallUnattributedPhoto u) s = snd (route_unattributed_photo h u s)"
| "serve env h (CallAvatarIfMissing u i) s = snd (route_avatar_if_missing env h u i s)"
| "serve env h (CallReplaceAvatar u i) s = snd (route_replace_avatar env h u i s)"
| "serve env h (CallDeleteAvatar i) s = snd (route_delete_avatar env h i s)"
| "serve env h (CallPourVideo u i) s = snd (route_pour_video h u i s)"
| "serve env h (CallTestVideo u) s = snd (route_test_video h u s)"
| "serve env h (CallUnattributedVideo u) s = snd (route_unattributed_video h u s)"
| "serve env h (CallRequestedVideo u i) s = snd (route_requested_video env h u i s)"

section \<open>What only an administrator may change\<close>

text \<open>Everything but the sessions, the photos, the diagnostics and the avatar marks.\<close>

definition person :: "string \<times> participant \<Rightarrow> string \<times> string \<times> bool \<times> int \<times> int" where
  "person r = (fst r, pt_display_name (snd r), pt_active (snd r), pt_balance_cents (snd r), pt_created_at (snd r))"

definition vault :: "store \<Rightarrow> _" where
  "vault s = (map person (st_participants s), st_kegs s, st_calibrations s, st_samples s, st_verifications s,
     st_pours s, st_results s, st_checkpoints s, st_adjustments s, st_audit s, st_charges s, st_ledger s,
     st_anomalies s, st_settings s)"

lemma vault_simps [simp]:
  "vault (s\<lparr>st_sessions := ss\<rparr>) = vault s" "vault (s\<lparr>st_photos := p\<rparr>) = vault s"
  "vault (s\<lparr>st_diagnostics := d\<rparr>) = vault s" "vault (s\<lparr>st_next_diagnostic := n\<rparr>) = vault s"
  "vault (set_status now i st s) = vault s"
  by (simp_all add: vault_def set_status_def)

lemma vault_keeps:
  "(\<And>x s'. body s = Inr (x, s') \<Longrightarrow> vault s' = vault s) \<Longrightarrow> vault (snd (transaction body s)) = vault s"
  by (rule transaction_keeps) simp_all

named_theorems vault_frame \<open>operations open to everyone\<close>

lemma create_provisional_vault [vault_frame]: "vault (snd (create_provisional i now p key pu c od s)) = vault s"
  unfolding create_provisional_def
  by (rule vault_keeps) (clarsimp simp: res_simps Let_def split: option.splits if_split_asm prod.splits)

lemma bind_provisional_vault [vault_frame]: "vault (snd (bind_provisional now i dev boot sq life s)) = vault s"
  unfolding bind_provisional_def
  by (rule vault_keeps) (clarsimp simp: res_simps Let_def split: option.splits if_split_asm prod.splits)

lemma update_provisional_status_vault [vault_frame]: "vault (snd (update_provisional_status now i st s)) = vault s"
  unfolding update_provisional_status_def
  by (rule vault_keeps) (clarsimp simp: res_simps Let_def split: option.splits if_split_asm prod.splits)

lemma add_diagnostic_vault [vault_frame]: "vault (snd (add_diagnostic now lv cd ctx s)) = vault s"
  unfolding add_diagnostic_def
  by (rule vault_keeps) (clarsimp simp: res_simps Let_def split: option.splits if_split_asm prod.splits)

lemma add_pour_photo_vault [vault_frame]: "vault (snd (add_pour_photo i now sid path sz sha s)) = vault s"
  unfolding add_pour_photo_def
  by (rule vault_keeps) (auto elim!: bind_InrE simp: Let_def insert_row_iff split: option.split_asm if_split_asm)

lemma prune_unattributed_photos_vault [vault_frame]: "vault (snd (prune_unattributed_photos keep s)) = vault s"
  unfolding prune_unattributed_photos_def
  by (rule vault_keeps) (clarsimp simp: res_simps Let_def split: option.splits if_split_asm prod.splits)

lemma map_person_update: "(\<And>p. person (i, f p) = person (i, p)) \<Longrightarrow> map person (update_row i f t) = map person t"
  by (auto simp: update_row_def)

lemma mark_participant_avatar_vault [vault_frame]: "vault (snd (mark_participant_avatar now i only s)) = vault s"
  unfolding mark_participant_avatar_def
  by (rule vault_keeps) (auto simp: res_simps Let_def vault_def map_person_update person_def split: if_split_asm)

section \<open>The coordinator's commands\<close>

lemma keeps_except:
  "f (snd rs) = a \<Longrightarrow> (\<And>e c. f (snd (hn e c)) = f c) \<Longrightarrow> (\<And>x c. f (snd (g x c)) = f c) \<Longrightarrow>
   f (snd (except_st rs hn g)) = a"
  by (cases rs; cases "fst rs") (auto simp: except_st_def)

definition vault_by :: "coordinator \<Rightarrow> _" where "vault_by c = (vault (co_store c), co_arm_timeout c)"

lemma vault_by_simps [simp]:
  "vault_by (c\<lparr>co_revision := n\<rparr>) = vault_by c" "vault_by (c\<lparr>co_requests := rs\<rparr>) = vault_by c"
  by (simp_all add: vault_by_def)

lemma on_store_vault: "(\<And>s. vault (snd (op s)) = vault s) \<Longrightarrow> vault_by (snd (on_store op c)) = vault_by c"
  by (simp add: on_store_def vault_by_def)

lemma diagnostic_vault [simp]: "vault_by (diagnostic m lv cd ctx c) = vault_by c"
  by (simp add: diagnostic_def on_store_vault vault_frame)

lemma send_request_vault [simp]: "vault_by (snd (send_request m op flds c)) = vault_by c"
  by (simp add: send_request_def)

lemma fail_session_vault: "vault_by (snd (fail_session m sid ex c)) = vault_by c"
  unfolding fail_session_def by (rule keeps_bind) (simp_all add: on_store_vault vault_frame)

lemma bind_session_vault: "vault_by (snd (bind_session m sid c)) = vault_by c"
  unfolding bind_session_def
  by (auto intro!: keeps_bind [where f = vault_by] on_store_vault vault_frame simp: send_request_def)

lemma send_arm_vault: "vault_by (snd (send_arm m sid st c)) = vault_by c"
  unfolding send_arm_def by (auto intro!: keeps_bind [where f = vault_by])

lemma arm_device_vault: "vault_by (snd (arm_device m sid c)) = vault_by c"
  unfolding arm_device_def
  by (auto intro!: keeps_except [where f = vault_by] fail_session_vault bind_session_vault send_arm_vault)

lemma arm_pour_vault: "vault_by (snd (arm_pour m p k c)) = vault_by c"
  unfolding arm_pour_def arm_for_purpose_def
  by (auto intro!: keeps_bind [where f = vault_by] on_store_vault vault_frame arm_device_vault)

lemma cancel_session_vault: "vault_by (snd (cancel_session m c)) = vault_by c"
  unfolding cancel_session_def interrupt_session_def Let_def
  by (auto intro!: keeps_bind [where f = vault_by] on_store_vault vault_frame split: option.split)

section \<open>Requests without the PIN\<close>

definition sec_of :: "server \<Rightarrow> security" where
  "sec_of s = (sv_security s)\<lparr>se_store := database s\<rparr>"

definition shut :: "json \<Rightarrow> server \<Rightarrow> bool" where
  "shut v s \<longleftrightarrow> sealed v (sec_of s)"

text \<open>The part of the application that only an administrator may change.\<close>

definition guarded :: "server \<Rightarrow> _" where
  "guarded s = (vault (database s), co_arm_timeout (sv_co s), sv_provider s, sv_reconnect s,
     se_lan_mode (sv_security s), se_lan_display (sv_security s))"

text \<open>What the requests of a session do not touch: the database, and the modes of access.\<close>

definition fixture :: "security \<Rightarrow> _" where
  "fixture x = (se_store x, se_lan_mode x, se_lan_display x)"

lemma fixture_simps [simp]:
  "fixture (x\<lparr>se_sessions := ss\<rparr>) = fixture x" "fixture (x\<lparr>se_attempts := a\<rparr>) = fixture x"
  "fixture (x\<lparr>se_global_attempts := g\<rparr>) = fixture x"
  by (simp_all add: fixture_def)

lemma fixture_store: "fixture x = fixture y \<Longrightarrow> se_store x = se_store y"
  by (simp add: fixture_def)

definition quiet :: "json \<Rightarrow> server \<Rightarrow> server \<Rightarrow> bool" where
  "quiet v s s' \<longleftrightarrow> (shut v s \<longrightarrow> shut v s' \<and> guarded s' = guarded s)"

lemma quiet_refl [simp]: "quiet v s s"
  by (simp add: quiet_def)

lemma quiet_bind:
  assumes "quiet v (g s) (g (snd rs))" "\<And>x s1. rs = (Inr x, s1) \<Longrightarrow> quiet v (g s1) (g (snd (f x s1)))"
  shows "quiet v (g s) (g (snd (bind_st rs f)))"
  using assms by (cases rs; cases "fst rs") (auto simp: quiet_def)

lemmas quiet_binds = quiet_bind [where g = "\<lambda>s. s"] quiet_bind [where g = si_server]

lemma quiet_same: "sv_security s' = sv_security s \<Longrightarrow> guarded s' = guarded s \<Longrightarrow> quiet v s s'"
  by (auto simp: quiet_def shut_def sealed_def sec_of_def guarded_def vault_def pin_setting_def plain_sessions_def)

lemma quiet_security:
  assumes "\<And>x. sealed v x \<Longrightarrow> sealed v (snd (f x))" "\<And>x. sealed v x \<Longrightarrow> fixture (snd (f x)) = fixture x"
  shows "quiet v s (snd (on_security f s))"
proof -
  let ?x = "(sv_security s)\<lparr>se_store := co_store (sv_co s)\<rparr>"
  obtain r y where y: "f ?x = (r, y)" by force
  have "sealed v ?x \<Longrightarrow> sealed v y \<and> se_store y = co_store (sv_co s) \<and> se_lan_mode y = se_lan_mode (sv_security s) \<and>
      se_lan_display y = se_lan_display (sv_security s)"
    using assms [of ?x] y by (simp add: fixture_def)
  moreover have "sealed v y \<Longrightarrow> se_store y = t \<Longrightarrow> sealed v (y\<lparr>se_store := t\<rparr>)" for t
    by (auto simp: sealed_def pin_setting_def plain_sessions_def)
  ultimately show ?thesis
    using y by (auto simp: quiet_def shut_def sec_of_def database_def on_security_def guarded_def)
qed

lemma quiet_coordinator: "(\<And>c. vault_by (snd (f c)) = vault_by c) \<Longrightarrow> quiet v s (snd (on_coordinator f s))"
proof (cases "f (sv_co s)")
  case (Pair r c)
  moreover assume "\<And>c. vault_by (snd (f c)) = vault_by c"
  ultimately have "vault_by c = vault_by (sv_co s)" by (metis snd_conv)
  then show ?thesis
    using Pair by (intro quiet_same) (auto simp: on_coordinator_def guarded_def database_def vault_by_def split: sum.split)
qed

lemma quiet_database: "(\<And>t. vault (snd (op t)) = vault t) \<Longrightarrow> quiet v s (snd (on_database op s))"
  unfolding on_database_def by (rule quiet_coordinator) (simp add: on_store_vault)

lemma publish_vault: "publish config b cast now mg c k = (r, c', k') \<Longrightarrow> vault_by c' = vault_by c"
  by (auto simp: publish_def Let_def split: if_split_asm prod.split_asm sum.split_asm)

lemma quiet_publish: "quiet v s (snd (publish_state env h s))"
  by (rule quiet_same)
    (auto simp: publish_state_def guarded_def database_def vault_by_def dest!: publish_vault split: prod.split sum.split)

lemma quiet_validated: "(\<And>x. y = Some x \<Longrightarrow> quiet v s (snd (f x s))) \<Longrightarrow> quiet v s (snd (validated y f s))"
  by (simp add: validated_def split: option.split)

lemma quiet_kiosk: "quiet v s (snd (r, s\<lparr>sv_kiosk := k\<rparr>))"
  by (rule quiet_same) (simp_all add: guarded_def database_def)

lemma quiet_server: "quiet v (si_server s) (snd (f (si_server s))) \<Longrightarrow> quiet v (si_server s) (si_server (snd (on_server f s)))"
  by (simp add: on_server_def)

section \<open>The guards\<close>

text \<open>The checks of a request do not touch the database.\<close>

lemma get_session_fixture [simp]: "fixture (snd (get_session now tk touch s)) = fixture s"
  by (auto simp: get_session_def Let_def prune_sessions_def split: option.split)

lemma new_session_fixture [simp]: "fixture (snd (new_session now tk csrf adm s)) = fixture s"
  by (simp add: new_session_def Let_def prune_sessions_def)

lemma require_csrf_fixture [simp]: "fixture (snd (require_csrf now r s)) = fixture s"
  using get_session_fixture [of now "rq_cookie r" True s]
  by (auto simp del: get_session_fixture simp: require_csrf_def split: prod.split option.split)

lemma require_admin_fixture [simp]: "fixture (snd (require_admin now r s)) = fixture s"
  unfolding require_admin_def by (rule keeps_bind) simp_all

lemma require_operational_fixture [simp]: "fixture (snd (require_operational now r s)) = fixture s"
  unfolding require_operational_def by (rule keeps_bind) simp_all

lemma security_context_fixture [simp]: "fixture (snd (security_context now tk csrf r s)) = fixture s"
  using get_session_fixture [of now "rq_cookie r" True s]
  by (auto simp del: get_session_fixture simp: security_context_def split: prod.split option.split)

lemma login_fixture [simp]: "fixture (snd (login scrypt now tk csrf r p s)) = fixture s"
  unfolding login_def Let_def
  by (rule keeps_bind)
    (simp_all add: throttle_def Let_def record_failed_attempt_def drop_session_def split_def)

lemma route_login_fixture [simp]: "fixture (snd (route_login scrypt now tk csrf r p s)) = fixture s"
  unfolding route_login_def by (rule keeps_bind) simp_all

lemma route_logout_fixture [simp]: "fixture (snd (route_logout now r s)) = fixture s"
  unfolding route_logout_def by (rule keeps_bind) (simp_all add: logout_def drop_session_def)

lemma refused_fixture:
  assumes "sealed v x"
  shows "fixture (snd (route_set_pin scrypt now salt r p x)) = fixture x"
    and "fixture (snd (route_remove_pin now r x)) = fixture x"
    and "fixture (snd (management_admin now r True x)) = fixture x"
  using sealed_admin [OF assms, of now r] sealed_configured [OF assms] require_admin_fixture [of now r x]
  by (auto simp del: require_admin_fixture simp: route_set_pin_def route_remove_pin_def management_admin_def bind_st_def
      split: sum.split)

lemma sealed_management: "sealed v x \<Longrightarrow> sealed v (snd (management_admin now r True x))"
  using sealed_require_admin [of v x now r] by (auto simp: management_admin_def bind_st_def split: sum.split)

lemma admin_quiet: "quiet v s (snd (admin h s))"
  unfolding admin_def by (rule quiet_security) (simp_all add: sealed_require_admin)

lemma operational_quiet: "quiet v s (snd (operational h s))"
  unfolding operational_def by (rule quiet_security) (simp_all add: sealed_require_operational)

lemma management_quiet: "quiet v s (snd (manager_admin h s))"
  unfolding manager_admin_def by (rule quiet_security) (simp_all add: sealed_management refused_fixture)

text \<open>What comes after a guard that refuses does not run.\<close>

lemma fst_security: "fst (on_security f s) = fst (f (sec_of s))"
  by (simp add: on_security_def sec_of_def database_def split_def Let_def)

lemma admin_refuses: "shut v s \<Longrightarrow> \<not> is_ok (fst (admin h s))"
  by (simp add: admin_def fst_security shut_def sealed_admin)

lemma management_refuses: "shut v s \<Longrightarrow> \<not> is_ok (fst (manager_admin h s))"
  using sealed_admin [of v "sec_of s" "hi_clock h" "hi_request h"] sealed_configured [of v "sec_of s"]
  by (auto simp: manager_admin_def fst_security shut_def management_admin_def bind_st_def split: sum.split_asm)

lemma bind_refused: "\<not> is_ok (fst rs) \<Longrightarrow> snd (bind_st rs f) = snd rs"
  by (cases rs; cases "fst rs") auto

lemma quiet_after_guard:
  "quiet v s (snd (bind_st (admin h s) f))" "quiet v s (snd (bind_st (manager_admin h s) g))"
  using admin_quiet [of v s h] management_quiet [of v s h] admin_refuses [of v s h] management_refuses [of v s h]
  by (auto simp: quiet_def bind_refused)

lemma quiet_after_site_guard: "quiet v (si_server s) (si_server (snd (bind_st (on_server (admin h) s) f)))"
proof (cases "shut v (si_server s)")
  case True
  then have "\<not> is_ok (fst (on_server (admin h) s))" using admin_refuses by (simp add: on_server_def)
  then show ?thesis using admin_quiet by (simp add: bind_refused on_server_def)
qed (simp add: quiet_def)

section \<open>Every call\<close>

lemma look_camera_quiet: "quiet v s (snd (look_camera h s))"
  by (rule quiet_same) (simp_all add: look_camera_def guarded_def database_def split_def Let_def)

lemma settled_quiet: "quiet v s (snd (resolve_and_publish env h i file d s))"
proof -
  obtain r k where r: "resolve_recording (now_of h) i file d (sv_kiosk s) = (r, k)" by force
  have k: "quiet v s (s\<lparr>sv_kiosk := k\<rparr>)" using quiet_kiosk by simp
  show ?thesis
  proof (cases r)
    case (Inr x)
    have "quiet v s (snd (publish_state env h (s\<lparr>sv_kiosk := k\<rparr>)))"
      using k quiet_publish [of v "s\<lparr>sv_kiosk := k\<rparr>" env h] by (simp add: quiet_def)
    then show ?thesis
      unfolding resolve_and_publish_def r Inr prod.case sum.case
      by (rule quiet_binds) (use look_camera_quiet [of v _ h] in \<open>simp add: split_def Let_def\<close>)
  qed (simp add: resolve_and_publish_def r k)
qed

lemmas quiet_intros = quiet_refl quiet_binds quiet_after_guard operational_quiet quiet_database quiet_coordinator
  quiet_publish quiet_validated vault_frame arm_pour_vault cancel_session_vault settled_quiet

lemma discard_quiet: "quiet v s (snd (api_discard_capture env h s))"
  unfolding api_discard_capture_def commit_and_publish_def respond_def
  by (auto intro!: quiet_intros split: option.split)

lemma commands_quiet:
  "quiet v s (snd (api_arm_session env h p k s))" "quiet v s (snd (api_cancel_session h s))"
  "quiet v s (snd (api_fail_requested_video env h i d s))"
  unfolding api_arm_session_def api_cancel_session_def api_fail_requested_video_def
  by (auto intro!: quiet_intros)

lemmas administration_defs =
  api_create_participant_def api_update_participant_def api_adjust_funds_def api_replace_keg_def
  api_adjust_keg_def api_set_keg_remaining_def api_create_calibration_def api_add_calibration_sample_def
  api_arm_calibration_capture_def api_commit_calibration_capture_def api_include_calibration_sample_def
  api_activate_calibration_def api_activate_provisional_def api_verification_def api_arm_verification_capture_def
  api_commit_verification_capture_def api_reassign_def api_update_management_settings_def api_update_settings_def
  api_serial_preference_def api_reconnect_serial_def api_request_camera_clip_def

lemma administration_quiet:
  "quiet v s (snd (api_create_participant env h n s))" "quiet v s (snd (api_update_participant env h i nm a s))"
  "quiet v s (snd (api_adjust_funds env h i amt r s))" "quiet v s (snd (api_replace_keg env h l vol nt t s))"
  "quiet v s (snd (api_adjust_keg env h k amt r s))" "quiet v s (snd (api_set_keg_remaining env h pc r s))"
  "quiet v s (snd (api_create_calibration env h l d nt s))"
  "quiet v s (snd (api_add_calibration_sample env h c od raw m d inc s))"
  "quiet v s (snd (api_arm_calibration_capture env h c k ordn s))"
  "quiet v s (snd (api_commit_calibration_capture env h c i m d inc s))"
  "quiet v s (snd (api_include_calibration_sample env h c od inc s))"
  "quiet v s (snd (api_activate_calibration env h c s))" "quiet v s (snd (api_activate_provisional env h c s))"
  "quiet v s (snd (api_verification env h raw m d s))" "quiet v s (snd (api_arm_verification_capture env h k ordn s))"
  "quiet v s (snd (api_commit_verification_capture env h i m d s))" "quiet v s (snd (api_reassign env h po i r s))"
  "quiet v s (snd (api_update_management_settings env h kp pr wc s))" "quiet v s (snd (api_update_settings env h u s))"
  "quiet v s (snd (api_serial_preference env h sp s))" "quiet v s (snd (api_reconnect_serial env h s))"
  "quiet v s (snd (api_request_camera_clip env h od s))"
  unfolding administration_defs
  by (auto intro!: quiet_validated quiet_after_guard)

lemma session_calls_quiet:
  "quiet v s (snd (api_set_pin env h p s))" "quiet v s (snd (api_remove_pin h s))"
  "quiet v s (snd (api_logout h s))" "quiet v s (snd (api_context h s))"
  unfolding api_set_pin_def api_remove_pin_def api_logout_def api_context_def
  using sealed_step [of v _ "SetPin (hi_clock h) (hi_id1 h) (hi_request h) q" "ev_scrypt env" for q]
    sealed_step [of v _ "RemovePin (hi_clock h) (hi_request h)" "ev_scrypt env"]
    sealed_step [of v _ "Logout (hi_clock h) (hi_request h)" "ev_scrypt env"]
    sealed_step [of v _ "Context (hi_clock h) (hi_id1 h) (hi_id2 h) (hi_request h)" "ev_scrypt env"]
  by (auto intro!: quiet_validated quiet_security simp: refused_fixture split_def Let_def)

text \<open>A login with a wrong PIN.\<close>

definition wrong_pin :: "env \<Rightarrow> json \<Rightarrow> call \<Rightarrow> bool" where
  "wrong_pin env v c \<longleftrightarrow>
     (\<forall>p q x. c = CallLogin p \<longrightarrow> PinRequest (ev_trim env) p = Some q \<longrightarrow> sealed v x \<longrightarrow> \<not> verify_pin (ev_scrypt env) q x)"

lemma login_quiet: "wrong_pin env v (CallLogin p) \<Longrightarrow> quiet v s (snd (api_login env h p s))"
  unfolding api_login_def wrong_pin_def by (auto intro!: quiet_validated quiet_security sealed_login)

lemma files_same: "si_server s' = si_server s \<Longrightarrow> quiet v (si_server s) (si_server s')"
  by simp

lemma store_photo_quiet: "quiet v (si_server s) (si_server (snd (store_photo h u i path s)))"
proof -
  let ?s = "s\<lparr>si_photos := od_set (si_photos s) path (ul_body u)\<rparr>"
  have "quiet v (si_server ?s) (si_server (snd (on_server (on_database (add_pour_photo (hi_id1 h) (now_of h) i path
      (int (length (ul_body u))) (ul_digest u))) ?s)))"
    by (intro quiet_server quiet_database vault_frame)
  then show ?thesis by (auto simp: store_photo_def Let_def split: prod.split sum.split)
qed

lemma store_clip_server [simp]: "si_server (snd (store_clip h u l s)) = si_server s"
  by (simp add: store_clip_def refuse_def Let_def)

lemma site_helpers [simp]:
  "snd (refuse n d s) = s" "si_server (snd (validated_avatar u s)) = si_server s"
  "si_server (snd (canonical_participant i s)) = si_server s" "si_server (write_avatar i b s) = si_server s"
  by (simp_all add: refuse_def validated_avatar_def canonical_participant_def write_avatar_def split: sum.split)

lemma prune_photos_quiet: "quiet v (si_server s) (si_server (snd (prune_photos s)))"
  unfolding prune_photos_def by (auto intro!: quiet_binds quiet_server quiet_database vault_frame)

lemmas site_intros = quiet_binds(2) quiet_server operational_quiet store_photo_quiet prune_photos_quiet

lemma photo_routes_quiet:
  "quiet v (si_server s) (si_server (snd (route_pour_photo h u i s)))"
  "quiet v (si_server s) (si_server (snd (route_unattributed_photo h u s)))"
  unfolding route_pour_photo_def route_unattributed_photo_def
  by (auto intro!: site_intros split: sum.split)

lemma video_routes_quiet:
  "quiet v (si_server s) (si_server (snd (route_pour_video h u i s)))"
  "quiet v (si_server s) (si_server (snd (route_test_video h u s)))"
  "quiet v (si_server s) (si_server (snd (route_unattributed_video h u s)))"
  unfolding route_pour_video_def route_test_video_def route_unattributed_video_def
  by (auto intro!: site_intros quiet_after_site_guard split: sum.split)

lemma mark_avatar_quiet:
  "quiet v (si_server s) (si_server (snd (on_server (on_database (mark_participant_avatar now i only)) (write_avatar j b s))))"
proof -
  have "quiet v (si_server (write_avatar j b s))
      (si_server (snd (on_server (on_database (mark_participant_avatar now i only)) (write_avatar j b s))))"
    by (intro quiet_server quiet_database vault_frame)
  then show ?thesis by simp
qed

lemma avatar_routes_quiet:
  "quiet v (si_server s) (si_server (snd (route_avatar_if_missing env h u i s)))"
  "quiet v (si_server s) (si_server (snd (route_replace_avatar env h u i s)))"
  "quiet v (si_server s) (si_server (snd (route_delete_avatar env h i s)))"
  unfolding route_avatar_if_missing_def route_replace_avatar_def route_delete_avatar_def
  by (auto intro!: site_intros quiet_after_site_guard mark_avatar_quiet quiet_publish split: option.split)

lemma requested_video_quiet: "quiet v (si_server s) (si_server (snd (route_requested_video env h u i s)))"
proof -
  have look: "quiet v (si_server t) (si_server (snd (look_site h t)))" for t
    using look_camera_quiet [of v "si_server t" h] by (simp add: look_site_def split_def Let_def)
  have later: "quiet v (si_server t) (si_server (snd (bind_st (store_clip h u l (snd (look_site h t))) k)))"
    if "\<And>x t. quiet v (si_server t) (si_server (snd (k x t)))" for t l k
    using look [of t] quiet_binds(2) [of v "snd (look_site h t)" "store_clip h u l (snd (look_site h t))" k] that
    by (simp add: quiet_def)
  show ?thesis
    unfolding route_requested_video_def
    by (auto simp: Let_def split_def intro!: site_intros look later settled_quiet)
qed

lemma serve_quiet:
  assumes "wrong_pin env v c"
  shows "quiet v (si_server s) (si_server (serve env h c s))"
  using assms
  by (cases c)
    (simp_all add: quiet_server administration_quiet commands_quiet discard_quiet session_calls_quiet login_quiet
      photo_routes_quiet video_routes_quiet avatar_routes_quiet requested_video_quiet)

section \<open>Remote clients\<close>

definition unchanged :: "site \<Rightarrow> site \<Rightarrow> bool" where
  "unchanged s s' \<longleftrightarrow> database (si_server s') = database (si_server s) \<and> si_avatars s' = si_avatars s \<and>
     si_photos s' = si_photos s \<and> si_clips s' = si_clips s \<and> si_mirror s' = si_mirror s"

lemma require_csrf_lan: "se_lan_mode (snd (require_csrf now r s)) = se_lan_mode s"
  by (auto simp: require_csrf_def get_session_def prune_sessions_def Let_def split: prod.split option.split)

lemma operational_refuses:
  assumes "shut v s" "se_lan_mode (sv_security s)" "\<not> is_local_client (hi_request h)"
  shows "\<not> is_ok (fst (operational h s))"
proof -
  obtain r x1 where r: "require_csrf (hi_clock h) (hi_request h) (sec_of s) = (r, x1)" by force
  moreover have "se_lan_mode x1" using require_csrf_lan [of "hi_clock h" "hi_request h" "sec_of s"] r assms(2)
    by (simp add: sec_of_def)
  ultimately show ?thesis
    using assms csrf_no_admin [of v "sec_of s" "hi_clock h" "hi_request h"]
    by (cases r) (auto simp: operational_def fst_security require_operational_def shut_def)
qed

lemma security_database:
  "fixture (snd (f (sec_of s))) = fixture (sec_of s) \<Longrightarrow> database (snd (on_security f s)) = database s"
  using fixture_store [of "snd (f (sec_of s))" "sec_of s"]
  by (simp add: on_security_def sec_of_def database_def split_def Let_def)

lemma guard_database [simp]:
  "database (snd (operational h s)) = database s" "database (snd (admin h s)) = database s"
  by (simp_all add: operational_def admin_def security_database)

lemma on_server_parts [simp]:
  "si_server (snd (on_server f s)) = snd (f (si_server s))" "si_avatars (snd (on_server f s)) = si_avatars s"
  "si_photos (snd (on_server f s)) = si_photos s" "si_clips (snd (on_server f s)) = si_clips s"
  "si_mirror (snd (on_server f s)) = si_mirror s"
  by (simp_all add: on_server_def)

lemma remote_refused:
  assumes "shut v (si_server s)" "se_lan_mode (sv_security (si_server s))" "\<not> is_local_client (hi_request h)"
  shows "unchanged s (serve env h c s)"
proof -
  let ?t = "si_server s"
  have management: "database (snd (manager_admin h ?t)) = database ?t"
    using assms(1) by (simp add: manager_admin_def security_database shut_def refused_fixture)
  have own: "database (snd (api_login env h p ?t)) = database ?t" "database (snd (api_context h ?t)) = database ?t"
    "database (snd (api_set_pin env h p ?t)) = database ?t" "database (snd (api_remove_pin h ?t)) = database ?t"
    "database (snd (api_logout h ?t)) = database ?t" for p
    using assms(1)
    by (auto simp: api_login_def api_context_def api_set_pin_def api_remove_pin_def api_logout_def validated_def
        security_database shut_def refused_fixture split_def Let_def split: option.split)
  note stops = operational_refuses [OF assms] admin_refuses [OF assms(1)] management_refuses [OF assms(1)]
  have stop: "snd (bind_st (operational h ?t) f) = snd (operational h ?t)"
    "snd (bind_st (admin h ?t) f) = snd (admin h ?t)"
    "snd (bind_st (manager_admin h ?t) g) = snd (manager_admin h ?t)" for f :: "sec_session \<Rightarrow> server \<Rightarrow> 'a answer" and g :: "unit \<Rightarrow> server \<Rightarrow> 'a answer"
    using stops by (simp_all add: bind_refused)
  have site_stop: "snd (bind_st (on_server (operational h) s) f) = s\<lparr>si_server := snd (operational h ?t)\<rparr>"
    "snd (bind_st (on_server (admin h) s) f) = s\<lparr>si_server := snd (admin h ?t)\<rparr>" for f :: "sec_session \<Rightarrow> site \<Rightarrow> 'a served"
    using stops by (simp_all add: bind_refused on_server_def)
  show ?thesis
    using assms(1)
    by (cases c)
      (simp_all add: unchanged_def own management stop site_stop validated_def administration_defs
        api_arm_session_def api_cancel_session_def api_discard_capture_def api_fail_requested_video_def
        route_pour_photo_def route_unattributed_photo_def route_avatar_if_missing_def route_replace_avatar_def
        route_delete_avatar_def route_pour_video_def route_test_video_def route_unattributed_video_def
        route_requested_video_def refuse_def split: option.split)
qed

section \<open>The whole application\<close>

definition serve_all :: "env \<Rightarrow> (hit \<times> call) list \<Rightarrow> site \<Rightarrow> site" where
  "serve_all env rs s = foldl (\<lambda>s (h, c). serve env h c s) s rs"

lemma serve_all_shut:
  assumes "\<forall>(h, c)\<in>set rs. wrong_pin env v c" "shut v (si_server s)"
  shows "shut v (si_server (serve_all env rs s)) \<and> guarded (si_server (serve_all env rs s)) = guarded (si_server s)"
  using assms
proof (induction rs arbitrary: s)
  case (Cons x rs)
  obtain h c where x: "x = (h, c)" by force
  have "quiet v (si_server s) (si_server (serve env h c s))" using Cons.prems(1) x by (intro serve_quiet) simp
  then have "shut v (si_server (serve env h c s))" "guarded (si_server (serve env h c s)) = guarded (si_server s)"
    using Cons.prems(2) by (simp_all add: quiet_def)
  then show ?case using Cons.IH [of "serve env h c s"] Cons.prems(1) x by (simp add: serve_all_def)
qed (simp add: serve_all_def)

lemma pin_keeps_shut:
  assumes "api_set_pin env h0 text s0 = (Inr (), s1)" "PinRequest (ev_trim env) text = Some pin"
    and "length (hi_id1 h0) = 16" "length (ev_scrypt env pin (hi_id1 h0)) = SCRYPT_LENGTH"
    and "\<forall>(h, c)\<in>set rs. \<forall>p q. c = CallLogin p \<longrightarrow> PinRequest (ev_trim env) p = Some q \<longrightarrow>
      ev_scrypt env q (hi_id1 h0) \<noteq> ev_scrypt env pin (hi_id1 h0)"
    and "si_server s = s1"
  shows "shut (pin_verifier (hi_id1 h0) (ev_scrypt env pin (hi_id1 h0))) (si_server (serve_all env rs s)) \<and>
    guarded (si_server (serve_all env rs s)) = guarded (si_server s)"
proof -
  let ?v = "pin_verifier (hi_id1 h0) (ev_scrypt env pin (hi_id1 h0))"
  obtain x where x: "route_set_pin (ev_scrypt env) (hi_clock h0) (hi_id1 h0) (hi_request h0) pin (sec_of s0) = (Inr (), x)"
      "s1 = s0\<lparr>sv_security := x, sv_co := (sv_co s0)\<lparr>co_store := se_store x\<rparr>\<rparr>"
    using assms(1,2) by (auto simp: api_set_pin_def validated_def on_security_def sec_of_def database_def split: prod.split_asm)
  obtain y where "set_pin (ev_scrypt env) (hi_id1 h0) pin y = (Inr (), x)"
    using x(1) by (auto simp: route_set_pin_def res_simps)
  then have start: "shut ?v (si_server s)"
    using set_pin_done [of "ev_scrypt env" "hi_id1 h0" pin y "()" x] x(2) assms(6)
    by (auto simp: shut_def sealed_def sec_of_def database_def plain_sessions_def pin_verifier_not_null pin_setting_def)
  have "wrong_pin env ?v c" if "(h, c) \<in> set rs" for h c
    using assms(5) that verify_stored [OF _ assms(3,4)] by (fastforce simp: wrong_pin_def sealed_def)
  then show ?thesis using start by (intro serve_all_shut) auto
qed

text \<open>C7 After an administrator PIN was set, no history of requests in which every login presents a PIN
  with another digest changes the accounts, kegs, calibrations, samples, verifications, pours,
  charges, ledger, audit rows, anomalies and settings, nor the arm timeout, the serial port and the
  mode of access: what stays open to everyone writes sessions, photos, diagnostics, avatar marks and
  files only.  In LAN mode a remote client without the PIN changes nothing at all in the database or
  the files.\<close>

theorem database_protected:
  assumes "api_set_pin env h0 text s0 = (Inr (), s1)" "PinRequest (ev_trim env) text = Some pin"
    and "length (hi_id1 h0) = 16" "length (ev_scrypt env pin (hi_id1 h0)) = SCRYPT_LENGTH"
    and "\<forall>(h, c)\<in>set rs. \<forall>p q. c = CallLogin p \<longrightarrow> PinRequest (ev_trim env) p = Some q \<longrightarrow>
      ev_scrypt env q (hi_id1 h0) \<noteq> ev_scrypt env pin (hi_id1 h0)"
    and "si_server s = s1" "s' = serve_all env rs s"
  shows "guarded (si_server s') = guarded s1 \<and>
    (\<forall>h c. se_lan_mode (sv_security s1) \<longrightarrow> \<not> is_local_client (hi_request h) \<longrightarrow> unchanged s' (serve env h c s'))"
proof -
  have shut: "shut (pin_verifier (hi_id1 h0) (ev_scrypt env pin (hi_id1 h0))) (si_server s')"
    and same: "guarded (si_server s') = guarded s1"
    using pin_keeps_shut [OF assms(1-5)] assms(6,7) by auto
  have "se_lan_mode (sv_security (si_server s')) = se_lan_mode (sv_security s1)" using same by (simp add: guarded_def)
  then show ?thesis using remote_refused [OF shut] same by simp
qed

text \<open>A machine in LAN mode with a local browser open, and calls from the network after its PIN was set.\<close>

definition demo_config :: app_config where
  "demo_config = \<lparr>ac_host = ''0.0.0.0'', ac_port = 8765, ac_demo = False, ac_no_browser = False, ac_serial_port = None,
     ac_arm_timeout_ms = 15000, ac_flow_gap_ms = 750, ac_settling_ms = 1500, ac_completion_seconds = 9,
     ac_display_units = ''ml'', ac_verification_warning_pct = 5, ac_lan_mode = True, ac_lan_display = False,
     ac_allow_test_shutdown = False, ac_allowed_hosts = [''keg''], ac_allowed_origins = [''http://keg'']\<rparr>"

definition demo_env :: env where
  "demo_env = \<lparr>ev_config = demo_config, ev_ui_build = None, ev_cast = id, ev_decimal_text = (\<lambda>x. ''0''), ev_trim = strip,
     ev_scrypt = demo_scrypt\<rparr>"

definition demo_hit :: "string \<Rightarrow> hit" where
  "demo_hit client =
     \<lparr>hi_request = \<lparr>rq_cookie = Some ''t1'', rq_csrf = Some ''c1'', rq_client = Some client\<rparr>, hi_clock = 1000,
      hi_moment = \<lparr>mo_now = 9000, mo_loop_time = 0, mo_identity_before = [], mo_identity = [], mo_status = [],
        mo_state = CONNECTED, mo_answer = (\<lambda>op flds. Inl (TimeoutError ''no answer'')), mo_pour_id = ''p'',
        mo_ledger_id = ''l'', mo_anomaly_id = ''a'', mo_session_id = ''s'', mo_uuid5 = id, mo_sha256 = id\<rparr>,
      hi_manager = new_manager 8, hi_id1 = demo_salt, hi_id2 = ''c2'', hi_id3 = ''i3''\<rparr>"

definition demo_server :: server where
  "demo_server =
     \<lparr>sv_co = \<lparr>co_store = empty_store, co_requests = [], co_retries = [], co_revision = 0, co_demo = False,
        co_arm_timeout = 15000\<rparr>,
      sv_security = demo_security\<lparr>se_sessions := [(''t1'', \<lparr>sn_token = ''t1'', sn_csrf = ''c1'', sn_created = 0,
        sn_last_seen = 0, sn_admin = True\<rparr>)]\<rparr>,
      sv_kiosk = \<lparr>ki_camera = None, ki_subscribers = []\<rparr>, sv_provider = new_provider, sv_reconnect = False\<rparr>"

definition demo_site :: site where
  "demo_site = \<lparr>si_server = snd (api_set_pin demo_env (demo_hit ''127.0.0.1'') ''4711'' demo_server),
     si_avatars = [], si_photos = [], si_clips = [], si_mirror = []\<rparr>"

definition demo_calls :: "(hit \<times> call) list" where
  "demo_calls = [(demo_hit ''10.0.0.9'', CallContext), (demo_hit ''10.0.0.9'', CallLogin ''0000''),
     (demo_hit ''127.0.0.1'', CallArmSession None ''k''), (demo_hit ''10.0.0.9'', CallCreateParticipant ''Eve'')]"

lemma demo_site_pin: "api_set_pin demo_env (demo_hit ''127.0.0.1'') ''4711'' demo_server = (Inr (), si_server demo_site)"
proof -
  have "fst (api_set_pin demo_env (demo_hit ''127.0.0.1'') ''4711'' demo_server) = Inr ()" by code_simp
  then show ?thesis by (simp add: demo_site_def prod_eq_iff)
qed

lemma demo_pins:
  "PinRequest (ev_trim demo_env) ''4711'' = Some ''4711''" "PinRequest (ev_trim demo_env) ''0000'' = Some ''0000''"
  by code_simp+

lemma demo_digest:
  "length (hi_id1 (demo_hit ''127.0.0.1'')) = 16"
  "length (ev_scrypt demo_env ''4711'' (hi_id1 (demo_hit ''127.0.0.1''))) = SCRYPT_LENGTH"
  by (simp_all add: demo_hit_def demo_env_def demo_salt_def demo_scrypt_def SCRYPT_LENGTH_def)

lemma demo_wrong_pins:
  "\<forall>(h, c)\<in>set demo_calls. \<forall>p q. c = CallLogin p \<longrightarrow> PinRequest (ev_trim demo_env) p = Some q \<longrightarrow>
     ev_scrypt demo_env q (hi_id1 (demo_hit ''127.0.0.1'')) \<noteq> ev_scrypt demo_env ''4711'' (hi_id1 (demo_hit ''127.0.0.1''))"
  using demo_pins by (auto simp: demo_calls_def demo_env_def demo_scrypt_def)

theorem database_protected_witness:
  "guarded (si_server (serve_all demo_env demo_calls demo_site)) = guarded (si_server demo_site)"
  using database_protected [OF demo_site_pin demo_pins(1) demo_digest demo_wrong_pins refl refl] by blast

end
