(* ===== verification/KP_ViewFacts.thy ===== *)
theory KP_ViewFacts
  imports KP_Sockets KP_ApiFacts
begin

text \<open>
  Who can read what: the pages that stay closed without the PIN, and the clip shown beside a pour.
\<close>

section \<open>The clip of a pour\<close>

lemma first_row_sort: "first_row (sort_key f xs) = Some x \<Longrightarrow> x \<in> set xs \<and> (\<forall>y\<in>set xs. f x \<le> f y)"
proof -
  assume "first_row (sort_key f xs) = Some x"
  then obtain rest where r: "sort_key f xs = x # rest" by (auto simp: first_row_def split: list.split_asm)
  have "sorted (map f (x # rest))" unfolding r [symmetric] by simp
  moreover have "set xs = set (x # rest)" unfolding r [symmetric] by simp
  ultimately show ?thesis by auto
qed

text \<open>The clip shown beside a pour is the clip of the pour's own session, whenever there is one, and
  otherwise a clip of nobody's flow or of a manual request from five seconds before the pour to three
  minutes after it; a camera test and a clip of another session are never shown, and of the clips
  that qualify the nearest in time is taken.\<close>

theorem match_video_own:
  assumes "match_video p (list_videos clips) = Some v"
  shows "ve_kind v \<noteq> ''cameratest'' \<and>
    (ve_kind v = ''pour'' \<longrightarrow> ve_prefix v = Some (take 8 (pe_session_id p))) \<and>
    (ve_kind v \<noteq> ''pour'' \<longrightarrow> pe_started_at p - 5000 \<le> ve_recorded v \<and> ve_recorded v \<le> pe_ended_at p + 180000 \<and>
       (\<forall>u\<in>set (list_videos clips). ve_kind u = ''pour'' \<longrightarrow> pe_session_id p \<noteq> [] \<longrightarrow>
          ve_prefix u \<noteq> Some (take 8 (pe_session_id p)))) \<and>
    (\<forall>u\<in>set (list_videos clips). ve_kind u = ve_kind v \<longrightarrow> ve_prefix u = ve_prefix v \<longrightarrow> pe_started_at p - 5000 \<le> ve_recorded u \<longrightarrow>
       ve_recorded u \<le> pe_ended_at p + 180000 \<longrightarrow> \<bar>ve_recorded v - pe_ended_at p\<bar> \<le> \<bar>ve_recorded u - pe_ended_at p\<bar>)"
proof -
  define own where "own = filter (\<lambda>v. ve_kind v = ''pour'' \<and> pe_session_id p \<noteq> [] \<and> ve_prefix v = Some (take 8 (pe_session_id p))) (list_videos clips)"
  define near where "near = filter (\<lambda>v. ve_kind v \<in> {''unattributed'', ''manual''} \<and> pe_started_at p - 5000 \<le> ve_recorded v \<and>
            ve_recorded v \<le> pe_ended_at p + 180000) (list_videos clips)"
  have v: "v \<in> set (if own = [] then near else own)"
      "\<And>u. u \<in> set (if own = [] then near else own) \<Longrightarrow> \<bar>ve_recorded v - pe_ended_at p\<bar> \<le> \<bar>ve_recorded u - pe_ended_at p\<bar>"
    using first_row_sort [OF assms [unfolded match_video_def Let_def, folded own_def near_def]] by simp_all
  have empty: "own = [] \<longleftrightarrow> (\<forall>u\<in>set (list_videos clips). ve_kind u = ''pour'' \<longrightarrow> pe_session_id p \<noteq> [] \<longrightarrow>
          ve_prefix u \<noteq> Some (take 8 (pe_session_id p)))"
    unfolding own_def filter_empty_conv by blast
  show ?thesis
  proof (cases "own = []")
    case True
    then have "v \<in> set near" using v(1) by simp
    then show ?thesis using v(2) True empty by (auto simp: near_def)
  next
    case False
    then have "v \<in> set own" using v(1) by simp
    then show ?thesis using v(2) False by (auto simp: own_def)
  qed
qed

text \<open>A pour of a session with one clip of its own; a clip of nobody's is nearer in time.\<close>

definition demo_clips :: "clip list" where
  "demo_clips = [\<lparr>cl_name = ''unattributed_19700101_000010_aaaaaa.webm'', cl_mtime = 0, cl_size = 10\<rparr>,
     \<lparr>cl_name = ''pour_0123abcd_19700101_000040_bbbbbb.webm'', cl_mtime = 0, cl_size = 20\<rparr>]"

theorem match_video_own_witness:
  "\<exists>v. match_video ((demo_pour_at 10000)\<lparr>pe_session_id := ''0123abcd-0000''\<rparr>) (list_videos demo_clips) = Some v \<and>
     ve_prefix v = Some ''0123abcd'' \<and> ve_kind v \<noteq> ''cameratest''"
proof -
  let ?p = "(demo_pour_at 10000)\<lparr>pe_session_id := ''0123abcd-0000''\<rparr>"
  have "map_option (\<lambda>v. (ve_kind v, ve_prefix v)) (match_video ?p (list_videos demo_clips)) = Some (''pour'', Some ''0123abcd'')"
    by code_simp
  then obtain v where v: "match_video ?p (list_videos demo_clips) = Some v" "ve_prefix v = Some ''0123abcd''"
    by (auto simp: map_option_eq_Some)
  from match_video_own [OF v(1)] v show ?thesis by blast
qed

section \<open>The pages\<close>

datatype page =
    StatusPage | PeoplePage bool | CurrentSessionPage | SessionPage string | KegsPage | CalibrationsPage
  | CalibrationPage string | VerificationsPage | HistoryPage int "string option" bool | ManagementPage
  | ReviewPage int "string option" bool rat | VideosPage | VideoPage string | PhotoPage string | EvidencePhotoPage string
  | AvatarPage string | ExportPage string "nat \<Rightarrow> store" | BackupPage string "(string, string) odict" | SettingsPage "string option"
  | PortsPage "string list" | DiagnosticsPage int

text \<open>Whether a page is shown.\<close>

primrec shown_to :: "env \<Rightarrow> hit \<Rightarrow> page \<Rightarrow> site \<Rightarrow> bool" where
  "shown_to env h StatusPage s = is_ok (fst (view_status env h (si_server s)))"
| "shown_to env h (PeoplePage all) s = is_ok (fst (view_participants h all (si_server s)))"
| "shown_to env h CurrentSessionPage s = is_ok (fst (view_current_session h (si_server s)))"
| "shown_to env h (SessionPage i) s = is_ok (fst (view_session h i (si_server s)))"
| "shown_to env h KegsPage s = is_ok (fst (view_kegs h (si_server s)))"
| "shown_to env h CalibrationsPage s = is_ok (fst (view_calibrations h (si_server s)))"
| "shown_to env h (CalibrationPage i) s = is_ok (fst (view_calibration h i (si_server s)))"
| "shown_to env h VerificationsPage s = is_ok (fst (view_verifications h (si_server s)))"
| "shown_to env h (HistoryPage n p u) s = is_ok (fst (view_history env h n p u (si_server s)))"
| "shown_to env h ManagementPage s = is_ok (fst (view_management h (si_server s)))"
| "shown_to env h (ReviewPage n p u oz) s = is_ok (fst (view_review env h n p u oz (si_clips s) (si_server s)))"
| "shown_to env h VideosPage s = is_ok (fst (view_videos h (si_clips s) (si_server s)))"
| "shown_to env h (VideoPage name) s = is_ok (fst (view_video h name (si_clips s) (si_server s)))"
| "shown_to env h (PhotoPage i) s = is_ok (fst (view_photo h i (si_photos s) (si_server s)))"
| "shown_to env h (EvidencePhotoPage i) s = is_ok (fst (view_evidence_photo h i (si_photos s) (si_server s)))"
| "shown_to env h (AvatarPage i) s = is_ok (fst (view_avatar h i (si_avatars s) (si_server s)))"
| "shown_to env h (ExportPage f db) s = is_ok (fst (view_export h f db (si_server s)))"
| "shown_to env h (BackupPage name files) s = is_ok (fst (view_backup h name files (si_server s)))"
| "shown_to env h (SettingsPage port) s = is_ok (fst (view_settings env h port (si_server s)))"
| "shown_to env h (PortsPage ports) s = is_ok (fst (view_ports h ports (si_server s)))"
| "shown_to env h (DiagnosticsPage n) s = is_ok (fst (view_diagnostics h n (si_server s)))"

text \<open>The pages of the wall display, and those of the administrator.\<close>

primrec display_page :: "page \<Rightarrow> bool" where
  "display_page StatusPage = True"
| "display_page (PeoplePage all) = True"
| "display_page CurrentSessionPage = False"
| "display_page (SessionPage i) = False"
| "display_page KegsPage = False"
| "display_page CalibrationsPage = False"
| "display_page (CalibrationPage i) = False"
| "display_page VerificationsPage = False"
| "display_page (HistoryPage n p u) = True"
| "display_page ManagementPage = False"
| "display_page (ReviewPage n p u oz) = False"
| "display_page VideosPage = False"
| "display_page (VideoPage name) = False"
| "display_page (PhotoPage i) = False"
| "display_page (EvidencePhotoPage i) = True"
| "display_page (AvatarPage i) = True"
| "display_page (ExportPage f db) = False"
| "display_page (BackupPage name files) = False"
| "display_page (SettingsPage port) = False"
| "display_page (PortsPage ports) = False"
| "display_page (DiagnosticsPage n) = False"

primrec admin_page :: "page \<Rightarrow> bool" where
  "admin_page StatusPage = False"
| "admin_page (PeoplePage all) = False"
| "admin_page CurrentSessionPage = False"
| "admin_page (SessionPage i) = False"
| "admin_page KegsPage = False"
| "admin_page CalibrationsPage = False"
| "admin_page (CalibrationPage i) = False"
| "admin_page VerificationsPage = False"
| "admin_page (HistoryPage n p u) = False"
| "admin_page ManagementPage = True"
| "admin_page (ReviewPage n p u oz) = True"
| "admin_page VideosPage = True"
| "admin_page (VideoPage name) = True"
| "admin_page (PhotoPage i) = True"
| "admin_page (EvidencePhotoPage i) = False"
| "admin_page (AvatarPage i) = False"
| "admin_page (ExportPage f db) = False"
| "admin_page (BackupPage name files) = True"
| "admin_page (SettingsPage port) = False"
| "admin_page (PortsPage ports) = False"
| "admin_page (DiagnosticsPage n) = True"

lemma sealed_no_admin: "sealed v x \<Longrightarrow> no_admin (fst (get_session now tk True x))"
  by (simp add: sealed_def get_session_plain)

lemma readers_refuse:
  assumes "shut v s"
  shows "\<not> is_ok (fst (admin_reader h s))" "\<not> is_ok (fst (manager_reader h s))"
  using assms sealed_no_admin [of v "sec_of s" "hi_clock h" "rq_cookie (hi_request h)"]
    sealed_configured [OF sealed_get_session [of v "sec_of s" "hi_clock h" "rq_cookie (hi_request h)" True]]
  by (auto simp: admin_reader_def manager_reader_def fst_security shut_def management_admin_def admin_access_def
      require_access_def bind_st_def split: sum.split_asm prod.split_asm if_split_asm)

lemma strangers_refused:
  assumes "shut v s" "se_lan_mode (sv_security s)" "\<not> is_local_client (hi_request h)"
  shows "\<not> is_ok (fst (access h s))" "\<not> se_lan_display (sv_security s) \<Longrightarrow> \<not> is_ok (fst (display_access h s))"
  using assms sealed_no_admin [of v "sec_of s" "hi_clock h" "rq_cookie (hi_request h)"]
  by (auto simp: access_def display_access_def fst_security shut_def require_access_def require_display_access_def
      sec_of_def split: prod.split)

lemma fst_refused: "\<not> is_ok (fst rs) \<Longrightarrow> \<not> is_ok (fst (bind_st rs f))"
  by (cases rs; cases "fst rs") auto

lemmas view_defs = view_status_def view_participants_def view_current_session_def view_session_def view_kegs_def
  view_calibrations_def view_calibration_def view_verifications_def view_history_def view_management_def view_review_def
  view_videos_def view_video_def view_photo_def view_evidence_photo_def view_avatar_def view_export_def view_backup_def
  view_settings_def view_ports_def view_diagnostics_def

text \<open>What an application that nobody is logged in to shows.\<close>

lemma shut_pages:
  assumes "shut v (si_server s)" "shown_to env h pg s"
  shows "\<not> admin_page pg"
    and "se_lan_mode (sv_security (si_server s)) \<Longrightarrow> \<not> is_local_client (hi_request h) \<Longrightarrow>
      se_lan_display (sv_security (si_server s)) \<and> display_page pg"
proof -
  note shut = assms(1)
  note refused = fst_refused [OF readers_refuse(1) [OF shut]] fst_refused [OF readers_refuse(2) [OF shut]]
  show "\<not> admin_page pg"
    using assms(2) by (cases pg) (auto simp: refused view_defs validated_def split: option.split_asm)
  assume remote: "se_lan_mode (sv_security (si_server s))" "\<not> is_local_client (hi_request h)"
  note stranger = fst_refused [OF strangers_refused(1) [OF shut remote]]
  have "se_lan_display (sv_security (si_server s))"
  proof (rule ccontr)
    assume "\<not> se_lan_display (sv_security (si_server s))"
    note closed = fst_refused [OF strangers_refused(2) [OF shut remote this]]
    show False using assms(2)
      by (cases pg) (auto simp: refused stranger closed view_defs validated_def split: option.split_asm)
  qed
  then show "se_lan_display (sv_security (si_server s)) \<and> display_page pg"
    using assms(2) by (cases pg) (auto simp: refused stranger view_defs validated_def split: option.split_asm)
qed

text \<open>C22 What can be read without the PIN, after one was set and whatever requests without it came before:
  nobody sees the pages of the administrator, in loopback mode either (the backups are among them,
  although \<open>docs/SECURITY.md\<close> says that they need no PIN there); and in LAN mode a remote client sees
  nothing, or the pages of the wall display alone where that mode is on.\<close>

theorem pages_closed:
  assumes "api_set_pin env h0 text s0 = (Inr (), s1)" "PinRequest (ev_trim env) text = Some pin"
    and "length (hi_id1 h0) = 16" "length (ev_scrypt env pin (hi_id1 h0)) = SCRYPT_LENGTH"
    and "\<forall>(h, c)\<in>set rs. \<forall>p q. c = CallLogin p \<longrightarrow> PinRequest (ev_trim env) p = Some q \<longrightarrow>
      ev_scrypt env q (hi_id1 h0) \<noteq> ev_scrypt env pin (hi_id1 h0)"
    and "si_server s = s1" "s' = serve_all env rs s"
  shows "\<forall>h pg. shown_to env h pg s' \<longrightarrow> \<not> admin_page pg \<and>
    (se_lan_mode (sv_security s1) \<longrightarrow> \<not> is_local_client (hi_request h) \<longrightarrow>
       se_lan_display (sv_security s1) \<and> display_page pg)"
proof -
  have "shut (pin_verifier (hi_id1 h0) (ev_scrypt env pin (hi_id1 h0))) (si_server s')"
    and same: "guarded (si_server s') = guarded s1"
    using pin_keeps_shut [OF assms(1-5)] assms(6,7) by auto
  then show ?thesis using shut_pages [of _ s'] by (auto simp: guarded_def)
qed

text \<open>The machine with a PIN, after the calls from the network: a client from there sees no keg.\<close>

theorem pages_closed_witness:
  "\<not> shown_to demo_env (demo_hit ''10.0.0.9'') KegsPage (serve_all demo_env demo_calls demo_site)"
proof -
  have lan: "se_lan_mode (sv_security (si_server demo_site))" by code_simp
  have remote: "\<not> is_local_client (hi_request (demo_hit ''10.0.0.9''))" by (simp add: is_local_client_def demo_hit_def)
  from pages_closed [OF demo_site_pin demo_pins(1) demo_digest demo_wrong_pins refl refl] lan remote
  show ?thesis by fastforce
qed

section \<open>A socket of an administrator\<close>

definition demo_hub :: hub where
  "demo_hub = run_ops (hub_step demo_env) [OpenSocket (demo_hit ''10.0.0.9'') False ''keg'' (Some ''http://keg'')] (new_hub demo_server)"

theorem sockets_bounded_witness:
  "\<exists>r. od_get (hb_live demo_hub) 0 = Some r \<and> admin_now (demo_hit ''10.0.0.9'') r (hb_server demo_hub)"
proof -
  have "map_option rq_client (od_get (hb_live demo_hub) 0) = Some (Some ''10.0.0.9'')" by code_simp
  then obtain r where r: "od_get (hb_live demo_hub) 0 = Some r" "\<not> is_local_client r"
    by (auto simp: is_local_client_def)
  have "case fst (wake_socket demo_env (demo_hit ''10.0.0.9'') 0 Silence demo_hub) of Some (Sent x) \<Rightarrow> True | _ \<Rightarrow> False"
    by code_simp
  then obtain x where "fst (wake_socket demo_env (demo_hit ''10.0.0.9'') 0 Silence demo_hub) = Some (Sent x)"
    by (auto split: option.split_asm socket_action.split_asm)
  moreover have "ac_lan_mode (ev_config demo_env)" "\<not> ac_lan_display (ev_config demo_env)"
    by (simp_all add: demo_env_def demo_config_def)
  ultimately show ?thesis using sockets_bounded [OF demo_hub_def] r by blast
qed

end
