(* ===== verification/KP_Instance.thy ===== *)
theory KP_Instance
  imports KP_Prelude
begin

text \<open>
  The lock of a data directory, \<open>InstanceLock\<close> of \<open>src/kegpulse/instance_lock.py\<close>, and the part of the
  operating system it rests on: descriptors of the lock file, and one lock that at most one of them
  has and that is free again when its descriptor is closed, as at the end of its process.

  The lock objects of all processes are numbered.  Every call of the system that can fail is a field of
  \<open>lock_calls\<close>.
\<close>

section \<open>State\<close>

datatype lock_exc = AlreadyRunning | AlreadyHeld | SystemFault

text \<open>The open descriptors of the lock file and the one that has the lock; the size of the file, which is
  never removed; and the descriptor each lock object keeps in \<open>_fd\<close>.\<close>

record lock_world =
  lw_open :: "nat list"
  lw_locked :: "nat option"
  lw_size :: "nat option"
  lw_next :: nat
  lw_held :: "(nat, nat) odict"

text \<open>Which calls succeed.  \<open>lc_lock\<close> is false when the lock is refused for another reason than its holder.\<close>

record lock_calls =
  lc_windows :: bool
  lc_mkdir :: bool
  lc_open :: bool
  lc_chmod :: bool
  lc_stat :: bool
  lc_write :: bool
  lc_seek :: bool
  lc_lock :: bool
  lc_unlock :: bool

definition no_locks :: lock_world where
  "no_locks = \<lparr>lw_open = [], lw_locked = None, lw_size = None, lw_next = 0, lw_held = []\<rparr>"

section \<open>The operating system\<close>

definition os_open :: "lock_world \<Rightarrow> nat \<times> lock_world" where
  "os_open w =
     (lw_next w,
      w\<lparr>lw_open := lw_open w @ [lw_next w], lw_next := lw_next w + 1,
        lw_size := Some (case lw_size w of None \<Rightarrow> 0 | Some n \<Rightarrow> n)\<rparr>)"

definition os_close :: "nat \<Rightarrow> lock_world \<Rightarrow> lock_world" where
  "os_close fd w =
     w\<lparr>lw_open := removeAll fd (lw_open w), lw_locked := (if lw_locked w = Some fd then None else lw_locked w)\<rparr>"

section \<open>The lock object\<close>

text \<open>On Windows every refusal counts as a running instance.\<close>

definition acquire_os_lock :: "lock_calls \<Rightarrow> nat \<Rightarrow> lock_world \<Rightarrow> (lock_exc + unit) \<times> lock_world" where
  "acquire_os_lock os fd w =
     (if lw_locked w \<noteq> None \<and> lw_locked w \<noteq> Some fd then (Inl AlreadyRunning, w)
      else if \<not> lc_lock os then (Inl (if lc_windows os then AlreadyRunning else SystemFault), w)
      else (Inr (), w\<lparr>lw_locked := Some fd\<rparr>))"

text \<open>The body of the \<open>try\<close>.\<close>

definition prepare_lock_file :: "lock_calls \<Rightarrow> nat \<Rightarrow> lock_world \<Rightarrow> (lock_exc + unit) \<times> lock_world" where
  "prepare_lock_file os fd w =
     (if \<not> lc_windows os \<and> \<not> lc_chmod os then (Inl SystemFault, w)
      else if \<not> lc_stat os then (Inl SystemFault, w)
      else if lw_size w = Some 0 \<and> \<not> lc_write os then (Inl SystemFault, w)
      else
        let w1 = (if lw_size w = Some 0 then w\<lparr>lw_size := Some 1\<rparr> else w)
        in if \<not> lc_seek os then (Inl SystemFault, w1) else acquire_os_lock os fd w1)"

definition lock_acquire :: "lock_calls \<Rightarrow> nat \<Rightarrow> lock_world \<Rightarrow> (lock_exc + unit) \<times> lock_world" where
  "lock_acquire os i w =
     (if od_mem i (lw_held w) then (Inl AlreadyHeld, w)
      else if \<not> lc_mkdir os \<or> \<not> lc_open os then (Inl SystemFault, w)
      else
        let (fd, w1) = os_open w
        in (case prepare_lock_file os fd w1 of
              (Inl e, w2) \<Rightarrow> (Inl e, os_close fd w2)
            | (Inr _, w2) \<Rightarrow> (Inr (), w2\<lparr>lw_held := od_set (lw_held w2) i fd\<rparr>)))"

definition lock_release :: "lock_calls \<Rightarrow> nat \<Rightarrow> lock_world \<Rightarrow> (lock_exc + unit) \<times> lock_world" where
  "lock_release os i w =
     (case od_get (lw_held w) i of
        None \<Rightarrow> (Inr (), w)
      | Some fd \<Rightarrow>
          let w1 = w\<lparr>lw_held := od_pop (lw_held w) i\<rparr>;
              unlocked = (lc_windows os \<longrightarrow> lc_seek os) \<and> lc_unlock os;
              w2 = (if unlocked \<and> lw_locked w1 = Some fd then w1\<lparr>lw_locked := None\<rparr> else w1)
          in (if unlocked then Inr () else Inl SystemFault, os_close fd w2))"

text \<open>The process of a lock object ends without a release.\<close>

definition lock_crash :: "nat \<Rightarrow> lock_world \<Rightarrow> lock_world" where
  "lock_crash i w =
     (case od_get (lw_held w) i of
        None \<Rightarrow> w
      | Some fd \<Rightarrow> os_close fd (w\<lparr>lw_held := od_pop (lw_held w) i\<rparr>))"

section \<open>At most one instance\<close>

datatype lock_op = Acquire lock_calls nat | Release lock_calls nat | Crash nat

fun lock_step :: "lock_op \<Rightarrow> lock_world \<Rightarrow> lock_world" where
  "lock_step (Acquire os i) w = snd (lock_acquire os i w)"
| "lock_step (Release os i) w = snd (lock_release os i w)"
| "lock_step (Crash i) w = lock_crash i w"

text \<open>Either nobody has the lock and no descriptor is open, or one object has both.\<close>

definition lock_free :: "lock_world \<Rightarrow> bool" where
  "lock_free w \<longleftrightarrow> lw_held w = [] \<and> lw_open w = [] \<and> lw_locked w = None"

definition lock_owned :: "nat \<Rightarrow> lock_world \<Rightarrow> bool" where
  "lock_owned i w \<longleftrightarrow> (\<exists>fd. lw_held w = [(i, fd)] \<and> lw_open w = [fd] \<and> lw_locked w = Some fd \<and> fd < lw_next w)"

definition lock_ok :: "lock_world \<Rightarrow> bool" where
  "lock_ok w \<longleftrightarrow> lock_free w \<or> (\<exists>i. lock_owned i w)"

definition same_locks :: "lock_world \<Rightarrow> lock_world \<Rightarrow> bool" where
  "same_locks w w' \<longleftrightarrow> lw_open w' = lw_open w \<and> lw_locked w' = lw_locked w \<and> lw_held w' = lw_held w \<and> lw_next w \<le> lw_next w'"

lemma same_owned: "same_locks w w' \<Longrightarrow> lock_owned i w \<Longrightarrow> lock_owned i w'"
  by (auto simp: same_locks_def lock_owned_def)

lemma same_free: "same_locks w w' \<Longrightarrow> lock_free w \<Longrightarrow> lock_free w'"
  by (simp add: same_locks_def lock_free_def)

lemmas lock_defs = lock_acquire_def prepare_lock_file_def acquire_os_lock_def os_open_def os_close_def Let_def

lemma acquire_free:
  assumes "lock_free w"
  shows "if is_ok (fst (lock_acquire os i w)) then lock_owned i (snd (lock_acquire os i w))
    else same_locks w (snd (lock_acquire os i w))"
  using assms by (auto simp: lock_defs lock_free_def lock_owned_def same_locks_def od_mem_def od_keys_def)

lemma prepare_refused:
  assumes "lw_locked w = Some f" "f \<noteq> fd"
  shows "\<exists>e n. prepare_lock_file os fd w = (Inl e, w\<lparr>lw_size := n\<rparr>)"
proof -
  have "w = w\<lparr>lw_size := lw_size w\<rparr>" by simp
  then have "\<exists>n. w = w\<lparr>lw_size := n\<rparr>" by blast
  then show ?thesis
    using assms by (simp add: prepare_lock_file_def acquire_os_lock_def Let_def) blast
qed

lemma acquire_owned:
  assumes "lock_owned j w"
  shows "\<not> is_ok (fst (lock_acquire os i w)) \<and> same_locks w (snd (lock_acquire os i w))"
proof -
  obtain fd where w: "lw_held w = [(j, fd)]" "lw_open w = [fd]" "lw_locked w = Some fd" "fd < lw_next w"
    using assms by (auto simp: lock_owned_def)
  obtain n w1 where opened: "os_open w = (n, w1)" "n = lw_next w" "lw_locked w1 = Some fd" "lw_open w1 = [fd, n]"
      "lw_held w1 = lw_held w" "lw_next w1 = n + 1"
    using w by (simp add: os_open_def)
  obtain e k where "prepare_lock_file os n w1 = (Inl e, w1\<lparr>lw_size := k\<rparr>)"
    using prepare_refused [of w1 fd n os] opened w(4) by auto
  then show ?thesis
    using w opened by (auto simp: lock_acquire_def os_close_def same_locks_def)
qed

lemma release_cases:
  "lock_free w \<Longrightarrow> snd (lock_release os i w) = w"
  "lock_owned i w \<Longrightarrow> lock_free (snd (lock_release os i w))"
  "lock_owned j w \<Longrightarrow> j \<noteq> i \<Longrightarrow> snd (lock_release os i w) = w"
  by (auto simp: lock_release_def lock_free_def lock_owned_def os_close_def od_get_def od_pop_def Let_def)

lemma crash_cases:
  "lock_free w \<Longrightarrow> lock_crash i w = w"
  "lock_owned i w \<Longrightarrow> lock_free (lock_crash i w)"
  "lock_owned j w \<Longrightarrow> j \<noteq> i \<Longrightarrow> lock_crash i w = w"
  by (auto simp: lock_crash_def lock_free_def lock_owned_def os_close_def od_get_def od_pop_def)

lemma lock_step_ok: "lock_ok w \<Longrightarrow> lock_ok (lock_step op w)"
proof (cases op)
  case (Acquire os i)
  moreover assume "lock_ok w"
  ultimately show ?thesis
    using acquire_free [of w os i] acquire_owned [of _ w os i] same_owned same_free
    by (auto simp: lock_ok_def split: if_split_asm; blast)
next
  case (Release os i)
  moreover assume "lock_ok w"
  ultimately show ?thesis using release_cases unfolding lock_ok_def by (metis lock_step.simps(2))
next
  case (Crash i)
  moreover assume "lock_ok w"
  ultimately show ?thesis using crash_cases unfolding lock_ok_def by (metis lock_step.simps(3))
qed

lemma lock_run_ok: "lock_ok w \<Longrightarrow> lock_ok (run_ops lock_step ops w)"
  by (induction ops arbitrary: w) (simp_all add: lock_step_ok)

lemma no_locks_ok: "lock_ok no_locks"
  by (simp add: lock_ok_def lock_free_def no_locks_def)

text \<open>Every call succeeds.\<close>

definition calls_fine :: "lock_calls \<Rightarrow> bool" where
  "calls_fine os \<longleftrightarrow> lc_mkdir os \<and> lc_open os \<and> (lc_windows os \<or> lc_chmod os) \<and> lc_stat os \<and> lc_write os \<and> lc_seek os \<and>
     lc_lock os \<and> lc_unlock os"

lemma acquire_fine: "calls_fine os \<Longrightarrow> lock_free w \<Longrightarrow> is_ok (fst (lock_acquire os i w))"
  by (auto simp: calls_fine_def lock_defs lock_free_def od_mem_def od_keys_def)

text \<open>C1 After any history of starts, ends and crashes of any number of processes, at most one lock object
  holds the data directory, and exactly then it also has the lock of the system; every other
  descriptor of the file was closed, also when a call failed.  While one holds it every other start is
  refused and changes nothing, and when nobody does, a start succeeds even if the last holder
  crashed: a lock file that was left behind never blocks.\<close>

theorem instance_exclusive:
  assumes "w = run_ops lock_step ops no_locks"
  shows "(\<forall>i fd. od_get (lw_held w) i = Some fd \<longrightarrow>
      lw_held w = [(i, fd)] \<and> lw_open w = [fd] \<and> lw_locked w = Some fd \<and>
      (\<forall>os j. \<not> is_ok (fst (lock_acquire os j w)) \<and> lw_held (snd (lock_acquire os j w)) = lw_held w \<and>
         lw_locked (snd (lock_acquire os j w)) = Some fd)) \<and>
    (lw_held w = [] \<longrightarrow> lw_open w = [] \<and> lw_locked w = None \<and>
      (\<forall>os i. calls_fine os \<longrightarrow> is_ok (fst (lock_acquire os i w))))"
proof -
  have ok: "lock_ok w" unfolding assms by (rule lock_run_ok [OF no_locks_ok])
  have held: "lw_held w = [(i, fd)] \<and> lw_open w = [fd] \<and> lw_locked w = Some fd \<and> lock_owned i w"
    if "od_get (lw_held w) i = Some fd" for i fd
    using ok that by (auto simp: lock_ok_def lock_free_def lock_owned_def od_get_def split: if_split_asm)
  have refused: "\<not> is_ok (fst (lock_acquire os j w)) \<and> lw_held (snd (lock_acquire os j w)) = lw_held w \<and>
      lw_locked (snd (lock_acquire os j w)) = Some fd" if "od_get (lw_held w) i = Some fd" for i fd os j
    using acquire_owned [of i w os j] held [OF that] by (simp add: same_locks_def)
  have free: "lock_free w" if "lw_held w = []"
    using ok that by (auto simp: lock_ok_def lock_owned_def)
  show ?thesis
    using held refused free acquire_fine [of _ w] unfolding lock_free_def by blast
qed

text \<open>One process holds the directory, a second is refused; the first crashes and the second starts.\<close>

definition all_fine :: lock_calls where
  "all_fine = \<lparr>lc_windows = False, lc_mkdir = True, lc_open = True, lc_chmod = True, lc_stat = True, lc_write = True,
     lc_seek = True, lc_lock = True, lc_unlock = True\<rparr>"

definition demo_locks :: lock_world where
  "demo_locks = run_ops lock_step [Acquire all_fine 1, Acquire all_fine 2] no_locks"

theorem instance_exclusive_witness:
  "\<not> is_ok (fst (lock_acquire all_fine 3 demo_locks)) \<and>
   is_ok (fst (lock_acquire all_fine 2 (run_ops lock_step [Acquire all_fine 1, Acquire all_fine 2, Crash 1] no_locks)))"
proof -
  have "od_get (lw_held demo_locks) 1 = Some 0" by code_simp
  moreover have "lw_held (run_ops lock_step [Acquire all_fine 1, Acquire all_fine 2, Crash 1] no_locks) = []" by code_simp
  moreover have "calls_fine all_fine" by (simp add: calls_fine_def all_fine_def)
  ultimately show ?thesis
    using instance_exclusive [OF demo_locks_def] instance_exclusive [OF refl, of "[Acquire all_fine 1, Acquire all_fine 2, Crash 1]"]
    by blast
qed

end
