(* ===== verification/KP_Startup.thy ===== *)
theory KP_Startup
  imports KP_Views KP_Instance KP_Restore
begin

text \<open>
  Starting the program: \<open>create_app\<close> of \<open>app.py\<close> up to the routes, and \<open>main\<close> and \<open>set_admin_pin\<close> of
  \<open>src/kegpulse/__main__.py\<close> with their exit codes, over the lock of the data directory
  (\<open>KP_Instance\<close>), the database files (\<open>KP_Restore\<close>) and the configuration (\<open>KP_Config\<close>).
\<close>

section \<open>Creating the application\<close>

text \<open>The arm timeout stored in the settings, if it is admissible.\<close>

definition persisted_arm_timeout :: "store \<Rightarrow> app_config \<Rightarrow> app_config" where
  "persisted_arm_timeout s c =
     (case get_setting s ''arm_timeout_ms'' JNull of
        JInt n \<Rightarrow> (if 1000 \<le> n \<and> n \<le> 120000 then c\<lparr>ac_arm_timeout_ms := n\<rparr> else c)
      | _ \<Rightarrow> c)"

definition new_security :: "app_config \<Rightarrow> store \<Rightarrow> security" where
  "new_security c s =
     \<lparr>se_store = s, se_sessions = [], se_attempts = [], se_global_attempts = [], se_lan_mode = ac_lan_mode c,
      se_lan_display = ac_lan_display c\<rparr>"

definition start_coordinator :: "app_config \<Rightarrow> store \<Rightarrow> coordinator" where
  "start_coordinator c s =
     \<lparr>co_store = s, co_requests = [], co_retries = [], co_revision = 0, co_demo = ac_demo c,
      co_arm_timeout = ac_arm_timeout_ms c\<rparr>"

text \<open>The configuration the application works with, and its state before the first request.  The demo has
  no choice of ports.\<close>

definition start_server :: "app_config \<Rightarrow> string option \<Rightarrow> store \<Rightarrow> (app_config \<times> server) result" where
  "start_server config override s =
     (let c = persisted_arm_timeout s config;
          (chosen, p) = (if ac_demo c then (Inr (), new_provider) else prefer_port (configured_port c override s) new_provider)
      in bind_res chosen (\<lambda>_.
           if ac_lan_mode c \<and> \<not> pin_configured (new_security c s) then
             Inl (RuntimeError ''LAN mode requires an administrator PIN configured on loopback first'')
           else
             Inr (c, \<lparr>sv_co = start_coordinator c s, sv_security = new_security c s,
                      sv_kiosk = \<lparr>ki_camera = None, ki_subscribers = []\<rparr>, sv_provider = p, sv_reconnect = False\<rparr>)))"

section \<open>The process\<close>

text \<open>How the process ends: with an exit code or with an exception nobody catches.\<close>

datatype outcome = Exit int | EscapedFile file_exc | EscapedPython py_exc

record machine =
  ma_locks :: lock_world
  ma_disk :: disk

text \<open>What a process is started with and what it meets: its arguments, the configuration file, the calls of
  the system, the migration scripts, how SQLite reads and writes the rows of a file and what an empty
  file is, the answers of other services, and what the application does while it runs.\<close>

record launch =
  la_ensure :: bool
  la_logging :: bool
  la_pin :: "string option"
  la_restore :: bool
  la_arguments :: arguments
  la_file :: config_file
  la_coerce :: coercions
  la_locks :: lock_calls
  la_restoring :: os_calls
  la_script :: "int \<Rightarrow> db_file \<Rightarrow> db_file option"
  la_rows :: "db_file \<Rightarrow> store"
  la_put :: "store \<Rightarrow> db_file \<Rightarrow> db_file"
  la_empty :: db_file
  la_scrypt :: "string \<Rightarrow> string \<Rightarrow> string"
  la_salt :: string
  la_kegpulse :: "string \<Rightarrow> bool"
  la_port_busy :: "string \<Rightarrow> int \<Rightarrow> bool"
  la_serve :: "app_config \<Rightarrow> server \<Rightarrow> server"

text \<open>The process may have served; then the application as it started, and the locks at that time.\<close>

record run =
  ru_outcome :: outcome
  ru_served :: "(app_config \<times> server \<times> lock_world) option"
  ru_machine :: machine

definition ended :: "outcome \<Rightarrow> machine \<Rightarrow> run" where
  "ended x m = \<lparr>ru_outcome = x, ru_served = None, ru_machine = m\<rparr>"

definition open_live :: "launch \<Rightarrow> disk \<Rightarrow> (file_exc + db_file) \<times> disk" where
  "open_live l k =
     (let (r, d) = open_database (la_script l) (case dk_live k of None \<Rightarrow> la_empty l | Some d \<Rightarrow> d)
      in (case r of Inl e \<Rightarrow> Inl e | Inr _ \<Rightarrow> Inr d, k\<lparr>dk_live := Some d\<rparr>))"

definition display_host :: "app_config \<Rightarrow> string" where
  "display_host c = (if ac_host c = ''0.0.0.0'' then ''127.0.0.1'' else ac_host c)"

definition server_url :: "app_config \<Rightarrow> string" where
  "server_url c = ''http://'' @ display_host c @ '':'' @ show_int (ac_port c)"

definition launch_config :: "launch \<Rightarrow> app_config option" where
  "launch_config l = load_config (la_coerce l) (la_file l) (config_overrides (la_arguments l))"

text \<open>\<open>set_admin_pin\<close>, which does not ask for the lock.\<close>

definition set_admin_pin :: "launch \<Rightarrow> string \<Rightarrow> machine \<Rightarrow> run" where
  "set_admin_pin l pin m =
     (case open_live l (ma_disk m) of
        (Inl e, k) \<Rightarrow> ended (EscapedFile e) (m\<lparr>ma_disk := k\<rparr>)
      | (Inr d, k) \<Rightarrow>
          (case set_pin (la_scrypt l) (la_salt l) pin
              \<lparr>se_store = la_rows l d, se_sessions = [], se_attempts = [], se_global_attempts = [], se_lan_mode = False,
               se_lan_display = False\<rparr> of
             (Inl (Raised e), _) \<Rightarrow>
               ended (if is_value_error e then Exit 2 else EscapedPython e) (m\<lparr>ma_disk := k\<rparr>)
           | (Inl (Http n t), _) \<Rightarrow> ended (EscapedPython (RuntimeError t)) (m\<lparr>ma_disk := k\<rparr>)
           | (Inr _, x) \<Rightarrow> ended (Exit 0) (m\<lparr>ma_disk := k\<lparr>dk_live := Some (la_put l (se_store x) d)\<rparr>\<rparr>)))"

text \<open>The handlers of a lock that could not be had.\<close>

definition refused_start :: "launch \<Rightarrow> lock_exc \<Rightarrow> outcome" where
  "refused_start l e =
     (case e of
        AlreadyRunning \<Rightarrow>
          (if \<not> la_restore l \<and> (case launch_config l of None \<Rightarrow> False | Some c \<Rightarrow> la_kegpulse l (server_url c)) then Exit 0
           else Exit 4)
      | AlreadyHeld \<Rightarrow> EscapedPython (RuntimeError ''instance lock is already held by this object'')
      | SystemFault \<Rightarrow> Exit 2)"

definition serve_app :: "launch \<Rightarrow> app_config \<Rightarrow> machine \<Rightarrow> run" where
  "serve_app l c m =
     (case open_live l (ma_disk m) of
        (Inl e, k) \<Rightarrow> ended (Exit 2) (m\<lparr>ma_disk := k\<rparr>)
      | (Inr d, k) \<Rightarrow>
          (case start_server c (ar_serial_port (la_arguments l)) (la_rows l d) of
             Inl e \<Rightarrow> ended (Exit 2) (m\<lparr>ma_disk := k\<rparr>)
           | Inr (c, s) \<Rightarrow>
               \<lparr>ru_outcome = Exit 0, ru_served = Some (c, s, ma_locks m),
                ru_machine = m\<lparr>ma_disk := k\<lparr>dk_live := Some (la_put l (database (la_serve l c s)) d)\<rparr>\<rparr>\<rparr>))"

text \<open>The body of the \<open>try\<close> that holds the lock.\<close>

definition locked_body :: "launch \<Rightarrow> machine \<Rightarrow> run" where
  "locked_body l m =
     (if \<not> la_logging l then ended (EscapedFile (Fault ''log file'')) m
      else if la_restore l then
        (case restore_database (la_script l) (la_restoring l) (ma_disk m) of
           (Inl e, k) \<Rightarrow> ended (EscapedFile e) (m\<lparr>ma_disk := k\<rparr>)
         | (Inr _, k) \<Rightarrow> ended (Exit 0) (m\<lparr>ma_disk := k\<rparr>))
      else
        (case launch_config l of
           None \<Rightarrow> ended (Exit 2) m
         | Some c \<Rightarrow>
             if la_kegpulse l (server_url c) then ended (Exit 0) m
             else if la_port_busy l (ac_host c) (ac_port c) then ended (Exit 3) m
             else serve_app l c m))"

definition main :: "launch \<Rightarrow> nat \<Rightarrow> machine \<Rightarrow> run" where
  "main l i m =
     (if \<not> la_ensure l then ended (EscapedFile (Fault ''data directory'')) m
      else
        (case la_pin l of
           Some pin \<Rightarrow> set_admin_pin l pin m
         | None \<Rightarrow>
             (case lock_acquire (la_locks l) i (ma_locks m) of
                (Inl e, w) \<Rightarrow> ended (refused_start l e) (m\<lparr>ma_locks := w\<rparr>)
              | (Inr _, w) \<Rightarrow>
                  let r = locked_body l (m\<lparr>ma_locks := w\<rparr>);
                      (x, w1) = lock_release (la_locks l) i (ma_locks (ru_machine r))
                  in r\<lparr>ru_machine := (ru_machine r)\<lparr>ma_locks := w1\<rparr>,
                       ru_outcome := (case x of Inl _ \<Rightarrow> EscapedFile (Fault ''unlock'') | Inr _ \<Rightarrow> ru_outcome r)\<rparr>)))"

section \<open>One process at a time\<close>

lemma body_locks: "ma_locks (ru_machine (locked_body l m)) = ma_locks m"
  by (auto simp: locked_body_def serve_app_def ended_def split: prod.split sum.split option.split)

lemma body_served:
  assumes "ru_served (locked_body l m) = Some (c, s, w)"
  shows "w = ma_locks m \<and> \<not> la_restore l \<and>
    (\<exists>c0 d. launch_config l = Some c0 \<and> \<not> la_kegpulse l (server_url c0) \<and> \<not> la_port_busy l (ac_host c0) (ac_port c0) \<and>
       fst (open_live l (ma_disk m)) = Inr d \<and> start_server c0 (ar_serial_port (la_arguments l)) (la_rows l d) = Inr (c, s))"
  using assms
  by (auto simp: locked_body_def serve_app_def ended_def split: if_split_asm prod.split_asm sum.split_asm option.split_asm)

text \<open>C19 One process at a time.  Whatever processes started, ended and crashed before: while one holds the
  data directory, another start neither serves nor restores and leaves the database files alone,
  unless it was asked to set the PIN; its exit code tells so.  A process that serves holds the lock
  while it does, found its port free and no other instance at its address, and it always gives the
  lock back, whichever way it ends.\<close>

theorem main_exclusive:
  assumes "ma_locks m = run_ops lock_step ops no_locks" "od_get (lw_held (ma_locks m)) i = None"
  shows "lw_held (ma_locks (ru_machine (main l i m))) = lw_held (ma_locks m) \<and>
    lw_locked (ma_locks (ru_machine (main l i m))) = lw_locked (ma_locks m) \<and>
    lw_open (ma_locks (ru_machine (main l i m))) = lw_open (ma_locks m) \<and>
    (lw_held (ma_locks m) \<noteq> [] \<longrightarrow> la_pin l = None \<longrightarrow>
       ru_served (main l i m) = None \<and> ma_disk (ru_machine (main l i m)) = ma_disk m \<and>
       ru_outcome (main l i m) \<in> {Exit 0, Exit 2, Exit 4, EscapedFile (Fault ''data directory'')}) \<and>
    (\<forall>c s w. ru_served (main l i m) = Some (c, s, w) \<longrightarrow>
       lw_held (ma_locks m) = [] \<and> (\<exists>fd. lw_held w = [(i, fd)] \<and> lw_locked w = Some fd) \<and> \<not> la_restore l \<and>
       (\<exists>c0. launch_config l = Some c0 \<and> \<not> la_kegpulse l (server_url c0) \<and> \<not> la_port_busy l (ac_host c0) (ac_port c0)))"
proof -
  have ok: "lock_ok (ma_locks m)" unfolding assms(1) by (rule lock_run_ok [OF no_locks_ok])
  obtain r w1 where acq: "lock_acquire (la_locks l) i (ma_locks m) = (r, w1)" by force
  consider (free) "lock_free (ma_locks m)" | (owned) j where "lock_owned j (ma_locks m)" "j \<noteq> i"
    using ok assms(2) by (auto simp: lock_ok_def lock_owned_def od_get_def split: if_split_asm)
  then show ?thesis
  proof cases
    case free
    let ?b = "locked_body l (m\<lparr>ma_locks := w1\<rparr>)"
    have w1: "if is_ok r then lock_owned i w1 else same_locks (ma_locks m) w1"
      using acquire_free [OF free, of "la_locks l" i] acq by (simp split: if_split_asm)
    have given: "lock_free (snd (lock_release (la_locks l) i (ma_locks (ru_machine ?b))))" if "is_ok r"
      using release_cases(2) w1 that by (simp add: body_locks)
    show ?thesis
      using free w1 given body_served [of l "m\<lparr>ma_locks := w1\<rparr>"] acq
      by (auto simp: main_def set_admin_pin_def ended_def lock_free_def lock_owned_def same_locks_def split_def Let_def
          split: option.split sum.split prod.split if_split_asm web_error.split)
  next
    case owned
    then have held: "lw_held (ma_locks m) \<noteq> []" by (auto simp: lock_owned_def)
    obtain e where "r = Inl e" "same_locks (ma_locks m) w1" and e: "e \<noteq> AlreadyHeld"
      using acquire_owned [OF owned(1), of "la_locks l" i] acq assms(2)
      by (cases r) (auto simp: lock_defs od_mem_def od_keys_def od_get_def map_of_eq_None_iff split: if_split_asm)
    then show ?thesis
      using held acq
      by (cases e) (auto simp: main_def set_admin_pin_def ended_def same_locks_def refused_start_def split_def
          split: option.split sum.split prod.split web_error.split)
  qed
qed

end
