(* ===== verification/KP_StartFacts.thy ===== *)
theory KP_StartFacts
  imports KP_ViewFacts KP_Startup
begin

text \<open>
  What a start of the program guarantees: an application in LAN mode starts with its doors shut, and of
  the processes on a data directory one at a time serves or restores.
\<close>

section \<open>A start in LAN mode\<close>

lemma verify_pin_setting: "pin_setting x = pin_setting y \<Longrightarrow> verify_pin scrypt q x = verify_pin scrypt q y"
  by (simp add: verify_pin_def)

lemma started_shut:
  assumes "start_server config override st = Inr (c, s)" "ac_lan_mode config"
  obtains v where "shut v s" "pin_setting (sv_security s) = Some v" "se_lan_mode (sv_security s)"
    "se_lan_display (sv_security s) = ac_lan_display config" "database s = st"
proof -
  have lan: "ac_lan_mode (persisted_arm_timeout st config)"
    "ac_lan_display (persisted_arm_timeout st config) = ac_lan_display config"
    using assms(2) by (simp_all add: persisted_arm_timeout_def split: json.split)
  then have "pin_configured (new_security c st)" "c = persisted_arm_timeout st config" "sv_security s = new_security c st"
    "database s = st"
    using assms(1)
    by (auto simp: start_server_def Let_def database_def start_coordinator_def split: prod.split_asm if_split_asm
        elim!: bind_InrE)
  then show thesis
    using that lan
    by (auto simp: shut_def sealed_def sec_of_def pin_configured_def plain_sessions_def new_security_def pin_setting_def)
qed

text \<open>C18 A restart keeps the doors shut.  In LAN mode the application does not start without a PIN; once it
  started, and whatever requests came since, as long as every login presented a PIN that the stored
  verifier refuses, the database is what it was in everything an administrator decides, nobody is
  shown a page of the administrator, and a remote client changes nothing and is shown the pages of
  the wall display at most.\<close>

theorem start_protected:
  assumes "start_server config override st = Inr (c, s1)" "ac_lan_mode config"
    and "\<forall>(h, cl)\<in>set rs. \<forall>p q. cl = CallLogin p \<longrightarrow> PinRequest (ev_trim env) p = Some q \<longrightarrow>
      \<not> verify_pin (ev_scrypt env) q (sv_security s1)"
    and "si_server s = s1" "s' = serve_all env rs s"
  shows "pin_configured (sv_security s1) \<and> vault (database (si_server s')) = vault st \<and>
    guarded (si_server s') = guarded s1 \<and>
    (\<forall>h pg. shown_to env h pg s' \<longrightarrow> \<not> admin_page pg) \<and>
    (\<forall>h. \<not> is_local_client (hi_request h) \<longrightarrow>
       (\<forall>cl. unchanged s' (serve env h cl s')) \<and>
       (\<forall>pg. shown_to env h pg s' \<longrightarrow> ac_lan_display config \<and> display_page pg))"
proof -
  obtain v where v: "shut v s1" "pin_setting (sv_security s1) = Some v" "se_lan_mode (sv_security s1)"
      "se_lan_display (sv_security s1) = ac_lan_display config" "database s1 = st"
    by (rule started_shut [OF assms(1,2)])
  have "wrong_pin env v cl" if "(h, cl) \<in> set rs" for h cl
    unfolding wrong_pin_def
  proof (intro allI impI)
    fix p q x assume a: "cl = CallLogin p" "PinRequest (ev_trim env) p = Some q" "sealed v x"
    have "pin_setting x = pin_setting (sv_security s1)" using a(3) v(2) by (simp add: sealed_def)
    then show "\<not> verify_pin (ev_scrypt env) q x" using assms(3) that a(1,2) verify_pin_setting by blast
  qed
  then have shut: "shut v (si_server s')" and same: "guarded (si_server s') = guarded s1"
    using serve_all_shut [of rs env v s] v(1) assms(4,5) by auto
  then have "se_lan_mode (sv_security (si_server s'))" "se_lan_display (sv_security (si_server s')) = ac_lan_display config"
    "vault (database (si_server s')) = vault st"
    using v(3-5) by (auto simp: guarded_def)
  moreover have "pin_configured (sv_security s1)"
    using v(1,2) by (auto simp: shut_def sealed_def pin_configured_def)
  moreover note shut_pages [OF shut] remote_refused [OF shut]
  ultimately show ?thesis using same by blast
qed

text \<open>A restart of the machine whose PIN was set.\<close>

definition demo_restart :: server where
  "demo_restart =
     (case start_server demo_config None (database (si_server demo_site)) of
        Inr (c, s) \<Rightarrow> s
      | Inl _ \<Rightarrow> demo_server)"

theorem start_protected_witness:
  "vault (database (si_server (serve_all demo_env demo_calls (demo_site\<lparr>si_server := demo_restart\<rparr>)))) =
     vault (database (si_server demo_site)) \<and>
   \<not> shown_to demo_env (demo_hit ''10.0.0.9'') KegsPage
       (serve_all demo_env demo_calls (demo_site\<lparr>si_server := demo_restart\<rparr>))"
proof -
  have once: "(case start_server demo_config None (database (si_server demo_site)) of
        Inr (c, s) \<Rightarrow> Some (c, verify_pin (ev_scrypt demo_env) ''0000'' (sv_security s)) | Inl e \<Rightarrow> None) =
      Some (demo_config, False)"
    by code_simp
  then have start: "start_server demo_config None (database (si_server demo_site)) = Inr (demo_config, demo_restart)"
    by (auto simp: demo_restart_def split: sum.split_asm)
  have lan: "ac_lan_mode demo_config" "\<not> ac_lan_display demo_config" by (simp_all add: demo_config_def)
  have "\<not> verify_pin (ev_scrypt demo_env) ''0000'' (sv_security demo_restart)" using once start by simp
  then have wrong: "\<forall>(h, cl)\<in>set demo_calls. \<forall>p q. cl = CallLogin p \<longrightarrow> PinRequest (ev_trim demo_env) p = Some q \<longrightarrow>
      \<not> verify_pin (ev_scrypt demo_env) q (sv_security demo_restart)"
    using demo_pins by (auto simp: demo_calls_def)
  have remote: "\<not> is_local_client (hi_request (demo_hit ''10.0.0.9''))" by (simp add: is_local_client_def demo_hit_def)
  have site: "si_server (demo_site\<lparr>si_server := demo_restart\<rparr>) = demo_restart" by simp
  show ?thesis using start_protected [OF start lan(1) wrong site refl] lan(2) remote by blast
qed

section \<open>A second process\<close>

definition demo_launch :: launch where
  "demo_launch =
     \<lparr>la_ensure = True, la_logging = True, la_pin = None, la_restore = True,
      la_arguments = \<lparr>ar_demo = None, ar_no_browser = None, ar_host = None, ar_port = None, ar_serial_port = None,
        ar_lan = None, ar_lan_display = False, ar_allowed_host = [], ar_allowed_origin = [], ar_allow_test_shutdown = None\<rparr>,
      la_file = NoFile,
      la_coerce = \<lparr>as_bool = (\<lambda>v. case v of SBool b \<Rightarrow> Some b | _ \<Rightarrow> None), as_int = (\<lambda>v. case v of SInt n \<Rightarrow> Some n | _ \<Rightarrow> None),
        as_real = (\<lambda>v. case v of SReal x \<Rightarrow> Some x | _ \<Rightarrow> None), as_text = (\<lambda>v. case v of SText t \<Rightarrow> Some t | _ \<Rightarrow> None),
        as_texts = (\<lambda>v. case v of STexts ts \<Rightarrow> Some ts | _ \<Rightarrow> None)\<rparr>,
      la_locks = all_fine, la_restoring = all_calls, la_script = (\<lambda>v. Some), la_rows = (\<lambda>d. empty_store),
      la_put = (\<lambda>s d. d), la_empty = demo_file [], la_scrypt = demo_scrypt, la_salt = demo_salt,
      la_kegpulse = (\<lambda>url. True), la_port_busy = (\<lambda>h p. True), la_serve = (\<lambda>c s. s)\<rparr>"

text \<open>A restore is asked for while process 1 has the data directory: exit code 4, and the files stay.\<close>

theorem main_exclusive_witness:
  "ru_outcome (main demo_launch 2 \<lparr>ma_locks = demo_locks, ma_disk = demo_disk\<rparr>) = Exit 4 \<and>
   ma_disk (ru_machine (main demo_launch 2 \<lparr>ma_locks = demo_locks, ma_disk = demo_disk\<rparr>)) = demo_disk"
proof -
  let ?m = "\<lparr>ma_locks = demo_locks, ma_disk = demo_disk\<rparr>"
  have "od_get (lw_held demo_locks) 2 = None" "lw_held demo_locks \<noteq> []" by code_simp+
  then have free: "ma_locks ?m = run_ops lock_step [Acquire all_fine 1, Acquire all_fine 2] no_locks"
      "od_get (lw_held (ma_locks ?m)) 2 = None" and held: "lw_held (ma_locks ?m) \<noteq> []"
    by (simp_all add: demo_locks_def)
  have "\<not> is_ok (fst (lock_acquire all_fine 2 demo_locks)) \<and> fst (lock_acquire all_fine 2 demo_locks) = Inl AlreadyRunning"
    by code_simp
  then have "ru_outcome (main demo_launch 2 ?m) = Exit 4"
    by (auto simp: main_def demo_launch_def refused_start_def ended_def split: prod.split)
  moreover have "la_pin demo_launch = None" by (simp add: demo_launch_def)
  ultimately show ?thesis using main_exclusive [OF free, of demo_launch] held by simp
qed

end
