(* ===== verification/KP_Demo.thy ===== *)
theory KP_Demo
  imports KP_Views KP_Simulator KP_DeviceRuns
begin

text \<open>
  The demonstration mode: \<open>DemoAction\<close> of \<open>api/models.py\<close>, \<open>demo_action\<close> of \<open>application/coordinator.py\<close>
  and its route in \<open>app.py\<close>, over the simulator of \<open>KP_Simulator\<close>; and the proof that the simulator
  is nothing but a driver of the device machine.
\<close>

section \<open>The route\<close>

record DemoAction =
  da_action :: string
  da_count :: "int option"
  da_interval_ms :: "int option"
  da_milliseconds :: "int option"
  da_fault :: "string option"
  da_enabled :: "bool option"
  da_reverse :: "bool option"
  da_actions :: "(string, pyval) odict list option"

definition DEMO_ACTIONS :: "string list" where
  "DEMO_ACTIONS = [''pulse'', ''advance'', ''finish'', ''disconnect'', ''reconnect'', ''reset'', ''fault'', ''flush'', ''script'']"

definition DEMO_FAULTS :: "string list" where
  "DEMO_FAULTS = [''corrupt_next'', ''duplicate_next'', ''delay_next'', ''partial'']"

definition demo_admitted :: "DemoAction \<Rightarrow> bool" where
  "demo_admitted r \<longleftrightarrow>
     da_action r \<in> set DEMO_ACTIONS \<and>
     (case da_count r of None \<Rightarrow> True | Some n \<Rightarrow> 1 \<le> n \<and> n \<le> 1000000) \<and>
     (case da_interval_ms r of None \<Rightarrow> True | Some n \<Rightarrow> 0 \<le> n \<and> n \<le> 60000) \<and>
     (case da_milliseconds r of None \<Rightarrow> True | Some n \<Rightarrow> 0 \<le> n \<and> n \<le> 600000) \<and>
     (case da_fault r of None \<Rightarrow> True | Some f \<Rightarrow> f \<in> set DEMO_FAULTS) \<and>
     (case da_actions r of None \<Rightarrow> True | Some as \<Rightarrow> length as \<le> 100)"

definition given_or :: "'a \<Rightarrow> 'a option \<Rightarrow> 'a" where
  "given_or fallback v = (case v of None \<Rightarrow> fallback | Some x \<Rightarrow> x)"

definition drive :: "DemoAction \<Rightarrow> sim \<Rightarrow> unit result \<times> sim" where
  "drive r s =
     (let a = da_action r
      in if a = ''pulse'' then sim_inject_pulses (given_or 1 (da_count r)) (given_or 0 (da_interval_ms r)) s
         else if a = ''advance'' then sim_advance (given_or 0 (da_milliseconds r)) s
         else if a = ''finish'' then sim_finish_pour s
         else if a = ''disconnect'' then (Inr (), sim_disconnect s)
         else if a = ''reconnect'' then (Inr (), sim_reconnect s)
         else if a = ''reset'' then (Inr (), sim_reset s)
         else if a = ''fault'' then
           (case da_fault r of
              None \<Rightarrow> (Inl (KeyError ''fault''), s)
            | Some f \<Rightarrow> sim_configure_fault f (given_or True (da_enabled r)) s)
         else if a = ''flush'' then (Inr (), sim_flush_delayed (given_or False (da_reverse r)) s)
         else if a = ''script'' then
           (case da_actions r of None \<Rightarrow> (Inl (KeyError ''actions''), s) | Some as \<Rightarrow> sim_run_script as s)
         else (Inl (ValueError ''unknown demo action''), s))"

definition demo_action :: "bool \<Rightarrow> DemoAction \<Rightarrow> sim option \<Rightarrow> unit result \<times> sim option" where
  "demo_action demo r x =
     (case x of
        None \<Rightarrow> (Inl (ConflictError ''simulator controls are unavailable''), x)
      | Some s \<Rightarrow>
          if \<not> demo then (Inl (ConflictError ''simulator controls are unavailable''), x)
          else (fst (drive r s), Some (snd (drive r s))))"

text \<open>The route exists in the demonstration mode only.\<close>

definition api_demo_action ::
    "env \<Rightarrow> hit \<Rightarrow> DemoAction \<Rightarrow> sim option \<Rightarrow> server \<Rightarrow> (web_error + snapshot) \<times> sim option \<times> server" where
  "api_demo_action env h r x s =
     (if \<not> ac_demo (ev_config env) then (Inl (Http 404 ''not found''), x, s)
      else if \<not> demo_admitted r then (Inl (Http 422 ''invalid request''), x, s)
      else
        (case admin h s of
           (Inl e, s) \<Rightarrow> (Inl e, x, s)
         | (Inr _, s) \<Rightarrow>
             (case demo_action (ac_demo (ev_config env)) r x of
                (Inl e, x) \<Rightarrow> (Inl (http_error e), x, s)
              | (Inr _, x) \<Rightarrow>
                  let (shown, s) = bind_st (publish_state env h s) (\<lambda>_ s. current_snapshot env h s)
                  in (shown, x, s))))"

section \<open>A driver of the device machine\<close>

text \<open>A relation of states that calls can be chained in, seen through a part of the state.\<close>

locale chained =
  fixes part :: "'s \<Rightarrow> 'd" and related :: "'d \<Rightarrow> 'd \<Rightarrow> bool"
  assumes same: "related d d"
    and chain: "related d e \<Longrightarrow> related e f \<Longrightarrow> related d f"
begin

lemma bound:
  "related d (part (snd rs)) \<Longrightarrow> (\<And>x t. rs = (Inr x, t) \<Longrightarrow> related (part t) (part (snd (f x t)))) \<Longrightarrow>
   related d (part (snd (bind_st rs f)))"
  by (cases rs; cases "fst rs") (auto simp: bind_st_def intro: chain)

end

text \<open>The calls of the device machine that lead from one state to the other.\<close>

definition driven :: "device \<Rightarrow> device \<Rightarrow> bool" where
  "driven d d' \<longleftrightarrow> (\<exists>ops. d' = run_ops dev_step ops d)"

lemma driven_same [simp]: "driven d d"
  unfolding driven_def by (rule exI [of _ "[]"]) simp

lemma driven_chain: "driven d e \<Longrightarrow> driven e f \<Longrightarrow> driven d f"
  unfolding driven_def by (metis run_ops_append)

interpretation handled: chained "\<lambda>d. d" driven
  by unfold_locales (auto intro: driven_chain)

interpretation simulated: chained sm_device driven
  by unfold_locales (auto intro: driven_chain)

lemma driven_step: "driven d (dev_step op d)"
  unfolding driven_def by (rule exI [of _ "[op]"]) simp

lemmas driven_calls [simp] =
  driven_step [of _ "Arm s k t ttl" for s k t ttl, simplified] driven_step [of _ "Cancel k s t" for k s t, simplified]
  driven_step [of _ "Acknowledge k" for k, simplified] driven_step [of _ "Pulse c t" for c t, simplified]
  driven_step [of _ "Tick t" for t, simplified] driven_step [of _ "Status t" for t, simplified]

lemma handle_query_driven: "driven d (snd (handle_query request now d))"
  unfolding handle_query_def status_frame_def handle_arm_def handle_cancel_def handle_ack_def Let_def split_def
  by (auto intro!: handled.bound)

lemma sim_handle_driven: "driven d (snd (sim_handle request now d))"
  unfolding sim_handle_def
  by (auto intro!: handled.bound split: prod.split sum.split)
    (metis handle_query_driven snd_conv)+

lemma enqueue_device [simp]: "sm_device (sim_enqueue b s) = sm_device s"
  by (simp add: sim_enqueue_def Let_def split_def)

lemma enqueue_all_device [simp]: "sm_device (fold sim_enqueue bs s) = sm_device s"
  by (induction bs arbitrary: s) simp_all

lemma emit_device [simp]: "sm_device (snd (emit_results rs s)) = sm_device s"
  by (induction rs arbitrary: s) (simp_all split: sum.split)

lemma emit_new_device [simp]: "sm_device (snd (emit_new_result prior s)) = sm_device s"
  by (simp add: emit_new_result_def)

lemma answer_errors_device [simp]: "sm_device (snd (answer_errors es s)) = sm_device s"
  by (induction es arbitrary: s) (simp_all split: sum.split)

lemma answer_frame_driven: "driven (sm_device s) (sm_device (snd (answer_frame request s)))"
proof -
  obtain r d where h: "sim_handle request (sm_now_ms s) (sm_device s) = (r, d)" by force
  then have "driven (sm_device s) d" using sim_handle_driven [of "sm_device s" request "sm_now_ms s"] by simp
  then show ?thesis
    by (auto simp: answer_frame_def h Let_def intro!: simulated.bound split: sum.split)
qed

lemma answer_frames_driven: "driven (sm_device s) (sm_device (snd (answer_frames fs s)))"
proof (induction fs arbitrary: s)
  case (Cons f fs)
  then show ?case using answer_frame_driven [of s f] by (auto intro!: simulated.bound)
qed simp

lemma pulse_each_driven: "driven (sm_device s) (sm_device (snd (pulse_each n gap s)))"
proof (induction n arbitrary: s)
  case (Suc n)
  let ?t = "sm_now_ms s + gap"
  obtain r d where p: "dev_pulse 1 ?t (sm_device s) = (r, d)" by force
  then have "driven (sm_device s) d" using driven_calls(4) [of "sm_device s" 1 ?t] by simp
  then show ?case
    using Suc.IH [of "s\<lparr>sm_now_ms := ?t, sm_device := d\<rparr>"]
    by (auto simp: p Let_def intro: driven_chain split: sum.split)
qed simp

lemma inject_driven: "driven (sm_device s) (sm_device (snd (sim_inject_pulses n gap s)))"
  unfolding sim_inject_pulses_def Let_def split_def
  by (auto intro!: simulated.bound pulse_each_driven)

lemma advance_driven: "driven (sm_device s) (sm_device (snd (sim_advance n s)))"
  unfolding sim_advance_def Let_def split_def
  by (auto intro!: simulated.bound)

lemma write_driven: "driven (sm_device s) (sm_device (snd (sim_write bytes s)))"
  unfolding sim_write_def
  by (auto intro!: simulated.bound answer_frames_driven split: prod.split)

lemma transport_device [simp]:
  "sm_device (snd (sim_open s)) = sm_device s" "sm_device (sim_close s) = sm_device s"
  "sm_device (snd (sim_read n s)) = sm_device s" "sm_device (sim_disconnect s) = sm_device s"
  "sm_device (sim_reconnect s) = sm_device s" "sm_device (snd (sim_configure_fault f on s)) = sm_device s"
  "sm_device (sim_flush_delayed b s) = sm_device s" "sm_device (snd (sim_inject_raw bytes s)) = sm_device s"
  by (simp_all add: sim_open_def sim_close_def sim_read_def sim_disconnect_def sim_reconnect_def
      sim_configure_fault_def sim_flush_delayed_def sim_inject_raw_def Let_def)

section \<open>Histories of the simulator\<close>

text \<open>A boot of the device: it counted nothing yet.\<close>

definition booted :: "device \<Rightarrow> bool" where
  "booted d \<longleftrightarrow> dev_inv d \<and> dm_lifetime_pulses d = 0 \<and> accounted d = 0 \<and> dm_results d = [] \<and> dm_active d = None \<and>
     dm_next_event_seq d = 1"

definition since_boot :: "device \<Rightarrow> bool" where
  "since_boot d \<longleftrightarrow> (\<exists>d0. booted d0 \<and> driven d0 d)"

lemma since_boot_driven: "since_boot d \<Longrightarrow> driven d e \<Longrightarrow> since_boot e"
  unfolding since_boot_def by (metis driven_chain)

lemma driven_inv: "driven d e \<Longrightarrow> dev_inv d \<Longrightarrow> dev_inv e"
proof -
  have "dev_inv d \<Longrightarrow> dev_inv (run_ops dev_step ops d)" for ops d
    by (induction ops arbitrary: d) (simp_all add: dev_step_inv)
  then show "driven d e \<Longrightarrow> dev_inv d \<Longrightarrow> dev_inv e" by (auto simp: driven_def)
qed

lemma since_boot_inv: "since_boot d \<Longrightarrow> dev_inv d"
  unfolding since_boot_def booted_def by (metis driven_inv)

lemma booted_since: "booted d \<Longrightarrow> since_boot d"
  unfolding since_boot_def by (rule exI [of _ d]) simp

lemma reset_booted: "dev_inv d \<Longrightarrow> 0 \<le> t \<Longrightarrow> booted (dev_reset b t d)"
  using reset_inv [of d t b] by (simp add: booted_def dev_reset_def count_defs od_values_def)

lemma reset_since_boot: "since_boot (sm_device s) \<Longrightarrow> since_boot (sm_device (sim_reset s))"
  by (simp add: sim_reset_def booted_since reset_booted since_boot_inv)

lemmas since_boot_calls =
  since_boot_driven [OF _ inject_driven] since_boot_driven [OF _ advance_driven] since_boot_driven [OF _ write_driven]
  reset_since_boot

lemma run_action_since_boot: "since_boot (sm_device s) \<Longrightarrow> since_boot (sm_device (snd (run_action a s)))"
  by (simp add: run_action_def Let_def sim_finish_pour_def bind_st_def since_boot_calls split: sum.split)

lemma run_actions_since_boot: "since_boot (sm_device s) \<Longrightarrow> since_boot (sm_device (snd (run_actions as s)))"
proof (induction as arbitrary: s)
  case (Cons a as)
  then show ?case using run_action_since_boot [of s a] by (auto simp: bind_st_def split: sum.split)
qed simp

datatype sim_op =
    SimOpen | SimClose | SimRead nat | SimWrite string | SimDemo DemoAction | SimRaw string

fun sim_step :: "sim_op \<Rightarrow> sim \<Rightarrow> sim" where
  "sim_step SimOpen s = snd (sim_open s)"
| "sim_step SimClose s = sim_close s"
| "sim_step (SimRead n) s = snd (sim_read n s)"
| "sim_step (SimWrite bytes) s = snd (sim_write bytes s)"
| "sim_step (SimDemo r) s = snd (drive r s)"
| "sim_step (SimRaw bytes) s = snd (sim_inject_raw bytes s)"

lemma drive_since_boot: "since_boot (sm_device s) \<Longrightarrow> since_boot (sm_device (snd (drive r s)))"
  by (auto simp: drive_def Let_def sim_finish_pour_def sim_run_script_def since_boot_calls run_actions_since_boot
      split: option.split)

lemma sim_run_since_boot: "since_boot (sm_device s) \<Longrightarrow> since_boot (sm_device (run_ops sim_step ops s))"
proof (induction ops arbitrary: s)
  case (Cons op ops)
  then show ?case by (cases op) (simp_all add: drive_since_boot since_boot_calls)
qed simp

lemma new_device_booted: "new_device i b ttl fg st c = Inr d \<Longrightarrow> booted d"
  using new_device_inv [of i b ttl fg st c d] new_device_zero [of i b ttl fg st c d]
  by (auto simp: booted_def new_device_def split: if_split_asm)

lemma new_sim_since_boot:
  assumes "new_sim gap pause = Inr s"
  shows "since_boot (sm_device s)"
proof -
  obtain d where "new_device ''4B454750554C5345'' ''0000000000000001'' 15000 gap pause 4 = Inr d" "sm_device s = d"
    using assms by (auto simp: new_sim_def bind_res_eq_Inr)
  then show ?thesis using booted_since [OF new_device_booted] by blast
qed

text \<open>C20 The simulator is a driver of the device machine.  After any history of transport calls, raw bytes,
  demo actions and scripts, with requests cut anywhere and faults injected, the simulated device is in
  a state that calls of the device machine alone lead to from its last boot, in which it had counted
  nothing; so it keeps its invariant, no pulse is counted in an event or a retained result that was
  not injected, and its results and counters are those of the machine.\<close>

theorem simulator_drives_device:
  assumes "new_sim gap pause = Inr s0" "s = run_ops sim_step ops s0"
  shows "\<exists>d0 calls. booted d0 \<and> sm_device s = run_ops dev_step calls d0 \<and> dev_inv (sm_device s) \<and>
    accounted (sm_device s) \<le> dm_lifetime_pulses (sm_device s)"
proof -
  have b: "since_boot (sm_device s)" unfolding assms(2) by (rule sim_run_since_boot [OF new_sim_since_boot [OF assms(1)]])
  then have "dev_inv (sm_device s)" by (rule since_boot_inv)
  then show ?thesis using b by (auto simp: since_boot_def driven_def dev_inv_def counters_ok_def)
qed

text \<open>A demo that pours twelve pulses before the cable is pulled.\<close>

definition demo_drive :: "string \<Rightarrow> DemoAction" where
  "demo_drive a = \<lparr>da_action = a, da_count = Some 12, da_interval_ms = None, da_milliseconds = None, da_fault = None,
     da_enabled = None, da_reverse = None, da_actions = None\<rparr>"

definition sim_demo_ops :: "sim_op list" where
  "sim_demo_ops = [SimOpen, SimDemo (demo_drive ''pulse''), SimDemo (demo_drive ''disconnect'')]"

theorem simulator_drives_device_witness:
  "\<exists>s0. new_sim 750 1500 = Inr s0 \<and> dm_lifetime_pulses (sm_device (run_ops sim_step sim_demo_ops s0)) = 12 \<and>
     dev_inv (sm_device (run_ops sim_step sim_demo_ops s0))"
proof -
  obtain s0 where s0: "new_sim 750 1500 = Inr s0" by (simp add: new_sim_def new_device_def timing_ok_def)
  have "map_sum id (\<lambda>s. dm_lifetime_pulses (sm_device (run_ops sim_step sim_demo_ops s))) (new_sim 750 1500) = Inr 12"
    by code_simp
  then have "dm_lifetime_pulses (sm_device (run_ops sim_step sim_demo_ops s0)) = 12" by (simp add: s0)
  then show ?thesis using simulator_drives_device [OF s0 refl] s0 by blast
qed

end
