(* ===== verification/KP_Body.thy ===== *)
theory KP_Body
  imports KP_Security
begin

text \<open>
  The two layers every HTTP request passes, \<open>BodyLimitMiddleware\<close> (outside) and
  \<open>RequestPolicyMiddleware\<close> of \<open>src/kegpulse/api/middleware.py\<close>, around an application that is any
  sequence of reads and sends; and the headers the second one adds.
\<close>

section \<open>Messages\<close>

datatype outgoing = Start int "(string \<times> string) list" | Content string

text \<open>A \<open>JSONResponse\<close>.\<close>

definition json_response :: "int \<Rightarrow> string \<Rightarrow> outgoing list" where
  "json_response status detail = [Start status [], Content detail]"

definition SECURITY_HEADERS :: "(string \<times> string) list" where
  "SECURITY_HEADERS =
     [(''x-content-type-options'', ''nosniff''), (''referrer-policy'', ''no-referrer''), (''x-frame-options'', ''DENY''),
      (''permissions-policy'', ''camera=(self), microphone=(), geolocation=(), payment=()''),
      (''content-security-policy'',
       ''default-src 'self'; script-src 'self'; style-src 'self'; img-src 'self' data:; connect-src 'self' ws: wss:; object-src 'none'; base-uri 'none'; frame-ancestors 'none'' @ [CHR 0x27])]"

definition secure_send :: "string \<Rightarrow> outgoing \<Rightarrow> outgoing" where
  "secure_send path msg =
     (case msg of
        Start status headers \<Rightarrow>
          Start status (headers @ SECURITY_HEADERS @
            (if starts_with ''/api/'' path then [(''cache-control'', ''no-store'')] else []))
      | Content body \<Rightarrow> Content body)"

section \<open>The body limit\<close>

record exchange =
  ex_body :: body_state
  ex_sent :: bool
  ex_out :: "outgoing list"
  ex_delivered :: "string list"

definition cut_off :: "exchange \<Rightarrow> bool" where
  "cut_off x \<longleftrightarrow> bs_exceeded (ex_body x) \<or> bs_timed_out (ex_body x)"

definition new_exchange :: exchange where
  "new_exchange = \<lparr>ex_body = \<lparr>bs_total = 0, bs_exceeded = False, bs_timed_out = False\<rparr>, ex_sent = False, ex_out = [], ex_delivered = []\<rparr>"

definition guarded_send :: "outgoing \<Rightarrow> exchange \<Rightarrow> exchange" where
  "guarded_send msg x =
     (if cut_off x \<and> \<not> ex_sent x then
        x\<lparr>ex_sent := True,
          ex_out := ex_out x @ json_response (if bs_timed_out (ex_body x) then 408 else 413)
            (if bs_timed_out (ex_body x) then ''request body exceeded 15 second timeout''
             else ''request body exceeds the allowed size'')\<rparr>
      else if cut_off x then x
      else x\<lparr>ex_out := ex_out x @ [msg]\<rparr>)"

text \<open>What the application does: it asks for a message, with the time left and what arrives before then, or
  it sends one.\<close>

datatype app_step = Reads int "asgi_message option" | Sends outgoing

fun app_run :: "int \<Rightarrow> (outgoing \<Rightarrow> outgoing) \<Rightarrow> app_step list \<Rightarrow> exchange \<Rightarrow> exchange" where
  "app_run maximum f [] x = x"
| "app_run maximum f (Reads remaining arrived # steps) x =
     (let (msg, b) = limited_receive maximum remaining arrived (ex_body x)
      in app_run maximum f steps
           (x\<lparr>ex_body := b,
              ex_delivered := ex_delivered x @ (case msg of RequestBody body \<Rightarrow> [body] | _ \<Rightarrow> [])\<rparr>))"
| "app_run maximum f (Sends msg # steps) x = app_run maximum f steps (guarded_send (f msg) x)"

text \<open>The \<open>except\<close> of the layer; the result tells whether the exception goes on.\<close>

definition after_app :: "bool \<Rightarrow> exchange \<Rightarrow> bool \<times> exchange" where
  "after_app raised x =
     (if \<not> raised then (False, x)
      else if \<not> cut_off x \<or> ex_sent x then (True, x)
      else
        (False, x\<lparr>ex_sent := True,
           ex_out := ex_out x @ json_response (if bs_exceeded (ex_body x) then 413 else 408)
             (if bs_exceeded (ex_body x) then ''request body exceeds the allowed size'' else ''request body timed out'')\<rparr>))"

text \<open>A whole request: the declared length, the policy on the host and the origin, the application.\<close>

definition handle_request ::
    "int \<Rightarrow> string option \<Rightarrow> string \<Rightarrow> int option \<Rightarrow> app_step list \<Rightarrow> bool \<Rightarrow> bool \<times> exchange" where
  "handle_request maximum header path refused steps raised =
     (case declared_length maximum header of
        Some status \<Rightarrow>
          (False, new_exchange\<lparr>ex_out := json_response status
             (if status = 413 then ''request body exceeds the allowed size'' else ''invalid Content-Length'')\<rparr>)
      | None \<Rightarrow>
          (case refused of
             Some status \<Rightarrow>
               (False, fold guarded_send
                  (json_response status (if status = 400 then ''unrecognized Host header'' else ''same-origin request required''))
                  new_exchange)
           | None \<Rightarrow> after_app raised (app_run maximum (secure_send path) steps new_exchange)))"

section \<open>What the application and the client get\<close>

abbreviation delivered :: "exchange \<Rightarrow> int" where
  "delivered x \<equiv> int (length (concat (ex_delivered x)))"

definition metered :: "int \<Rightarrow> exchange \<Rightarrow> bool" where
  "metered maximum x \<longleftrightarrow>
     (if bs_exceeded (ex_body x) then delivered x \<le> maximum \<and> maximum < bs_total (ex_body x)
      else delivered x = bs_total (ex_body x) \<and> bs_total (ex_body x) \<le> maximum)"

lemma metered_frame: "ex_body y = ex_body x \<Longrightarrow> ex_delivered y = ex_delivered x \<Longrightarrow> metered m y = metered m x"
  by (simp add: metered_def)

lemma guarded_send_keeps [simp]:
  "ex_body (guarded_send msg x) = ex_body x" "ex_delivered (guarded_send msg x) = ex_delivered x"
  by (simp_all add: guarded_send_def)

lemma metered_run: "metered maximum x \<Longrightarrow> metered maximum (app_run maximum f steps x)"
proof (induction maximum f steps x rule: app_run.induct)
  case (2 maximum f remaining arrived steps x)
  obtain msg b where r: "limited_receive maximum remaining arrived (ex_body x) = (msg, b)" by force
  have "metered maximum (x\<lparr>ex_body := b, ex_delivered := ex_delivered x @ (case msg of RequestBody body \<Rightarrow> [body] | _ \<Rightarrow> [])\<rparr>)"
    using 2(2) r
    by (auto simp: limited_receive_def metered_def Let_def split: if_split_asm option.split_asm asgi_message.split_asm)
  then show ?case using 2(1) [OF r [symmetric] refl] r by simp
next
  case (3 maximum f msg steps x)
  then show ?case using metered_frame [of "guarded_send (f msg) x" x maximum] by simp
qed simp

lemma app_run_append: "app_run maximum f (xs @ ys) x = app_run maximum f ys (app_run maximum f xs x)"
  by (induction maximum f xs x rule: app_run.induct) (auto simp: Let_def split: prod.split)

fun sends_of :: "app_step list \<Rightarrow> outgoing list" where
  "sends_of [] = []"
| "sends_of (Reads t a # steps) = sends_of steps"
| "sends_of (Sends msg # steps) = msg # sends_of steps"

lemma read_keeps_cut:
  "limited_receive maximum remaining arrived b = (msg, b') \<Longrightarrow> bs_exceeded b \<or> bs_timed_out b \<Longrightarrow> bs_exceeded b' \<or> bs_timed_out b'"
  by (auto simp: limited_receive_def Let_def split: if_split_asm option.split_asm asgi_message.split_asm)

lemma read_step:
  obtains y where "\<And>steps. app_run maximum f (Reads t a # steps) x = app_run maximum f steps y"
    "ex_out y = ex_out x" "ex_sent y = ex_sent x" "cut_off x \<Longrightarrow> cut_off y"
proof -
  obtain msg b where r: "limited_receive maximum t a (ex_body x) = (msg, b)" by force
  show thesis
    by (rule that [of "x\<lparr>ex_body := b,
          ex_delivered := ex_delivered x @ (case msg of RequestBody body \<Rightarrow> [body] | _ \<Rightarrow> [])\<rparr>"])
      (use read_keeps_cut [OF r] r in \<open>simp_all add: cut_off_def\<close>)
qed

lemma sent_cut [simp]: "cut_off (guarded_send msg x) = cut_off x"
  by (simp add: cut_off_def)

lemma cut_stays: "cut_off x \<Longrightarrow> cut_off (app_run maximum f steps x)"
proof (induction steps arbitrary: x)
  case (Cons st steps)
  show ?case
  proof (cases st)
    case (Reads t a)
    obtain y where "app_run maximum f (st # steps) x = app_run maximum f steps y" "cut_off x \<Longrightarrow> cut_off y"
      by (rule read_step [of maximum f t a x]) (simp add: Reads)
    then show ?thesis using Cons by simp
  qed (use Cons in simp)
qed simp

text \<open>As long as the body is not cut off everything sent goes out; after the cut the first message is
  replaced by the response of the layer, and the others are dropped.\<close>

lemma run_open:
  "\<not> cut_off (app_run maximum f steps x) \<Longrightarrow>
   ex_out (app_run maximum f steps x) = ex_out x @ map f (sends_of steps) \<and>
   ex_sent (app_run maximum f steps x) = ex_sent x"
proof (induction steps arbitrary: x)
  case (Cons st steps)
  show ?case
  proof (cases st)
    case (Reads t a)
    obtain y where "app_run maximum f (st # steps) x = app_run maximum f steps y" "ex_out y = ex_out x" "ex_sent y = ex_sent x"
      by (rule read_step [of maximum f t a x]) (simp add: Reads)
    then show ?thesis using Cons Reads by simp
  next
    case (Sends msg)
    then have "\<not> cut_off x" using Cons.prems cut_stays [of "guarded_send (f msg) x"] by auto
    then have "ex_out (guarded_send (f msg) x) = ex_out x @ [f msg]" "ex_sent (guarded_send (f msg) x) = ex_sent x"
      by (simp_all add: guarded_send_def)
    then show ?thesis using Cons Sends by simp
  qed
qed simp

lemma run_answered: "cut_off x \<Longrightarrow> ex_sent x \<Longrightarrow>
   ex_out (app_run maximum f steps x) = ex_out x \<and> ex_sent (app_run maximum f steps x)"
proof (induction steps arbitrary: x)
  case (Cons st steps)
  show ?case
  proof (cases st)
    case (Reads t a)
    obtain y where "app_run maximum f (st # steps) x = app_run maximum f steps y" "ex_out y = ex_out x" "ex_sent y = ex_sent x"
      "cut_off x \<Longrightarrow> cut_off y"
      by (rule read_step [of maximum f t a x]) (simp add: Reads)
    then show ?thesis using Cons by simp
  qed (use Cons in \<open>simp add: guarded_send_def\<close>)
qed simp

lemma run_cut:
  "cut_off x \<Longrightarrow> \<not> ex_sent x \<Longrightarrow>
   \<exists>status detail. status \<in> {408, 413} \<and>
     ex_out (app_run maximum f steps x) = ex_out x @ (if sends_of steps \<noteq> [] then json_response status detail else []) \<and>
     (ex_sent (app_run maximum f steps x) \<longleftrightarrow> sends_of steps \<noteq> [])"
proof (induction steps arbitrary: x)
  case (Cons st steps)
  show ?case
  proof (cases st)
    case (Reads t a)
    obtain y where y: "app_run maximum f (st # steps) x = app_run maximum f steps y" "ex_out y = ex_out x" "ex_sent y = ex_sent x"
      "cut_off x \<Longrightarrow> cut_off y"
      by (rule read_step [of maximum f t a x]) (simp add: Reads)
    then show ?thesis using Cons.IH [of y] Cons.prems Reads by simp
  next
    case (Sends msg)
    let ?y = "guarded_send (f msg) x"
    obtain status detail where y: "status \<in> {408, 413}" "ex_out ?y = ex_out x @ json_response status detail" "ex_sent ?y"
      by (rule that [of "if bs_timed_out (ex_body x) then 408 else 413" "if bs_timed_out (ex_body x)
          then ''request body exceeded 15 second timeout'' else ''request body exceeds the allowed size''"])
        (use Cons.prems in \<open>simp_all add: guarded_send_def\<close>)
    have "cut_off ?y" using Cons.prems by simp
    from run_answered [OF this y(3), of maximum f steps] show ?thesis using y Sends by auto
  qed
qed auto

lemma where_cut:
  "\<not> cut_off x \<Longrightarrow> cut_off (app_run maximum f steps x) \<Longrightarrow>
   \<exists>s1 t a s2. steps = s1 @ Reads t a # s2 \<and> \<not> cut_off (app_run maximum f s1 x) \<and>
     cut_off (app_run maximum f (s1 @ [Reads t a]) x)"
proof (induction steps rule: rev_induct)
  case (snoc st steps)
  show ?case
  proof (cases "cut_off (app_run maximum f steps x)")
    case True
    then show ?thesis using snoc by (metis append.assoc append_Cons)
  next
    case False
    then obtain t a where "st = Reads t a" using snoc.prems(2) by (cases st) (simp_all add: app_run_append cut_off_def)
    then show ?thesis using False snoc.prems(2) by blast
  qed
qed simp

lemma sends_of_append [simp]: "sends_of (xs @ ys) = sends_of xs @ sends_of ys"
  by (induction xs rule: sends_of.induct) simp_all

text \<open>What goes out when a read was cut off, and what then goes on.\<close>

lemma cut_outcome:
  assumes "cut_off (app_run maximum f steps new_exchange)" "(escapes, x) = after_app raised (app_run maximum f steps new_exchange)"
  shows "\<exists>before t a behind status detail. steps = before @ Reads t a # behind \<and>
    \<not> cut_off (app_run maximum f before new_exchange) \<and> cut_off (app_run maximum f (before @ [Reads t a]) new_exchange) \<and>
    status \<in> {408, 413} \<and>
    ex_out x = map f (sends_of before) @ (if sends_of behind \<noteq> [] \<or> raised then json_response status detail else []) \<and>
    (escapes \<longleftrightarrow> raised \<and> sends_of behind \<noteq> [])"
proof -
  let ?run = "\<lambda>steps. app_run maximum f steps new_exchange"
  have fresh: "\<not> cut_off new_exchange" "ex_out new_exchange = []" "\<not> ex_sent new_exchange"
    by (simp_all add: new_exchange_def cut_off_def)
  obtain before t a behind where s: "steps = before @ Reads t a # behind" "\<not> cut_off (?run before)"
    "cut_off (?run (before @ [Reads t a]))"
    using where_cut [OF fresh(1) assms(1)] by blast
  let ?y = "?run (before @ [Reads t a])" and ?z = "?run steps"
  have y: "ex_out ?y = map f (sends_of before)" "\<not> ex_sent ?y"
    using run_open [OF s(2)] fresh by (simp_all add: app_run_append split: prod.split)
  have z: "?z = app_run maximum f behind ?y" using s(1) app_run_append [of maximum f "before @ [Reads t a]" behind] by simp
  obtain status detail where r: "status \<in> {408, 413}"
    "ex_out ?z = map f (sends_of before) @ (if sends_of behind \<noteq> [] then json_response status detail else [])"
    "ex_sent ?z \<longleftrightarrow> sends_of behind \<noteq> []"
    using run_cut [OF s(3) y(2), of maximum f behind] unfolding z y(1) by blast
  have "\<exists>status detail. status \<in> {408, 413} \<and>
      ex_out x = map f (sends_of before) @ (if sends_of behind \<noteq> [] \<or> raised then json_response status detail else []) \<and>
      (escapes \<longleftrightarrow> raised \<and> sends_of behind \<noteq> [])"
  proof (cases "raised \<and> sends_of behind = []")
    case gone: True
    then have "x = ?z\<lparr>ex_sent := True, ex_out := ex_out ?z @ json_response (if bs_exceeded (ex_body ?z) then 413 else 408)
         (if bs_exceeded (ex_body ?z) then ''request body exceeds the allowed size'' else ''request body timed out'')\<rparr>" "\<not> escapes"
      using assms r(3) by (simp_all add: after_app_def)
    then show ?thesis using gone r(2) by auto
  next
    case False
    then have "x = ?z" "escapes \<longleftrightarrow> raised"
      using assms r(3) by (auto simp: after_app_def split: if_split_asm)
    then show ?thesis using False r by auto
  qed
  then show ?thesis using s by blast
qed

lemma body_metered:
  assumes "0 \<le> maximum" "(escapes, x) = after_app raised (app_run maximum f steps new_exchange)"
  shows "delivered x \<le> maximum" and "cut_off x = cut_off (app_run maximum f steps new_exchange)"
proof -
  let ?z = "app_run maximum f steps new_exchange"
  have same: "ex_body x = ex_body ?z" "ex_delivered x = ex_delivered ?z"
    using assms(2) by (auto simp: after_app_def split: if_split_asm)
  have "metered maximum new_exchange" using assms(1) by (simp add: metered_def new_exchange_def)
  then have "metered maximum ?z" by (rule metered_run)
  then show "delivered x \<le> maximum" using same by (simp add: metered_def split: if_split_asm)
  show "cut_off x = cut_off ?z" using same by (simp add: cut_off_def)
qed

text \<open>C37 The limit of a request body.  Whatever arrives, whatever the headers say and whatever the
  application does, it is handed at most the admitted number of bytes.  A request with a declared
  length that is no number or too big, or one the policy refuses, is answered once and the application
  never runs (these responses carry none of the security headers).  Otherwise, when the body is not
  cut off, all that the application sends goes out, with the security headers on its response.  When
  a read is cut off, what was sent before that read has gone out, and if the application then sends
  or raises the client gets one response with status 413 or 408 in place of all of that: exactly one
  response, when the application reads before it sends.  An exception leaves the layer only when
  nothing was cut off or the client was answered.\<close>

theorem body_limit_enforced:
  assumes "0 \<le> maximum" "(escapes, x) = handle_request maximum header path refused steps raised"
  shows "delivered x \<le> maximum \<and>
    (case (declared_length maximum header, refused) of
       (Some status, _) \<Rightarrow> status \<in> {400, 413} \<and> (\<exists>detail. ex_out x = json_response status detail) \<and> ex_delivered x = [] \<and> \<not> escapes
     | (None, Some status) \<Rightarrow> (\<exists>detail. ex_out x = json_response status detail) \<and> ex_delivered x = [] \<and> \<not> escapes
     | (None, None) \<Rightarrow>
         if \<not> cut_off x then ex_out x = map (secure_send path) (sends_of steps) \<and> escapes = raised
         else \<exists>before t a behind status detail. steps = before @ Reads t a # behind \<and>
           \<not> cut_off (app_run maximum (secure_send path) before new_exchange) \<and>
           cut_off (app_run maximum (secure_send path) (before @ [Reads t a]) new_exchange) \<and> status \<in> {408, 413} \<and>
           ex_out x = map (secure_send path) (sends_of before) @
             (if sends_of behind \<noteq> [] \<or> raised then json_response status detail else []) \<and>
           (escapes \<longleftrightarrow> raised \<and> sends_of behind \<noteq> []))"
proof (cases "declared_length maximum header")
  case (Some status)
  then have "status \<in> {400, 413}" by (auto simp: declared_length_def split: if_split_asm option.split_asm)
  then show ?thesis using Some assms by (auto simp: handle_request_def new_exchange_def)
next
  case undeclared: None
  show ?thesis
  proof (cases refused)
    case (Some status)
    have "x = fold guarded_send (json_response status (if status = 400 then ''unrecognized Host header'' else ''same-origin request required''))
        new_exchange" "\<not> escapes"
      using assms(2) undeclared Some by (simp_all add: handle_request_def)
    then have "ex_out x = json_response status (if status = 400 then ''unrecognized Host header'' else ''same-origin request required'') \<and>
        ex_delivered x = []" "\<not> escapes"
      by (simp_all add: json_response_def guarded_send_def cut_off_def new_exchange_def)
    then show ?thesis using undeclared Some assms(1) by auto
  next
    case None
    then have x: "(escapes, x) = after_app raised (app_run maximum (secure_send path) steps new_exchange)"
      using assms(2) undeclared by (simp add: handle_request_def)
    note metered = body_metered [OF assms(1) x]
    show ?thesis
    proof (cases "cut_off x")
      case False
      then show ?thesis
        using x metered undeclared None run_open [of maximum "secure_send path" steps new_exchange]
        by (auto simp: after_app_def new_exchange_def split: if_split_asm)
    next
      case True
      then show ?thesis using cut_outcome [OF _ x] metered unfolding undeclared None
        by (simp only: prod.case option.case if_False not_True_eq_False simp_thms)
    qed
  qed
qed

text \<open>The layer does not know whether the application has begun its response: when a read after that is
  cut off, the client is sent a second one.\<close>

theorem late_cut_answers_twice:
  "\<exists>more. ex_out (snd (handle_request 4 None ''/api/v1/status'' None
      [Sends (Start 200 []), Reads 15 (Some (RequestBody ''abcde'')), Sends (Content ''ok'')] False)) =
    secure_send ''/api/v1/status'' (Start 200 []) # Start 413 [] # more"
proof -
  have "ex_out (snd (handle_request 4 None ''/api/v1/status'' None
      [Sends (Start 200 []), Reads 15 (Some (RequestBody ''abcde'')), Sends (Content ''ok'')] False)) =
    [secure_send ''/api/v1/status'' (Start 200 []), Start 413 [], Content ''request body exceeds the allowed size'']"
    by code_simp
  then show ?thesis by simp
qed

text \<open>A body of five bytes where four are admitted: the application asks twice and answers, in vain.\<close>

definition demo_steps :: "app_step list" where
  "demo_steps = [Reads 15 (Some (RequestBody ''abc'')), Reads 14 (Some (RequestBody ''de'')), Sends (Start 200 []), Sends (Content ''ok'')]"

theorem body_limit_enforced_witness:
  "\<exists>escapes x status detail.
     (escapes, x) = handle_request 4 None ''/api/v1/status'' None demo_steps False \<and>
     ex_delivered x = [''abc''] \<and> status \<in> {408, 413} \<and> ex_out x = json_response status detail"
proof -
  let ?f = "secure_send ''/api/v1/status''"
  let ?run = "handle_request 4 None ''/api/v1/status'' None demo_steps False"
  obtain escapes x where x: "(escapes, x) = ?run" by (metis surj_pair)
  have "cut_off (snd ?run) \<and> ex_delivered (snd ?run) = [''abc'']" by code_simp
  then have cut: "cut_off x" and got: "ex_delivered x = [''abc'']" unfolding x [symmetric] by simp_all
  have free: "declared_length 4 None = None" by (simp add: declared_length_def truthy_def)
  have "\<exists>before t a behind status detail. demo_steps = before @ Reads t a # behind \<and> status \<in> {408, 413} \<and>
      ex_out x = map ?f (sends_of before) @ (if sends_of behind \<noteq> [] \<or> False then json_response status detail else [])"
    using conjunct2 [OF body_limit_enforced [OF zero_le_numeral x]] cut unfolding free
    by (simp only: prod.case option.case if_False not_True_eq_False) blast
  then obtain before t a behind status detail where s: "demo_steps = before @ Reads t a # behind" "status \<in> {408, 413}"
    and out: "ex_out x = map ?f (sends_of before) @ (if sends_of behind \<noteq> [] \<or> False then json_response status detail else [])"
    by blast
  have "sends_of before = [] \<and> sends_of behind \<noteq> []"
    using s(1) by (auto simp: demo_steps_def Cons_eq_append_conv)
  then have "ex_out x = json_response status detail" using out by simp
  then show ?thesis using x got s(2) by blast
qed

end
