(* ===== verification/KP_Backup.thy ===== *)
theory KP_Backup
  imports KP_Views KP_Restore
begin

text \<open>
  Making a backup, \<open>Database.backup\<close> of \<open>persistence/database.py\<close>: the copy is made beside its destination
  under a temporary name, stamped, synced and then moved in place.  Every call that can fail is a
  field of \<open>backup_calls\<close>.
\<close>

section \<open>The copy\<close>

text \<open>\<open>bc_partial\<close> is what a copy that raised leaves in the temporary file.\<close>

record backup_calls =
  bc_mkdir :: bool
  bc_unlink :: bool
  bc_connect :: bool
  bc_copy :: bool
  bc_partial :: db_file
  bc_stamp :: bool
  bc_sync :: bool
  bc_replace :: bool
  bc_windows :: bool
  bc_chmod :: bool

type_synonym folder = "(string, db_file) odict"

definition temporary :: "string \<Rightarrow> string" where
  "temporary name = name @ ''.tmp''"

text \<open>The body of the \<open>with\<close>: connecting creates the file.\<close>

definition write_copy :: "backup_calls \<Rightarrow> db_file \<Rightarrow> string \<Rightarrow> folder \<Rightarrow> (file_exc + unit) \<times> folder" where
  "write_copy os live name files =
     (if \<not> bc_connect os then (Inl (Fault ''connect failed''), files)
      else if \<not> bc_copy os then (Inl (Fault ''backup failed''), od_set files (temporary name) (bc_partial os))
      else if \<not> bc_stamp os then (Inl (Fault ''commit failed''), od_set files (temporary name) live)
      else (Inr (), od_set files (temporary name) (live\<lparr>df_application_id := APPLICATION_ID\<rparr>)))"

definition backup_database :: "backup_calls \<Rightarrow> db_file \<Rightarrow> string \<Rightarrow> folder \<Rightarrow> (file_exc + string) \<times> folder" where
  "backup_database os live name files =
     (if \<not> bc_mkdir os then (Inl (Fault ''mkdir failed''), files)
      else if od_mem (temporary name) files \<and> \<not> bc_unlink os then (Inl (Fault ''unlink failed''), files)
      else
        bind_st (write_copy os live name (od_pop files (temporary name))) (\<lambda>_ files.
          if \<not> bc_sync os then (Inl (Fault ''sync failed''), files)
          else if \<not> bc_replace os then (Inl (Fault ''replace failed''), files)
          else
            (case od_get files (temporary name) of
               None \<Rightarrow> (Inl (Fault ''replace failed''), files)
             | Some copy \<Rightarrow>
                 let files = od_set (od_pop files (temporary name)) name copy
                 in if \<not> bc_windows os \<and> \<not> bc_chmod os then (Inl (Fault ''chmod failed''), files) else (Inr name, files))))"

section \<open>What is offered is complete\<close>

definition complete_copy :: "db_file \<Rightarrow> db_file" where
  "complete_copy live = live\<lparr>df_application_id := APPLICATION_ID\<rparr>"

lemma backup_files:
  "od_get (snd (backup_database os live name files)) k =
     (if k = name \<and> k \<noteq> temporary name \<and> od_get (snd (backup_database os live name files)) k \<noteq> od_get files k
      then Some (complete_copy live)
      else if k = temporary name then od_get (snd (backup_database os live name files)) k else od_get files k)"
  by (auto simp: backup_database_def write_copy_def bind_st_def Let_def od_get_set od_get_pop complete_copy_def
      temporary_def split: option.split)

lemma backup_done:
  "fst (backup_database os live name files) = Inr n \<Longrightarrow>
   n = name \<and> od_get (snd (backup_database os live name files)) name = Some (complete_copy live) \<and>
   od_get (snd (backup_database os live name files)) (temporary name) = None"
  by (auto simp: backup_database_def write_copy_def bind_st_def Let_def od_get_set od_get_pop complete_copy_def
      temporary_def split: option.split_asm if_split_asm)

lemma temporary_not_offered: "\<not> backup_name (temporary name)"
  by (simp add: backup_name_def temporary_def ends_with_def)

text \<open>A history of backups of the live database, under the names of their times; each may fail anywhere.\<close>

definition backup_file :: "string \<Rightarrow> string" where
  "backup_file stamp = ''kegpulse-'' @ stamp @ ''.db''"

definition backups :: "(backup_calls \<times> db_file \<times> string) list \<Rightarrow> folder \<Rightarrow> folder" where
  "backups attempts files =
     foldl (\<lambda>files (os, live, stamp). snd (backup_database os live (backup_file stamp) files)) files attempts"

lemma backups_offered:
  assumes "\<forall>k f. backup_name k \<longrightarrow> od_get files k = Some f \<longrightarrow> P k f"
    and "\<And>os live stamp. (os, live, stamp) \<in> set attempts \<Longrightarrow> P (backup_file stamp) (complete_copy live)"
    and "backup_name k" "od_get (backups attempts files) k = Some f"
  shows "P k f"
  using assms
proof (induction attempts arbitrary: files)
  case (Cons a attempts)
  obtain os live stamp where a: "a = (os, live, stamp)" by (cases a) auto
  let ?files = "snd (backup_database os live (backup_file stamp) files)"
  have "P j g" if "backup_name j" "od_get ?files j = Some g" for j g
    using backup_files [of os live "backup_file stamp" files j] that Cons.prems(1) Cons.prems(2) [of os live stamp] a
      temporary_not_offered
    by (auto split: if_split_asm)
  moreover have "P (backup_file t) (complete_copy l)" if "(c, l, t) \<in> set attempts" for c l t
    using Cons.prems(2) [of c l t] that by simp
  moreover have "od_get (backups attempts ?files) k = Some f" using Cons.prems(4) a by (simp add: backups_def)
  ultimately show ?case using Cons.IH [of ?files] Cons.prems(3) by blast
qed (simp add: backups_def)

text \<open>C39 A backup that can be downloaded is whole.  After any history of backups, whichever calls of the
  system failed in the middle of them, every file the download route serves is the complete copy,
  stamped as a database of the program, of what one of the backups was made of; a backup that
  succeeded is there under its name and leaves no temporary file; and what a failed one leaves under
  its temporary name is never served.\<close>

theorem backups_complete:
  assumes "folder = backups attempts []"
  shows "(\<forall>h name s f. fst (view_backup h name folder s) = Inr f \<longrightarrow>
      (\<exists>os live stamp. (os, live, stamp) \<in> set attempts \<and> name = backup_file stamp \<and> f = complete_copy live)) \<and>
    (\<forall>os live stamp n. fst (backup_database os live (backup_file stamp) folder) = Inr n \<longrightarrow>
       n = backup_file stamp \<and>
       od_get (backups (attempts @ [(os, live, stamp)]) []) n = Some (complete_copy live) \<and>
       od_get (backups (attempts @ [(os, live, stamp)]) []) (temporary n) = None)"
proof -
  have "\<exists>os live stamp. (os, live, stamp) \<in> set attempts \<and> name = backup_file stamp \<and> f = complete_copy live"
    if "fst (view_backup h name folder s) = Inr f" for h name s f
  proof (rule backups_offered [where files = "[]" and attempts = attempts])
    show "backup_name name" "od_get (backups attempts []) name = Some f"
      using that assms
      by (auto simp: view_backup_def bind_st_def respond_def show_rows_def split: sum.split_asm if_split_asm option.split_asm)
  qed auto
  moreover have "n = backup_file stamp \<and>
       od_get (backups (attempts @ [(os, live, stamp)]) []) n = Some (complete_copy live) \<and>
       od_get (backups (attempts @ [(os, live, stamp)]) []) (temporary n) = None"
    if "fst (backup_database os live (backup_file stamp) folder) = Inr n" for os live stamp n
    using backup_done [OF that] assms by (simp add: backups_def)
  ultimately show ?thesis by blast
qed

text \<open>A backup whose copy broke off, then one of the same minute that succeeds.\<close>

definition calls_ok :: backup_calls where
  "calls_ok = \<lparr>bc_mkdir = True, bc_unlink = True, bc_connect = True, bc_copy = True, bc_partial = demo_file ''half'',
     bc_stamp = True, bc_sync = True, bc_replace = True, bc_windows = False, bc_chmod = True\<rparr>"

definition demo_folder :: folder where
  "demo_folder = backups [(calls_ok\<lparr>bc_copy := False\<rparr>, demo_file ''rows'', ''20260101T000000Z'')] []"

theorem backups_complete_witness:
  "od_get (backups [(calls_ok\<lparr>bc_copy := False\<rparr>, demo_file ''rows'', ''20260101T000000Z''),
       (calls_ok, demo_file ''rows'', ''20260101T000000Z'')] []) ''kegpulse-20260101T000000Z.db'' =
     Some (complete_copy (demo_file ''rows''))"
proof -
  have "fst (backup_database calls_ok (demo_file ''rows'') (backup_file ''20260101T000000Z'') demo_folder) =
      Inr ''kegpulse-20260101T000000Z.db''"
    by code_simp
  then show ?thesis using backups_complete [OF demo_folder_def] by fastforce
qed

end
