(* ===== verification/KP_Worker.thy ===== *)
theory KP_Worker
  imports KP_Manager
begin

text \<open>
  The worker thread of \<open>src/kegpulse/serialio/manager.py\<close> and the requests other threads hand to it:
  \<open>request\<close>, \<open>_connected_loop\<close>, the loop of \<open>_run\<close> with its growing delay, and \<open>_fail_queued\<close>.

  An iteration of the connected loop is one step.  What other threads do meanwhile touches only the
  end of the queue and the cancellation marks, which the iteration does not look at again.  Times are
  milliseconds of \<open>time.monotonic()\<close>.
\<close>

section \<open>State\<close>

record command =
  cd_operation :: string
  cd_fields :: field_dict
  cd_cancelled :: bool

text \<open>The commands are numbered as they are put on the queue.  A completed command has a response or an
  error, or neither, when it was given up before the worker took it.\<close>

record worker =
  wk_manager :: manager
  wk_queue :: "(nat, command) odict"
  wk_answers :: "(nat, frame result option) odict"
  wk_issued :: nat
  wk_reconnect :: bool
  wk_running :: bool
  wk_next_status :: int
  wk_next_counters :: int
  wk_next_results :: int
  wk_next_resync :: int
  wk_delay :: int

definition COMMAND_CAPACITY :: nat where "COMMAND_CAPACITY = 32"
definition status_interval :: int where "status_interval = 250"
definition counter_interval :: int where "counter_interval = 2000"
definition result_interval :: int where "result_interval = 2000"
definition resync_interval :: int where "resync_interval = 250"
definition FIRST_DELAY :: int where "FIRST_DELAY = 250"
definition LONGEST_DELAY :: int where "LONGEST_DELAY = 15000"

definition new_worker :: "nat \<Rightarrow> worker" where
  "new_worker capacity =
     \<lparr>wk_manager = new_manager capacity, wk_queue = [], wk_answers = [], wk_issued = 0, wk_reconnect = False,
      wk_running = False,      wk_next_status = 0, wk_next_counters = 0, wk_next_results = 0, wk_next_resync = 0, wk_delay = FIRST_DELAY\<rparr>"

section \<open>The side of the callers\<close>

definition submit :: "string \<Rightarrow> field_dict \<Rightarrow> worker \<Rightarrow> nat result \<times> worker" where
  "submit operation flds w =
     (if COMMAND_CAPACITY \<le> length (wk_queue w) then (Inl (TimeoutError ''device command queue is full''), w)
      else
        (Inr (wk_issued w),
         w\<lparr>wk_queue := wk_queue w @ [(wk_issued w, \<lparr>cd_operation = operation, cd_fields = flds, cd_cancelled = False\<rparr>)],
           wk_issued := wk_issued w + 1\<rparr>))"

text \<open>The wait ran out.\<close>

definition give_up :: "nat \<Rightarrow> worker \<Rightarrow> worker" where
  "give_up n w = w\<lparr>wk_queue := map (\<lambda>(k, c). (k, if k = n then c\<lparr>cd_cancelled := True\<rparr> else c)) (wk_queue w)\<rparr>"

text \<open>What \<open>request\<close> answers once the command is completed, or its wait ran out.\<close>

definition request_answer :: "string \<Rightarrow> nat \<Rightarrow> worker \<Rightarrow> frame result" where
  "request_answer operation n w =
     (case od_get (wk_answers w) n of
        None \<Rightarrow> Inl (TimeoutError (''device request '' @ operation @ '' timed out''))
      | Some None \<Rightarrow> Inl (RuntimeError ''device request completed without a response'')
      | Some (Some r) \<Rightarrow> r)"

definition request_reconnect :: "worker \<Rightarrow> worker" where
  "request_reconnect w = w\<lparr>wk_reconnect := True\<rparr>"

section \<open>An iteration of the connected loop\<close>

text \<open>The time, what the transport delivers to each exchange before its deadline, and the chunk read at
  the end.\<close>

record loop_input =
  li_now :: int
  li_name :: string
  li_stopping :: bool
  li_provider :: context_provider
  li_command :: "link_event list"
  li_resync :: "link_event list \<times> link_event list \<times> link_event list"
  li_status :: "link_event list \<times> link_event list"
  li_counters :: "link_event list \<times> link_event list"
  li_results :: "link_event list \<times> link_event list"
  li_chunk :: string

text \<open>\<open>isinstance(exc, TransportError | OSError)\<close>; the built-in \<open>TimeoutError\<close> is an \<open>OSError\<close>.\<close>

definition link_lost :: "py_exc \<Rightarrow> bool" where
  "link_lost e = (case e of TransportError _ \<Rightarrow> True | TransportUnavailable _ \<Rightarrow> True | TimeoutError _ \<Rightarrow> True | _ \<Rightarrow> False)"

definition complete :: "nat \<Rightarrow> frame result option \<Rightarrow> worker \<Rightarrow> worker" where
  "complete n r w = w\<lparr>wk_answers := wk_answers w @ [(n, r)]\<rparr>"

definition perform :: "loop_input \<Rightarrow> command \<Rightarrow> manager \<Rightarrow> frame result \<times> manager" where
  "perform inp c m =
     (let (r, _, m) = roundtrip (cd_operation c) (cd_fields c) None (li_command inp) m
      in bind_st (r, m) (\<lambda>fr m.
           if cd_operation c = ''STATUS'' then bind_st (record_status fr m) (\<lambda>_ m. (Inr fr, m))
           else if cd_operation c = ''COUNTERS'' then (Inr fr, record_counters fr (li_provider inp) m)
           else (Inr fr, m)))"

text \<open>The next command; the result tells whether the iteration goes on to the polls.\<close>

definition take_command :: "loop_input \<Rightarrow> worker \<Rightarrow> bool result \<times> worker" where
  "take_command inp w =
     (case wk_queue w of
        [] \<Rightarrow> (Inr True, w)
      | (n, c) # rest \<Rightarrow>
          let w1 = w\<lparr>wk_queue := rest\<rparr>
          in if cd_cancelled c then (Inr False, complete n None w1)
             else
               let (r, m) = perform inp c (wk_manager w1);
                   w2 = complete n (Some r) (w1\<lparr>wk_manager := m\<rparr>)
               in (case r of Inl e \<Rightarrow> if link_lost e then (Inl e, w2) else (Inr True, w2) | Inr _ \<Rightarrow> (Inr True, w2)))"

definition on_manager :: "(manager \<Rightarrow> 'a result \<times> manager) \<Rightarrow> worker \<Rightarrow> 'a result \<times> worker" where
  "on_manager f w = (let (r, m) = f (wk_manager w) in (r, w\<lparr>wk_manager := m\<rparr>))"

definition poll_overflow :: "loop_input \<Rightarrow> worker \<Rightarrow> unit result \<times> worker" where
  "poll_overflow inp w =
     (if mg_needs_resync (wk_manager w) \<and> wk_next_resync w \<le> li_now inp then
        case li_resync inp of (l1, l2, l3) \<Rightarrow>
          bind_st (on_manager (resynchronize_after_overflow (li_name inp) (li_provider inp) l1 l2 l3) w)
            (\<lambda>_ w. (Inr (), w\<lparr>wk_next_resync := li_now inp + resync_interval\<rparr>))
      else (Inr (), w))"

definition poll_status :: "loop_input \<Rightarrow> worker \<Rightarrow> unit result \<times> worker" where
  "poll_status inp w =
     (if wk_next_status w \<le> li_now inp then
        bind_st (on_manager (poll_with_retry ''STATUS'' [] None (li_stopping inp) (fst (li_status inp)) (snd (li_status inp))) w)
          (\<lambda>fr w. bind_st (on_manager (record_status fr) w)
            (\<lambda>_ w. (Inr (), w\<lparr>wk_next_status := li_now inp + status_interval\<rparr>)))
      else (Inr (), w))"

definition poll_counters :: "loop_input \<Rightarrow> worker \<Rightarrow> unit result \<times> worker" where
  "poll_counters inp w =
     (if wk_next_counters w \<le> li_now inp then
        bind_st (on_manager (poll_with_retry ''COUNTERS'' [] None (li_stopping inp) (fst (li_counters inp)) (snd (li_counters inp))) w)
          (\<lambda>fr w. (Inr (), w\<lparr>wk_manager := record_counters fr (li_provider inp) (wk_manager w),
                             wk_next_counters := li_now inp + counter_interval\<rparr>))
      else (Inr (), w))"

definition poll_results :: "loop_input \<Rightarrow> worker \<Rightarrow> unit result \<times> worker" where
  "poll_results inp w =
     (if wk_next_results w \<le> li_now inp then
        bind_st (on_manager (poll_with_retry ''RESULTS'' [] (Some ''RESULTS_END'') (li_stopping inp)
            (fst (li_results inp)) (snd (li_results inp))) w)
          (\<lambda>_ w. (Inr (), w\<lparr>wk_next_results := li_now inp + result_interval\<rparr>))
      else (Inr (), w))"

text \<open>Frames that no exchange waits for.\<close>

fun sort_out :: "context_provider \<Rightarrow> frame list \<Rightarrow> manager \<Rightarrow> unit result \<times> manager" where
  "sort_out provider [] m = (Inr (), m)"
| "sort_out provider (fr # frames) m =
     bind_st (if fr_operation fr = ''RESULT'' then queue_result fr provider m
              else (Inr (), snd (queue_event (manager_event_of ''unexpected'' (Some fr) []) m)))
       (\<lambda>_ m. sort_out provider frames m)"

definition read_rest :: "loop_input \<Rightarrow> worker \<Rightarrow> unit result \<times> worker" where
  "read_rest inp =
     on_manager (\<lambda>m. let (frames, m) = read_chunk (li_chunk inp) m in sort_out (li_provider inp) frames m)"

definition loop_step :: "loop_input \<Rightarrow> worker \<Rightarrow> unit result \<times> worker" where
  "loop_step inp w =
     (if wk_reconnect w then (Inl (TransportUnavailable ''serial reconnect requested''), w\<lparr>wk_reconnect := False\<rparr>)
      else
        bind_st (take_command inp w) (\<lambda>polls w.
          if \<not> polls then (Inr (), w)
          else
            bind_st (poll_overflow inp w) (\<lambda>_ w.
            bind_st (poll_status inp w) (\<lambda>_ w.
            bind_st (poll_counters inp w) (\<lambda>_ w.
            bind_st (poll_results inp w) (\<lambda>_ w. read_rest inp w))))))"

fun connected_loop :: "loop_input list \<Rightarrow> worker \<Rightarrow> unit result \<times> worker" where
  "connected_loop [] w = (Inr (), w)"
| "connected_loop (inp # rest) w = bind_st (loop_step inp w) (\<lambda>_ w. connected_loop rest w)"

section \<open>The life of the thread\<close>

text \<open>One pass of \<open>_run\<close>: the clock at the start of the loop, what the handshake receives, and the
  iterations until the thread is stopped or the link fails.\<close>

record attempt =
  at_first :: bool
  at_now :: int
  at_name :: string
  at_confirmed_port :: string
  at_provider :: context_provider
  at_links :: "link_event list \<times> link_event list \<times> link_event list \<times> link_event list"
  at_inputs :: "loop_input list"

definition start_schedule :: "int \<Rightarrow> worker \<Rightarrow> worker" where
  "start_schedule now w =
     w\<lparr>wk_next_status := now, wk_next_counters := now, wk_next_results := now + result_interval,
       wk_next_resync := now, wk_delay := FIRST_DELAY\<rparr>"

definition run_attempt :: "attempt \<Rightarrow> worker \<Rightarrow> unit result \<times> worker" where
  "run_attempt a w =
     (case at_links a of (l0, l1, l2, l3) \<Rightarrow>
        bind_st (on_manager (connection_attempt (at_first a) (at_name a) (at_confirmed_port a) (at_provider a) l0 l1 l2 l3)
            (w\<lparr>wk_reconnect := False\<rparr>)) (\<lambda>_ w.
          case connected_loop (at_inputs a) (start_schedule (at_now a) w) of
            (Inr u, w) \<Rightarrow> (Inr u, w)
          | (Inl e, w) \<Rightarrow> (Inl e, w\<lparr>wk_manager := set_state RECONNECTING (take 200 (exc_message e)) (wk_manager w)\<rparr>)))"

text \<open>The wait between two attempts, before its jitter, and the delay after it.\<close>

definition back_off :: "worker \<Rightarrow> int \<times> worker" where
  "back_off w = (wk_delay w, w\<lparr>wk_delay := min (wk_delay w * 2) LONGEST_DELAY\<rparr>)"

text \<open>\<open>_fail_queued\<close>, when the thread ends.\<close>

definition fail_queued :: "py_exc \<Rightarrow> worker \<Rightarrow> worker" where
  "fail_queued e w =
     w\<lparr>wk_answers := wk_answers w @ map (\<lambda>(n, c). (n, Some (Inl e))) (wk_queue w), wk_queue := []\<rparr>"

text \<open>\<open>start\<close>, which leaves a running thread alone, and \<open>stop\<close>; the result of the wait for the thread tells
  whether it ended in time.\<close>

definition start_thread :: "worker \<Rightarrow> worker" where
  "start_thread w = (if wk_running w then w else w\<lparr>wk_running := True, wk_reconnect := False\<rparr>)"

definition stop_thread :: "bool \<Rightarrow> worker \<Rightarrow> unit result \<times> worker" where
  "stop_thread in_time w =
     (if wk_running w \<and> \<not> in_time then (Inl (RuntimeError ''serial reader thread did not stop''), w)
      else (Inr (), w\<lparr>wk_running := False, wk_manager := set_state STOPPED ''stopped'' (wk_manager w)\<rparr>))"

definition STOPPED_ERROR :: py_exc where
  "STOPPED_ERROR = TransportUnavailable ''device manager stopped''"

section \<open>Every command is answered once, in order\<close>

text \<open>The thread and its callers, in any interleaving.\<close>

inductive worker_step :: "worker \<Rightarrow> worker \<Rightarrow> bool" where
  Submitted: "worker_step w (snd (submit op flds w))"
| GaveUp: "worker_step w (give_up n w)"
| Asked: "worker_step w (request_reconnect w)"
| Iterated: "worker_step w (snd (loop_step inp w))"
| Attempted: "worker_step w (snd (on_manager (connection_attempt first name port provider l0 l1 l2 l3) (w\<lparr>wk_reconnect := False\<rparr>)))"
| Scheduled: "worker_step w (start_schedule now w)"
| Reported: "worker_step w (w\<lparr>wk_manager := set_state RECONNECTING detail (wk_manager w)\<rparr>)"
| Waited: "worker_step w (snd (back_off w))"
| Ended: "worker_step w (fail_queued STOPPED_ERROR w)"
| Started: "worker_step w (start_thread w)"
| Stopped: "worker_step w (snd (stop_thread in_time w))"

text \<open>The part of the worker that the callers share.\<close>

definition desk :: "worker \<Rightarrow> _" where
  "desk w = (wk_queue w, wk_answers w, wk_issued w, wk_delay w)"

lemma on_manager_desk [simp]: "desk (snd (on_manager f w)) = desk w"
  by (simp add: on_manager_def desk_def split_def Let_def)

lemma polls_desk [simp]:
  "desk (snd (poll_overflow inp w)) = desk w" "desk (snd (poll_status inp w)) = desk w"
  "desk (snd (poll_counters inp w)) = desk w" "desk (snd (poll_results inp w)) = desk w"
  "desk (snd (read_rest inp w)) = desk w"
  by (auto simp: poll_overflow_def poll_status_def poll_counters_def poll_results_def read_rest_def
      intro!: keeps_bind [where f = desk] split: prod.split) (simp_all add: desk_def)

lemma loop_step_desk:
  "desk (snd (loop_step inp w)) = desk (if wk_reconnect w then w else snd (take_command inp w))"
proof (cases "wk_reconnect w")
  case True
  then show ?thesis by (simp add: loop_step_def desk_def)
next
  case False
  then show ?thesis
    by (simp add: loop_step_def) (rule keeps_bind [where f = desk], simp, auto intro!: keeps_bind [where f = desk])
qed

lemma take_command_cases:
  obtains (idle) "wk_queue w = []" "desk (snd (take_command inp w)) = desk w"
  | (taken) n c rest r where "wk_queue w = (n, c) # rest" "cd_cancelled c \<longrightarrow> r = None"
      "desk (snd (take_command inp w)) = (rest, wk_answers w @ [(n, r)], wk_issued w, wk_delay w)"
proof (cases "wk_queue w")
  case Nil
  then show ?thesis using idle by (simp add: take_command_def)
next
  case (Cons a rest)
  obtain n c where a: "a = (n, c)" by force
  have "\<exists>r. (cd_cancelled c \<longrightarrow> r = None) \<and>
      desk (snd (take_command inp w)) = (rest, wk_answers w @ [(n, r)], wk_issued w, wk_delay w)"
    by (auto simp: take_command_def Cons a Let_def split_def desk_def complete_def split: sum.split)
  then show ?thesis using taken Cons a by blast
qed

text \<open>The numbers of the answered commands, then those of the waiting ones, count up from 0.\<close>

definition orderly :: "worker \<Rightarrow> bool" where
  "orderly w \<longleftrightarrow> od_keys (wk_answers w) @ od_keys (wk_queue w) = [0..<wk_issued w] \<and>
     length (wk_queue w) \<le> COMMAND_CAPACITY \<and> FIRST_DELAY \<le> wk_delay w \<and> wk_delay w \<le> LONGEST_DELAY"

lemma orderly_desk: "desk w' = desk w \<Longrightarrow> orderly w' = orderly w"
  by (simp add: desk_def orderly_def)

lemma new_worker_orderly: "orderly (new_worker capacity)"
  by (simp add: orderly_def new_worker_def od_keys_def FIRST_DELAY_def LONGEST_DELAY_def)

lemma worker_step_orderly: "worker_step w w' \<Longrightarrow> orderly w \<Longrightarrow> orderly w'"
proof (induction rule: worker_step.induct)
  case (Iterated w inp)
  show ?case
  proof (cases "wk_reconnect w")
    case True
    then show ?thesis using Iterated orderly_desk [OF loop_step_desk [of inp w]] by simp
  next
    case False
    then have d: "desk (snd (loop_step inp w)) = desk (snd (take_command inp w))" by (simp add: loop_step_desk)
    show ?thesis
    proof (cases rule: take_command_cases [of w inp])
      case idle
      then show ?thesis using Iterated d orderly_desk by metis
    next
      case (taken n c rest r)
      then show ?thesis using Iterated d by (auto simp: orderly_def desk_def od_keys_def)
    qed
  qed
next
  case (Attempted w first name port provider l0 l1 l2 l3)
  have "desk (w\<lparr>wk_reconnect := False\<rparr>) = desk w" by (simp add: desk_def)
  then show ?case using Attempted orderly_desk on_manager_desk by metis
qed (auto simp: orderly_def submit_def give_up_def request_reconnect_def start_schedule_def back_off_def fail_queued_def
    start_thread_def stop_thread_def od_keys_def FIRST_DELAY_def LONGEST_DELAY_def split_def comp_def)

lemma reached_orderly: "worker_step\<^sup>*\<^sup>* (new_worker capacity) w \<Longrightarrow> orderly w"
  by (induction rule: rtranclp_induct) (auto intro: new_worker_orderly worker_step_orderly)

section \<open>Commands given up\<close>

text \<open>A command whose caller went away is answered by nothing or by the end of the thread.\<close>

definition forsaken :: "nat \<Rightarrow> worker \<Rightarrow> bool" where
  "forsaken n w \<longleftrightarrow> n < wk_issued w \<and> (\<forall>c. (n, c) \<in> set (wk_queue w) \<longrightarrow> cd_cancelled c) \<and>
     (\<forall>r. (n, r) \<in> set (wk_answers w) \<longrightarrow> r = None \<or> r = Some (Inl STOPPED_ERROR))"

lemma forsaken_desk: "desk w' = desk w \<Longrightarrow> forsaken n w' = forsaken n w"
  by (simp add: desk_def forsaken_def)

lemma forsaken_head: "forsaken n w \<Longrightarrow> wk_queue w = (n, c) # rest \<Longrightarrow> cd_cancelled c"
  unfolding forsaken_def by (metis list.set_intros(1))

lemma worker_step_forsaken: "worker_step w w' \<Longrightarrow> forsaken n w \<Longrightarrow> forsaken n w'"
proof (induction rule: worker_step.induct)
  case (Iterated w inp)
  show ?case
  proof (cases "wk_reconnect w")
    case True
    then show ?thesis using Iterated forsaken_desk [OF loop_step_desk [of inp w]] by simp
  next
    case False
    then have d: "desk (snd (loop_step inp w)) = desk (snd (take_command inp w))" by (simp add: loop_step_desk)
    show ?thesis
    proof (cases rule: take_command_cases [of w inp])
      case idle
      then show ?thesis using Iterated d forsaken_desk by metis
    next
      case (taken m c rest r)
      let ?w = "snd (loop_step inp w)"
      have "wk_queue ?w = rest" "wk_answers ?w = wk_answers w @ [(m, r)]" "wk_issued ?w = wk_issued w"
        using d taken(3) by (simp_all add: desk_def)
      then have parts: "set (wk_queue ?w) \<subseteq> set (wk_queue w)" "set (wk_answers ?w) = insert (m, r) (set (wk_answers w))"
        "wk_issued ?w = wk_issued w"
        by (simp_all add: taken(1) subset_insertI)
      have "r = None" if "m = n"
        using taken(1,2) forsaken_head [OF Iterated.prems] that by simp
      then show ?thesis using Iterated.prems parts(1) unfolding forsaken_def parts(2,3) by blast
    qed
  qed
next
  case (Attempted w first name port provider l0 l1 l2 l3)
  have "desk (w\<lparr>wk_reconnect := False\<rparr>) = desk w" by (simp add: desk_def)
  then show ?case using Attempted forsaken_desk on_manager_desk by metis
qed (auto simp: forsaken_def submit_def give_up_def request_reconnect_def start_schedule_def back_off_def fail_queued_def
    start_thread_def stop_thread_def split_def)

lemma given_up_forsaken:
  assumes "orderly w" "n \<in> set (od_keys (wk_queue w))"
  shows "forsaken n (give_up n w)"
proof -
  have keys: "od_keys (wk_answers w) @ od_keys (wk_queue w) = [0..<wk_issued w]" using assms(1) by (simp add: orderly_def)
  have "distinct (od_keys (wk_answers w) @ od_keys (wk_queue w))" unfolding keys by simp
  then have d: "n \<notin> set (od_keys (wk_answers w))" using assms(2) by auto
  have "n \<in> set (od_keys (wk_answers w) @ od_keys (wk_queue w))" using assms(2) by simp
  then have m: "n < wk_issued w" unfolding keys by simp
  have "(n, r) \<notin> set (wk_answers w)" for r using d by (force simp: od_keys_def)
  then show ?thesis using m by (auto simp: forsaken_def give_up_def)
qed

lemma cancelled_not_sent:
  "wk_queue w = (n, c) # rest \<Longrightarrow> cd_cancelled c \<Longrightarrow> wk_manager (snd (loop_step inp w)) = wk_manager w"
  by (simp add: loop_step_def take_command_def complete_def)

text \<open>C21 The hand-over of commands to the thread: along any interleaving of callers, iterations, failing
  links and restarts, every command is answered at most once and in the order of its submission,
  none is lost, at most 32 wait and the delay between two attempts stays between a quarter of a
  second and fifteen; when the thread ends none waits.  A command that was given up while it waited
  is never sent to the device: the iteration that takes it leaves the link alone, and its answer is
  nothing or the end of the thread.\<close>

theorem commands_answered_once:
  assumes "worker_step\<^sup>*\<^sup>* (new_worker capacity) w"
  shows "od_keys (wk_answers w) @ od_keys (wk_queue w) = [0..<wk_issued w] \<and>
    length (wk_queue w) \<le> 32 \<and> 250 \<le> wk_delay w \<and> wk_delay w \<le> 15000 \<and>
    od_keys (wk_answers (fail_queued STOPPED_ERROR w)) = [0..<wk_issued w] \<and>
    (\<forall>n\<in>set (od_keys (wk_queue w)). \<forall>w'. worker_step\<^sup>*\<^sup>* (give_up n w) w' \<longrightarrow>
       (\<forall>r. (n, r) \<in> set (wk_answers w') \<longrightarrow> r = None \<or> r = Some (Inl STOPPED_ERROR)) \<and>
       (\<forall>c rest inp. wk_queue w' = (n, c) # rest \<longrightarrow> wk_manager (snd (loop_step inp w')) = wk_manager w'))"
proof -
  have ord: "orderly w" by (rule reached_orderly [OF assms])
  have "forsaken n w'" if "n \<in> set (od_keys (wk_queue w))" "worker_step\<^sup>*\<^sup>* (give_up n w) w'" for n w'
    using that(2) by (induction rule: rtranclp_induct) (auto intro: given_up_forsaken [OF ord that(1)] worker_step_forsaken)
  moreover have "wk_manager (snd (loop_step inp w')) = wk_manager w'"
    if "forsaken n w'" "wk_queue w' = (n, c) # rest" for n w' c rest inp
    by (rule cancelled_not_sent [OF that(2)]) (rule forsaken_head [OF that])
  ultimately have "\<forall>n\<in>set (od_keys (wk_queue w)). \<forall>w'. worker_step\<^sup>*\<^sup>* (give_up n w) w' \<longrightarrow>
       (\<forall>r. (n, r) \<in> set (wk_answers w') \<longrightarrow> r = None \<or> r = Some (Inl STOPPED_ERROR)) \<and>
       (\<forall>c rest inp. wk_queue w' = (n, c) # rest \<longrightarrow> wk_manager (snd (loop_step inp w')) = wk_manager w')"
    unfolding forsaken_def by blast
  moreover have "od_keys (wk_answers (fail_queued STOPPED_ERROR w)) = [0..<wk_issued w]"
    using ord by (simp add: orderly_def fail_queued_def od_keys_def comp_def split_def)
  ultimately show ?thesis
    using ord by (simp add: orderly_def COMMAND_CAPACITY_def FIRST_DELAY_def LONGEST_DELAY_def)
qed

text \<open>Two commands, the first given up before the thread comes to it.\<close>

definition demo_waiting :: worker where
  "demo_waiting = snd (submit ''ARM'' [] (snd (submit ''STATUS'' [] (new_worker 4))))"

theorem commands_answered_once_witness:
  "od_keys (wk_answers (fail_queued STOPPED_ERROR demo_waiting)) = [0, 1] \<and>
   (\<forall>inp. wk_manager (snd (loop_step inp (give_up 0 demo_waiting))) = wk_manager (give_up 0 demo_waiting))"
proof -
  have "worker_step\<^sup>*\<^sup>* (new_worker 4) demo_waiting"
    unfolding demo_waiting_def
    by (rule rtranclp.rtrancl_into_rtrancl [OF r_into_rtranclp [where r = worker_step]]) (rule Submitted)+
  note run = commands_answered_once [OF this]
  have q: "wk_issued demo_waiting = 2" "od_keys (wk_queue demo_waiting) = [0, 1]"
    by (simp_all add: demo_waiting_def submit_def new_worker_def COMMAND_CAPACITY_def od_keys_def)
  have "\<exists>c rest. wk_queue (give_up 0 demo_waiting) = (0, c) # rest"
    by (simp add: demo_waiting_def give_up_def submit_def new_worker_def COMMAND_CAPACITY_def)
  then show ?thesis using run q by (auto simp: upt_rec)
qed

end
