(* ===== verification/KP_Serial.thy ===== *)
theory KP_Serial
  imports KP_Worker KP_Security KP_Simulator
begin

text \<open>
  The serial transport, \<open>SerialTransport\<close> of \<open>src/kegpulse/serialio/real.py\<close>, with every call of pyserial
  as an argument, and the interface \<open>FlowTransport\<close> of \<open>serialio/transport.py\<close> that it shares with the
  simulator.
\<close>

section \<open>The interface\<close>

text \<open>What the manager relies on: a transport that was closed is not open, one that was opened is, and while
  it is not open every write is refused as unavailable and changes nothing.\<close>

locale flow_transport =
  fixes open_up :: "'s \<Rightarrow> unit result \<times> 's" and shut_down :: "'s \<Rightarrow> 's"
    and send :: "string \<Rightarrow> 's \<Rightarrow> nat result \<times> 's" and opened_up :: "'s \<Rightarrow> bool"
  assumes closed: "\<not> opened_up (shut_down x)"
    and opens: "open_up x = (Inr u, y) \<Longrightarrow> opened_up y"
    and fails_to_open: "open_up x = (Inl e, y) \<Longrightarrow> \<exists>m. e = TransportUnavailable m"
    and refuses: "\<not> opened_up x \<Longrightarrow> \<exists>m. send bytes x = (Inl (TransportUnavailable m), x)"
begin

lemma send_after_close: "\<exists>m. send bytes (shut_down x) = (Inl (TransportUnavailable m), shut_down x)"
  by (rule refuses [OF closed])

text \<open>An attempt that cannot open the link, or finds it closed, ends the connection, and so leads to a retry.\<close>

lemma attempt_lost:
  "fst (bind_st (open_up x) (\<lambda>_. send bytes)) = Inl e \<Longrightarrow>
   link_lost e \<or> (\<exists>y. open_up x = (Inr (), y) \<and> opened_up y \<and> fst (send bytes y) = Inl e)"
  using fails_to_open [of x] opens [of x]
  by (cases "open_up x"; cases "fst (open_up x)") (auto simp: link_lost_def)

end

section \<open>The serial port\<close>

text \<open>\<open>None\<close> is no pyserial object, or else its \<open>is_open\<close>.\<close>

record serial_link =
  sl_port :: string
  sl_handle :: "bool option"

text \<open>The outcome of a call of pyserial: its result, or the number and the text of a \<open>SerialException\<close> or
  an \<open>OSError\<close>.\<close>

datatype 'a port_call = Done 'a | PortError "int option" string

text \<open>What the explanation of a refused permission is made of.\<close>

record host_facts =
  hf_posix :: bool
  hf_group :: "string option"
  hf_user :: string

definition shell_safe :: "char \<Rightarrow> bool" where
  "shell_safe c \<longleftrightarrow> is_digit c \<or> is_upper c \<or> is_lower c \<or> c \<in> set ''_@%+=:,./-''"

definition QUOTE :: char where "QUOTE = CHR 0x27"

definition shell_quote :: "string \<Rightarrow> string" where
  "shell_quote s =
     (if s = [] then [QUOTE, QUOTE]
      else if list_all shell_safe s then s
      else [QUOTE] @ concat (map (\<lambda>c. if c = QUOTE then [QUOTE, CHR 0x22, QUOTE, CHR 0x22, QUOTE] else [c]) s) @ [QUOTE])"

definition permission_guidance :: "host_facts \<Rightarrow> string \<Rightarrow> string option" where
  "permission_guidance hf port =
     (if \<not> hf_posix hf then None
      else if truthy (hf_group hf) then
        Some (''permission denied opening '' @ port @ ''; KegPulse requires read and write access to '' @ port @
          '', owned by group '' @ the (hf_group hf) @ ''. Verify with `ls -l -- '' @ shell_quote port @
          ''`, then run `sudo usermod -aG '' @ shell_quote (the (hf_group hf)) @ '' '' @ shell_quote (hf_user hf) @
          ''` and log out/in. KegPulse did not change device permissions'')
      else
        Some (''permission denied opening '' @ port @ ''; KegPulse requires read and write access. '' @
          ''Inspect the device and owning group with `ls -l -- '' @ shell_quote port @
          ''`, add the current user to that group, then log out/in. KegPulse did not change device permissions''))"

definition EACCES :: int where "EACCES = 13"
definition EPERM :: int where "EPERM = 1"

definition permission_denied :: "int option \<Rightarrow> string \<Rightarrow> bool" where
  "permission_denied number message \<longleftrightarrow> number \<in> {Some EACCES, Some EPERM} \<or> contains ''permission denied'' (lower message)"

definition open_error :: "host_facts \<Rightarrow> string \<Rightarrow> int option \<Rightarrow> string \<Rightarrow> py_exc" where
  "open_error hf port number message =
     (case (if permission_denied number message then permission_guidance hf port else None) of
        Some t \<Rightarrow> TransportUnavailable t
      | None \<Rightarrow> TransportUnavailable (''cannot open serial port '' @ port @ '': '' @ message))"

definition serial_is_open :: "serial_link \<Rightarrow> bool" where
  "serial_is_open x \<longleftrightarrow> sl_handle x = Some True"

text \<open>The port is opened by the constructor, and its input discarded once the board has reset; when only that
  fails the port stays open.\<close>

definition serial_open :: "host_facts \<Rightarrow> unit port_call \<Rightarrow> unit port_call \<Rightarrow> serial_link \<Rightarrow> unit result \<times> serial_link" where
  "serial_open hf made discard x =
     (case made of
        PortError n t \<Rightarrow> (Inl (open_error hf (sl_port x) n t), x)
      | Done _ \<Rightarrow>
          let y = x\<lparr>sl_handle := Some True\<rparr>
          in (case discard of PortError n t \<Rightarrow> (Inl (open_error hf (sl_port x) n t), y) | Done _ \<Rightarrow> (Inr (), y)))"

text \<open>The object is dropped even when pyserial raises.\<close>

definition serial_close :: "serial_link \<Rightarrow> serial_link" where
  "serial_close x = x\<lparr>sl_handle := None\<rparr>"

text \<open>The \<open>TransportError\<close> for a missing count is itself an \<open>OSError\<close>, which the handler wraps again.\<close>

definition serial_write :: "nat option port_call \<Rightarrow> string \<Rightarrow> serial_link \<Rightarrow> nat result \<times> serial_link" where
  "serial_write answer bytes x =
     (if \<not> serial_is_open x then (Inl (TransportUnavailable ''serial transport is closed''), x)
      else
        (case answer of
           Done (Some n) \<Rightarrow> (Inr n, x)
         | Done None \<Rightarrow> (Inl (TransportError ''serial write failed: serial write returned no byte count''), x)
         | PortError n t \<Rightarrow> (Inl (TransportError (''serial write failed: '' @ t)), x)))"

definition serial_read :: "string port_call \<Rightarrow> serial_link \<Rightarrow> string result \<times> serial_link" where
  "serial_read answer x =
     (if \<not> serial_is_open x then (Inl (TransportUnavailable ''serial transport is closed''), x)
      else
        (case answer of
           Done bytes \<Rightarrow> (Inr bytes, x)
         | PortError n t \<Rightarrow> (Inl (TransportError (''serial read failed: '' @ t)), x)))"

section \<open>Both transports\<close>

interpretation serial: flow_transport "serial_open hf made discard" serial_close "serial_write answer" serial_is_open
  for hf made discard answer
  by unfold_locales
    (auto simp: serial_close_def serial_is_open_def serial_open_def serial_write_def open_error_def Let_def
      split: port_call.split_asm option.split)

interpretation simulated: flow_transport sim_open sim_close sim_write sim_is_open
  by unfold_locales (auto simp: sim_close_def sim_is_open_def sim_open_def sim_write_def sim_unavailable_def split: if_split_asm)

text \<open>Whatever pyserial raises, it reaches the worker as an error that ends the connection: an exchange over
  the serial port never leaves the loop in any other way.\<close>

theorem serial_failures_end_link:
  assumes "fst (serial_open hf made discard x) = Inl e \<or> fst (serial_write answer bytes x) = Inl e \<or>
    fst (serial_read received x) = Inl e"
  shows "link_lost e"
  using assms
  by (auto simp: serial_open_def serial_write_def serial_read_def open_error_def link_lost_def Let_def
      split: port_call.split_asm option.split_asm if_split_asm)

text \<open>A name is quoted so that the shell reads it back: outside of the quotes only safe characters stand.\<close>

fun shell_word :: "nat \<Rightarrow> string \<Rightarrow> string option" where
  "shell_word mode [] = (if mode = 0 then Some [] else None)"
| "shell_word mode (c # s) =
     (if mode = 0 then
        (if c = QUOTE then shell_word 1 s
         else if c = CHR 0x22 then shell_word 2 s
         else if shell_safe c then map_option ((#) c) (shell_word 0 s)
         else None)
      else if mode = 1 then
        (if c = QUOTE then shell_word 0 s else map_option ((#) c) (shell_word 1 s))
      else
        (if c = CHR 0x22 then shell_word 0 s
         else if c \<in> {CHR 0x24, CHR 0x60, CHR 0x5C} then None
         else map_option ((#) c) (shell_word 2 s)))"

lemma quoted_rest:
  "shell_word 1 (concat (map (\<lambda>c. if c = QUOTE then [QUOTE, CHR 0x22, QUOTE, CHR 0x22, QUOTE] else [c]) s) @ [QUOTE]) = Some s"
  by (induction s) (simp_all add: QUOTE_def)

lemma quotes_unsafe: "\<not> shell_safe QUOTE" "\<not> shell_safe (CHR 0x22)"
  by code_simp+

lemma safe_rest: "list_all shell_safe s \<Longrightarrow> shell_word 0 s = Some s"
  by (induction s) (auto simp: quotes_unsafe)

theorem shell_quote_reads_back: "shell_word 0 (shell_quote s) = Some s"
  using quoted_rest [of s] safe_rest [of s] by (simp add: shell_quote_def)

end
