(* ===== verification/KP_Offsite.thy ===== *)
theory KP_Offsite
  imports KP_Startup
begin

text \<open>
  The copy kept elsewhere, \<open>src/scripts/backup_to_github.py\<close>: a snapshot of the live database without the
  PIN, its tables as text, a mirror of the photos and clips, and a commit that is pushed.  Git is a
  list of commits and what of it the remote has; a run may stop after any of its steps.
\<close>

section \<open>The mirror of the media\<close>

text \<open>\<open>path.suffix == ".tmp"\<close>.\<close>

definition file_name :: "string \<Rightarrow> string" where
  "file_name path = last (split_on (CHR ''/'') path)"

definition is_temporary :: "string \<Rightarrow> bool" where
  "is_temporary path \<longleftrightarrow> ends_with ''.tmp'' (file_name path) \<and> 4 < length (file_name path)"

type_synonym folder_files = "(string, string) odict"

record media_stats =
  ms_copied :: nat
  ms_unchanged :: nat
  ms_removed :: nat

definition copy_file :: "string \<times> string \<Rightarrow> folder_files \<times> nat \<times> nat \<Rightarrow> folder_files \<times> nat \<times> nat" where
  "copy_file f x =
     (case f of (path, body) \<Rightarrow> case x of (dest, copied, unchanged) \<Rightarrow>
        if map_option length (od_get dest path) \<noteq> Some (length body) then (od_set dest path body, copied + 1, unchanged)
        else (dest, copied, unchanged + 1))"

text \<open>A folder that is not there counts as empty.\<close>

definition wanted_files :: "folder_files option \<Rightarrow> folder_files" where
  "wanted_files source = filter (\<lambda>(path, _). \<not> is_temporary path) (case source of None \<Rightarrow> [] | Some fs \<Rightarrow> fs)"

definition sync_folder :: "folder_files option \<Rightarrow> folder_files \<Rightarrow> folder_files \<times> media_stats" where
  "sync_folder source dest =
     (let (d, copied, unchanged) = fold copy_file (wanted_files source) (dest, 0, 0);
          kept = filter (\<lambda>(path, _). path \<in> set (od_keys (wanted_files source))) d
      in (kept, \<lparr>ms_copied = copied, ms_unchanged = unchanged, ms_removed = length d - length kept\<rparr>))"

section \<open>The snapshot\<close>

definition SCRUBBED_SETTINGS :: "string list" where
  "SCRUBBED_SETTINGS = [''admin_pin_verifier'']"

definition scrub :: "store \<Rightarrow> store" where
  "scrub s = s\<lparr>st_settings := fold (\<lambda>k d. od_pop d k) SCRUBBED_SETTINGS (st_settings s)\<rparr>"

section \<open>The working clone\<close>

text \<open>The tables under \<open>export/\<close> are the rows of the store they were read from.\<close>

record tree =
  tr_database :: "store option"
  tr_export :: "store option"
  tr_photos :: folder_files
  tr_videos :: folder_files
  tr_manifest :: "(int \<times> media_stats \<times> media_stats) option"
  tr_readme :: bool

record clone =
  cn_cloned :: bool
  cn_tree :: tree
  cn_media :: "(media_stats \<times> media_stats) option"
  cn_commits :: "tree list"
  cn_remote :: "tree list"

definition empty_tree :: tree where
  "empty_tree = \<lparr>tr_database = None, tr_export = None, tr_photos = [], tr_videos = [], tr_manifest = None, tr_readme = False\<rparr>"

definition no_clone :: clone where
  "no_clone = \<lparr>cn_cloned = False, cn_tree = empty_tree, cn_media = None, cn_commits = [], cn_remote = []\<rparr>"

text \<open>What a run finds: the live database and folders, and the time.\<close>

record site_state =
  of_live :: store
  of_photos :: "folder_files option"
  of_videos :: "folder_files option"
  of_now :: int

definition ensure_clone :: "clone \<Rightarrow> clone" where
  "ensure_clone c =
     (if cn_cloned c then c
      else c\<lparr>cn_cloned := True, cn_commits := cn_remote c,
             cn_tree := (if cn_remote c = [] then empty_tree else last (cn_remote c))\<rparr>)"

text \<open>\<open>snapshot_database\<close>: the old file is removed, the live database copied, and the copy scrubbed.\<close>

definition drop_snapshot :: "clone \<Rightarrow> clone" where
  "drop_snapshot c = c\<lparr>cn_tree := (cn_tree c)\<lparr>tr_database := None\<rparr>\<rparr>"

definition copy_live :: "site_state \<Rightarrow> clone \<Rightarrow> clone" where
  "copy_live x c = c\<lparr>cn_tree := (cn_tree c)\<lparr>tr_database := Some (of_live x)\<rparr>\<rparr>"

definition scrub_snapshot :: "clone \<Rightarrow> clone" where
  "scrub_snapshot c = c\<lparr>cn_tree := (cn_tree c)\<lparr>tr_database := map_option scrub (tr_database (cn_tree c))\<rparr>\<rparr>"

definition drop_export :: "clone \<Rightarrow> clone" where
  "drop_export c = c\<lparr>cn_tree := (cn_tree c)\<lparr>tr_export := None\<rparr>\<rparr>"

definition export_tables :: "clone \<Rightarrow> clone" where
  "export_tables c = c\<lparr>cn_tree := (cn_tree c)\<lparr>tr_export := tr_database (cn_tree c)\<rparr>\<rparr>"

definition sync_media :: "site_state \<Rightarrow> clone \<Rightarrow> clone" where
  "sync_media x c =
     (let (photos, p) = sync_folder (of_photos x) (tr_photos (cn_tree c));
          (videos, v) = sync_folder (of_videos x) (tr_videos (cn_tree c))
      in c\<lparr>cn_tree := (cn_tree c)\<lparr>tr_photos := photos, tr_videos := videos\<rparr>, cn_media := Some (p, v)\<rparr>)"

definition write_manifest :: "site_state \<Rightarrow> clone \<Rightarrow> clone" where
  "write_manifest x c =
     c\<lparr>cn_tree := (cn_tree c)\<lparr>tr_manifest := map_option (\<lambda>(p, v). (of_now x, p, v)) (cn_media c)\<rparr>\<rparr>"

definition write_readme :: "clone \<Rightarrow> clone" where
  "write_readme c = c\<lparr>cn_tree := (cn_tree c)\<lparr>tr_readme := True\<rparr>\<rparr>"

text \<open>Nothing is committed, and then nothing pushed, when the tree is that of the last commit.\<close>

definition changed_tree :: "clone \<Rightarrow> bool" where
  "changed_tree c \<longleftrightarrow> cn_tree c \<noteq> (if cn_commits c = [] then empty_tree else last (cn_commits c))"

definition commit_tree :: "clone \<Rightarrow> clone" where
  "commit_tree c = c\<lparr>cn_commits := cn_commits c @ [cn_tree c]\<rparr>"

definition push_commits :: "clone \<Rightarrow> clone" where
  "push_commits c = c\<lparr>cn_remote := cn_commits c\<rparr>"

definition run_steps :: "site_state \<Rightarrow> (clone \<Rightarrow> clone) list" where
  "run_steps x =
     [ensure_clone, drop_snapshot, copy_live x, scrub_snapshot, drop_export, export_tables, sync_media x, write_manifest x,
      write_readme]"

text \<open>A run that stops after \<open>n\<close> steps: by an error, or because the machine went down.  With ten it comes to
  the commit, and with eleven to the push.\<close>

definition offsite_run :: "nat \<Rightarrow> site_state \<Rightarrow> clone \<Rightarrow> clone" where
  "offsite_run n x c =
     (let c1 = fold (\<lambda>f c. f c) (take n (run_steps x)) c
      in if n < 10 \<or> \<not> changed_tree c1 then c1
         else let c2 = commit_tree c1 in if n < 11 then c2 else push_commits c2)"

section \<open>What the mirror holds\<close>

lemma copy_all_get:
  "od_wf fs \<Longrightarrow> od_get (fst (fold copy_file fs (dest, c, u))) path =
     (case od_get fs path of
        None \<Rightarrow> od_get dest path
      | Some body \<Rightarrow>
          (case od_get dest path of Some old \<Rightarrow> if length old = length body then Some old else Some body | None \<Rightarrow> Some body))"
proof (induction fs arbitrary: dest c u)
  case (Cons f fs)
  obtain p body where f: "f = (p, body)" by force
  have fresh: "od_get fs p = None" and wf: "od_wf fs"
    using Cons.prems f by (auto simp: od_wf_def od_keys_def od_get_def map_of_eq_None_iff)
  obtain d c1 u1 where step: "copy_file f (dest, c, u) = (d, c1, u1)" by (metis prod_cases3)
  have "od_get d path =
      (if path = p then (case od_get dest p of Some old \<Rightarrow> if length old = length body then Some old else Some body | None \<Rightarrow> Some body)
       else od_get dest path)"
    using step f by (auto simp: copy_file_def od_get_set split: if_split_asm option.split)
  then show ?case using Cons.IH [OF wf, of d c1 u1] fresh step f by (auto split: option.split)
qed (simp add: od_get_def)

lemma od_get_filter_keys: "od_get (filter (\<lambda>(k, _). k \<in> A) d) k = (if k \<in> A then od_get d k else None)"
  by (induction d) (auto simp: od_get_def)

lemma wanted_get:
  "od_get (wanted_files (Some fs)) path = (if is_temporary path then None else od_get fs path)"
  by (induction fs) (auto simp: wanted_files_def od_get_def)

lemma wanted_wf: "od_wf fs \<Longrightarrow> od_wf (wanted_files (Some fs))"
  by (induction fs) (auto simp: wanted_files_def od_wf_def od_keys_def)

text \<open>The mirror has exactly the files of the folder that are not temporary, with their sizes; a file that was
  there before with the same size is kept as it was.\<close>

theorem mirror_files:
  assumes "od_wf fs"
  shows "od_get (fst (sync_folder (Some fs) dest)) path =
    (if is_temporary path then None
     else case od_get fs path of
            None \<Rightarrow> None
          | Some body \<Rightarrow>
              (case od_get dest path of Some old \<Rightarrow> if length old = length body then Some old else Some body | None \<Rightarrow> Some body))"
proof -
  have keys: "path \<in> set (od_keys (wanted_files (Some fs))) \<longleftrightarrow> od_get (wanted_files (Some fs)) path \<noteq> None"
    by (simp add: od_keys_def od_get_def map_of_eq_None_iff)
  show ?thesis
    using copy_all_get [OF wanted_wf [OF assms], of dest 0 0 path]
    by (auto simp: sync_folder_def split_def Let_def od_get_filter_keys [unfolded split_def] keys wanted_get
        split: option.split)
qed

text \<open>So a file that was replaced by another of the same size is never copied again, although the mirror is
  meant to match the folder.\<close>

theorem mirror_keeps_stale:
  "od_get (fst (sync_folder (Some [(''avatars/a.webp'', ''new!'')]) [(''avatars/a.webp'', ''old!'')])) ''avatars/a.webp'' = Some ''old!''"
  by code_simp

section \<open>What leaves the machine\<close>

definition no_pin :: "store \<Rightarrow> bool" where
  "no_pin s \<longleftrightarrow> od_get (st_settings s) ''admin_pin_verifier'' = None"

lemma scrub_no_pin: "no_pin (scrub s)"
  by (simp add: no_pin_def scrub_def SCRUBBED_SETTINGS_def od_get_pop)

text \<open>A tree of the scrubbed snapshots of some run.\<close>

definition from_run :: "site_state set \<Rightarrow> tree \<Rightarrow> bool" where
  "from_run X t \<longleftrightarrow> (\<exists>x\<in>X. tr_database t = Some (scrub (of_live x)) \<and> tr_export t = Some (scrub (of_live x)))"

definition clean :: "site_state set \<Rightarrow> clone \<Rightarrow> bool" where
  "clean X c \<longleftrightarrow> (\<forall>t\<in>set (cn_commits c) \<union> set (cn_remote c). from_run X t)"

lemma run_tree:
  "n = 9 \<Longrightarrow> from_run {x} (cn_tree (fold (\<lambda>f c. f c) (take n (run_steps x)) c))"
  by (simp add: run_steps_def from_run_def ensure_clone_def drop_snapshot_def copy_live_def scrub_snapshot_def drop_export_def
      export_tables_def sync_media_def write_manifest_def write_readme_def split_def Let_def)

definition history_of :: "clone \<Rightarrow> tree set" where
  "history_of c = set (cn_commits c) \<union> set (cn_remote c)"

lemma step_history: "f \<in> set (run_steps x) \<Longrightarrow> history_of (f c) \<subseteq> history_of c"
  by (auto simp: run_steps_def history_of_def ensure_clone_def drop_snapshot_def copy_live_def scrub_snapshot_def drop_export_def
      export_tables_def sync_media_def write_manifest_def write_readme_def split_def Let_def split: if_split_asm)

lemma steps_history: "set fs \<subseteq> set (run_steps x) \<Longrightarrow> history_of (fold (\<lambda>f c. f c) fs c) \<subseteq> history_of c"
proof (induction fs arbitrary: c)
  case (Cons f fs)
  then show ?case using step_history [of f x c] by fastforce
qed simp

lemma offsite_run_clean:
  assumes "clean X c" "x \<in> X"
  shows "clean X (offsite_run n x c)"
proof -
  let ?c = "fold (\<lambda>f c. f c) (take n (run_steps x)) c"
  have "history_of ?c \<subseteq> history_of c" by (rule steps_history) (rule set_take_subset)
  then have kept: "clean X ?c" using assms(1) by (auto simp: clean_def history_of_def)
  have "from_run X (cn_tree ?c)" if "10 \<le> n"
  proof -
    have "take n (run_steps x) = take 9 (run_steps x)" using that by (simp add: run_steps_def)
    then have "from_run {x} (cn_tree ?c)" using run_tree [of 9 x c] by simp
    then show ?thesis using assms(2) by (auto simp: from_run_def)
  qed
  then show ?thesis using kept by (auto simp: offsite_run_def Let_def clean_def commit_tree_def push_commits_def)
qed

definition offsite_runs :: "(nat \<times> site_state) list \<Rightarrow> clone" where
  "offsite_runs runs = foldl (\<lambda>c (n, x). offsite_run n x c) no_clone runs"

lemma offsite_runs_clean: "clean (snd ` set runs) (offsite_runs runs)"
proof -
  have all: "clean X c \<Longrightarrow> snd ` set runs \<subseteq> X \<Longrightarrow> clean X (foldl (\<lambda>c (n, x). offsite_run n x c) c runs)" for X c
  proof (induction runs arbitrary: c)
    case (Cons r runs)
    then show ?case using offsite_run_clean [of X c "snd r" "fst r"] by (auto simp: split_def)
  qed simp
  have "clean (snd ` set runs) no_clone" by (simp add: clean_def no_clone_def)
  from all [OF this subset_refl] show ?thesis by (simp add: offsite_runs_def)
qed

lemma no_pin_configured: "no_pin s \<Longrightarrow> \<not> pin_configured (new_security c s)"
  by (simp add: no_pin_def pin_configured_def pin_setting_def new_security_def)

text \<open>C38 The PIN does not leave the machine.  After any history of runs, each of which may stop anywhere, every
  tree the remote ever got has as its database, and as its exported tables, the live database of one of
  the runs with nothing but the PIN verifier removed.  A machine restored from it accepts no PIN, and
  refuses to start in LAN mode until one is set again.\<close>

theorem offsite_without_pin:
  assumes "t \<in> set (cn_remote (offsite_runs runs))"
  shows "\<exists>n x s. (n, x) \<in> set runs \<and> tr_database t = Some s \<and> tr_export t = Some s \<and>
    s = (of_live x)\<lparr>st_settings := od_pop (st_settings (of_live x)) ''admin_pin_verifier''\<rparr> \<and>
    (\<forall>scrypt c pin. \<not> verify_pin scrypt pin (new_security c s)) \<and>
    (\<forall>config override. ac_lan_mode config \<longrightarrow> \<not> is_ok (start_server config override s))"
proof -
  obtain n x where x: "(n, x) \<in> set runs" "tr_database t = Some (scrub (of_live x))" "tr_export t = Some (scrub (of_live x))"
    using offsite_runs_clean [of runs] assms unfolding clean_def from_run_def by fastforce
  have s: "scrub (of_live x) = (of_live x)\<lparr>st_settings := od_pop (st_settings (of_live x)) ''admin_pin_verifier''\<rparr>"
    by (simp add: scrub_def SCRUBBED_SETTINGS_def)
  have "\<not> verify_pin scrypt pin (new_security c (scrub (of_live x)))" for scrypt c pin
    using scrub_no_pin [of "of_live x"] by (simp add: verify_pin_def pin_setting_def new_security_def no_pin_def)
  moreover have "\<not> is_ok (start_server config override (scrub (of_live x)))" if "ac_lan_mode config" for config override
  proof -
    have "ac_lan_mode (persisted_arm_timeout (scrub (of_live x)) config)"
      using that by (simp add: persisted_arm_timeout_def split: json.split)
    then show ?thesis
      using no_pin_configured [OF scrub_no_pin [of "of_live x"]]
      by (auto simp: start_server_def Let_def is_ok_iff elim!: bind_InrE split: prod.split)
  qed
  ultimately show ?thesis using x s by metis
qed

text \<open>A run that breaks off with the unscrubbed copy in place, and one that gets through.\<close>

definition demo_live :: site_state where
  "demo_live = \<lparr>of_live = empty_store\<lparr>st_settings := [(''admin_pin_verifier'', JStr ''secret''), (''video_keep'', JInt 3)]\<rparr>,
     of_photos = Some [], of_videos = None, of_now = 1000\<rparr>"

theorem offsite_without_pin_witness:
  "\<exists>t s. set (cn_remote (offsite_runs [(3, demo_live), (11, demo_live)])) = {t} \<and> tr_database t = Some s \<and>
     st_settings s = [(''video_keep'', JInt 3)]"
proof -
  have "map (\<lambda>t. map_option st_settings (tr_database t)) (cn_remote (offsite_runs [(3, demo_live), (11, demo_live)])) =
      [Some [(''video_keep'', JInt 3)]]"
    by code_simp
  then obtain t where t: "cn_remote (offsite_runs [(3, demo_live), (11, demo_live)]) = [t]" by (auto simp: map_eq_Cons_conv)
  then have "t \<in> set (cn_remote (offsite_runs [(3, demo_live), (11, demo_live)]))" by simp
  from offsite_without_pin [OF this] obtain x s where
    "x = demo_live" "tr_database t = Some s" "s = (of_live x)\<lparr>st_settings := od_pop (st_settings (of_live x)) ''admin_pin_verifier''\<rparr>"
    by auto
  then have "st_settings s = [(''video_keep'', JInt 3)]" by (simp add: demo_live_def od_pop_def)
  then show ?thesis using t \<open>tr_database t = Some s\<close> by auto
qed

end
