(* ===== verification/Spec2Isabelle.thy ===== *)
theory Spec2Isabelle
  imports KP_Wire KP_ManagerFacts KP_Retry KP_Measure KP_StoreProps KP_Durable KP_SecurityFacts KP_Export KP_Restore
    KP_StartFacts KP_Demo KP_Body KP_Backup KP_Serial KP_Offsite
begin

text \<open>
  KegPulse measures beer poured from a keg.  A flow meter on a small board counts pulses and keeps its
  results until they are acknowledged; a host program reads them over a serial line, books them in an
  SQLite database (pours, people, money, kegs, calibrations) and serves a kiosk in a browser, with
  photos and clips as evidence.  This development models the host program under \<open>src/src/kegpulse\<close>,
  and the device as the program itself describes and simulates it.

  \<^bold>\<open>How the parts interact.\<close>  The device machine (\<open>domain/device_machine.py\<close>) opens and closes events.
  Its results travel as KP1 frames (\<open>protocol/frames.py\<close>) through a transport (\<open>serialio/real.py\<close> or
  \<open>serialio/simulator.py\<close>) to the worker thread of the device manager (\<open>serialio/manager.py\<close>), which
  queues events.  The coordinator (\<open>application/coordinator.py\<close>) drains them, checks them, commits them
  through the repository (\<open>persistence/repository.py\<close>) and only then asks the device to forget them;
  what fails waits in its retry queue.  The routes (\<open>app.py\<close>) call the coordinator and the repository
  behind the guards of the security manager (\<open>security.py\<close>) and the middleware (\<open>api/middleware.py\<close>).
  \<open>__main__.py\<close> starts one process per data directory (\<open>instance_lock.py\<close>).

  \<^bold>\<open>The theories.\<close>  Foundations: \<open>KP_Prelude\<close> has the exceptions, results, Python's ordered
  dictionaries, histories and the locales \<open>keyed_store\<close> and \<open>balanced_machine\<close>; \<open>KP_Text\<close>, \<open>KP_Json\<close>
  and \<open>KP_Decimal\<close> have what the program uses of \<open>str\<close>, \<open>re\<close>, \<open>int\<close>, \<open>json\<close> and \<open>decimal\<close>.

  Wire and device: \<open>KP_Crc\<close> (the checksum, and that it catches two changed bytes), \<open>KP_Frames\<close> (codec and
  streaming parser; the locale \<open>line_protocol\<close>), \<open>KP_Domain\<close> (\<open>models.py\<close>, \<open>counters.py\<close>,
  \<open>pulse_integrity.py\<close>, \<open>reconciliation.py\<close>), \<open>KP_Device\<close>, \<open>KP_DeviceFacts\<close> and \<open>KP_DeviceRuns\<close> (the
  device machine, its invariant, conservation of pulses over histories), \<open>KP_Simulator\<close> (the simulated
  board), \<open>KP_Wire\<close> (writer against reader), \<open>KP_Demo\<close> (the demonstration mode; the simulator is a
  driver of the device machine).

  Link: \<open>KP_Manager\<close> and \<open>KP_ManagerFacts\<close> (event queue, exchanges, handshake, resynchronization),
  \<open>KP_Worker\<close> (the thread, its command queue and its schedule), \<open>KP_Serial\<close> (the serial port; the locale
  \<open>flow_transport\<close> is the interface it shares with the simulator).

  Measuring: \<open>KP_Measure\<close> (\<open>units.py\<close>, \<open>inventory.py\<close>, \<open>calibration.py\<close>).

  Database: \<open>KP_Store\<close> (the tables as a record, transactions, constraints), \<open>KP_Accounts\<close>, \<open>KP_Kegs\<close>,
  \<open>KP_Sessions\<close>, \<open>KP_Results\<close> (every method that writes), \<open>KP_Reads\<close> (the queries and the paged export),
  \<open>KP_Export\<close> (CSV and JSON), \<open>KP_Money\<close>, \<open>KP_StoreFrames\<close>, \<open>KP_Exact\<close>, \<open>KP_Reassign\<close>, \<open>KP_Catalogue\<close>,
  \<open>KP_StoreRuns\<close>, \<open>KP_StoreProps\<close> (what holds after any history), \<open>KP_Restore\<close> and \<open>KP_Backup\<close> (the
  database file).

  Coordinator: \<open>KP_Coordinator\<close>, \<open>KP_Retry\<close>, \<open>KP_Kiosk\<close> (snapshot, subscribers, camera requests),
  \<open>KP_CoordinatorFacts\<close> (the locales \<open>store_only\<close>, \<open>store_driven\<close> and \<open>loop_driven\<close>: it changes the database by
  operations of the repository only), \<open>KP_Durable\<close> (no result is acknowledged early or dropped).

  Web: \<open>KP_Security\<close> and \<open>KP_SecurityFacts\<close>, \<open>KP_Body\<close> (the two layers of middleware), \<open>KP_Requests\<close>
  (what each request model admits), \<open>KP_Api\<close> and \<open>KP_Evidence\<close> (the routes that write), \<open>KP_Views\<close> (the
  routes that read), \<open>KP_Sockets\<close> (the status sockets), \<open>KP_ApiFacts\<close> and \<open>KP_ViewFacts\<close> (what stays closed
  without the PIN).

  Start: \<open>KP_Config\<close> (\<open>config.py\<close>, the choice of the port), \<open>KP_Instance\<close> (the lock), \<open>KP_Startup\<close> and
  \<open>KP_StartFacts\<close> (\<open>main\<close> and \<open>create_app\<close>).  Beside the program: \<open>KP_Offsite\<close>
  (\<open>scripts/backup_to_github.py\<close>).
\<close>

text \<open>
  \<^bold>\<open>State and operations.\<close>  An object is a record, a method a function that returns a result and the new
  object; a raised exception is \<open>Inl\<close> and keeps the changes made before it, except in a database
  transaction, which is rolled back.  A dictionary or a table is an association list in insertion
  order without repeated keys (\<open>od_wf\<close>).  Values from outside (clocks, identifiers, digests, what
  arrives on a link, which system call fails) are arguments, so every theorem covers all of them.

  \<^bold>\<open>What is shown.\<close>  Pulses: the device conserves them up to the losses it raises, ends events at their deadlines however often it
  is polled, and the wire, the parser and the checksum neither lose nor forge its results.  Results:
  each is committed at most once, acknowledged only when durable, and otherwise still waiting, or its
  loss to a full queue is reported; the recovery reports of a boot sum to their watermark.  Money: balances, ledger and charges agree after
  every history.  Sessions, kegs and calibrations: at most one is active.  Access: without the PIN
  nobody becomes an administrator, changes what an administrator decides, or reads an
  administrator's page, also after a restart; remote clients in LAN mode change nothing.  Files: a
  restore installs all or nothing, a backup on offer is complete, the copy kept elsewhere never holds
  the PIN, one process at a time uses a data directory.  Threads: a command is answered at most once, in order, and never sent once given up.

  \<^bold>\<open>Numbers, time, loops.\<close>  Python integers are \<open>int\<close>; device counters are bounded by their 32- and
  64-bit limits where the code checks them, and the wrap of the 32-bit timer is \<open>elapsed_u32\<close>.  The
  checksum is computed on \<open>int\<close> as the code does and proved equal to the shift register on words.
  Times are milliseconds.  A wait for a frame is the list of what the link delivers before the
  deadline, so the loops end with the list and need no fuel; the export is a \<open>partial_function\<close>, and
  that it ends is a theorem.  Histories are lists of operations, or reachability where several
  threads interleave (\<open>worker_step\<close>).  A double is the argument \<open>ev_cast\<close>, of which nothing is assumed.

  \<^bold>\<open>Arguments that stand for other code.\<close>  \<open>scrypt\<close>, the random tokens, pydantic's conversions and trimming,
  pyserial, SQLite's storage of the rows, the SQL scripts of the migrations and the outcome of each
  system call.  The theorems on the PIN assume of \<open>scrypt\<close> that its digest has 32 bytes and that the
  PINs tried have another digest than the one stored.

  \<^bold>\<open>Not modelled.\<close>  The logging setup and the names of directories; the parser of the command line beyond
  its values; opening a browser and probing a port (arguments of \<open>main\<close>); the event loop of asyncio
  (handlers are atomic, as they hold the coordinator's lock); the jitter of the retry delay; the
  response models, which declare shapes only; static files, the OpenAPI text and the health answer;
  decoding the JSON of a stored diagnostic, which is shown as its text; \<open>rows_to_json\<close>, which nothing
  calls; the random seed of the simulator, which nothing reads.  The other scripts under
  \<open>scripts/\<close>, the firmware in C++ and the JavaScript of the pages are other programs.

  \<^bold>\<open>Simplified.\<close>  \<open>decimal\<close> has no exponent limits, which the quantities of the program do not come near.  A
  request reads the clock once, also where \<open>login\<close> reads it twice.  Of a database with the current
  schema only the checks of its contents fail, not its reads.  Serving ends with the exit code 0; that
  uvicorn exits by itself when it cannot bind is not modelled, as the port was probed before.  A frame
  sent to a status socket arrives; a socket whose client left ends at its next wake.  The copy kept
  elsewhere is scrubbed row by row: that SQLite rewrites its free pages (\<open>VACUUM\<close>) is taken for granted.
\<close>

end
